(* ===== verification/Prelude.thy ===== *)
theory Prelude
  imports Main "HOL-Library.Word"
begin

text \<open>
  Shared vocabulary of the development.

  \<^item> Machine integers of the source (\<open>u32\<close>, \<open>u64\<close>) are words; \<open>i64\<close> and \<open>i32\<close>
    arithmetic that can leave its range is written on \<open>int\<close> with the wrap-around spelled out.
  \<^item> \<open>res\<close> is the outcome of a call: a value, an error of the function's error type, a panic
    (\<open>unwrap\<close>, \<open>expect\<close>, an index out of range, \<open>todo!\<close>), or \<open>Blocked\<close> for a
    blocking call that does not return in the state it was made in.
  \<^item> \<open>act\<close> is code with effects: a function from a state to an outcome and a new state. The
    state stands for whatever the code can touch (the heap of the shim, the file system, the
    containerd daemon). \<open>act_bind\<close> is the \<open>?\<close> operator.
\<close>

named_theorems act_defs "unfolding the action combinators"
named_theorems inv_intros "preservation of the components' invariants"

type_synonym u8 = "8 word"
type_synonym u32 = "32 word"
type_synonym u64 = "64 word"
type_synonym bytes = "u8 list"
type_synonym path = string

section \<open>Outcomes and actions\<close>

datatype ('e, 'a) res = Ok 'a | Err 'e | Panic string | Blocked

type_synonym ('s, 'e, 'a) act = "'s \<Rightarrow> ('e, 'a) res \<times> 's"

fun is_ok :: "('e, 'a) res \<Rightarrow> bool" where
  "is_ok (Ok _) = True"
| "is_ok _ = False"

fun map_err :: "('e \<Rightarrow> 'f) \<Rightarrow> ('e, 'a) res \<Rightarrow> ('f, 'a) res" where
  "map_err g (Ok a) = Ok a"
| "map_err g (Err e) = Err (g e)"
| "map_err g (Panic m) = Panic m"
| "map_err g Blocked = Blocked"

fun res_bind :: "('e, 'a) res \<Rightarrow> ('a \<Rightarrow> ('e, 'b) res) \<Rightarrow> ('e, 'b) res" where
  "res_bind (Ok a) f = f a"
| "res_bind (Err e) f = Err e"
| "res_bind (Panic m) f = Panic m"
| "res_bind Blocked f = Blocked"

fun ok_or :: "'e \<Rightarrow> 'a option \<Rightarrow> ('e, 'a) res" where
  "ok_or e None = Err e"
| "ok_or e (Some a) = Ok a"

fun unwrap_option :: "'a option \<Rightarrow> ('e, 'a) res" where
  "unwrap_option None = Panic ''called `Option::unwrap()` on a `None` value''"
| "unwrap_option (Some a) = Ok a"

definition unwrap_or :: "'a \<Rightarrow> 'a option \<Rightarrow> 'a" where
  "unwrap_or d x = (case x of None \<Rightarrow> d | Some a \<Rightarrow> a)"

lemma unwrap_or_simps [simp]: "unwrap_or d None = d" "unwrap_or d (Some a) = a"
  by (simp_all add: unwrap_or_def)

definition ret :: "'a \<Rightarrow> ('s, 'e, 'a) act" where
  "ret a = (\<lambda>s. (Ok a, s))"

definition throw :: "'e \<Rightarrow> ('s, 'e, 'a) act" where
  "throw e = (\<lambda>s. (Err e, s))"

definition panic :: "string \<Rightarrow> ('s, 'e, 'a) act" where
  "panic m = (\<lambda>s. (Panic m, s))"

definition lift_res :: "('e, 'a) res \<Rightarrow> ('s, 'e, 'a) act" where
  "lift_res r = (\<lambda>s. (r, s))"

definition act_bind :: "('s, 'e, 'a) act \<Rightarrow> ('a \<Rightarrow> ('s, 'e, 'b) act) \<Rightarrow> ('s, 'e, 'b) act" where
  "act_bind m f = (\<lambda>s. case m s of
      (Ok a, s') \<Rightarrow> f a s'
    | (Err e, s') \<Rightarrow> (Err e, s')
    | (Panic p, s') \<Rightarrow> (Panic p, s')
    | (Blocked, s') \<Rightarrow> (Blocked, s'))"

definition act_map_err :: "('e \<Rightarrow> 'f) \<Rightarrow> ('s, 'e, 'a) act \<Rightarrow> ('s, 'f, 'a) act" where
  "act_map_err g m = (\<lambda>s. case m s of (r, s') \<Rightarrow> (map_err g r, s'))"

text \<open>\<open>attempt\<close> keeps an error as a value: the scrutinee of a \<open>match\<close> on a \<open>Result\<close>.\<close>

definition attempt :: "('s, 'e, 'a) act \<Rightarrow> ('s, 'f, 'e + 'a) act" where
  "attempt m = (\<lambda>s. case m s of
      (Ok a, s') \<Rightarrow> (Ok (Inr a), s')
    | (Err e, s') \<Rightarrow> (Ok (Inl e), s')
    | (Panic p, s') \<Rightarrow> (Panic p, s')
    | (Blocked, s') \<Rightarrow> (Blocked, s'))"

text \<open>\<open>let _ = m\<close>: the result is dropped, whether it is a value or an error.\<close>

definition ignore_result :: "('s, 'e, 'a) act \<Rightarrow> ('s, 'f, unit) act" where
  "ignore_result m = act_bind (attempt m) (\<lambda>_. ret ())"

primrec for_each :: "('a \<Rightarrow> ('s, 'e, unit) act) \<Rightarrow> 'a list \<Rightarrow> ('s, 'e, unit) act" where
  "for_each f [] = ret ()"
| "for_each f (x # xs) = act_bind (f x) (\<lambda>_. for_each f xs)"

primrec map_each :: "('a \<Rightarrow> ('s, 'e, 'b) act) \<Rightarrow> 'a list \<Rightarrow> ('s, 'e, 'b list) act" where
  "map_each f [] = ret []"
| "map_each f (x # xs) =
     act_bind (f x) (\<lambda>y. act_bind (map_each f xs) (\<lambda>ys. ret (y # ys)))"

lemmas [act_defs] = ret_def throw_def panic_def lift_res_def act_bind_def act_map_err_def
  attempt_def ignore_result_def

lemma act_bind_ret [simp]: "act_bind (ret a) f = f a"
  by (simp add: act_bind_def ret_def)

lemma act_bind_throw [simp]: "act_bind (throw e) f = throw e"
  by (simp add: act_bind_def throw_def)

lemma act_bind_panic [simp]: "act_bind (panic m) f = panic m"
  by (simp add: act_bind_def panic_def)

lemma act_bind_assoc: "act_bind (act_bind m f) g = act_bind m (\<lambda>a. act_bind (f a) g)"
  by (rule ext) (auto simp: act_bind_def split: prod.split res.split)

lemma ret_apply [simp]: "ret a s = (Ok a, s)"
  by (simp add: ret_def)

lemma throw_apply [simp]: "throw e s = (Err e, s)"
  by (simp add: throw_def)

lemma panic_apply [simp]: "panic m s = (Panic m, s)"
  by (simp add: panic_def)

lemma lift_res_apply [simp]: "lift_res r s = (r, s)"
  by (simp add: lift_res_def)

lemma lift_res_Ok: "lift_res (Ok a) = ret a"
  by (rule ext) simp

lemma act_map_err_apply: "act_map_err g m s = (map_err g (fst (m s)), snd (m s))"
  by (simp add: act_map_err_def split: prod.split)

text \<open>The one-step inversion of \<open>?\<close>: a bind that succeeds went through both actions.\<close>

lemma act_bind_OkE:
  assumes "act_bind m f s = (Ok b, t)"
  obtains a u where "m s = (Ok a, u)" and "f a u = (Ok b, t)"
  using assms by (auto simp: act_bind_def split: prod.splits res.splits)

lemma act_bind_eq:
  "m s = (Ok a, u) \<Longrightarrow> act_bind m f s = f a u"
  "m s = (Err e, u) \<Longrightarrow> act_bind m f s = (Err e, u)"
  "m s = (Panic p, u) \<Longrightarrow> act_bind m f s = (Panic p, u)"
  "m s = (Blocked, u) \<Longrightarrow> act_bind m f s = (Blocked, u)"
  by (simp_all add: act_bind_def)

text \<open>
  A Hoare logic for actions. \<open>triple P m Q E\<close>: run from a \<open>P\<close>-state, \<open>m\<close> ends with a value
  \<open>a\<close> in a \<open>Q a\<close>-state, or with an error or a panic in an \<open>E\<close>-state, whenever it returns (a
  call that blocks has not returned). \<open>keeps P m\<close>, the form the invariant lemmas of the
  components take, is the special case of one predicate. The rules follow the combinators, so
  the proof for a handler has the structure of the handler.
\<close>

fun post :: "('a \<Rightarrow> 's \<Rightarrow> bool) \<Rightarrow> ('s \<Rightarrow> bool) \<Rightarrow> ('e, 'a) res \<times> 's \<Rightarrow> bool" where
  "post Q E (Ok a, t) = Q a t"
| "post Q E (Err e, t) = E t"
| "post Q E (Panic p, t) = E t"
| "post Q E (Blocked, t) = True"

definition triple ::
  "('s \<Rightarrow> bool) \<Rightarrow> ('s, 'e, 'a) act \<Rightarrow> ('a \<Rightarrow> 's \<Rightarrow> bool) \<Rightarrow> ('s \<Rightarrow> bool) \<Rightarrow> bool" where
  "triple P m Q E \<longleftrightarrow> (\<forall>s. P s \<longrightarrow> post Q E (m s))"

definition keeps :: "('s \<Rightarrow> bool) \<Rightarrow> ('s, 'e, 'a) act \<Rightarrow> bool" where
  "keeps P m \<longleftrightarrow> triple P m (\<lambda>_. P) P"

lemma post_mono:
  "post Q' E' x \<Longrightarrow> (\<And>a s. Q' a s \<Longrightarrow> Q a s) \<Longrightarrow> (\<And>s. E' s \<Longrightarrow> E s) \<Longrightarrow> post Q E x"
  by (cases "(Q, E, x)" rule: post.cases) auto

lemma post_bind: "post (\<lambda>a t. post Q E (f a t)) E (m s) \<Longrightarrow> post Q E (act_bind m f s)"
  by (cases "m s"; cases "fst (m s)") (auto simp: act_bind_def)

lemma tripleI:
  assumes "\<And>s a t. P s \<Longrightarrow> m s = (Ok a, t) \<Longrightarrow> Q a t"
    and "\<And>s e t. P s \<Longrightarrow> m s = (Err e, t) \<Longrightarrow> E t"
    and "\<And>s p t. P s \<Longrightarrow> m s = (Panic p, t) \<Longrightarrow> E t"
  shows "triple P m Q E"
  unfolding triple_def
proof (intro allI impI)
  fix s assume "P s"
  then show "post Q E (m s)"
    using assms by (cases "m s"; cases "fst (m s)") auto
qed

lemma tripleD: "triple P m Q E \<Longrightarrow> P s \<Longrightarrow> m s = (Ok a, t) \<Longrightarrow> Q a t"
  unfolding triple_def by force

lemma triple_bind:
  assumes m: "triple P m R E" and f: "\<And>a. triple (R a) (f a) Q E"
  shows "triple P (act_bind m f) Q E"
  unfolding triple_def
proof (intro allI impI)
  fix s assume "P s"
  with m have "post R E (m s)" by (simp add: triple_def)
  then have "post (\<lambda>a t. post Q E (f a t)) E (m s)"
    using f by (auto simp: triple_def elim: post_mono)
  then show "post Q E (act_bind m f s)" by (rule post_bind)
qed

lemma triple_conseq:
  assumes "triple P' m Q' E'"
    and "\<And>s. P s \<Longrightarrow> P' s" and "\<And>a s. Q' a s \<Longrightarrow> Q a s" and "\<And>s. E' s \<Longrightarrow> E s"
  shows "triple P m Q E"
  using assms unfolding triple_def by (blast intro: post_mono)

lemma post_conj: "post Q E x \<Longrightarrow> post Q' E' x \<Longrightarrow> post (\<lambda>a s. Q a s \<and> Q' a s) (\<lambda>s. E s \<and> E' s) x"
  by (cases "(Q, E, x)" rule: post.cases) auto

lemma triple_conj:
  assumes "triple P m Q E" and "triple P' m Q' E'"
  shows "triple (\<lambda>s. P s \<and> P' s) m (\<lambda>a s. Q a s \<and> Q' a s) (\<lambda>s. E s \<and> E' s)"
  using assms by (simp add: triple_def post_conj)

lemma triple_ret: "triple (Q a) (ret a) Q E"
  by (simp add: triple_def)

lemma post_map_err: "post Q E (act_map_err g m s) = post Q E (m s)"
  by (cases "m s"; cases "fst (m s)") (auto simp: act_map_err_def)

lemma triple_map_err: "triple P m Q E \<Longrightarrow> triple P (act_map_err g m) Q E"
  by (simp add: triple_def post_map_err)

lemma post_attempt: "post (\<lambda>_. Q) Q (m s) \<Longrightarrow> post (\<lambda>_. Q) Q (attempt m s)"
  by (cases "m s"; cases "fst (m s)") (auto simp: attempt_def)

lemma keepsI: "(\<And>s r t. P s \<Longrightarrow> m s = (r, t) \<Longrightarrow> r \<noteq> Blocked \<Longrightarrow> P t) \<Longrightarrow> keeps P m"
  unfolding keeps_def by (rule tripleI) auto

lemma keepsD: "keeps P m \<Longrightarrow> P s \<Longrightarrow> m s = (r, t) \<Longrightarrow> r \<noteq> Blocked \<Longrightarrow> P t"
  unfolding keeps_def triple_def by (cases r) force+

lemma keeps_pure [intro!, simp]:
  "keeps P (ret a)" "keeps P (throw e)" "keeps P (panic p)" "keeps P (lift_res r)"
  by (auto intro: keepsI)

lemma keeps_bind [intro]:
  assumes "keeps P m" and "\<And>a. keeps P (f a)"
  shows "keeps P (act_bind m f)"
  using assms unfolding keeps_def by (rule triple_bind)

lemma keeps_map_err [intro]: "keeps P m \<Longrightarrow> keeps P (act_map_err g m)"
  unfolding keeps_def by (rule triple_map_err)

lemma keeps_attempt [intro]: "keeps P m \<Longrightarrow> keeps P (attempt m)"
  by (auto simp: keeps_def triple_def post_attempt)

lemma keeps_ignore_result [intro]: "keeps P m \<Longrightarrow> keeps P (ignore_result m)"
  by (auto simp: ignore_result_def)

lemma keeps_for_each [intro]: "(\<And>x. keeps P (f x)) \<Longrightarrow> keeps P (for_each f xs)"
  by (induction xs) auto

lemma keeps_map_each [intro]: "(\<And>x. keeps P (f x)) \<Longrightarrow> keeps P (map_each f xs)"
  by (induction xs) auto

lemma keeps_if [intro]: "keeps P m \<Longrightarrow> keeps P n \<Longrightarrow> keeps P (if b then m else n)"
  by simp

text \<open>\<open>stays P m\<close>: as \<open>keeps\<close>, also while \<open>m\<close> blocks.\<close>

definition stays :: "('s \<Rightarrow> bool) \<Rightarrow> ('s, 'e, 'a) act \<Rightarrow> bool" where
  "stays P m \<longleftrightarrow> (\<forall>s. P s \<longrightarrow> P (snd (m s)))"

lemma staysD: "stays P m \<Longrightarrow> P s \<Longrightarrow> P (snd (m s))"
  by (simp add: stays_def)

lemma stays_pure: "stays P (ret a)" "stays P (throw e)" "stays P (panic p)" "stays P (lift_res r)"
  by (simp_all add: stays_def)

lemma stays_bind:
  assumes "stays P m" and "\<And>a. stays P (f a)"
  shows "stays P (act_bind m f)"
  unfolding stays_def
proof (intro allI impI)
  fix s assume "P s"
  then have "P (snd (m s))" using assms(1) by (rule staysD [rotated])
  then show "P (snd (act_bind m f s))"
    using assms(2) by (cases "m s"; cases "fst (m s)") (auto simp: act_bind_def stays_def)
qed

lemma stays_map_err: "stays P m \<Longrightarrow> stays P (act_map_err g m)"
  by (simp add: stays_def act_map_err_apply)

end
