(* ===== verification/Rust_Std.thy ===== *)
theory Rust_Std
  imports Prelude
begin

text \<open>
  The parts of Rust's standard library the source computes with: \<open>str\<close> splitting, joining and
  trimming, decimal formatting and parsing of unsigned integers, and lexical \<open>std::path\<close>
  operations (Unix paths). A string is its sequence of bytes. \<open>trim\<close> removes ASCII white
  space, which is what the inputs the source trims can hold.
\<close>

section \<open>Strings\<close>

primrec split_once :: "char \<Rightarrow> string \<Rightarrow> (string \<times> string) option" where
  "split_once c [] = None"
| "split_once c (x # xs) =
     (if x = c then Some ([], xs)
      else map_option (\<lambda>(a, b). (x # a, b)) (split_once c xs))"

primrec str_split :: "char \<Rightarrow> string \<Rightarrow> string list" where
  "str_split c [] = [[]]"
| "str_split c (x # xs) =
     (if x = c then [] # str_split c xs
      else (case str_split c xs of [] \<Rightarrow> [[x]] | y # ys \<Rightarrow> (x # y) # ys))"

fun str_join :: "string \<Rightarrow> string list \<Rightarrow> string" where
  "str_join sep [] = []"
| "str_join sep [x] = x"
| "str_join sep (x # y # ys) = x @ sep @ str_join sep (y # ys)"

fun strip_prefix :: "string \<Rightarrow> string \<Rightarrow> string option" where
  "strip_prefix [] s = Some s"
| "strip_prefix (p # ps) [] = None"
| "strip_prefix (p # ps) (x # xs) = (if p = x then strip_prefix ps xs else None)"

definition starts_with :: "string \<Rightarrow> string \<Rightarrow> bool" where
  "starts_with p s \<longleftrightarrow> strip_prefix p s \<noteq> None"

definition strip_suffix :: "string \<Rightarrow> string \<Rightarrow> string option" where
  "strip_suffix p s = map_option rev (strip_prefix (rev p) (rev s))"

definition is_space :: "char \<Rightarrow> bool" where
  "is_space c \<longleftrightarrow> c \<in> {CHR 0x09, CHR 0x0A, CHR 0x0B, CHR 0x0C, CHR 0x0D, CHR '' ''}"

definition str_trim :: "string \<Rightarrow> string" where
  "str_trim s = rev (dropWhile is_space (rev (dropWhile is_space s)))"

definition str_lines :: "string \<Rightarrow> string list" where
  "str_lines s = (let ls = str_split (CHR 0x0A) s in if last ls = [] then butlast ls else ls)"

definition split_whitespace :: "string \<Rightarrow> string list" where
  "split_whitespace s =
     filter (\<lambda>w. w \<noteq> []) (str_split (CHR '' '') (map (\<lambda>c. if is_space c then CHR '' '' else c) s))"

definition to_lower :: "char \<Rightarrow> char" where
  "to_lower c = (let n = of_char c :: nat in if 65 \<le> n \<and> n \<le> 90 then char_of (n + 32) else c)"

definition to_lowercase :: "string \<Rightarrow> string" where
  "to_lowercase s = map to_lower s"

lemma split_once_Some_iff:
  "split_once c s = Some (a, b) \<longleftrightarrow> s = a @ c # b \<and> c \<notin> set a"
proof (induction s arbitrary: a)
  case Nil
  then show ?case by simp
next
  case (Cons x xs)
  then show ?case by (cases a) (auto split: option.splits)
qed

lemma split_once_None_iff: "split_once c s = None \<longleftrightarrow> c \<notin> set s"
  by (induction s) auto

lemma str_split_not_Nil [simp]: "str_split c s \<noteq> []"
  by (induction s) (auto split: list.split)

lemma str_join_Cons: "ys \<noteq> [] \<Longrightarrow> str_join sep (x # ys) = x @ sep @ str_join sep ys"
  by (cases ys) auto

text \<open>Joining the pieces of a split with the separator gives the string back.\<close>

lemma str_join_split: "str_join [c] (str_split c s) = s"
proof (induction s)
  case Nil
  then show ?case by simp
next
  case (Cons x xs)
  obtain y ys where eq: "str_split c xs = y # ys"
    using str_split_not_Nil [of c xs] by (cases "str_split c xs") auto
  have "str_join [c] ((x # y) # ys) = x # str_join [c] (y # ys)"
    by (cases ys) auto
  then show ?case using Cons eq by (auto simp: str_join_Cons)
qed

text \<open>The head of a split and the joined tail are the two halves of \<open>split_once\<close>.\<close>

lemma str_split_hd_tl:
  "str_split c s = (case split_once c s of None \<Rightarrow> [s] | Some (a, b) \<Rightarrow> a # str_split c b)"
  by (induction s) (auto split: option.split list.split)

lemma strip_prefix_Some_iff: "strip_prefix p s = Some r \<longleftrightarrow> s = p @ r"
  by (induction p s rule: strip_prefix.induct) auto

lemma starts_with_iff: "starts_with p s \<longleftrightarrow> (\<exists>r. s = p @ r)"
  unfolding starts_with_def using strip_prefix_Some_iff [of p s] by (metis not_Some_eq)

lemma strip_suffix_Some_iff: "strip_suffix p s = Some r \<longleftrightarrow> s = r @ p"
proof -
  have "strip_suffix p s = Some r \<longleftrightarrow> strip_prefix (rev p) (rev s) = Some (rev r)"
    by (auto simp: strip_suffix_def)
  also have "\<dots> \<longleftrightarrow> rev s = rev p @ rev r"
    by (rule strip_prefix_Some_iff)
  also have "\<dots> \<longleftrightarrow> s = r @ p"
    by (metis rev_append rev_rev_ident)
  finally show ?thesis .
qed

section \<open>Decimal integers\<close>

definition digit_char :: "nat \<Rightarrow> char" where
  "digit_char d = char_of (48 + d)"

fun show_nat :: "nat \<Rightarrow> string" where
  "show_nat n = (if n < 10 then [digit_char n] else show_nat (n div 10) @ [digit_char (n mod 10)])"

declare show_nat.simps [simp del]

definition show_int :: "int \<Rightarrow> string" where
  "show_int i = (if i < 0 then CHR ''-'' # show_nat (nat (- i)) else show_nat (nat i))"

definition digit_val :: "char \<Rightarrow> nat option" where
  "digit_val c = (let n = of_char c :: nat in if 48 \<le> n \<and> n \<le> 57 then Some (n - 48) else None)"

fun parse_digits :: "nat \<Rightarrow> string \<Rightarrow> nat option" where
  "parse_digits acc [] = Some acc"
| "parse_digits acc (c # cs) =
     (case digit_val c of None \<Rightarrow> None | Some d \<Rightarrow> parse_digits (10 * acc + d) cs)"

text \<open>
  \<open>str::parse\<close> for an unsigned type of \<open>w\<close> bits: an optional plus sign, at least one digit,
  digits only, and a value below \<open>2 ^ w\<close>.
\<close>

definition parse_uint :: "nat \<Rightarrow> string \<Rightarrow> nat option" where
  "parse_uint w s =
     (let ds = (case s of [] \<Rightarrow> [] | c # cs \<Rightarrow> if c = CHR ''+'' then cs else s)
      in if ds = [] then None
         else (case parse_digits 0 ds of
                 None \<Rightarrow> None
               | Some n \<Rightarrow> if n < 2 ^ w then Some n else None))"

lemma digit_val_digit_char: "d < 10 \<Longrightarrow> digit_val (digit_char d) = Some d"
  by (simp add: digit_val_def digit_char_def Let_def)

lemma parse_digits_append:
  "parse_digits acc (xs @ ys) = Option.bind (parse_digits acc xs) (\<lambda>a. parse_digits a ys)"
  by (induction xs arbitrary: acc) (auto split: option.split)

lemma show_nat_not_Nil [simp]: "show_nat n \<noteq> []"
  by (subst show_nat.simps) simp

lemma parse_digits_show_nat: "parse_digits 0 (show_nat n) = Some n"
proof (induction n rule: show_nat.induct)
  case (1 n)
  show ?case
  proof (cases "n < 10")
    case True
    then show ?thesis by (subst show_nat.simps) (simp add: digit_val_digit_char)
  next
    case False
    with "1.IH" show ?thesis
      by (subst show_nat.simps) (simp add: parse_digits_append digit_val_digit_char)
  qed
qed

lemma show_nat_inject [simp]: "show_nat m = show_nat n \<longleftrightarrow> m = n"
  using parse_digits_show_nat [of m] parse_digits_show_nat [of n] by (metis option.inject)

lemma hd_show_nat_not_plus: "hd (show_nat n) \<noteq> CHR ''+''"
proof (induction n rule: show_nat.induct)
  case (1 n)
  have plus: "d < 10 \<Longrightarrow> digit_char d \<noteq> CHR ''+''" for d
  proof
    assume "d < 10" and "digit_char d = CHR ''+''"
    then have "digit_val (CHR ''+'') = Some d" by (metis digit_val_digit_char)
    then show False by (simp add: digit_val_def)
  qed
  show ?case
  proof (cases "n < 10")
    case True
    then show ?thesis by (subst show_nat.simps) (simp add: plus)
  next
    case False
    with "1.IH" show ?thesis by (subst show_nat.simps) (simp add: hd_append)
  qed
qed

lemma parse_uint_show_nat: "n < 2 ^ w \<Longrightarrow> parse_uint w (show_nat n) = Some n"
proof -
  assume n: "n < 2 ^ w"
  obtain c cs where eq: "show_nat n = c # cs"
    using show_nat_not_Nil [of n] by (cases "show_nat n") auto
  with hd_show_nat_not_plus [of n] have "c \<noteq> CHR ''+''" by simp
  then show ?thesis
    using n parse_digits_show_nat [of n] by (simp add: parse_uint_def eq Let_def)
qed

lemma parse_uint_bound: "parse_uint w s = Some n \<Longrightarrow> n < 2 ^ w"
  by (auto simp: parse_uint_def Let_def split: if_splits option.splits)

section \<open>I/O errors\<close>

text \<open>\<open>std::io::Error\<close>: the kinds the source tells apart, and the text it prints.\<close>

datatype io_kind =
    IoNotFound | IoBrokenPipe | IoConnectionRefused | IoConnectionAborted | IoConnectionReset
  | IoOtherKind

datatype io_error = IoError (io_kind: io_kind) (io_text: string)

section \<open>Signed 64-bit arithmetic\<close>

definition wrap64 :: "int \<Rightarrow> int" where
  "wrap64 x = (x + 2 ^ 63) mod 2 ^ 64 - 2 ^ 63"

lemma wrap64_id: "- (2 ^ 63) \<le> x \<Longrightarrow> x < 2 ^ 63 \<Longrightarrow> wrap64 x = x"
  by (simp add: wrap64_def)

lemma wrap64_range: "- (2 ^ 63) \<le> wrap64 x \<and> wrap64 x < 2 ^ 63"
proof -
  have "0 \<le> (x + 2 ^ 63) mod 2 ^ 64" and "(x + 2 ^ 63) mod 2 ^ 64 < 2 ^ 64"
    by simp_all
  then show ?thesis by (simp add: wrap64_def)
qed


section \<open>UTF-8\<close>

text \<open>
  A string of the model is its bytes, so \<open>str::chars\<close> and the check in \<open>OsStr::to_str\<close> are
  decoding: \<open>utf8_chars\<close> gives the encoded characters in order, or nothing when the bytes are not
  well-formed UTF-8 (the ranges of the second byte exclude overlong forms, surrogates and code
  points past the last one).
\<close>

definition byte_in :: "int \<Rightarrow> int \<Rightarrow> char \<Rightarrow> bool" where
  "byte_in lo hi c \<longleftrightarrow> lo \<le> (of_char c :: int) \<and> (of_char c :: int) \<le> hi"

fun utf8_head :: "string \<Rightarrow> (string \<times> string) option" where
  "utf8_head [] = None"
| "utf8_head (a # s) =
     (let n = of_char a :: int; m = (if n < 128 then 0 else if n < 224 then 1 else if n < 240 then 2 else 3 :: nat);
          lo = (if n = 224 then 160 else if n = 240 then 144 else 128);
          hi = (if n = 237 then 159 else if n = 244 then 143 else 191)
      in if n < 128 then Some ([a], s)
         else if 194 \<le> n \<and> n \<le> 244 \<and> m \<le> length s \<and> byte_in lo hi (hd s) \<and> list_all (byte_in 128 191) (take (m - 1) (tl s))
         then Some (a # take m s, List.drop m s) else None)"

lemma utf8_head_shorter: "utf8_head s = Some (c, r) \<Longrightarrow> length r < length s"
  by (cases s) (auto simp: Let_def split: if_splits)

function utf8_chars :: "string \<Rightarrow> string list option" where
  "utf8_chars s =
     (if s = [] then Some []
      else (case utf8_head s of None \<Rightarrow> None | Some (c, r) \<Rightarrow> map_option ((#) c) (utf8_chars r)))"
  by auto

termination utf8_chars
  by (relation "measure length") (auto dest: utf8_head_shorter)

declare utf8_chars.simps [simp del]

lemma utf8_head_ascii: "(of_char c :: int) < 128 \<Longrightarrow> utf8_head (c # s) = Some ([c], s)"
  by simp

text \<open>A string of ASCII characters is its own sequence of characters.\<close>

lemma utf8_chars_ascii: "list_all (\<lambda>c. (of_char c :: int) < 128) s \<Longrightarrow> utf8_chars s = Some (map (\<lambda>c. [c]) s)"
  by (induction s) (simp_all add: utf8_chars.simps [of "_ # _"] utf8_chars.simps [of "[]"] utf8_head_ascii del: utf8_head.simps)


section \<open>Signed decimal integers\<close>

text \<open>\<open>str::parse\<close> for a signed type of \<open>w\<close> bits.\<close>

definition parse_sint :: "nat \<Rightarrow> string \<Rightarrow> int option" where
  "parse_sint w s =
     (case s of
        [] \<Rightarrow> None
      | c # cs \<Rightarrow>
          if c = CHR ''-'' then
            (if cs = [] then None
             else (case parse_digits 0 cs of
                     None \<Rightarrow> None
                   | Some n \<Rightarrow> if n \<le> 2 ^ (w - 1) then Some (- int n) else None))
          else map_option int (parse_uint (w - 1) s))"

lemma hd_show_nat_not_minus: "hd (show_nat n) \<noteq> CHR ''-''"
proof
  assume minus: "hd (show_nat n) = CHR ''-''"
  then obtain cs where "show_nat n = CHR ''-'' # cs"
    by (metis list.collapse show_nat_not_Nil)
  then have "parse_digits 0 (show_nat n) = None" by (simp add: digit_val_def)
  then show False by (simp add: parse_digits_show_nat)
qed

text \<open>Parsing reads back what printing wrote, for every value of the type.\<close>

lemma parse_sint_show_int:
  assumes "- (2 ^ (w - 1)) \<le> i" and "i < 2 ^ (w - 1)"
  shows "parse_sint w (show_int i) = Some i"
proof (cases "i < 0")
  case True
  with assms(1) have "nat (- i) \<le> 2 ^ (w - 1)" by simp
  with True show ?thesis by (simp add: parse_sint_def show_int_def parse_digits_show_nat)
next
  case False
  then have "nat i < 2 ^ (w - 1)" using assms(2) by simp
  moreover obtain c cs where "show_nat (nat i) = c # cs" "c \<noteq> CHR ''-''"
    using hd_show_nat_not_minus [of "nat i"] show_nat_not_Nil [of "nat i"] by (cases "show_nat (nat i)") auto
  ultimately show ?thesis
    using False parse_uint_show_nat [of "nat i" "w - 1"] by (simp add: parse_sint_def show_int_def)
qed

lemma parse_sint_range:
  assumes "parse_sint w s = Some i"
  shows "- (2 ^ (w - 1)) \<le> i" and "i < 2 ^ (w - 1)"
proof -
  from assms consider n where "i = - int n" "n \<le> 2 ^ (w - 1)" | n where "i = int n" "n < 2 ^ (w - 1)"
    by (auto simp: parse_sint_def split: list.splits if_splits option.splits dest: parse_uint_bound)
  then have "- (2 ^ (w - 1)) \<le> i \<and> i < 2 ^ (w - 1)"
  proof cases
    case 1
    then have "int n \<le> 2 ^ (w - 1)" by (metis of_nat_le_iff of_nat_numeral of_nat_power)
    moreover have "(0 :: int) < 2 ^ (w - 1)" by simp
    ultimately show ?thesis using 1 by linarith
  next
    case 2
    then have "int n < 2 ^ (w - 1)" by (metis of_nat_less_iff of_nat_numeral of_nat_power)
    moreover have "(0 :: int) < 2 ^ (w - 1)" by simp
    ultimately show ?thesis using 2 by linarith
  qed
  then show "- (2 ^ (w - 1)) \<le> i" and "i < 2 ^ (w - 1)" by simp_all
qed

end
