(* ===== verification/Errors.thy ===== *)
theory Errors
  imports Rust_Std
begin

text \<open>
  \<open>sandbox/error.rs\<close>: the shim's error type and its conversion into a ttrpc status.

  The payload of a variant that wraps an error type of another crate (\<open>OciSpecError\<close>,
  \<open>io::Error\<close>, \<open>anyhow::Error\<close>, \<open>serde_json::Error\<close>, \<open>Errno\<close>, \<open>LibcontainerError\<close>) is
  the text its \<open>Display\<close> prints. Of \<open>containerd_shim::Error\<close> the variants the source
  matches or builds are kept apart; how it prints is the parameter \<open>shim_display\<close>.
\<close>

datatype shim_error =
    ShimInvalidArgument string
  | ShimNotFoundError string
  | ShimUnimplemented string
  | ShimOther string

datatype error =
    Oci string
  | Stdio string
  | Others string
  | Shim shim_error
  | NotFound string
  | AlreadyExists string
  | InvalidArgument string
  | Any string
  | FailedPrecondition string
  | Json string
  | Errno string
  | Libcontainer string
  | Containerd string

datatype ttrpc_code = INVALID_ARGUMENT | NOT_FOUND | ALREADY_EXISTS | FAILED_PRECONDITION | UNKNOWN

datatype ttrpc_error = RpcStatus ttrpc_code string | TtrpcOthers string

text \<open>The \<open>#[error(...)]\<close> attributes of \<open>Error\<close>: its \<open>Display\<close>.\<close>

fun error_display :: "(shim_error \<Rightarrow> string) \<Rightarrow> error \<Rightarrow> string" where
  "error_display sd (Oci s) = s"
| "error_display sd (Stdio s) = s"
| "error_display sd (Others s) = s"
| "error_display sd (Shim s) = sd s"
| "error_display sd (NotFound s) = ''not found: '' @ s"
| "error_display sd (AlreadyExists s) = ''already exists: '' @ s"
| "error_display sd (InvalidArgument s) = ''invalid argument: '' @ s"
| "error_display sd (Any s) = s"
| "error_display sd (FailedPrecondition s) = s"
| "error_display sd (Json s) = s"
| "error_display sd (Errno s) = s"
| "error_display sd (Libcontainer s) = s"
| "error_display sd (Containerd s) = s"

text \<open>\<open>impl From<Error> for ttrpc::Error\<close>, arm by arm.\<close>

fun to_ttrpc :: "(shim_error \<Rightarrow> string) \<Rightarrow> error \<Rightarrow> ttrpc_error" where
  "to_ttrpc sd (Shim (ShimInvalidArgument s)) = RpcStatus INVALID_ARGUMENT s"
| "to_ttrpc sd (Shim (ShimNotFoundError s)) = RpcStatus NOT_FOUND s"
| "to_ttrpc sd (Shim s) = RpcStatus UNKNOWN (sd s)"
| "to_ttrpc sd (NotFound s) = RpcStatus NOT_FOUND s"
| "to_ttrpc sd (AlreadyExists s) = RpcStatus ALREADY_EXISTS s"
| "to_ttrpc sd (InvalidArgument s) = RpcStatus INVALID_ARGUMENT s"
| "to_ttrpc sd (FailedPrecondition s) = RpcStatus FAILED_PRECONDITION s"
| "to_ttrpc sd (Oci s) = RpcStatus UNKNOWN (error_display sd (Oci s))"
| "to_ttrpc sd (Any s) = RpcStatus UNKNOWN s"
| "to_ttrpc sd e = TtrpcOthers (error_display sd e)"

fun_cases to_ttrpc_RpcStatusE: "to_ttrpc sd e = RpcStatus c m"
fun_cases to_ttrpc_OthersE: "to_ttrpc sd e = TtrpcOthers m"

text \<open>Which errors a client sees under which status code.\<close>

lemma to_ttrpc_not_found_iff:
  "to_ttrpc sd e = RpcStatus NOT_FOUND m \<longleftrightarrow> e = NotFound m \<or> e = Shim (ShimNotFoundError m)"
  by (cases "(sd, e)" rule: to_ttrpc.cases) auto

lemma to_ttrpc_failed_precondition_iff:
  "to_ttrpc sd e = RpcStatus FAILED_PRECONDITION m \<longleftrightarrow> e = FailedPrecondition m"
  by (cases "(sd, e)" rule: to_ttrpc.cases) auto

lemma to_ttrpc_already_exists_iff:
  "to_ttrpc sd e = RpcStatus ALREADY_EXISTS m \<longleftrightarrow> e = AlreadyExists m"
  by (cases "(sd, e)" rule: to_ttrpc.cases) auto

lemma to_ttrpc_invalid_argument_iff:
  "to_ttrpc sd e = RpcStatus INVALID_ARGUMENT m \<longleftrightarrow>
     e = InvalidArgument m \<or> e = Shim (ShimInvalidArgument m)"
  by (cases "(sd, e)" rule: to_ttrpc.cases) auto

text \<open>Errors without a status code of their own are exactly these six variants.\<close>

lemma to_ttrpc_others_iff:
  "to_ttrpc sd e = TtrpcOthers m \<longleftrightarrow>
     e \<in> {Stdio m, Others m, Json m, Errno m, Libcontainer m, Containerd m}"
  by (cases "(sd, e)" rule: to_ttrpc.cases) auto

end
