(* ===== verification/Task_State.thy ===== *)
theory Task_State
  imports Errors
begin

text \<open>
  \<open>sandbox/shim/task_state.rs\<close>: the life cycle of one task. A transition method takes
  \<open>&mut self\<close> and fails with \<open>FailedPrecondition\<close>; on failure the state is unchanged. Each
  method is an action on the state.
\<close>

datatype task_state = Created | Starting | Started | Exited | Deleting

definition task_state_debug :: "task_state \<Rightarrow> string" where
  "task_state_debug s = (case s of
      Created \<Rightarrow> ''Created'' | Starting \<Rightarrow> ''Starting'' | Started \<Rightarrow> ''Started''
    | Exited \<Rightarrow> ''Exited'' | Deleting \<Rightarrow> ''Deleting'')"

text \<open>The arguments are the \<open>Debug\<close> texts of \<open>from\<close> and \<open>to\<close>; a \<open>str\<close> prints in quotes.\<close>

definition state_transition_error :: "string \<Rightarrow> string \<Rightarrow> (error, 'a) res" where
  "state_transition_error from to =
     Err (FailedPrecondition (''invalid state transition: '' @ from @ '' => '' @ to))"

definition str_debug :: "string \<Rightarrow> string" where
  "str_debug s = CHR 0x22 # s @ [CHR 0x22]"

text \<open>\<open>*self = (match ...)?\<close>: assign on success, return the error otherwise.\<close>

definition assign_or_fail :: "(task_state \<Rightarrow> (error, task_state) res) \<Rightarrow> (task_state, error, unit) act" where
  "assign_or_fail f = (\<lambda>s. case f s of
      Ok s' \<Rightarrow> (Ok (), s')
    | Err e \<Rightarrow> (Err e, s)
    | Panic m \<Rightarrow> (Panic m, s)
    | Blocked \<Rightarrow> (Blocked, s))"

definition state_start :: "(task_state, error, unit) act" where
  "state_start = assign_or_fail (\<lambda>s. case s of
      Created \<Rightarrow> Ok Starting
    | _ \<Rightarrow> state_transition_error (task_state_debug s) (task_state_debug Starting))"

definition state_kill :: "(task_state, error, unit) act" where
  "state_kill = assign_or_fail (\<lambda>s. case s of
      Started \<Rightarrow> Ok Started
    | _ \<Rightarrow> state_transition_error (task_state_debug s) (str_debug ''Killing''))"

definition state_delete :: "(task_state, error, unit) act" where
  "state_delete = assign_or_fail (\<lambda>s. case s of
      Created \<Rightarrow> Ok Deleting
    | Exited \<Rightarrow> Ok Deleting
    | _ \<Rightarrow> state_transition_error (task_state_debug s) (task_state_debug Deleting))"

definition state_started :: "(task_state, error, unit) act" where
  "state_started = assign_or_fail (\<lambda>s. case s of
      Starting \<Rightarrow> Ok Started
    | _ \<Rightarrow> state_transition_error (task_state_debug s) (task_state_debug Started))"

definition state_stop :: "(task_state, error, unit) act" where
  "state_stop = assign_or_fail (\<lambda>s. case s of
      Started \<Rightarrow> Ok Exited
    | Starting \<Rightarrow> Ok Exited
    | Deleting \<Rightarrow> Ok Exited
    | _ \<Rightarrow> state_transition_error (task_state_debug s) (task_state_debug Exited))"

lemmas task_state_defs = state_start_def state_kill_def state_delete_def state_started_def
  state_stop_def assign_or_fail_def state_transition_error_def

text \<open>The life cycle as a relation, one rule per transition the methods allow.\<close>

datatype transition = TStart | TKill | TDelete | TStarted | TStop

inductive task_step :: "task_state \<Rightarrow> transition \<Rightarrow> task_state \<Rightarrow> bool" where
  start: "task_step Created TStart Starting"
| kill: "task_step Started TKill Started"
| delete_created: "task_step Created TDelete Deleting"
| delete_exited: "task_step Exited TDelete Deleting"
| started: "task_step Starting TStarted Started"
| stop_started: "task_step Started TStop Exited"
| stop_starting: "task_step Starting TStop Exited"
| stop_deleting: "task_step Deleting TStop Exited"

code_pred task_step .

inductive_cases task_step_startE: "task_step s TStart t"
inductive_cases task_step_deleteE: "task_step s TDelete t"
inductive_simps task_step_simps:
  "task_step s TStart t" "task_step s TKill t" "task_step s TDelete t"
  "task_step s TStarted t" "task_step s TStop t"

primrec apply_transition :: "transition \<Rightarrow> (task_state, error, unit) act" where
  "apply_transition TStart = state_start"
| "apply_transition TKill = state_kill"
| "apply_transition TDelete = state_delete"
| "apply_transition TStarted = state_started"
| "apply_transition TStop = state_stop"

lemma apply_transition_frame:
  "fst (apply_transition k s) = Ok () \<or> snd (apply_transition k s) = s"
  by (cases k; cases s) (simp_all add: task_state_defs)

text \<open>The methods implement exactly the relation.\<close>

lemma apply_transition_Ok_iff:
  "apply_transition k s = (Ok (), t) \<longleftrightarrow> task_step s k t"
  by (cases k; cases s; cases t) (simp_all add: task_state_defs task_step_simps)

lemma apply_transition_cases:
  obtains (step) t where "apply_transition k s = (Ok (), t)" and "task_step s k t"
  | (refused) m where "apply_transition k s = (Err (FailedPrecondition m), s)" and "\<nexists>t. task_step s k t"
  by (cases k; cases s) (auto simp: task_state_defs task_step_simps)

end
