(* ===== verification/Events.thy ===== *)
theory Events
  imports Errors
begin

text \<open>
  \<open>sandbox/shim/events.rs\<close>: the events the shim publishes and the sender that forwards them
  to containerd. The messages carry the fields the source fills in. A \<open>DateTime\<close> is seen
  through the two accessors the source calls on it; the publisher and the topic of an event
  belong to the \<open>containerd_shim\<close> crate and are parameters.
\<close>

record datetime =
  dt_timestamp :: int
  dt_subsec_nanos :: u32

record timestamp =
  ts_seconds :: int
  ts_nanos :: int

definition to_timestamp :: "datetime \<Rightarrow> timestamp" where
  "to_timestamp d = \<lparr>ts_seconds = dt_timestamp d, ts_nanos = sint (dt_subsec_nanos d)\<rparr>"

record mount =
  mount_type :: string
  mount_source :: string
  mount_target :: string
  mount_options :: "string list"

record task_io =
  io_stdin :: string
  io_stdout :: string
  io_stderr :: string

text \<open>
  \<open>TaskExit\<close> has two id fields, \<open>container_id\<close> and \<open>id\<close>, in this order, then the pid,
  the exit status and the time of exit.
\<close>

datatype event =
    TaskCreate (ev_container: string) string "mount list" task_io
  | TaskStart (ev_container: string) u32
  | TaskExit (ev_container: string) string u32 u32 "timestamp option"
  | TaskDelete (ev_container: string) u32 u32 "timestamp option"

record 'w remote_event_sender =
  res_namespace :: string
  res_publisher :: "string \<Rightarrow> string \<Rightarrow> event \<Rightarrow> ('w, string, unit) act"

definition remote_event_sender_new ::
  "string \<Rightarrow> (string \<Rightarrow> string \<Rightarrow> event \<Rightarrow> ('w, string, unit) act) \<Rightarrow> 'w remote_event_sender" where
  "remote_event_sender_new namespace publisher =
     \<lparr>res_namespace = namespace, res_publisher = publisher\<rparr>"

text \<open>A failed publication is only logged, so sending has no error of its own.\<close>

definition remote_send ::
  "(event \<Rightarrow> string) \<Rightarrow> 'w remote_event_sender \<Rightarrow> event \<Rightarrow> ('w, 'e, unit) act" where
  "remote_send topic_of sender event =
     (let topic = topic_of event in
      act_bind (attempt (res_publisher sender topic (res_namespace sender) event)) (\<lambda>r.
      case r of
        Inl err \<Rightarrow> ret ()
      | Inr _ \<Rightarrow> ret ()))"

lemma remote_send_no_Err: "fst (remote_send topic_of sender ev w) \<noteq> Err e"
  by (simp add: remote_send_def Let_def act_bind_def attempt_def split: prod.split res.split sum.split)

text \<open>
  The cast of the sub-second nanoseconds to \<open>i32\<close> keeps the value: chrono's documented range
  ends below two thousand million, leap seconds included.
\<close>

lemma to_timestamp_nanos:
  assumes "unat (dt_subsec_nanos d) < 2000000000"
  shows "ts_nanos (to_timestamp d) = int (unat (dt_subsec_nanos d))"
proof -
  have "unat (dt_subsec_nanos d) < 2 ^ 31"
    by (rule less_le_trans [OF assms]) simp
  then have "int (unat (dt_subsec_nanos d)) < int (2 ^ 31)"
    by (rule of_nat_less_iff [THEN iffD2])
  then have "uint (dt_subsec_nanos d) < 2 ^ 31"
    by simp
  then have "signed_take_bit 31 (uint (dt_subsec_nanos d)) = uint (dt_subsec_nanos d)"
    by (intro signed_take_bit_int_eq_self) (simp_all add: order_trans [of _ 0])
  moreover have "sint (dt_subsec_nanos d) = signed_take_bit 31 (uint (dt_subsec_nanos d))"
    by (subst sint_uint) simp
  ultimately show ?thesis by (simp add: to_timestamp_def)
qed

end
