(* ===== verification/Sync.thy ===== *)
theory Sync
  imports Prelude
begin

text \<open>
  \<open>sandbox/sync.rs\<close>: \<open>WaitableCell\<close>, a cell that is set once and can be waited for.

  The first part is the cell as its callers see it, one call at a time: \<open>cell_set\<close>, the guard of
  \<open>set_guard_with\<close> and \<open>cell_wait_timeout\<close>. The second part is the code itself, thread by
  thread: the mutex, the condition variable with its timeouts and spurious wake-ups, and the
  \<open>OnceCell\<close>, as a step relation on program counters. It shows what the callers' view takes for
  granted: a value is never replaced, a wait without a timeout returns a value (the source reads
  it with \<open>unwrap_unchecked\<close>), no wake-up is lost, and once the cell is set every call ends.
\<close>

section \<open>The cell, one call at a time\<close>

datatype duration = DurationZero | DurationMillis nat

record 'a waitable_cell =
  cell :: "'a option"

definition cell_new :: "'a waitable_cell" where
  "cell_new = \<lparr>cell = None\<rparr>"

text \<open>\<open>OnceCell::set\<close> gives the value back when the cell is full.\<close>

definition cell_set :: "'a \<Rightarrow> ('a waitable_cell, 'a, unit) act" where
  "cell_set val = (\<lambda>c. case cell c of
      None \<Rightarrow> (Ok (), c\<lparr>cell := Some val\<rparr>)
    | Some _ \<Rightarrow> (Err val, c))"

text \<open>Dropping the guard runs the closure and sets the cell, ignoring the result.\<close>

definition guard_drop :: "('a waitable_cell, 'a, 'a) act \<Rightarrow> ('a waitable_cell, 'e, unit) act" where
  "guard_drop f = ignore_result (act_bind f cell_set)"

text \<open>
  Without a timeout the call blocks while the cell is empty; with a zero timeout it reads the
  cell; with another one it reads the cell after what others did to it meanwhile (\<open>passing\<close>).
\<close>

definition cell_wait_timeout ::
  "(nat \<Rightarrow> 'a waitable_cell \<Rightarrow> 'a waitable_cell) \<Rightarrow> duration option \<Rightarrow>
   ('a waitable_cell, 'e, 'a option) act" where
  "cell_wait_timeout passing timeout = (\<lambda>c. case timeout of
      None \<Rightarrow> (if cell c = None then (Blocked, c) else (Ok (cell c), c))
    | Some DurationZero \<Rightarrow> (Ok (cell c), c)
    | Some (DurationMillis n) \<Rightarrow>
        (let c' = (if cell c = None then passing n c else c) in (Ok (cell c'), c')))"

definition cell_wait ::
  "(nat \<Rightarrow> 'a waitable_cell \<Rightarrow> 'a waitable_cell) \<Rightarrow> ('a waitable_cell, 'e, 'a) act" where
  "cell_wait passing = act_bind (cell_wait_timeout passing None) (\<lambda>v. lift_res (unwrap_option v))"

lemmas cell_defs = cell_new_def cell_set_def guard_drop_def cell_wait_timeout_def cell_wait_def

text \<open>\<open>once_cell\<close>: what a client of a write-once cell relies on, whatever holds the cell.\<close>

locale once_cell =
  fixes get :: "'s \<Rightarrow> 'a option"
    and put :: "'a \<Rightarrow> ('s, 'a, unit) act"
  assumes set_empty: "get s = None \<Longrightarrow> fst (put v s) = Ok () \<and> get (snd (put v s)) = Some v"
    and set_full: "get s = Some u \<Longrightarrow> put v s = (Err v, s)"
begin

text \<open>The first of a sequence of writes wins.\<close>

primrec set_all :: "'a list \<Rightarrow> 's \<Rightarrow> 's" where
  "set_all [] s = s"
| "set_all (v # vs) s = set_all vs (snd (put v s))"

lemma set_all_full: "get s = Some u \<Longrightarrow> set_all vs s = s"
  by (induction vs) (simp_all add: set_full)

lemma set_all_first: "get s = None \<Longrightarrow> get (set_all (v # vs) s) = Some v"
  using set_empty [of s v] set_all_full [of "snd (put v s)" v vs] by simp

lemma set_ok_iff: "fst (put v s) = Ok () \<longleftrightarrow> get s = None"
  using set_empty [of s v] set_full [of s _ v] by (cases "get s") auto

lemma set_keeps: "get s = Some u \<Longrightarrow> get (snd (put v s)) = Some u"
  by (simp add: set_full)

end

interpretation wc: once_cell cell cell_set
  by unfold_locales (simp_all add: cell_set_def)

lemma guard_drop_empty:
  assumes "f c = (Ok v, c)" and "cell c = None"
  shows "guard_drop f c = (Ok (), c\<lparr>cell := Some v\<rparr>)"
  using assms by (simp add: cell_defs act_defs)

lemma guard_drop_full:
  assumes "f c = (Ok v, c)" and "cell c = Some u"
  shows "guard_drop f c = (Ok (), c)"
  using assms by (simp add: cell_defs act_defs)

lemma cell_wait_never_unwraps_None: "fst (cell_wait passing c) \<noteq> Panic p"
  by (auto simp: cell_defs act_defs)

section \<open>The threads\<close>

text \<open>
  Where a thread is in \<open>set\<close> (with the value it sets) or in \<open>wait_timeout\<close> (with its timeout).
  \<open>Asleep\<close>: in \<open>Condvar::wait\<close>, having released the mutex; \<open>Woken\<close> and \<open>TimedOut\<close>: about to
  take it again. The second component of \<open>SetStored\<close> and after is whether the set succeeded.
\<close>

datatype 'a pc =
    Idle
  | SetWant 'a | SetHeld 'a | SetStored 'a bool | SetNotified 'a bool | SetDone 'a bool
  | WaitWant "duration option" | WaitHeld "duration option" | Asleep "duration option"
  | Woken "duration option" | TimedOut "duration option" | WaitRead "duration option"
  | WaitDone "duration option" "'a option"

record 'a cell_sys =
  sys_cell :: "'a option"
  sys_owner :: "nat option"
  sys_pcs :: "'a pc list"

fun wake :: "'a pc \<Rightarrow> 'a pc" where
  "wake (Asleep t) = Woken t"
| "wake p = p"

fun holds_mutex :: "'a pc \<Rightarrow> bool" where
  "holds_mutex (SetHeld _) = True"
| "holds_mutex (SetStored _ _) = True"
| "holds_mutex (SetNotified _ _) = True"
| "holds_mutex (WaitHeld _) = True"
| "holds_mutex (WaitRead _) = True"
| "holds_mutex _ = False"

definition move :: "nat \<Rightarrow> 'a pc \<Rightarrow> 'a cell_sys \<Rightarrow> 'a cell_sys" where
  "move i p s = s\<lparr>sys_pcs := (sys_pcs s)[i := p]\<rparr>"

definition at_pc :: "'a cell_sys \<Rightarrow> nat \<Rightarrow> 'a pc \<Rightarrow> bool" where
  "at_pc s i p \<longleftrightarrow> i < length (sys_pcs s) \<and> sys_pcs s ! i = p"

text \<open>One step of one thread, calls apart.\<close>

inductive cell_step :: "'a cell_sys \<Rightarrow> 'a cell_sys \<Rightarrow> bool" where
  set_lock: "at_pc s i (SetWant v) \<Longrightarrow> sys_owner s = None \<Longrightarrow>
    cell_step s (move i (SetHeld v) (s\<lparr>sys_owner := Some i\<rparr>))"
| set_store_empty: "at_pc s i (SetHeld v) \<Longrightarrow> sys_cell s = None \<Longrightarrow>
    cell_step s (move i (SetStored v True) (s\<lparr>sys_cell := Some v\<rparr>))"
| set_store_full: "at_pc s i (SetHeld v) \<Longrightarrow> sys_cell s = Some u \<Longrightarrow>
    cell_step s (move i (SetStored v False) s)"
| set_notify: "at_pc s i (SetStored v ok) \<Longrightarrow>
    cell_step s (move i (SetNotified v ok) (s\<lparr>sys_pcs := map wake (sys_pcs s)\<rparr>))"
| set_unlock: "at_pc s i (SetNotified v ok) \<Longrightarrow>
    cell_step s (move i (SetDone v ok) (s\<lparr>sys_owner := None\<rparr>))"
| wait_lock: "at_pc s i (WaitWant t) \<Longrightarrow> sys_owner s = None \<Longrightarrow>
    cell_step s (move i (WaitHeld t) (s\<lparr>sys_owner := Some i\<rparr>))"
| wait_zero: "at_pc s i (WaitHeld (Some DurationZero)) \<Longrightarrow>
    cell_step s (move i (WaitRead (Some DurationZero)) s)"
| wait_ready: "at_pc s i (WaitHeld t) \<Longrightarrow> sys_cell s \<noteq> None \<Longrightarrow> t \<noteq> Some DurationZero \<Longrightarrow>
    cell_step s (move i (WaitRead t) s)"
| wait_elapsed: "at_pc s i (WaitHeld (Some (DurationMillis n))) \<Longrightarrow> sys_cell s = None \<Longrightarrow>
    cell_step s (move i (WaitRead (Some (DurationMillis n))) s)"
| wait_sleep: "at_pc s i (WaitHeld t) \<Longrightarrow> sys_cell s = None \<Longrightarrow> t \<noteq> Some DurationZero \<Longrightarrow>
    cell_step s (move i (Asleep t) (s\<lparr>sys_owner := None\<rparr>))"
| wake_spurious: "at_pc s i (Asleep t) \<Longrightarrow> cell_step s (move i (Woken t) s)"
| wake_timeout: "at_pc s i (Asleep (Some t)) \<Longrightarrow> cell_step s (move i (TimedOut (Some t)) s)"
| relock: "at_pc s i (Woken t) \<Longrightarrow> sys_owner s = None \<Longrightarrow>
    cell_step s (move i (WaitHeld t) (s\<lparr>sys_owner := Some i\<rparr>))"
| relock_timeout: "at_pc s i (TimedOut t) \<Longrightarrow> sys_owner s = None \<Longrightarrow>
    cell_step s (move i (WaitRead t) (s\<lparr>sys_owner := Some i\<rparr>))"
| wait_return: "at_pc s i (WaitRead t) \<Longrightarrow>
    cell_step s (move i (WaitDone t (sys_cell s)) (s\<lparr>sys_owner := None\<rparr>))"

text \<open>A thread with no call under way may call.\<close>

inductive cell_call :: "'a cell_sys \<Rightarrow> 'a cell_sys \<Rightarrow> bool" where
  call_set: "at_pc s i Idle \<Longrightarrow> cell_call s (move i (SetWant v) s)"
| call_wait: "at_pc s i Idle \<Longrightarrow> cell_call s (move i (WaitWant t) s)"

inductive cell_reach :: "nat \<Rightarrow> 'a cell_sys \<Rightarrow> bool" for n where
  start: "cell_reach n \<lparr>sys_cell = None, sys_owner = None, sys_pcs = replicate n Idle\<rparr>"
| step: "cell_reach n s \<Longrightarrow> cell_step s t \<Longrightarrow> cell_reach n t"
| call: "cell_reach n s \<Longrightarrow> cell_call s t \<Longrightarrow> cell_reach n t"

lemma nth_move: "i < length (sys_pcs s) \<Longrightarrow> sys_pcs (move i p s) ! j = (if j = i then p else sys_pcs s ! j)"
  by (simp add: move_def nth_list_update)

lemma move_simps [simp]:
  "length (sys_pcs (move i p s)) = length (sys_pcs s)" "sys_cell (move i p s) = sys_cell s"
  "sys_owner (move i p s) = sys_owner s"
  by (simp_all add: move_def)

section \<open>The invariant\<close>

text \<open>Mutual exclusion: the threads past \<open>lock\<close> and before \<open>unlock\<close> are exactly the owner.\<close>

definition mutex_inv :: "'a cell_sys \<Rightarrow> bool" where
  "mutex_inv s \<longleftrightarrow> (\<forall>i < length (sys_pcs s). holds_mutex (sys_pcs s ! i) \<longleftrightarrow> sys_owner s = Some i) \<and>
     (\<forall>i. sys_owner s = Some i \<longrightarrow> i < length (sys_pcs s))"

text \<open>What is known at each point of the two methods.\<close>

fun pc_inv :: "'a option \<Rightarrow> 'a pc \<Rightarrow> bool" where
  "pc_inv c (SetStored v ok) \<longleftrightarrow> (if ok then c = Some v else c \<noteq> None)"
| "pc_inv c (SetNotified v ok) \<longleftrightarrow> (if ok then c = Some v else c \<noteq> None)"
| "pc_inv c (SetDone v ok) \<longleftrightarrow> (if ok then c = Some v else c \<noteq> None)"
| "pc_inv c (TimedOut t) \<longleftrightarrow> t \<noteq> None"
| "pc_inv c (WaitRead t) \<longleftrightarrow> t = None \<longrightarrow> c \<noteq> None"
| "pc_inv c (WaitDone t r) \<longleftrightarrow> (t = None \<longrightarrow> r \<noteq> None) \<and> (\<forall>v. r = Some v \<longrightarrow> c = Some v)"
| "pc_inv c _ \<longleftrightarrow> True"

text \<open>No lost wake-up: while the cell is full, a sleeper is one the setter has still to notify.\<close>

definition wakeup_inv :: "'a cell_sys \<Rightarrow> bool" where
  "wakeup_inv s \<longleftrightarrow> (\<forall>i t. at_pc s i (Asleep t) \<longrightarrow> sys_cell s \<noteq> None \<longrightarrow> (\<exists>j v ok. at_pc s j (SetStored v ok)))"

definition cell_inv :: "'a cell_sys \<Rightarrow> bool" where
  "cell_inv s \<longleftrightarrow> mutex_inv s \<and> wakeup_inv s \<and>
     (\<forall>i < length (sys_pcs s). pc_inv (sys_cell s) (sys_pcs s ! i))"

lemma pc_inv_grow: "pc_inv None p \<Longrightarrow> pc_inv (Some v) p"
  by (cases p) auto

lemma holds_wake [simp]: "holds_mutex (wake p) = holds_mutex p"
  by (cases p) auto

lemma pc_inv_wake: "pc_inv c p \<Longrightarrow> pc_inv c (wake p)"
  by (cases p) auto

lemma wake_not_asleep: "wake p \<noteq> Asleep t"
  by (cases p) auto

lemma cell_inv_move:
  assumes inv: "cell_inv s" and i: "at_pc s i p" and pc: "pc_inv (sys_cell s) q"
    and own: "sys_owner t = (if holds_mutex q then Some i else if holds_mutex p then None else sys_owner s)"
    and free: "holds_mutex q \<Longrightarrow> holds_mutex p \<or> sys_owner s = None"
    and t: "sys_cell t = sys_cell s" "sys_pcs t = sys_pcs s"
    and wake: "(\<forall>u. q \<noteq> Asleep u) \<or> sys_cell s = None" and stored: "\<forall>v ok. p \<noteq> SetStored v ok"
  shows "cell_inv (move i q t)"
proof -
  have m: "mutex_inv s" and w: "wakeup_inv s" and len: "i < length (sys_pcs s)" and ip: "sys_pcs s ! i = p"
    using inv i by (auto simp: cell_inv_def at_pc_def)
  have "mutex_inv (move i q t)"
    using m len ip own free t by (auto simp: mutex_inv_def nth_move split: if_splits)
  moreover have "wakeup_inv (move i q t)"
    unfolding wakeup_inv_def
  proof (intro allI impI)
    fix k u assume a: "at_pc (move i q t) k (Asleep u)" and c: "sys_cell (move i q t) \<noteq> None"
    with wake t len have "k \<noteq> i" by (auto simp: at_pc_def nth_move)
    with a t len have "at_pc s k (Asleep u)" by (simp add: at_pc_def nth_move)
    with w c t obtain j v ok where j: "at_pc s j (SetStored v ok)" by (auto simp: wakeup_inv_def)
    with stored ip have "j \<noteq> i" by (auto simp: at_pc_def)
    with j t len have "at_pc (move i q t) j (SetStored v ok)" by (simp add: at_pc_def nth_move)
    then show "\<exists>j v ok. at_pc (move i q t) j (SetStored v ok)" by blast
  qed
  ultimately show ?thesis
    using inv pc t len by (auto simp: cell_inv_def nth_move)
qed

text \<open>The two steps that do more than move one thread.\<close>

lemma cell_inv_store:
  assumes inv: "cell_inv s" and i: "at_pc s i (SetHeld v)" and c: "sys_cell s = None"
  shows "cell_inv (move i (SetStored v True) (s\<lparr>sys_cell := Some v\<rparr>))"
proof -
  let ?t = "move i (SetStored v True) (s\<lparr>sys_cell := Some v\<rparr>)"
  have len: "i < length (sys_pcs s)" and ip: "sys_pcs s ! i = SetHeld v" using i by (auto simp: at_pc_def)
  have "mutex_inv ?t"
    using inv len ip by (auto simp: cell_inv_def mutex_inv_def nth_move dest: spec [of _ i])
  moreover have "at_pc ?t i (SetStored v True)" using len by (simp add: at_pc_def nth_move)
  then have "wakeup_inv ?t" by (auto simp: wakeup_inv_def)
  moreover have "\<forall>j < length (sys_pcs ?t). pc_inv (sys_cell ?t) (sys_pcs ?t ! j)"
    using inv len c by (auto simp: cell_inv_def nth_move pc_inv_grow)
  ultimately show ?thesis by (simp add: cell_inv_def)
qed

lemma cell_inv_notify:
  assumes inv: "cell_inv s" and i: "at_pc s i (SetStored v ok)"
  shows "cell_inv (move i (SetNotified v ok) (s\<lparr>sys_pcs := map wake (sys_pcs s)\<rparr>))"
proof -
  let ?t = "move i (SetNotified v ok) (s\<lparr>sys_pcs := map wake (sys_pcs s)\<rparr>)"
  have len: "i < length (sys_pcs s)" and ip: "sys_pcs s ! i = SetStored v ok"
    using i by (auto simp: at_pc_def)
  have nth: "sys_pcs ?t ! j = (if j = i then SetNotified v ok else wake (sys_pcs s ! j))"
    if "j < length (sys_pcs s)" for j using that len by (simp add: nth_move)
  have ii: "pc_inv (sys_cell s) (SetStored v ok)" and own: "sys_owner s = Some i"
    using inv len ip by (auto simp: cell_inv_def mutex_inv_def dest!: spec [of _ i])
  have "mutex_inv ?t"
    using inv own len by (auto simp: cell_inv_def mutex_inv_def nth)
  moreover have "wakeup_inv ?t"
    by (auto simp: wakeup_inv_def at_pc_def nth wake_not_asleep split: if_splits)
  moreover have "\<forall>j < length (sys_pcs ?t). pc_inv (sys_cell ?t) (sys_pcs ?t ! j)"
    using inv ii by (auto simp: cell_inv_def nth pc_inv_wake)
  ultimately show ?thesis by (simp add: cell_inv_def)
qed

lemma at_pc_inv: "cell_inv s \<Longrightarrow> at_pc s i p \<Longrightarrow> pc_inv (sys_cell s) p"
  by (auto simp: cell_inv_def at_pc_def)

lemma at_pc_owner: "cell_inv s \<Longrightarrow> at_pc s i p \<Longrightarrow> holds_mutex p \<Longrightarrow> sys_owner s = Some i"
  by (auto simp: cell_inv_def at_pc_def mutex_inv_def)

lemma cell_step_inv: "cell_step s t \<Longrightarrow> cell_inv s \<Longrightarrow> cell_inv t"
proof (induction rule: cell_step.induct)
  case (set_store_empty s i v)
  then show ?case by (simp add: cell_inv_store)
next
  case (set_notify s i v ok)
  then show ?case by (simp add: cell_inv_notify)
qed (((rule cell_inv_move, assumption, assumption); auto dest: at_pc_inv at_pc_owner)+)

lemma cell_call_inv: "cell_call s t \<Longrightarrow> cell_inv s \<Longrightarrow> cell_inv t"
  by (induction rule: cell_call.induct) ((rule cell_inv_move, assumption, assumption); auto)+

lemma cell_reach_inv: "cell_reach n s \<Longrightarrow> cell_inv s"
proof (induction rule: cell_reach.induct)
  case start
  show ?case by (simp add: cell_inv_def mutex_inv_def wakeup_inv_def at_pc_def)
qed (auto intro: cell_step_inv cell_call_inv)

section \<open>Write once, no lost wake-up, termination\<close>

lemma cell_step_write_once: "cell_step s t \<Longrightarrow> sys_cell s = Some v \<Longrightarrow> sys_cell t = Some v"
  by (induction rule: cell_step.induct) auto

text \<open>How far a thread is from the end of its call once the cell is full.\<close>

fun rank :: "'a pc \<Rightarrow> nat" where
  "rank (SetWant _) = 4"
| "rank (SetHeld _) = 3"
| "rank (SetStored _ _) = 2"
| "rank (SetNotified _ _) = 1"
| "rank (WaitWant _) = 3"
| "rank (Asleep _) = 4"
| "rank (Woken _) = 3"
| "rank (TimedOut _) = 3"
| "rank (WaitHeld _) = 2"
| "rank (WaitRead _) = 1"
| "rank _ = 0"

definition total_rank :: "'a cell_sys \<Rightarrow> nat" where
  "total_rank s = sum_list (map rank (sys_pcs s))"

lemma rank_wake: "rank (wake p) \<le> rank p"
  by (cases p) auto

lemma total_rank_move:
  assumes "at_pc s i p" and "rank q < rank p" and "sys_pcs t = sys_pcs s"
  shows "total_rank (move i q t) < total_rank s"
proof -
  let ?xs = "sys_pcs s"
  have i: "i < length ?xs" and p: "?xs ! i = p" using assms(1) by (auto simp: at_pc_def)
  have "map rank ?xs ! i \<le> sum_list (map rank ?xs)" using i by (intro elem_le_sum_list) simp
  then have "sum_list (map rank (?xs[i := q])) + rank p = sum_list (map rank ?xs) + rank q"
    using i p by (simp add: map_update sum_list_update)
  with assms show ?thesis by (simp add: total_rank_def move_def)
qed

lemma total_rank_notify:
  assumes "at_pc s i (SetStored v ok)"
  shows "total_rank (move i (SetNotified v ok) (s\<lparr>sys_pcs := map wake (sys_pcs s)\<rparr>)) < total_rank s"
proof -
  let ?t = "s\<lparr>sys_pcs := map wake (sys_pcs s)\<rparr>"
  have "at_pc ?t i (SetStored v ok)" using assms by (auto simp: at_pc_def)
  then have "total_rank (move i (SetNotified v ok) ?t) < total_rank ?t"
    by (rule total_rank_move) simp_all
  moreover have "total_rank ?t \<le> total_rank s"
    by (simp add: total_rank_def comp_def sum_list_mono rank_wake)
  ultimately show ?thesis by simp
qed

lemma cell_step_rank:
  assumes "cell_step s t" and "sys_cell s \<noteq> None"
  shows "total_rank t < total_rank s"
  using assms
proof (induction rule: cell_step.induct)
  case (set_notify s i v ok)
  then show ?case by (simp add: total_rank_notify)
qed (auto intro: total_rank_move)

text \<open>A state of the threads in which no call is under way.\<close>

fun at_rest :: "'a pc \<Rightarrow> bool" where
  "at_rest Idle = True"
| "at_rest (SetDone _ _) = True"
| "at_rest (WaitDone _ _) = True"
| "at_rest _ = False"

definition quiescent :: "'a cell_sys \<Rightarrow> bool" where
  "quiescent s \<longleftrightarrow> list_all at_rest (sys_pcs s)"

text \<open>
  Steps nothing promises: a sleeper that wakes up although nobody has notified it, and the end of a
  timeout.
\<close>

fun asleep :: "'a pc \<Rightarrow> bool" where
  "asleep (Asleep t) = True"
| "asleep p = False"

definition by_chance :: "'a cell_sys \<Rightarrow> 'a cell_sys \<Rightarrow> bool" where
  "by_chance s t \<longleftrightarrow> (\<exists>i u q. at_pc s i (Asleep u) \<and> t = move i q s)"

lemma not_by_chance:
  assumes "at_pc s i p" and "at_pc t i q" and "q \<noteq> p" and "\<not> asleep p"
  shows "\<not> by_chance s t"
proof
  assume "by_chance s t"
  then obtain j u q' where j: "at_pc s j (Asleep u)" and t: "t = move j q' s" by (auto simp: by_chance_def)
  with assms(1,4) have "j \<noteq> i" by (auto simp: at_pc_def)
  with assms(2) j t have "sys_pcs s ! i = q" by (auto simp: at_pc_def nth_move)
  with assms(1,3) show False by (simp add: at_pc_def)
qed

text \<open>A full cell blocks nobody: the owner of the mutex can go on, or anybody can take it.\<close>

lemma owner_steps:
  assumes "at_pc s i p" and "holds_mutex p"
  shows "\<exists>t. cell_step s t \<and> \<not> by_chance s t"
proof -
  have "\<exists>q t. cell_step s t \<and> at_pc t i q \<and> q \<noteq> p"
  proof (cases p)
    case (SetHeld v)
    with assms(1) show ?thesis
      by (cases "sys_cell s") (force intro: set_store_empty set_store_full simp: at_pc_def nth_move)+
  next
    case (WaitHeld u)
    with assms(1) show ?thesis
      by (cases "u = Some DurationZero"; cases "sys_cell s")
        (force intro: wait_zero wait_ready wait_sleep simp: at_pc_def nth_move)+
  qed (use assms in \<open>force intro: set_notify set_unlock wait_return simp: at_pc_def nth_move\<close>)+
  moreover have "\<not> asleep p" using assms(2) by (cases p) auto
  ultimately show ?thesis using not_by_chance assms(1) by blast
qed

lemma free_steps:
  assumes "at_pc s i p" and "\<not> at_rest p" and "\<not> holds_mutex p" and "sys_owner s = None" and "\<not> asleep p"
  shows "\<exists>t. cell_step s t \<and> \<not> by_chance s t"
proof -
  have "\<exists>q t. cell_step s t \<and> at_pc t i q \<and> q \<noteq> p"
    using assms by (cases p) (force intro: set_lock wait_lock relock relock_timeout simp: at_pc_def nth_move)+
  with not_by_chance assms(1,5) show ?thesis by blast
qed

text \<open>Without the help of chance: while the cell is full nobody sleeps unless a setter is about to notify.\<close>

lemma cell_progress:
  assumes inv: "cell_inv s" and full: "sys_cell s \<noteq> None" and busy: "\<not> quiescent s"
  shows "\<exists>t. cell_step s t \<and> \<not> by_chance s t"
proof (cases "sys_owner s")
  case None
  from busy obtain i where at: "at_pc s i (sys_pcs s ! i)" and i: "i < length (sys_pcs s)"
    and "\<not> at_rest (sys_pcs s ! i)"
    by (auto simp: quiescent_def list_all_length at_pc_def)
  moreover have "\<not> holds_mutex (sys_pcs s ! i)"
    using inv None i by (auto simp: cell_inv_def mutex_inv_def)
  moreover have "\<not> asleep (sys_pcs s ! i)"
  proof
    assume "asleep (sys_pcs s ! i)"
    with at full inv obtain j v ok where "at_pc s j (SetStored v ok)"
      by (cases "sys_pcs s ! i") (auto simp: cell_inv_def wakeup_inv_def)
    with inv None show False by (auto simp: cell_inv_def mutex_inv_def at_pc_def dest: spec [of _ j])
  qed
  ultimately show ?thesis using None by (blast intro: free_steps)
next
  case (Some i)
  then have "at_pc s i (sys_pcs s ! i)" "holds_mutex (sys_pcs s ! i)"
    using inv by (auto simp: cell_inv_def mutex_inv_def at_pc_def)
  then show ?thesis by (rule owner_steps)
qed

text \<open>Runs without new calls.\<close>

lemma full_cell_settles:
  assumes "cell_inv s" and "sys_cell s = Some v"
  shows "\<exists>t. cell_step\<^sup>*\<^sup>* s t \<and> quiescent t \<and> sys_cell t = Some v"
  using assms
proof (induction "total_rank s" arbitrary: s rule: less_induct)
  case less
  show ?case
  proof (cases "quiescent s")
    case True
    with less.prems show ?thesis by blast
  next
    case False
    then obtain u where u: "cell_step s u" using cell_progress less.prems by blast
    then have "total_rank u < total_rank s" using less.prems by (simp add: cell_step_rank)
    from less.hyps [OF this cell_step_inv [OF u less.prems(1)] cell_step_write_once [OF u less.prems(2)]]
    show ?thesis using u by (meson converse_rtranclp_into_rtranclp)
  qed
qed

lemma full_cell_run_bounded:
  assumes "(cell_step ^^ k) s t" and "sys_cell s = Some v"
  shows "k + total_rank t \<le> total_rank s \<and> sys_cell t = Some v"
  using assms
proof (induction k arbitrary: t)
  case (Suc k)
  then obtain u where u: "(cell_step ^^ k) s u" "cell_step u t" by auto
  with Suc.IH [OF u(1)] Suc.prems have "k + total_rank u \<le> total_rank s" "sys_cell u = Some v" by simp_all
  with cell_step_rank [OF u(2)] cell_step_write_once [OF u(2)] show ?case by simp
qed simp

lemma cell_step_length: "cell_step s t \<Longrightarrow> length (sys_pcs t) = length (sys_pcs s)"
  by (induction rule: cell_step.induct) auto

lemma cell_reach_length: "cell_reach n s \<Longrightarrow> length (sys_pcs s) = n"
  by (induction rule: cell_reach.induct) (auto simp: cell_step_length elim: cell_call.cases)

lemma rank_bound: "rank p \<le> 4"
  by (cases p) auto

lemma total_rank_bound: "total_rank s \<le> 4 * length (sys_pcs s)"
  using sum_list_mono [of "sys_pcs s" rank "\<lambda>_. 4"]
  by (simp add: total_rank_def rank_bound sum_list_triv mult.commute)

lemma cell_run_inv: "(cell_step ^^ k) s t \<Longrightarrow> cell_inv s \<Longrightarrow> cell_inv t"
proof (induction k arbitrary: t)
  case (Suc k)
  then show ?case by (auto intro: cell_step_inv)
qed simp

section \<open>Properties\<close>

text \<open>A cell with a sleeper that a setter has just filled without having notified yet.\<close>

definition demo_sys :: "nat \<Rightarrow> nat cell_sys" where
  "demo_sys v = \<lparr>sys_cell = Some v, sys_owner = Some 1, sys_pcs = [Asleep None, SetStored v True]\<rparr>"

lemma demo_sys_reach: "cell_reach 2 (demo_sys v)"
proof -
  let ?s = "\<lambda>c ow p q. \<lparr>sys_cell = c, sys_owner = ow, sys_pcs = [p, q :: nat pc]\<rparr>"
  have "cell_reach 2 (?s None None Idle Idle)"
    using cell_reach.start [of 2] by (simp add: numeral_2_eq_2)
  then have "cell_reach 2 (?s None None (WaitWant None) Idle)"
    by (rule cell_reach.call) (use cell_call.call_wait [of "?s None None Idle Idle" 0 None] in \<open>simp add: at_pc_def move_def\<close>)
  then have "cell_reach 2 (?s None (Some 0) (WaitHeld None) Idle)"
    by (rule cell_reach.step)
      (use cell_step.wait_lock [of "?s None None (WaitWant None) Idle" 0 None] in \<open>simp add: at_pc_def move_def\<close>)
  then have "cell_reach 2 (?s None None (Asleep None) Idle)"
    by (rule cell_reach.step)
      (use cell_step.wait_sleep [of "?s None (Some 0) (WaitHeld None) Idle" 0 None] in \<open>simp add: at_pc_def move_def\<close>)
  then have "cell_reach 2 (?s None None (Asleep None) (SetWant v))"
    by (rule cell_reach.call) (use cell_call.call_set [of "?s None None (Asleep None) Idle" 1 v] in \<open>simp add: at_pc_def move_def\<close>)
  then have "cell_reach 2 (?s None (Some 1) (Asleep None) (SetHeld v))"
    by (rule cell_reach.step)
      (use cell_step.set_lock [of "?s None None (Asleep None) (SetWant v)" 1 v] in \<open>simp add: at_pc_def move_def\<close>)
  then show ?thesis
    unfolding demo_sys_def
    by (rule cell_reach.step)
      (use cell_step.set_store_empty [of "?s None (Some 1) (Asleep None) (SetHeld v)" 1 v] in \<open>simp add: at_pc_def move_def\<close>)
qed

text \<open>
  C15. However the threads of a cell interleave: a wait without a timeout that has returned has
  returned a value, a value any wait has returned is the value of the cell, a set that reported
  success has left its value in the cell, the cell never changes once it is full, at most one thread holds
  the mutex, and a waiter that sleeps while the cell is full is one a setter has still to notify.
\<close>

theorem cell_threads_safe:
  assumes "cell_reach n s"
  shows "(at_pc s i (WaitDone None r) \<longrightarrow> r \<noteq> None) \<and>
    (at_pc s i (WaitDone t (Some v)) \<longrightarrow> sys_cell s = Some v) \<and>
    (at_pc s i (SetDone v True) \<longrightarrow> sys_cell s = Some v) \<and>
    (cell_step s s' \<longrightarrow> sys_cell s = Some v \<longrightarrow> sys_cell s' = Some v) \<and>
    (at_pc s i p \<longrightarrow> at_pc s j q \<longrightarrow> holds_mutex p \<longrightarrow> holds_mutex q \<longrightarrow> i = j) \<and>
    (at_pc s i (Asleep t) \<longrightarrow> sys_cell s \<noteq> None \<longrightarrow> (\<exists>j v ok. at_pc s j (SetStored v ok)))"
proof -
  note inv = cell_reach_inv [OF assms]
  have "(at_pc s i (WaitDone None r) \<longrightarrow> r \<noteq> None) \<and> (at_pc s i (WaitDone t (Some v)) \<longrightarrow> sys_cell s = Some v) \<and>
    (at_pc s i (SetDone v True) \<longrightarrow> sys_cell s = Some v)"
    by (auto dest!: at_pc_inv [OF inv])
  moreover have "at_pc s i p \<longrightarrow> at_pc s j q \<longrightarrow> holds_mutex p \<longrightarrow> holds_mutex q \<longrightarrow> i = j"
    by (auto dest!: at_pc_owner [OF inv])
  moreover have "at_pc s i (Asleep t) \<longrightarrow> sys_cell s \<noteq> None \<longrightarrow> (\<exists>j v ok. at_pc s j (SetStored v ok))"
    using inv by (auto simp: cell_inv_def wakeup_inv_def)
  ultimately show ?thesis by (auto intro: cell_step_write_once)
qed

theorem cell_threads_safe_witness: "\<exists>j v ok. at_pc (demo_sys 7) j (SetStored v ok)"
  using cell_threads_safe [OF demo_sys_reach, of 7 0 _ None]
  by (simp add: demo_sys_def at_pc_def)

text \<open>
  C16. A set wakes every waiter and no call hangs: once the cell is full, every run of the threads
  without new calls has at most four steps per thread. As long as a call is under way, some thread
  can take a step that does not depend on a spurious wake-up or on a timeout; so when no such step
  is left every call has returned, and a wait without a timeout has returned the value.
\<close>

theorem full_cell_runs_end:
  assumes "cell_reach n s" and "sys_cell s = Some v" and "(cell_step ^^ k) s t"
  shows "k \<le> 4 * n \<and> sys_cell t = Some v \<and> (quiescent t \<or> (\<exists>u. cell_step t u \<and> \<not> by_chance t u)) \<and>
    (\<forall>i r. at_pc t i (WaitDone None r) \<longrightarrow> r = Some v)"
proof -
  note inv = cell_run_inv [OF assms(3) cell_reach_inv [OF assms(1)]]
  have run: "k + total_rank t \<le> total_rank s \<and> sys_cell t = Some v"
    by (rule full_cell_run_bounded [OF assms(3,2)])
  moreover have "quiescent t \<or> (\<exists>u. cell_step t u \<and> \<not> by_chance t u)"
    using cell_progress [OF inv] run by auto
  moreover have "at_pc t i (WaitDone None r) \<Longrightarrow> r = Some v" for i r
    using at_pc_inv [OF inv, of i "WaitDone None r"] run by (cases r) auto
  ultimately show ?thesis
    using total_rank_bound [of s] cell_reach_length [OF assms(1)] by auto
qed

theorem full_cell_runs_end_witness:
  "\<exists>t. (cell_step ^^ 1) (demo_sys 7) t \<and> sys_cell t = Some 7 \<and> (\<exists>u. cell_step t u \<and> \<not> by_chance t u)"
proof -
  let ?t = "\<lparr>sys_cell = Some 7, sys_owner = Some 1, sys_pcs = [Woken None, SetNotified 7 True]\<rparr> :: nat cell_sys"
  have "cell_step (demo_sys 7) ?t"
    using cell_step.set_notify [of "demo_sys 7" 1 7 True] by (simp add: demo_sys_def at_pc_def move_def)
  then have run: "(cell_step ^^ 1) (demo_sys 7) ?t" by (simp add: eq_OO)
  have "sys_cell (demo_sys 7) = Some 7" by (simp add: demo_sys_def)
  from full_cell_runs_end [OF demo_sys_reach this run] have "\<exists>u. cell_step ?t u \<and> \<not> by_chance ?t u"
    by (simp add: quiescent_def)
  with run show ?thesis by (intro exI [of _ ?t]) simp
qed

end
