(* ===== verification/Instances.thy ===== *)
theory Instances
  imports Task_State Events Sync
begin

text \<open>
  \<open>sandbox/instance.rs\<close> and \<open>sandbox/shim/instance_data.rs\<close>: the configuration of an
  instance, the \<open>Instance\<close> trait, and \<open>InstanceData\<close>, which guards one instance with the
  task state machine.

  The trait is a record of operations, one per method, over a state \<open>'w\<close> that holds
  everything an implementation can reach; \<open>'i\<close> is the handle \<open>&self\<close>. \<open>InstanceData\<close> keeps
  its mutable parts behind locks, so its methods are actions on the pair of the data and \<open>'w\<close>.
  Every method takes the write lock of \<open>state\<close>; a panic while it is held poisons it, and
  \<open>write().unwrap()\<close> panics from then on.
\<close>

section \<open>InstanceConfig\<close>

record instance_config =
  cfg_stdin :: path
  cfg_stdout :: path
  cfg_stderr :: path
  cfg_bundle :: path
  cfg_namespace :: string
  cfg_containerd_address :: string

definition instance_config_new :: "string \<Rightarrow> string \<Rightarrow> instance_config" where
  "instance_config_new namespace containerd_address =
     \<lparr>cfg_stdin = [], cfg_stdout = [], cfg_stderr = [], cfg_bundle = [],
      cfg_namespace = namespace, cfg_containerd_address = containerd_address\<rparr>"

definition set_stdin :: "path \<Rightarrow> instance_config \<Rightarrow> instance_config" where
  "set_stdin p cfg = cfg\<lparr>cfg_stdin := p\<rparr>"

definition set_stdout :: "path \<Rightarrow> instance_config \<Rightarrow> instance_config" where
  "set_stdout p cfg = cfg\<lparr>cfg_stdout := p\<rparr>"

definition set_stderr :: "path \<Rightarrow> instance_config \<Rightarrow> instance_config" where
  "set_stderr p cfg = cfg\<lparr>cfg_stderr := p\<rparr>"

definition set_bundle :: "path \<Rightarrow> instance_config \<Rightarrow> instance_config" where
  "set_bundle p cfg = cfg\<lparr>cfg_bundle := p\<rparr>"

definition get_namespace :: "instance_config \<Rightarrow> string" where
  "get_namespace cfg = cfg_namespace cfg"

definition get_containerd_address :: "instance_config \<Rightarrow> string" where
  "get_containerd_address cfg = cfg_containerd_address cfg"

lemmas config_defs = instance_config_new_def set_stdin_def set_stdout_def set_stderr_def set_bundle_def
  get_namespace_def get_containerd_address_def

section \<open>The Instance trait\<close>

type_synonym exit_info = "u32 \<times> datetime"

record ('i, 'w) instance_impl =
  inst_new :: "string \<Rightarrow> instance_config \<Rightarrow> ('w, error, 'i) act"
  inst_start :: "'i \<Rightarrow> ('w, error, u32) act"
  inst_kill :: "'i \<Rightarrow> u32 \<Rightarrow> ('w, error, unit) act"
  inst_delete :: "'i \<Rightarrow> ('w, error, unit) act"
  inst_wait_timeout :: "'i \<Rightarrow> duration option \<Rightarrow> ('w, error, exit_info option) act"

text \<open>The trait's provided method \<open>wait\<close>.\<close>

definition inst_wait :: "('i, 'w) instance_impl \<Rightarrow> 'i \<Rightarrow> ('w, error, exit_info) act" where
  "inst_wait T i = act_bind (inst_wait_timeout T i None) (\<lambda>r. lift_res (unwrap_option r))"

section \<open>InstanceData\<close>

record 'i instance_data =
  id_instance :: 'i
  id_cfg :: instance_config
  id_pid :: "u32 option"
  id_state :: task_state
  id_poisoned :: bool

type_synonym ('i, 'w, 'a) data_act = "('i instance_data \<times> 'w, error, 'a) act"

definition data_new ::
  "('i, 'w) instance_impl \<Rightarrow> string \<Rightarrow> instance_config \<Rightarrow> ('w, error, 'i instance_data) act" where
  "data_new T cid cfg =
     act_bind (inst_new T cid cfg) (\<lambda>i.
     ret \<lparr>id_instance = i, id_cfg = cfg, id_pid = None, id_state = Created, id_poisoned = False\<rparr>)"

definition on_state :: "(task_state, error, 'a) act \<Rightarrow> ('i, 'w, 'a) data_act" where
  "on_state m = (\<lambda>(d, w). case m (id_state d) of (r, s) \<Rightarrow> (r, (d\<lparr>id_state := s\<rparr>, w)))"

definition on_world :: "('w, error, 'a) act \<Rightarrow> ('i, 'w, 'a) data_act" where
  "on_world m = (\<lambda>(d, w). case m w of (r, w') \<Rightarrow> (r, (d, w')))"

definition get_data :: "('i instance_data \<Rightarrow> 'a) \<Rightarrow> ('i, 'w, 'a) data_act" where
  "get_data f = (\<lambda>(d, w). (Ok (f d), (d, w)))"

text \<open>\<open>OnceLock::set\<close>: the first value stays.\<close>

definition pid_set :: "u32 \<Rightarrow> ('i instance_data \<times> 'w, u32, unit) act" where
  "pid_set pid = (\<lambda>(d, w). case id_pid d of
      None \<Rightarrow> (Ok (), (d\<lparr>id_pid := Some pid\<rparr>, w))
    | Some _ \<Rightarrow> (Err pid, (d, w)))"

text \<open>\<open>let mut s = self.state.write().unwrap(); m\<close>.\<close>

definition write_lock :: "('i, 'w, 'a) data_act \<Rightarrow> ('i, 'w, 'a) data_act" where
  "write_lock m = (\<lambda>(d, w).
     if id_poisoned d then (Panic ''PoisonError'', (d, w))
     else (case m (d, w) of
             (Panic p, (d', w')) \<Rightarrow> (Panic p, (d'\<lparr>id_poisoned := True\<rparr>, w'))
           | r \<Rightarrow> r))"

definition data_pid :: "('i, 'w, u32 option) data_act" where
  "data_pid = get_data id_pid"

definition data_config :: "('i, 'w, instance_config) data_act" where
  "data_config = get_data id_cfg"

definition data_start :: "('i, 'w) instance_impl \<Rightarrow> ('i, 'w, u32) data_act" where
  "data_start T = write_lock (
     act_bind (on_state state_start) (\<lambda>_.
     act_bind (get_data id_instance) (\<lambda>i.
     act_bind (attempt (on_world (inst_start T i))) (\<lambda>res.
     act_bind (case res of
         Inr pid \<Rightarrow> act_bind (ignore_result (pid_set pid)) (\<lambda>_. ignore_result (on_state state_started))
       | Inl _ \<Rightarrow> ignore_result (on_state state_stop)) (\<lambda>_.
     case res of Inr pid \<Rightarrow> ret pid | Inl e \<Rightarrow> throw e)))))"

definition data_kill :: "('i, 'w) instance_impl \<Rightarrow> u32 \<Rightarrow> ('i, 'w, unit) data_act" where
  "data_kill T signal = write_lock (
     act_bind (on_state state_kill) (\<lambda>_.
     act_bind (get_data id_instance) (\<lambda>i.
     on_world (inst_kill T i signal))))"

definition data_delete :: "('i, 'w) instance_impl \<Rightarrow> ('i, 'w, unit) data_act" where
  "data_delete T = write_lock (
     act_bind (on_state state_delete) (\<lambda>_.
     act_bind (get_data id_instance) (\<lambda>i.
     act_bind (attempt (on_world (inst_delete T i))) (\<lambda>res.
     case res of
       Inl e \<Rightarrow> act_bind (ignore_result (on_state state_stop)) (\<lambda>_. throw e)
     | Inr _ \<Rightarrow> ret ()))))"

definition set_exited :: "('i, 'w, unit) data_act" where
  "set_exited = on_state (\<lambda>_. (Ok (), Exited))"

text \<open>The lock is taken only after the instance has been waited for.\<close>

definition data_wait :: "('i, 'w) instance_impl \<Rightarrow> ('i, 'w, exit_info) data_act" where
  "data_wait T =
     act_bind (get_data id_instance) (\<lambda>i.
     act_bind (on_world (inst_wait T i)) (\<lambda>res.
     act_bind (write_lock set_exited) (\<lambda>_. ret res)))"

definition data_wait_timeout ::
  "('i, 'w) instance_impl \<Rightarrow> duration option \<Rightarrow> ('i, 'w, exit_info option) data_act" where
  "data_wait_timeout T t =
     act_bind (get_data id_instance) (\<lambda>i.
     act_bind (on_world (inst_wait_timeout T i t)) (\<lambda>res.
     case res of
       Some r \<Rightarrow> act_bind (write_lock set_exited) (\<lambda>_. ret res)
     | None \<Rightarrow> ret res))"

lemmas data_base_defs = on_state_def on_world_def get_data_def pid_set_def write_lock_def set_exited_def
lemmas data_defs = data_start_def data_kill_def data_delete_def data_wait_def data_wait_timeout_def
  data_pid_def data_config_def inst_wait_def

section \<open>Behaviour of each method\<close>

lemma write_lock_unpoisoned:
  "\<not> id_poisoned d \<Longrightarrow> m (d, w) = (r, x) \<Longrightarrow> (\<And>p. r \<noteq> Panic p) \<Longrightarrow> write_lock m (d, w) = (r, x)"
  by (auto simp: write_lock_def split: res.split prod.split)

lemma write_lock_poisoned: "id_poisoned d \<Longrightarrow> write_lock m (d, w) = (Panic ''PoisonError'', (d, w))"
  by (simp add: write_lock_def)

lemma instance_data_same_state [simp]: "d\<lparr>id_state := id_state d\<rparr> = d"
  by (cases d) simp

lemma data_start_refused:
  assumes "\<not> id_poisoned d" and "id_state d \<noteq> Created"
  shows "\<exists>m. data_start T (d, w) = (Err (FailedPrecondition m), (d, w))"
  using assms
  by (cases "id_state d")
    (simp_all add: data_start_def data_base_defs act_defs task_state_defs)

lemma data_start_ok:
  assumes "\<not> id_poisoned d" and "id_state d = Created" and "id_pid d = None"
    and "inst_start T (id_instance d) w = (Ok pid, w')"
  shows "data_start T (d, w) = (Ok pid, (d\<lparr>id_state := Started, id_pid := Some pid\<rparr>, w'))"
  using assms by (simp add: data_start_def data_base_defs act_defs task_state_defs)

lemma data_start_err:
  assumes "\<not> id_poisoned d" and "id_state d = Created"
    and "inst_start T (id_instance d) w = (Err e, w')"
  shows "data_start T (d, w) = (Err e, (d\<lparr>id_state := Exited\<rparr>, w'))"
  using assms by (simp add: data_start_def data_base_defs act_defs task_state_defs)

lemma data_kill_refused:
  assumes "\<not> id_poisoned d" and "id_state d \<noteq> Started"
  shows "\<exists>m. data_kill T sig (d, w) = (Err (FailedPrecondition m), (d, w))"
  using assms
  by (cases "id_state d")
    (simp_all add: data_kill_def data_base_defs act_defs task_state_defs)

lemma data_kill_started:
  assumes "\<not> id_poisoned d" and "id_state d = Started"
    and "inst_kill T (id_instance d) sig w = (r, w')" and "\<And>p. r \<noteq> Panic p"
  shows "data_kill T sig (d, w) = (r, (d, w'))"
  using assms instance_data_same_state [of d]
  by (auto simp: data_kill_def data_base_defs act_defs task_state_defs split: res.split)

lemma data_delete_refused:
  assumes "\<not> id_poisoned d" and "id_state d \<notin> {Created, Exited}"
  shows "\<exists>m. data_delete T (d, w) = (Err (FailedPrecondition m), (d, w))"
  using assms
  by (cases "id_state d")
    (simp_all add: data_delete_def data_base_defs act_defs task_state_defs)

lemma data_delete_ok:
  assumes "\<not> id_poisoned d" and "id_state d \<in> {Created, Exited}"
    and "inst_delete T (id_instance d) w = (Ok (), w')"
  shows "data_delete T (d, w) = (Ok (), (d\<lparr>id_state := Deleting\<rparr>, w'))"
  using assms by (auto simp: data_delete_def data_base_defs act_defs task_state_defs)

lemma data_delete_err:
  assumes "\<not> id_poisoned d" and "id_state d \<in> {Created, Exited}"
    and "inst_delete T (id_instance d) w = (Err e, w')"
  shows "data_delete T (d, w) = (Err e, (d\<lparr>id_state := Exited\<rparr>, w'))"
  using assms by (auto simp: data_delete_def data_base_defs act_defs task_state_defs)

lemma data_wait_timeout_None:
  assumes "inst_wait_timeout T (id_instance d) t w = (Ok None, w')"
  shows "data_wait_timeout T t (d, w) = (Ok None, (d, w'))"
  using assms by (simp add: data_wait_timeout_def data_base_defs act_defs)

lemma data_wait_timeout_Some:
  assumes "\<not> id_poisoned d" and "inst_wait_timeout T (id_instance d) t w = (Ok (Some x), w')"
  shows "data_wait_timeout T t (d, w) = (Ok (Some x), (d\<lparr>id_state := Exited\<rparr>, w'))"
  using assms by (simp add: data_wait_timeout_def data_base_defs act_defs)

lemma data_wait_Some:
  assumes "\<not> id_poisoned d" and "inst_wait_timeout T (id_instance d) None w = (Ok (Some x), w')"
  shows "data_wait T (d, w) = (Ok x, (d\<lparr>id_state := Exited\<rparr>, w'))"
  using assms by (simp add: data_wait_def inst_wait_def data_base_defs act_defs)

section \<open>The invariant of InstanceData\<close>

text \<open>
  Between two calls the state is never \<open>Starting\<close> (that state exists only while the lock is
  held), a created task has no pid and a started one has a pid. A poisoned lock is exempt: no
  method gets past it.
\<close>

definition data_inv :: "'i instance_data \<Rightarrow> bool" where
  "data_inv d \<longleftrightarrow> (\<not> id_poisoned d \<longrightarrow>
     id_state d \<noteq> Starting \<and>
     (id_state d = Created \<longrightarrow> id_pid d = None) \<and>
     (id_state d = Started \<longrightarrow> id_pid d \<noteq> None))"

text \<open>What no method undoes: the instance and its configuration, a pid once set, leaving \<open>Created\<close>.\<close>

definition data_le :: "'i instance_data \<Rightarrow> 'i instance_data \<Rightarrow> bool" where
  "data_le d d' \<longleftrightarrow>
     id_instance d' = id_instance d \<and> id_cfg d' = id_cfg d \<and>
     (\<forall>p. id_pid d = Some p \<longrightarrow> id_pid d' = Some p) \<and>
     (id_state d \<noteq> Created \<longrightarrow> id_state d' \<noteq> Created) \<and>
     (id_poisoned d \<longrightarrow> id_poisoned d')"

lemma data_le_refl [simp, intro!]: "data_le d d"
  by (simp add: data_le_def)

lemma data_le_trans [trans]: "data_le a b \<Longrightarrow> data_le b c \<Longrightarrow> data_le a c"
  unfolding data_le_def by auto

text \<open>
  \<open>good_method m\<close>: \<open>m\<close> only moves the data forward, and a call that returns keeps the
  invariant. A call that blocks has not returned: it still holds the lock it took.
\<close>

definition good_method :: "('i, 'w, 'a) data_act \<Rightarrow> bool" where
  "good_method m \<longleftrightarrow> (\<forall>d w r d' w'. m (d, w) = (r, (d', w')) \<longrightarrow>
     data_le d d' \<and> (r \<noteq> Blocked \<longrightarrow> data_inv d \<longrightarrow> data_inv d'))"

lemma good_methodD:
  "good_method m \<Longrightarrow> m (d, w) = (r, (d', w')) \<Longrightarrow> data_le d d'"
  "good_method m \<Longrightarrow> m (d, w) = (r, (d', w')) \<Longrightarrow> r \<noteq> Blocked \<Longrightarrow> data_inv d \<Longrightarrow> data_inv d'"
  unfolding good_method_def by blast+

lemma good_method_bind:
  assumes "good_method m" and "\<And>a. good_method (f a)"
  shows "good_method (act_bind m f)"
  unfolding good_method_def
proof (intro allI impI)
  fix d w r d' w'
  assume eq: "act_bind m f (d, w) = (r, (d', w'))"
  obtain r1 d1 w1 where m: "m (d, w) = (r1, (d1, w1))" by (metis prod_cases3)
  note m1 = good_methodD [OF assms(1) m]
  show "data_le d d' \<and> (r \<noteq> Blocked \<longrightarrow> data_inv d \<longrightarrow> data_inv d')"
  proof (cases r1)
    case (Ok a)
    with eq m have "f a (d1, w1) = (r, (d', w'))" by (simp add: act_bind_def)
    note f1 = good_methodD [OF assms(2) this]
    show ?thesis
    proof (intro conjI impI)
      show "data_le d d'" using m1(1) f1(1) by (rule data_le_trans)
      assume "r \<noteq> Blocked" and "data_inv d"
      with Ok m1(2) have "data_inv d1" by simp
      with \<open>r \<noteq> Blocked\<close> f1(2) show "data_inv d'" by simp
    qed
  qed (use eq m m1 in \<open>auto simp: act_bind_def\<close>)
qed

lemma good_method_read:
  "good_method (get_data f)" "good_method (on_world m)" "good_method (ret a)" "good_method (throw e)"
  by (auto simp: good_method_def data_base_defs act_defs split: prod.splits)

lemma good_method_set_exited: "good_method (write_lock set_exited)"
  by (auto simp: good_method_def data_base_defs data_inv_def data_le_def split: if_splits)

lemma good_method_start: "good_method (data_start T)"
  unfolding good_method_def
proof (intro allI impI)
  fix d w r d' w'
  assume eq: "data_start T (d, w) = (r, (d', w'))"
  show "data_le d d' \<and> (r \<noteq> Blocked \<longrightarrow> data_inv d \<longrightarrow> data_inv d')"
  proof (cases "id_poisoned d \<or> id_state d \<noteq> Created")
    case True
    then have "d' = d"
      using eq data_start_refused [of d T w]
      by (cases "id_poisoned d") (auto simp: data_start_def write_lock_poisoned)
    then show ?thesis by simp
  next
    case False
    obtain r1 w1 where i: "inst_start T (id_instance d) w = (r1, w1)" by (metis prod.exhaust)
    show ?thesis
      using eq False i
      by (cases r1; cases "id_pid d")
        (auto simp: data_start_def data_base_defs act_defs task_state_defs data_le_def data_inv_def)
  qed
qed

lemma good_method_kill: "good_method (data_kill T sig)"
  by (auto simp: good_method_def data_kill_def data_base_defs act_defs task_state_defs
      data_le_def data_inv_def split: if_splits prod.splits res.splits task_state.splits)

lemma good_method_delete: "good_method (data_delete T)"
  by (auto simp: good_method_def data_delete_def data_base_defs act_defs task_state_defs
      data_le_def data_inv_def split: if_splits prod.splits res.splits task_state.splits sum.splits)

lemma good_method_wait: "good_method (data_wait T)"
  unfolding data_wait_def
  by (intro good_method_bind good_method_read good_method_set_exited)

lemma good_method_wait_timeout: "good_method (data_wait_timeout T t)"
proof -
  have "good_method (case res of Some r \<Rightarrow> act_bind (write_lock set_exited) (\<lambda>_. ret res) | None \<Rightarrow> ret res)"
    for res :: "exit_info option"
    by (cases res) (auto intro!: good_method_bind good_method_set_exited good_method_read)
  then show ?thesis
    unfolding data_wait_timeout_def by (intro good_method_bind good_method_read)
qed

lemmas good_methods [inv_intros] = good_method_start good_method_kill good_method_delete
  good_method_wait good_method_wait_timeout good_method_read

end
