(* ===== verification/Rust_Path.thy ===== *)
theory Rust_Path
  imports Rust_Std
begin

text \<open>
  Lexical operations of \<open>std::path\<close> on Unix paths: \<open>join\<close> (with its replacement by an
  absolute argument), \<open>components\<close> (repeated separators, trailing separators and inner
  \<open>.\<close> segments vanish, a leading \<open>.\<close> stays), \<open>file_name\<close>, \<open>file_stem\<close>,
  \<open>extension\<close> and \<open>starts_with\<close>.
\<close>

datatype component = RootDir | CurDir | ParentDir | Normal string

definition is_absolute :: "path \<Rightarrow> bool" where
  "is_absolute p \<longleftrightarrow> p \<noteq> [] \<and> hd p = CHR ''/''"

definition path_join :: "path \<Rightarrow> path \<Rightarrow> path" where
  "path_join base p =
     (if is_absolute p then p
      else if base \<noteq> [] \<and> last base \<noteq> CHR ''/'' then base @ ''/'' @ p
      else base @ p)"

definition body_component :: "string \<Rightarrow> component option" where
  "body_component seg =
     (if seg = [] \<or> seg = ''.'' then None
      else if seg = ''..'' then Some ParentDir
      else Some (Normal seg))"

definition components :: "path \<Rightarrow> component list" where
  "components p =
     (let segs = str_split (CHR ''/'') p;
          front = (if is_absolute p then [RootDir] else if hd segs = ''.'' then [CurDir] else [])
      in front @ List.map_filter body_component segs)"

definition file_name :: "path \<Rightarrow> string option" where
  "file_name p =
     (let cs = components p in
      if cs = [] then None else (case last cs of Normal s \<Rightarrow> Some s | _ \<Rightarrow> None))"

text \<open>\<open>rsplitn(2, '.')\<close> of a file name: the part before the last dot, if any, and the rest.\<close>

definition rsplit_file_at_dot :: "string \<Rightarrow> string option \<times> string option" where
  "rsplit_file_at_dot f =
     (if f = ''..'' then (Some f, None)
      else (case split_once (CHR ''.'') (rev f) of
              None \<Rightarrow> (None, Some f)
            | Some (after, before) \<Rightarrow>
                if before = [] then (Some f, None) else (Some (rev before), Some (rev after))))"

definition file_stem :: "path \<Rightarrow> string option" where
  "file_stem p =
     Option.bind (file_name p)
       (\<lambda>f. case rsplit_file_at_dot f of (before, after) \<Rightarrow>
              (case before of Some b \<Rightarrow> Some b | None \<Rightarrow> after))"

definition path_extension :: "path \<Rightarrow> string option" where
  "path_extension p =
     Option.bind (file_name p)
       (\<lambda>f. case rsplit_file_at_dot f of (before, after) \<Rightarrow>
              (case before of Some b \<Rightarrow> after | None \<Rightarrow> None))"

definition path_starts_with :: "path \<Rightarrow> path \<Rightarrow> bool" where
  "path_starts_with p base \<longleftrightarrow> take (length (components base)) (components p) = components base"

lemma path_join_absolute [simp]: "is_absolute p \<Longrightarrow> path_join base p = p"
  by (simp add: path_join_def)

lemma path_join_relative:
  "\<not> is_absolute p \<Longrightarrow> base \<noteq> [] \<Longrightarrow> last base \<noteq> CHR ''/'' \<Longrightarrow> path_join base p = base @ ''/'' @ p"
  by (simp add: path_join_def)

lemma is_absolute_join: "is_absolute base \<Longrightarrow> is_absolute (path_join base p)"
  by (auto simp: path_join_def is_absolute_def)

lemma str_split_append_sep: "str_split c (a @ c # b) = str_split c a @ str_split c b"
  by (induction a) (auto split: list.split)

lemma str_split_single: "c \<notin> set s \<Longrightarrow> str_split c s = [s]"
  by (induction s) auto

lemma body_component_Normal: "body_component seg = Some (Normal s) \<longleftrightarrow> s = seg \<and> seg \<noteq> [] \<and> seg \<noteq> ''.'' \<and> seg \<noteq> ''..''"
  by (auto simp: body_component_def)

lemma map_filter_append_last:
  assumes "f x = Some y"
  shows "List.map_filter f (xs @ [x]) = List.map_filter f xs @ [y]"
  using assms by (induction xs) (auto simp: List.map_filter_simps split: option.split)

text \<open>The file name of \<open>dir/f\<close> is \<open>f\<close>, for an ordinary file name.\<close>

lemma file_name_join:
  assumes "CHR ''/'' \<notin> set f" and "f \<noteq> []" and "f \<noteq> ''.''" and "f \<noteq> ''..''"
  shows "file_name (dir @ CHR ''/'' # f) = Some f"
proof -
  have segs: "str_split (CHR ''/'') (dir @ CHR ''/'' # f) = str_split (CHR ''/'') dir @ [f]"
    using assms(1) by (simp add: str_split_append_sep str_split_single)
  have f: "body_component f = Some (Normal f)"
    using assms by (simp add: body_component_def)
  show ?thesis
    by (simp add: file_name_def components_def Let_def segs map_filter_append_last [of body_component, OF f])
qed

lemma file_name_single:
  assumes "CHR ''/'' \<notin> set f" and "f \<noteq> []" and "f \<noteq> ''.''" and "f \<noteq> ''..''"
  shows "file_name f = Some f"
proof -
  have "\<not> is_absolute f"
    using assms(1,2) by (cases f) (auto simp: is_absolute_def)
  then show ?thesis
    using assms
    by (simp add: file_name_def components_def Let_def str_split_single body_component_def
        List.map_filter_simps)
qed

text \<open>Stem and extension split an ordinary file name at its last dot.\<close>

lemma rsplit_file_at_dot_ext:
  assumes "CHR ''.'' \<notin> set e" and "s \<noteq> []" and "s @ ''.'' @ e \<noteq> ''..''"
  shows "rsplit_file_at_dot (s @ ''.'' @ e) = (Some s, Some e)"
proof -
  have "split_once (CHR ''.'') (rev (s @ ''.'' @ e)) = Some (rev e, rev s)"
    using assms(1) by (subst split_once_Some_iff) simp
  then show ?thesis
    using assms(2,3) by (simp add: rsplit_file_at_dot_def)
qed


text \<open>
  \<open>with_extension\<close>: the path is cut after the stem of its file name, which drops the old extension
  and what follows the file name (separators and \<open>.\<close> segments); a path without a file name stays.
\<close>

fun trim_tail :: "string \<Rightarrow> string" where
  "trim_tail [] = []"
| "trim_tail (c # s) =
     (if c = CHR ''/'' \<or> (c = CHR ''.'' \<and> s \<noteq> [] \<and> hd s = CHR ''/'') then trim_tail s else c # s)"

definition with_extension :: "string \<Rightarrow> path \<Rightarrow> path" where
  "with_extension ext p =
     (case (file_name p, file_stem p) of
        (Some f, Some stem) \<Rightarrow>
          (let q = rev (trim_tail (rev p))
           in take (length q - length f) q @ stem @ (if ext = [] then [] else CHR ''.'' # ext))
      | _ \<Rightarrow> p)"


lemma str_split_no_sep: "seg \<in> set (str_split c s) \<Longrightarrow> c \<notin> set seg"
proof (induction s arbitrary: seg)
  case Nil
  then show ?case by simp
next
  case (Cons x xs)
  then show ?case by (auto split: if_splits list.splits)
qed

lemma map_filter_memE:
  assumes "y \<in> set (List.map_filter f xs)"
  obtains x where "x \<in> set xs" and "f x = Some y"
  using assms by (auto simp: List.map_filter_def)

text \<open>A file name is one ordinary segment.\<close>

lemma file_name_Some:
  assumes "file_name p = Some f"
  shows "CHR ''/'' \<notin> set f" and "f \<noteq> []" and "f \<noteq> ''.''" and "f \<noteq> ''..''"
proof -
  have "components p \<noteq> []" and "last (components p) = Normal f"
    using assms by (auto simp: file_name_def Let_def split: if_splits component.splits)
  then have "Normal f \<in> set (components p)"
    using last_in_set [of "components p"] by simp
  then have "Normal f \<in> set (List.map_filter body_component (str_split (CHR ''/'') p))"
    by (auto simp: components_def Let_def split: if_splits)
  then obtain seg where "seg \<in> set (str_split (CHR ''/'') p)" and "body_component seg = Some (Normal f)"
    by (rule map_filter_memE)
  then show "CHR ''/'' \<notin> set f" and "f \<noteq> []" and "f \<noteq> ''.''" and "f \<noteq> ''..''"
    by (auto simp: body_component_Normal dest: str_split_no_sep)
qed

lemma not_absolute_file_name:
  assumes "file_name p = Some f"
  shows "\<not> is_absolute f"
  using file_name_Some(1,2) [OF assms] by (cases f) (auto simp: is_absolute_def)

lemma trim_tail_file_name:
  assumes "CHR ''/'' \<notin> set f" and "f \<noteq> []" and "f \<noteq> ''.''"
  shows "trim_tail (rev f @ r) = rev f @ r"
proof (cases f rule: rev_cases)
  case (snoc g c)
  have "CHR ''/'' \<noteq> hd (rev g @ r)" if "g \<noteq> []"
    using that assms(1) snoc hd_in_set [of "rev g"] by (auto simp: hd_append)
  then show ?thesis using snoc assms by auto
qed (use assms in simp)

text \<open>Replacing the extension of a file in a directory.\<close>

lemma with_extension_join:
  assumes "file_name p = Some f" and "file_stem p = Some stem" and "ext \<noteq> []"
  shows "with_extension ext (dir @ CHR ''/'' # f) = dir @ CHR ''/'' # stem @ CHR ''.'' # ext"
proof -
  note f = file_name_Some [OF assms(1)]
  have name: "file_name (dir @ CHR ''/'' # f) = Some f" using f by (rule file_name_join)
  have "file_stem (dir @ CHR ''/'' # f) = Some stem"
    using assms(1,2) name by (simp add: file_stem_def)
  moreover have "rev (trim_tail (rev (dir @ CHR ''/'' # f))) = dir @ CHR ''/'' # f"
    using trim_tail_file_name [OF f(1,2,3), of "CHR ''/'' # rev dir"] by simp
  ultimately show ?thesis using name assms(3) by (simp add: with_extension_def Let_def)
qed

end
