(* ===== verification/Oci.thy ===== *)
theory Oci
  imports Errors Rust_Path
begin

text \<open>
  \<open>sandbox/oci.rs\<close>: the environment parser and the prestart hooks, with the OCI data the rest
  of the shim reads. The runtime specification, the image descriptor and the platform are types
  of the \<open>oci_spec\<close> crate; the records hold the fields the source reads. Starting, feeding,
  killing and reaping a hook process are operations of the operating system, passed in
  \<open>hook_os\<close>; a process is named by a number.
\<close>

section \<open>OCI data\<close>

record oci_process =
  proc_args :: "string list option"
  proc_env :: "string list option"

record oci_hook =
  hook_path :: path
  hook_args :: "string list option"
  hook_env :: "string list option"

record oci_hooks =
  hooks_prestart :: "oci_hook list option"

record oci_spec =
  spec_root :: "path option"
  spec_process :: "oci_process option"
  spec_hooks :: "oci_hooks option"
  spec_annotations :: "(string \<rightharpoonup> string) option"

record descriptor =
  desc_media_type :: string
  desc_size :: nat
  desc_digest :: string

record wasm_layer =
  wl_config :: descriptor
  wl_layer :: bytes

datatype arch = ArchWasm | ArchOther string

record oci_platform =
  platform_os :: string
  platform_architecture :: arch

section \<open>parse\_env\<close>

text \<open>
  Each entry gives its part before the first \<open>=\<close> and the other parts joined again; collecting
  into a \<open>HashMap\<close> keeps the last value of a key.
\<close>

definition parse_env_entry :: "string \<Rightarrow> (string \<times> string) option" where
  "parse_env_entry e =
     (case str_split (CHR ''='') e of
        [] \<Rightarrow> None
      | key # rest \<Rightarrow> Some (key, str_join ''='' rest))"

definition parse_env :: "string list \<Rightarrow> (string \<rightharpoonup> string)" where
  "parse_env envs = map_of (rev (List.map_filter parse_env_entry envs))"

text \<open>\<open>split_once\<close> with an empty value for a missing \<open>=\<close>: how the engines read the same entries.\<close>

definition split_env :: "string \<Rightarrow> string \<times> string" where
  "split_env e = (case split_once (CHR ''='') e of None \<Rightarrow> (e, []) | Some kv \<Rightarrow> kv)"

lemma parse_env_entry_eq: "parse_env_entry e = Some (split_env e)"
proof (cases "split_once (CHR ''='') e")
  case None
  then show ?thesis
    by (simp add: parse_env_entry_def split_env_def str_split_hd_tl [of _ e])
next
  case (Some kv)
  then show ?thesis
    by (cases kv) (simp add: parse_env_entry_def split_env_def str_split_hd_tl [of _ e] str_join_split)
qed

lemma parse_env_eq: "parse_env envs = map_of (rev (map split_env envs))"
proof -
  have "List.map_filter parse_env_entry envs = map split_env envs"
    by (induction envs) (simp_all add: List.map_filter_simps parse_env_entry_eq)
  then show ?thesis by (simp add: parse_env_def)
qed

section \<open>Prestart hooks\<close>

record hook_command =
  hc_program :: path
  hc_arg0 :: string
  hc_args :: "string list"
  hc_env :: "string \<rightharpoonup> string"

record 'w hook_os =
  hook_spawn :: "hook_command \<Rightarrow> ('w, io_error, nat) act"
  hook_write_stdin :: "nat \<Rightarrow> string \<Rightarrow> ('w, io_error, unit) act"
  hook_kill :: "nat \<Rightarrow> ('w, io_error, unit) act"
  hook_wait :: "nat \<Rightarrow> ('w, io_error, int) act"

definition hook_command_of :: "oci_hook \<Rightarrow> hook_command" where
  "hook_command_of hook =
     (let envs = (case hook_env hook of Some env \<Rightarrow> parse_env env | None \<Rightarrow> Map.empty)
      in case hook_args hook of
           Some (arg0 # args) \<Rightarrow>
             \<lparr>hc_program = hook_path hook, hc_arg0 = arg0, hc_args = args, hc_env = envs\<rparr>
         | _ \<Rightarrow>
             \<lparr>hc_program = hook_path hook, hc_arg0 = hook_path hook, hc_args = [], hc_env = envs\<rparr>)"

text \<open>The state document is \<open>{ "pid": <pid> }\<close>; a double quote is \<open>CHR 0x22\<close>.\<close>

definition hook_state_json :: "u32 \<Rightarrow> string" where
  "hook_state_json pid =
     ''{ '' @ [CHR 0x22] @ ''pid'' @ [CHR 0x22] @ '': '' @ show_nat (unat pid) @ '' }''"

definition run_hook :: "'w hook_os \<Rightarrow> u32 \<Rightarrow> oci_hook \<Rightarrow> ('w, error, unit) act" where
  "run_hook os pid hook =
     act_bind (act_map_err (\<lambda>_. Any ''Failed to execute hook'') (hook_spawn os (hook_command_of hook))) (\<lambda>child.
     act_bind (attempt (hook_write_stdin os child (hook_state_json pid))) (\<lambda>r.
     act_bind (case r of
         Inl e \<Rightarrow> if io_kind e \<noteq> IoBrokenPipe then ignore_result (hook_kill os child) else ret ()
       | Inr _ \<Rightarrow> ret ()) (\<lambda>_.
     act_bind (act_map_err (\<lambda>e. Stdio (io_text e)) (hook_wait os child)) (\<lambda>_.
     ret ()))))"

definition setup_prestart_hooks ::
  "'w hook_os \<Rightarrow> u32 \<Rightarrow> oci_hooks option \<Rightarrow> ('w, error, unit) act" where
  "setup_prestart_hooks os pid hooks =
     (case hooks of
        None \<Rightarrow> ret ()
      | Some hs \<Rightarrow>
          act_bind (lift_res (unwrap_option (hooks_prestart hs))) (\<lambda>prestart_hooks.
          for_each (run_hook os pid) prestart_hooks))"

lemma setup_prestart_hooks_None [simp]: "setup_prestart_hooks os pid None = ret ()"
  by (simp add: setup_prestart_hooks_def)

lemma setup_prestart_hooks_no_prestart:
  "hooks_prestart hs = None \<Longrightarrow> \<exists>m. setup_prestart_hooks os pid (Some hs) w = (Panic m, w)"
  by (simp add: setup_prestart_hooks_def act_defs)

lemma setup_prestart_hooks_Some:
  "hooks_prestart hs = Some l \<Longrightarrow> setup_prestart_hooks os pid (Some hs) = for_each (run_hook os pid) l"
  by (simp add: setup_prestart_hooks_def lift_res_def act_bind_def)

text \<open>A hook that can be started and reaped counts as run, whatever its exit status is.\<close>

lemma run_hook_ok:
  assumes "hook_spawn os (hook_command_of hook) w = (Ok child, w1)"
    and "hook_write_stdin os child (hook_state_json pid) w1 = (Ok (), w2)"
    and "hook_wait os child w2 = (Ok status, w3)"
  shows "run_hook os pid hook w = (Ok (), w3)"
  using assms by (simp add: run_hook_def act_defs)

end
