(* ===== verification/Local.thy ===== *)
theory Local
  imports Instances Oci "HOL-Library.AList"
begin

text \<open>
  \<open>sandbox/shim/local.rs\<close>: the task service. \<open>Local\<close> keeps a map from container ids to
  reference-counted \<open>InstanceData\<close> and serves the Task API on it.

  The state of the service is one record. \<open>arcs\<close> is the heap of the \<open>Arc<InstanceData>\<close>
  allocations and \<open>registry\<close>, the field \<open>instances\<close> of the source, the association list of its
  hash map, which \<open>instances\<close> reads as a map from ids to allocations: a waiter thread started by
  \<open>task_start\<close> holds its \<open>Arc\<close> on its own, and keeps it when the id is deleted from the map.
  \<open>wait_threads\<close> are the waiter threads that have not finished. \<open>events\<close> is the sequence of
  events handed to the event sender, \<open>exit_signal\<close> the state of the \<open>ExitSignal\<close>, \<open>world\<close>
  everything outside the shim's own data. The field \<open>engine\<close> is stored and never read by the
  service.

  The operating system, the \<open>oci_spec\<close> loader and the mount and metrics helpers of
  \<open>containerd_shim\<close> are passed in \<open>shim_os\<close>. Debug logging and tracing spans are left out.
\<close>

section \<open>State and requests\<close>

record ('i, 'w) shim =
  registry :: "(string \<times> nat) list"
  arcs :: "nat \<rightharpoonup> 'i instance_data"
  next_arc :: nat
  wait_threads :: "(nat \<times> string \<times> u32) list"
  events :: "event list"
  exit_signal :: bool
  sh_namespace :: string
  sh_containerd_address :: string
  world :: 'w

type_synonym ('i, 'w, 'a) shim_act = "(('i, 'w) shim, error, 'a) act"

record 'w shim_os =
  os_spec_load :: "path \<Rightarrow> ('w, string, oci_spec) act"
  os_canonicalize_rootfs :: "path \<Rightarrow> oci_spec \<Rightarrow> ('w, string, oci_spec) act"
  os_create_dir_all :: "path \<Rightarrow> ('w, string, unit) act"
  os_mount_rootfs :: "string option \<Rightarrow> string option \<Rightarrow> string list \<Rightarrow> path \<Rightarrow> ('w, shim_error, unit) act"
  os_hooks :: "'w hook_os"
  os_process_id :: u32
  os_spawn_thread :: "string \<Rightarrow> ('w, string, unit) act"
  os_collect_metrics :: "u32 \<Rightarrow> ('w, string, string) act"
  os_convert_to_any :: "string \<Rightarrow> (string, string) res"

record create_request =
  cr_id :: string
  cr_bundle :: path
  cr_rootfs :: "mount list"
  cr_terminal :: bool
  cr_stdin :: string
  cr_stdout :: string
  cr_stderr :: string
  cr_checkpoint :: string
  cr_parent_checkpoint :: string

text \<open>The other requests are an id, an exec id and, for \<open>kill\<close>, a signal.\<close>

record task_request =
  rq_id :: string
  rq_exec_id :: string

record kill_request = task_request +
  rq_signal :: u32

datatype status = CREATED | RUNNING | STOPPED

record delete_response =
  dr_pid :: u32
  dr_exit_status :: u32
  dr_exited_at :: "timestamp option"

record wait_response =
  wr_exit_status :: u32
  wr_exited_at :: "timestamp option"

record state_response =
  sr_bundle :: string
  sr_stdin :: string
  sr_stdout :: string
  sr_stderr :: string
  sr_pid :: u32
  sr_exit_status :: u32
  sr_exited_at :: "timestamp option"
  sr_status :: status

section \<open>Access to the parts of the state\<close>

definition local_new :: "string \<Rightarrow> string \<Rightarrow> 'w \<Rightarrow> ('i, 'w) shim" where
  "local_new namespace containerd_address w =
     \<lparr>registry = [], arcs = Map.empty, next_arc = 0, wait_threads = [], events = [],
      exit_signal = False, sh_namespace = namespace, sh_containerd_address = containerd_address,
      world = w\<rparr>"

definition instances :: "('i, 'w) shim \<Rightarrow> string \<rightharpoonup> nat" where
  "instances s = map_of (registry s)"

lemma instances_simps [simp]:
  "instances (s\<lparr>arcs := x1\<rparr>) = instances s" "instances (s\<lparr>next_arc := x2\<rparr>) = instances s"
  "instances (s\<lparr>wait_threads := x3\<rparr>) = instances s" "instances (s\<lparr>events := x4\<rparr>) = instances s"
  "instances (s\<lparr>exit_signal := x5\<rparr>) = instances s" "instances (s\<lparr>world := x6\<rparr>) = instances s"
  "instances (s\<lparr>registry := r\<rparr>) = map_of r"
  "map_of (AList.update c a (registry s)) = (instances s)(c \<mapsto> a)"
  "map_of (AList.delete c (registry s)) = (instances s)(c := None)"
  by (simp_all add: instances_def AList.update_conv' AList.delete_conv')

definition in_world :: "('w, 'e, 'a) act \<Rightarrow> (('i, 'w) shim, 'e, 'a) act" where
  "in_world m = (\<lambda>s. case m (world s) of (r, w) \<Rightarrow> (r, s\<lparr>world := w\<rparr>))"

text \<open>A method call through an \<open>Arc\<close>. An \<open>Arc\<close> never dangles; the invariant below says so.\<close>

definition in_data :: "nat \<Rightarrow> ('i, 'w, 'a) data_act \<Rightarrow> ('i, 'w, 'a) shim_act" where
  "in_data a m = (\<lambda>s. case arcs s a of
      None \<Rightarrow> (Panic ''dangling Arc'', s)
    | Some d \<Rightarrow> (case m (d, world s) of
        (r, (d', w)) \<Rightarrow> (r, s\<lparr>arcs := (arcs s)(a \<mapsto> d'), world := w\<rparr>)))"

definition read_shim :: "(('i, 'w) shim \<Rightarrow> 'a) \<Rightarrow> (('i, 'w) shim, 'e, 'a) act" where
  "read_shim f = (\<lambda>s. (Ok (f s), s))"

definition send_event :: "event \<Rightarrow> (('i, 'w) shim, 'e, unit) act" where
  "send_event e = (\<lambda>s. (Ok (), s\<lparr>events := events s @ [e]\<rparr>))"

definition get_instance :: "string \<Rightarrow> ('i, 'w, nat) shim_act" where
  "get_instance cid = (\<lambda>s. (ok_or (NotFound cid) (instances s cid), s))"

definition has_instance :: "string \<Rightarrow> ('i, 'w) shim \<Rightarrow> bool" where
  "has_instance cid s \<longleftrightarrow> instances s cid \<noteq> None"

text \<open>\<open>HashMap::is_empty\<close>: no id is a key.\<close>

definition shim_is_empty :: "('i, 'w) shim \<Rightarrow> bool" where
  "shim_is_empty s \<longleftrightarrow> registry s = []"

definition instance_config :: "('i, 'w) shim \<Rightarrow> instance_config" where
  "instance_config s = instance_config_new (sh_namespace s) (sh_containerd_address s)"

definition insert_instance :: "string \<Rightarrow> 'i instance_data \<Rightarrow> ('i, 'w, unit) shim_act" where
  "insert_instance cid d = (\<lambda>s.
     (Ok (), s\<lparr>registry := AList.update cid (next_arc s) (registry s),
               arcs := (arcs s)(next_arc s \<mapsto> d),
               next_arc := Suc (next_arc s)\<rparr>))"

definition remove_instance :: "string \<Rightarrow> ('i, 'w, unit) shim_act" where
  "remove_instance cid = (\<lambda>s. (Ok (), s\<lparr>registry := AList.delete cid (registry s)\<rparr>))"

text \<open>\<open>InstanceData::new\<close>, then the insertion of what it returns.\<close>

definition register_instance ::
  "('i, 'w) instance_impl \<Rightarrow> string \<Rightarrow> instance_config \<Rightarrow> ('i, 'w, unit) shim_act" where
  "register_instance T cid cfg =
     act_bind (in_world (data_new T cid cfg)) (\<lambda>inst. insert_instance cid inst)"

definition none_if_empty :: "string \<Rightarrow> string option" where
  "none_if_empty x = (if x = [] then None else Some x)"

section \<open>The task operations\<close>

definition mount_all :: "'w shim_os \<Rightarrow> path \<Rightarrow> mount list \<Rightarrow> ('i, 'w, unit) shim_act" where
  "mount_all os rootfs ms = for_each (\<lambda>m.
     act_map_err Shim (in_world (os_mount_rootfs os
       (none_if_empty (mount_type m)) (none_if_empty (mount_source m)) (mount_options m) rootfs))) ms"

definition task_create ::
  "'w shim_os \<Rightarrow> ('i, 'w) instance_impl \<Rightarrow> create_request \<Rightarrow> ('i, 'w, u32) shim_act" where
  "task_create os T req =
     (if cr_checkpoint req \<noteq> [] \<or> cr_parent_checkpoint req \<noteq> []
     then throw (Shim (ShimUnimplemented ''checkpoint is not supported''))
     else if cr_terminal req then throw (InvalidArgument ''terminal is not supported'')
     else
     act_bind (read_shim (has_instance (cr_id req))) (\<lambda>exists.
     if exists then throw (AlreadyExists (cr_id req))
     else
     act_bind (act_map_err (\<lambda>err. InvalidArgument (''could not load runtime spec: '' @ err))
         (in_world (os_spec_load os (path_join (cr_bundle req) ''config.json'')))) (\<lambda>spec0.
     act_bind (act_map_err (\<lambda>err. Shim (ShimInvalidArgument (''could not canonicalize rootfs: '' @ err)))
         (in_world (os_canonicalize_rootfs os (cr_bundle req) spec0))) (\<lambda>spec.
     act_bind (lift_res (ok_or (InvalidArgument ''rootfs is not set in runtime spec'') (spec_root spec))) (\<lambda>rootfs.
     act_bind (ignore_result (in_world (os_create_dir_all os rootfs))) (\<lambda>_.
     act_bind (mount_all os rootfs (cr_rootfs req)) (\<lambda>_.
     act_bind (read_shim instance_config) (\<lambda>cfg.
     act_bind (register_instance T (cr_id req)
         (set_stderr (cr_stderr req) (set_stdout (cr_stdout req) (set_stdin (cr_stdin req)
           (set_bundle (cr_bundle req) cfg))))) (\<lambda>_.
     act_bind (send_event (TaskCreate (cr_id req) (cr_bundle req) (cr_rootfs req)
         \<lparr>io_stdin = cr_stdin req, io_stdout = cr_stdout req, io_stderr = cr_stderr req\<rparr>)) (\<lambda>_.
     act_bind (in_world (setup_prestart_hooks (os_hooks os) (os_process_id os) (spec_hooks spec))) (\<lambda>_.
     ret (os_process_id os))))))))))))"

text \<open>The closure \<open>task_start\<close> hands to the waiter thread.\<close>

definition wait_thread_body ::
  "('i, 'w) instance_impl \<Rightarrow> nat \<times> string \<times> u32 \<Rightarrow> ('i, 'w, unit) shim_act" where
  "wait_thread_body T = (\<lambda>(a, cid, pid).
     act_bind (in_data a (data_wait T)) (\<lambda>(exit_code, timestamp).
     send_event (TaskExit cid cid pid exit_code (Some (to_timestamp timestamp)))))"

definition spawn_wait_thread ::
  "'w shim_os \<Rightarrow> nat \<times> string \<times> u32 \<Rightarrow> ('i, 'w, unit) shim_act" where
  "spawn_wait_thread os th =
     act_bind (act_map_err (\<lambda>_. Any ''could not spawn thread to wait exit'')
         (in_world (os_spawn_thread os (fst (snd th) @ ''-wait'')))) (\<lambda>_.
     (\<lambda>s. (Ok (), s\<lparr>wait_threads := wait_threads s @ [th]\<rparr>)))"

definition task_start ::
  "'w shim_os \<Rightarrow> ('i, 'w) instance_impl \<Rightarrow> task_request \<Rightarrow> ('i, 'w, u32) shim_act" where
  "task_start os T req =
     (if rq_exec_id req \<noteq> [] then throw (Shim (ShimUnimplemented ''exec is not supported''))
      else
      act_bind (get_instance (rq_id req)) (\<lambda>i.
      act_bind (in_data i (data_start T)) (\<lambda>pid.
      act_bind (send_event (TaskStart (rq_id req) pid)) (\<lambda>_.
      act_bind (spawn_wait_thread os (i, rq_id req, pid)) (\<lambda>_.
      ret pid)))))"

definition task_kill :: "('i, 'w) instance_impl \<Rightarrow> kill_request \<Rightarrow> ('i, 'w, unit) shim_act" where
  "task_kill T req =
     (if rq_exec_id req \<noteq> [] then throw (InvalidArgument ''exec is not supported'')
      else
      act_bind (get_instance (rq_id req)) (\<lambda>i.
      act_bind (in_data i (data_kill T (rq_signal req))) (\<lambda>_.
      ret ())))"

text \<open>\<open>Option::unzip\<close> and the conversion of the time, as \<open>task_delete\<close> and \<open>task_state\<close> do.\<close>

definition exit_code_of :: "exit_info option \<Rightarrow> u32 option" where
  "exit_code_of x = map_option fst x"

definition exit_time_of :: "exit_info option \<Rightarrow> timestamp option" where
  "exit_time_of x = map_option (\<lambda>(_, t). to_timestamp t) x"

definition task_delete ::
  "('i, 'w) instance_impl \<Rightarrow> task_request \<Rightarrow> ('i, 'w, delete_response) shim_act" where
  "task_delete T req =
     (if rq_exec_id req \<noteq> [] then throw (InvalidArgument ''exec is not supported'')
      else
      act_bind (get_instance (rq_id req)) (\<lambda>i.
      act_bind (in_data i (data_delete T)) (\<lambda>_.
      act_bind (in_data i data_pid) (\<lambda>p.
      (let pid = unwrap_or 0 p in
      act_bind (in_data i (data_wait_timeout T (Some DurationZero))) (\<lambda>x.
      act_bind (remove_instance (rq_id req)) (\<lambda>_.
      act_bind (send_event (TaskDelete (rq_id req) pid (unwrap_or 0 (exit_code_of x)) (exit_time_of x))) (\<lambda>_.
      ret \<lparr>dr_pid = pid, dr_exit_status = unwrap_or 0 (exit_code_of x),
           dr_exited_at = exit_time_of x\<rparr>))))))))"

definition task_wait ::
  "('i, 'w) instance_impl \<Rightarrow> task_request \<Rightarrow> ('i, 'w, wait_response) shim_act" where
  "task_wait T req =
     (if rq_exec_id req \<noteq> [] then throw (InvalidArgument ''exec is not supported'')
      else
      act_bind (get_instance (rq_id req)) (\<lambda>i.
      act_bind (in_data i (data_wait T)) (\<lambda>(exit_code, timestamp).
      ret \<lparr>wr_exit_status = exit_code, wr_exited_at = Some (to_timestamp timestamp)\<rparr>)))"

definition status_of :: "u32 option \<Rightarrow> u32 option \<Rightarrow> status" where
  "status_of pid exit_code =
     (if pid = None then CREATED else if exit_code = None then RUNNING else STOPPED)"

definition task_state ::
  "('i, 'w) instance_impl \<Rightarrow> task_request \<Rightarrow> ('i, 'w, state_response) shim_act" where
  "task_state T req =
     (if rq_exec_id req \<noteq> [] then throw (InvalidArgument ''exec is not supported'')
      else
      act_bind (get_instance (rq_id req)) (\<lambda>i.
      act_bind (in_data i data_pid) (\<lambda>pid.
      act_bind (in_data i (data_wait_timeout T (Some DurationZero))) (\<lambda>x.
      act_bind (in_data i data_config) (\<lambda>cfg.
      ret \<lparr>sr_bundle = cfg_bundle cfg, sr_stdin = cfg_stdin cfg, sr_stdout = cfg_stdout cfg,
           sr_stderr = cfg_stderr cfg, sr_pid = unwrap_or 0 pid,
           sr_exit_status = unwrap_or 0 (exit_code_of x), sr_exited_at = exit_time_of x,
           sr_status = status_of pid (exit_code_of x)\<rparr>)))))"

text \<open>\<open>sys/unix/metrics.rs\<close>.\<close>

definition get_metrics :: "'w shim_os \<Rightarrow> u32 \<Rightarrow> ('w, string, string) act" where
  "get_metrics os pid =
     act_bind (os_collect_metrics os pid) (\<lambda>metrics. lift_res (os_convert_to_any os metrics))"

definition task_stats ::
  "'w shim_os \<Rightarrow> task_request \<Rightarrow> ('i, 'w, string) shim_act" where
  "task_stats os req =
     act_bind (get_instance (rq_id req)) (\<lambda>i.
     act_bind (in_data i data_pid) (\<lambda>p.
     act_bind (lift_res (ok_or (InvalidArgument ''task is not running'') p)) (\<lambda>pid.
     act_map_err Any (in_world (get_metrics os pid)))))"

section \<open>The ttrpc service\<close>

text \<open>
  \<open>impl Task for Local\<close>: each method runs the task operation of the same name and converts the
  error. \<open>connect\<close> and \<open>shutdown\<close> have no counterpart among the operations above.
\<close>

definition svc_create where
  "svc_create sd os T req = act_map_err (to_ttrpc sd) (task_create os T req)"

definition svc_start where
  "svc_start sd os T req = act_map_err (to_ttrpc sd) (task_start os T req)"

definition svc_kill where
  "svc_kill sd T req = act_map_err (to_ttrpc sd) (task_kill T req)"

definition svc_delete where
  "svc_delete sd T req = act_map_err (to_ttrpc sd) (task_delete T req)"

definition svc_wait where
  "svc_wait sd T req = act_map_err (to_ttrpc sd) (task_wait T req)"

definition svc_state where
  "svc_state sd T req = act_map_err (to_ttrpc sd) (task_state T req)"

definition svc_stats where
  "svc_stats sd os req = act_map_err (to_ttrpc sd) (task_stats os req)"

text \<open>The response of \<open>connect\<close> is the pair of the shim's pid and the task's pid.\<close>

definition svc_connect ::
  "(shim_error \<Rightarrow> string) \<Rightarrow> 'w shim_os \<Rightarrow> task_request \<Rightarrow> (('i, 'w) shim, ttrpc_error, u32 \<times> u32) act" where
  "svc_connect sd os req = act_map_err (to_ttrpc sd) (
     act_bind (get_instance (rq_id req)) (\<lambda>i.
     act_bind (in_data i data_pid) (\<lambda>p.
     ret (os_process_id os, unwrap_or 0 p))))"

definition svc_shutdown :: "(('i, 'w) shim, ttrpc_error, unit) act" where
  "svc_shutdown = (\<lambda>s. (Ok (), if shim_is_empty s then s\<lparr>exit_signal := True\<rparr> else s))"

lemmas local_base_defs = in_world_def in_data_def send_event_def get_instance_def insert_instance_def
  remove_instance_def has_instance_def read_shim_def register_instance_def
lemmas service_defs = svc_create_def svc_start_def svc_kill_def svc_delete_def svc_wait_def
  svc_state_def svc_stats_def svc_connect_def svc_shutdown_def

end
