(* ===== verification/Local_Inv.thy ===== *)
theory Local_Inv
  imports Local
begin

text \<open>
  The invariant of the task service and the runs it holds in.

  A run interleaves requests, completions of waiter threads and steps of the outside world (a
  container exits, a file appears). A request or a waiter is one step; one that blocks has not
  stepped. \<open>shim_inv\<close> speaks of the heap of tasks, of the waiters and of the events sent so
  far.
\<close>

section \<open>The invariant\<close>

definition starts_of :: "string \<Rightarrow> u32 \<Rightarrow> event list \<Rightarrow> nat" where
  "starts_of cid pid evs = length (filter (\<lambda>e. e = TaskStart cid pid) evs)"

definition exits_of :: "string \<Rightarrow> u32 \<Rightarrow> event list \<Rightarrow> nat" where
  "exits_of cid pid evs = length (filter (\<lambda>e. \<exists>c t. e = TaskExit cid cid pid c t) evs)"

definition waiters_of :: "string \<Rightarrow> u32 \<Rightarrow> (nat \<times> string \<times> u32) list \<Rightarrow> nat" where
  "waiters_of cid pid ths = length (filter (\<lambda>th. snd th = (cid, pid)) ths)"

lemma starts_of_append [simp]: "starts_of c p (xs @ ys) = starts_of c p xs + starts_of c p ys"
  by (simp add: starts_of_def)

lemma exits_of_append [simp]: "exits_of c p (xs @ ys) = exits_of c p xs + exits_of c p ys"
  by (simp add: exits_of_def)

lemma waiters_of_append [simp]: "waiters_of c p (xs @ ys) = waiters_of c p xs + waiters_of c p ys"
  by (simp add: waiters_of_def)

lemma waiters_of_remove1:
  "th \<in> set ths \<Longrightarrow>
   waiters_of c p ths = waiters_of c p (remove1 th ths) + (if snd th = (c, p) then 1 else 0)"
  by (induction ths) (auto simp: waiters_of_def)

text \<open>The tasks: every allocation below \<open>next_arc\<close> and well formed, every id on an allocation of its own.\<close>

definition heap_inv :: "('i, 'w) shim \<Rightarrow> bool" where
  "heap_inv s \<longleftrightarrow>
     (\<forall>a d. arcs s a = Some d \<longrightarrow> a < next_arc s \<and> data_inv d) \<and>
     (\<forall>c a. instances s c = Some a \<longrightarrow> arcs s a \<noteq> None) \<and>
     (\<forall>c c' a. instances s c = Some a \<longrightarrow> instances s c' = Some a \<longrightarrow> c = c')"

text \<open>The waiters: at most one per task, on a task that was started with the pid it reports.\<close>

definition waiters_inv :: "('i, 'w) shim \<Rightarrow> bool" where
  "waiters_inv s \<longleftrightarrow>
     distinct (map fst (wait_threads s)) \<and>
     (\<forall>a c p. (a, c, p) \<in> set (wait_threads s) \<longrightarrow>
        (\<exists>d. arcs s a = Some d \<and> id_pid d = Some p \<and> id_state d \<noteq> Created))"

text \<open>The events: each exit event, sent or still owed by a waiter, answers a start event of its own.\<close>

definition events_inv :: "('i, 'w) shim \<Rightarrow> bool" where
  "events_inv s \<longleftrightarrow>
     (\<forall>c p. exits_of c p (events s) + waiters_of c p (wait_threads s) \<le> starts_of c p (events s))"

definition shim_inv :: "('i, 'w) shim \<Rightarrow> bool" where
  "shim_inv s \<longleftrightarrow> heap_inv s \<and> waiters_inv s \<and> events_inv s"

lemmas shim_inv_defs = heap_inv_def waiters_inv_def events_inv_def

lemma shim_inv_new: "shim_inv (local_new ns addr w)"
  by (simp add: shim_inv_def shim_inv_defs local_new_def instances_def exits_of_def waiters_of_def)

lemma shim_inv_world [simp]: "shim_inv (s\<lparr>world := w\<rparr>) = shim_inv s"
  by (simp add: shim_inv_def shim_inv_defs)

lemma shim_inv_exit [simp]: "shim_inv (s\<lparr>exit_signal := b\<rparr>) = shim_inv s"
  by (simp add: shim_inv_def shim_inv_defs)

lemma shim_inv_arcD: "shim_inv s \<Longrightarrow> arcs s a = Some d \<Longrightarrow> a < next_arc s \<and> data_inv d"
  by (simp add: shim_inv_def heap_inv_def)

lemma shim_inv_instanceD: "shim_inv s \<Longrightarrow> instances s c = Some a \<Longrightarrow> \<exists>d. arcs s a = Some d"
  by (auto simp: shim_inv_def heap_inv_def)

lemma shim_inv_injD: "shim_inv s \<Longrightarrow> instances s c = Some a \<Longrightarrow> instances s c' = Some a \<Longrightarrow> c = c'"
  by (auto simp: shim_inv_def heap_inv_def)

lemma shim_inv_waiterD:
  "shim_inv s \<Longrightarrow> (a, c, p) \<in> set (wait_threads s) \<Longrightarrow>
   \<exists>d. arcs s a = Some d \<and> id_pid d = Some p \<and> id_state d \<noteq> Created"
  by (auto simp: shim_inv_def waiters_inv_def)

lemma shim_inv_eventsD:
  "shim_inv s \<Longrightarrow>
   exits_of c p (events s) + waiters_of c p (wait_threads s) \<le> starts_of c p (events s)"
  by (auto simp: shim_inv_def events_inv_def)

section \<open>The primitives keep it\<close>

lemma keeps_in_world [inv_intros]: "keeps shim_inv (in_world m)"
  by (rule keepsI) (auto simp: in_world_def split: prod.splits)

lemma keeps_get_instance [inv_intros]: "keeps shim_inv (get_instance c)"
  by (rule keepsI) (auto simp: get_instance_def)

lemma keeps_read_shim [inv_intros]: "keeps shim_inv (read_shim f)"
  by (rule keepsI) (auto simp: read_shim_def)

lemma keeps_remove_instance [inv_intros]: "keeps shim_inv (remove_instance c)"
  by (rule keepsI)
    (auto simp: remove_instance_def shim_inv_def shim_inv_defs split: if_splits)

lemma keeps_insert_instance:
  assumes "data_inv d"
  shows "keeps shim_inv (insert_instance c d)"
proof (rule keepsI)
  fix s r t
  assume s: "shim_inv s" and eq: "insert_instance c d s = (r, t)"
  have fresh: "arcs s (next_arc s) = None"
    using shim_inv_arcD [OF s, of "next_arc s"] by (cases "arcs s (next_arc s)") auto
  have unused: "instances s c' \<noteq> Some (next_arc s)" for c'
    using shim_inv_instanceD [OF s, of c' "next_arc s"] fresh by auto
  have "(a, c', p) \<in> set (wait_threads s) \<Longrightarrow> a \<noteq> next_arc s" for a c' p
    using shim_inv_waiterD [OF s, of a c' p] fresh by auto
  then show "shim_inv t"
    using s eq assms unused
    by (fastforce simp: insert_instance_def shim_inv_def shim_inv_defs less_Suc_eq split: if_splits)
qed

text \<open>Updating one task by a method that only moves forward, from a state that is shown.\<close>

lemma shim_inv_update:
  assumes s: "shim_inv s" and a: "arcs s a = Some d"
    and le: "data_le d d'" and inv: "data_inv d'"
  shows "shim_inv (s\<lparr>arcs := (arcs s)(a \<mapsto> d'), world := w\<rparr>)"
proof -
  have heap: "heap_inv (s\<lparr>arcs := (arcs s)(a \<mapsto> d'), world := w\<rparr>)"
    using s a inv by (auto simp: shim_inv_def heap_inv_def)
  have "waiters_inv (s\<lparr>arcs := (arcs s)(a \<mapsto> d'), world := w\<rparr>)"
    using s a le unfolding shim_inv_def waiters_inv_def data_le_def by fastforce
  with heap s show ?thesis by (simp add: shim_inv_def events_inv_def)
qed

lemma in_data_cases:
  assumes "in_data a m s = (r, t)"
  obtains (dangling) "arcs s a = None" "r = Panic ''dangling Arc''" "t = s"
  | (call) d d' w where "arcs s a = Some d" "m (d, world s) = (r, (d', w))"
      "t = s\<lparr>arcs := (arcs s)(a \<mapsto> d'), world := w\<rparr>"
  using assms by (auto simp: in_data_def split: option.splits prod.splits)

lemma keeps_in_data [inv_intros]:
  assumes "good_method m"
  shows "keeps shim_inv (in_data a m)"
proof (rule keepsI)
  fix s r t
  assume s: "shim_inv s" and eq: "in_data a m s = (r, t)" and r: "r \<noteq> Blocked"
  from eq show "shim_inv t"
  proof (cases rule: in_data_cases)
    case dangling
    with s show ?thesis by simp
  next
    case (call d d' w)
    note step = good_methodD [OF assms call(2)]
    have "data_inv d" using shim_inv_arcD [OF s call(1)] by simp
    with step r have "data_le d d'" and "data_inv d'" by simp_all
    then show ?thesis unfolding call(3) by (rule shim_inv_update [OF s call(1)])
  qed
qed

lemma data_new_inv: "data_new T c cfg w = (Ok d, w') \<Longrightarrow> data_inv d"
  by (auto simp: data_new_def data_inv_def act_defs split: prod.splits res.splits)

lemma keeps_send_event:
  "(\<And>c p. exits_of c p [e] = 0) \<Longrightarrow> keeps shim_inv (send_event e)"
  by (rule keepsI) (auto simp: send_event_def shim_inv_def shim_inv_defs trans_le_add1)

lemma keeps_send_create_delete [inv_intros]:
  "keeps shim_inv (send_event (TaskCreate a b c d))" "keeps shim_inv (send_event (TaskDelete a' b' c' d'))"
  by (rule keeps_send_event; simp add: exits_of_def)+

section \<open>The handlers keep it\<close>

lemma keeps_mount_all [inv_intros]: "keeps shim_inv (mount_all os rootfs ms)"
  unfolding mount_all_def by (intro keeps_for_each keeps_map_err keeps_in_world)

lemma triple_data_new:
  "triple shim_inv (in_world (data_new T c cfg)) (\<lambda>d s. shim_inv s \<and> data_inv d) shim_inv"
  by (rule tripleI) (auto simp: in_world_def dest: data_new_inv split: prod.splits)

lemma triple_insert:
  "triple (\<lambda>s. shim_inv s \<and> data_inv d) (insert_instance c d) (\<lambda>_. shim_inv) shim_inv"
  by (rule tripleI)
    (auto simp: insert_instance_def intro: keepsD [OF keeps_insert_instance, unfolded insert_instance_def])

lemma keeps_register_instance [inv_intros]: "keeps shim_inv (register_instance T c cfg)"
  unfolding keeps_def register_instance_def by (rule triple_bind [OF triple_data_new triple_insert])

lemma keeps_task_create [inv_intros]: "keeps shim_inv (task_create os T req)"
  unfolding task_create_def
  by (intro keeps_if keeps_pure keeps_bind keeps_map_err keeps_ignore_result inv_intros)

text \<open>Between the start of a task and the start of its waiter.\<close>

definition started_unwatched :: "nat \<Rightarrow> string \<Rightarrow> u32 \<Rightarrow> nat \<Rightarrow> ('i, 'w) shim \<Rightarrow> bool" where
  "started_unwatched a cid pid k s \<longleftrightarrow> shim_inv s \<and> a \<notin> fst ` set (wait_threads s) \<and>
     (\<exists>d. arcs s a = Some d \<and> id_pid d = Some pid \<and> id_state d \<noteq> Created) \<and>
     exits_of cid pid (events s) + waiters_of cid pid (wait_threads s) + k \<le> starts_of cid pid (events s)"

lemma data_start_Ok_inv:
  assumes "data_inv d" and "data_start T (d, w) = (Ok pid, (d', w'))"
  shows "id_state d = Created \<and> \<not> id_poisoned d \<and> d' = d\<lparr>id_state := Started, id_pid := Some pid\<rparr>"
proof -
  have p: "\<not> id_poisoned d"
    using assms(2) by (auto simp: data_start_def write_lock_def)
  with assms(2) data_start_refused [of d T w] have c: "id_state d = Created" by fastforce
  with p assms(1) have "id_pid d = None" by (simp add: data_inv_def)
  with p c assms(2) show ?thesis
    by (cases "inst_start T (id_instance d) w"; cases "fst (inst_start T (id_instance d) w)")
      (auto simp: data_start_def data_base_defs act_defs task_state_defs)
qed

lemma triple_start_data:
  "triple shim_inv (in_data a (data_start T)) (\<lambda>pid. started_unwatched a cid pid 0) shim_inv"
proof (rule tripleI)
  fix s pid t
  assume s: "shim_inv s" and eq: "in_data a (data_start T) s = (Ok pid, t)"
  have t: "shim_inv t" using keepsD [OF keeps_in_data [OF good_method_start] s eq] by simp
  from eq show "started_unwatched a cid pid 0 t"
  proof (cases rule: in_data_cases)
    case (call d d' w)
    have "data_inv d" using shim_inv_arcD [OF s call(1)] by simp
    note d' = data_start_Ok_inv [OF this call(2)]
    then have "(a, c, p) \<notin> set (wait_threads s)" for c p
      using shim_inv_waiterD [OF s, of a c p] call(1) by auto
    with d' call t shim_inv_eventsD [OF s, of cid pid] show ?thesis
      by (force simp: started_unwatched_def)
  qed simp
qed (auto intro: keepsD [OF keeps_in_data [OF good_method_start]])

lemma triple_start_event:
  "triple (started_unwatched a cid pid 0) (send_event (TaskStart cid pid))
     (\<lambda>_. started_unwatched a cid pid 1) shim_inv"
proof (rule tripleI)
  fix s u t
  assume s: "started_unwatched a cid pid 0 s"
    and eq: "send_event (TaskStart cid pid) s = (Ok u, t)"
  have e: "exits_of c p [TaskStart cid pid] = 0" for c p by (simp add: exits_of_def)
  have "shim_inv t"
    using keepsD [OF keeps_send_event [OF e] _ eq] s by (simp add: started_unwatched_def)
  moreover have "starts_of cid pid [TaskStart cid pid] = 1" by (simp add: starts_of_def)
  ultimately show "started_unwatched a cid pid 1 t"
    using s eq e by (auto simp: send_event_def started_unwatched_def)
qed (simp_all add: send_event_def)

lemma triple_spawn:
  "triple (started_unwatched a cid pid 1) (spawn_wait_thread os (a, cid, pid)) (\<lambda>_. shim_inv) shim_inv"
proof (rule tripleI)
  fix s u t
  assume s: "started_unwatched a cid pid 1 s" and eq: "spawn_wait_thread os (a, cid, pid) s = (Ok u, t)"
  from eq obtain w where "t = s\<lparr>world := w, wait_threads := wait_threads s @ [(a, cid, pid)]\<rparr>"
    by (auto simp: spawn_wait_thread_def in_world_def act_defs split: prod.splits res.splits)
  with s show "shim_inv t"
    unfolding started_unwatched_def shim_inv_def
    by (intro conjI) (auto simp: shim_inv_defs waiters_of_def)
qed (auto simp: spawn_wait_thread_def started_unwatched_def in_world_def act_defs
      split: prod.splits res.splits)

lemma keeps_task_start [inv_intros]: "keeps shim_inv (task_start os T req)"
  unfolding task_start_def
proof (intro keeps_if keeps_pure, rule keeps_bind [OF keeps_get_instance])
  fix i
  show "keeps shim_inv (act_bind (in_data i (data_start T)) (\<lambda>pid.
      act_bind (send_event (TaskStart (rq_id req) pid)) (\<lambda>_.
      act_bind (spawn_wait_thread os (i, rq_id req, pid)) (\<lambda>_.
      ret pid))))"
    unfolding keeps_def
    by (intro triple_bind [OF triple_start_data [where cid = "rq_id req"]]
        triple_bind [OF triple_start_event] triple_bind [OF triple_spawn] triple_ret)
qed

lemma keeps_task_kill [inv_intros]: "keeps shim_inv (task_kill T req)"
  unfolding task_kill_def by (intro keeps_if keeps_pure keeps_bind inv_intros)

lemma good_method_queries [inv_intros]: "good_method data_pid" "good_method data_config"
  by (simp_all add: data_pid_def data_config_def good_method_read)

lemma keeps_task_delete [inv_intros]: "keeps shim_inv (task_delete T req)"
  unfolding task_delete_def Let_def by (intro keeps_if keeps_pure keeps_bind inv_intros)

lemma keeps_task_wait [inv_intros]: "keeps shim_inv (task_wait T req)"
  unfolding task_wait_def split_def by (intro keeps_if keeps_pure keeps_bind inv_intros)

lemma keeps_task_state [inv_intros]: "keeps shim_inv (task_state T req)"
  unfolding task_state_def by (intro keeps_if keeps_pure keeps_bind inv_intros)

lemma keeps_task_stats [inv_intros]: "keeps shim_inv (task_stats os req)"
  unfolding task_stats_def by (intro keeps_map_err keeps_pure keeps_bind inv_intros)

lemma keeps_svc_connect [inv_intros]: "keeps shim_inv (svc_connect sd os req)"
  unfolding svc_connect_def by (intro keeps_map_err keeps_pure keeps_bind inv_intros)

lemma keeps_svc_shutdown [inv_intros]: "keeps shim_inv svc_shutdown"
  by (rule keepsI) (auto simp: svc_shutdown_def)

section \<open>Runs of the service\<close>

datatype request =
    RCreate create_request | RStart task_request | RKill kill_request | RDelete task_request
  | RWait task_request | RState task_request | RStats task_request | RConnect task_request
  | RShutdown

text \<open>What a request does to the state, its response aside. \<open>None\<close>: the call blocks.\<close>

definition run_act :: "('s, 'e, 'a) act \<Rightarrow> 's \<Rightarrow> 's option" where
  "run_act m s = (case m s of (Blocked, _) \<Rightarrow> None | (_, t) \<Rightarrow> Some t)"

lemma run_act_keeps: "run_act m s = Some t \<Longrightarrow> keeps P m \<Longrightarrow> P s \<Longrightarrow> P t"
  using keepsD [of P m s] by (auto simp: run_act_def split: prod.splits res.splits)

primrec handle ::
  "(shim_error \<Rightarrow> string) \<Rightarrow> 'w shim_os \<Rightarrow> ('i, 'w) instance_impl \<Rightarrow> request \<Rightarrow>
   ('i, 'w) shim \<Rightarrow> ('i, 'w) shim option" where
  "handle sd os T (RCreate r) = run_act (svc_create sd os T r)"
| "handle sd os T (RStart r) = run_act (svc_start sd os T r)"
| "handle sd os T (RKill r) = run_act (svc_kill sd T r)"
| "handle sd os T (RDelete r) = run_act (svc_delete sd T r)"
| "handle sd os T (RWait r) = run_act (svc_wait sd T r)"
| "handle sd os T (RState r) = run_act (svc_state sd T r)"
| "handle sd os T (RStats r) = run_act (svc_stats sd os r)"
| "handle sd os T (RConnect r) = run_act (svc_connect sd os r)"
| "handle sd os T RShutdown = run_act svc_shutdown"

text \<open>A waiter that comes back from \<open>wait\<close> sends its event and is gone.\<close>

definition finish_waiter ::
  "('i, 'w) instance_impl \<Rightarrow> nat \<times> string \<times> u32 \<Rightarrow> ('i, 'w) shim \<Rightarrow> ('i, 'w) shim option" where
  "finish_waiter T th s =
     map_option (\<lambda>t. t\<lparr>wait_threads := remove1 th (wait_threads t)\<rparr>) (run_act (wait_thread_body T th) s)"

inductive shim_step ::
  "(shim_error \<Rightarrow> string) \<Rightarrow> 'w shim_os \<Rightarrow> ('i, 'w) instance_impl \<Rightarrow>
   ('i, 'w) shim \<Rightarrow> ('i, 'w) shim \<Rightarrow> bool"
  for sd os T where
  request: "handle sd os T r s = Some t \<Longrightarrow> shim_step sd os T s t"
| waiter: "th \<in> set (wait_threads s) \<Longrightarrow> finish_waiter T th s = Some t \<Longrightarrow> shim_step sd os T s t"
| outside: "shim_step sd os T s (s\<lparr>world := w\<rparr>)"

inductive shim_run ::
  "(shim_error \<Rightarrow> string) \<Rightarrow> 'w shim_os \<Rightarrow> ('i, 'w) instance_impl \<Rightarrow>
   ('i, 'w) shim \<Rightarrow> ('i, 'w) shim \<Rightarrow> bool"
  for sd os T s where
  refl: "shim_run sd os T s s"
| step: "shim_run sd os T s t \<Longrightarrow> shim_step sd os T t u \<Longrightarrow> shim_run sd os T s u"

inductive_cases shim_stepE: "shim_step sd os T s t"

text \<open>A predicate every operation keeps is kept by every request.\<close>

lemma handle_keeps:
  assumes "handle sd os T r s = Some t" and P: "P s"
    and "\<And>r. keeps P (task_create os T r)" and "\<And>r. keeps P (task_start os T r)"
    and "\<And>r. keeps P (task_kill T r)" and "\<And>r. keeps P (task_delete T r)"
    and "\<And>r. keeps P (task_wait T r)" and "\<And>r. keeps P (task_state T r)"
    and "\<And>r. keeps P (task_stats os r)" and "\<And>r. keeps P (svc_connect sd os r)"
    and "keeps P svc_shutdown"
  shows "P t"
proof -
  have run: "run_act m s = Some t \<Longrightarrow> keeps P m \<Longrightarrow> P t" for m :: "(('a, 'b) shim, ttrpc_error, 'z) act"
    by (erule run_act_keeps [where P = P]) (use P in simp_all)
  have "keeps P (act_map_err (to_ttrpc sd) m)" if "keeps P m" for m :: "('a, 'b, 'z) shim_act"
    using that by (rule keeps_map_err)
  note assms(3-9) [THEN this]
  with assms(1,10,11) show ?thesis
    by (cases r; simp only: handle.simps svc_create_def svc_start_def svc_kill_def svc_delete_def
        svc_wait_def svc_state_def svc_stats_def; elim run)
qed

lemma handle_inv: "handle sd os T r s = Some t \<Longrightarrow> shim_inv s \<Longrightarrow> shim_inv t"
  by (erule handle_keeps) (assumption | rule inv_intros)+

lemma shim_inv_finish:
  assumes s: "shim_inv s" and th: "(a, cid, pid) \<in> set (wait_threads s)"
    and evs: "evs = [] \<or> (\<exists>c x. evs = [TaskExit cid cid pid c x])"
  shows "shim_inv (s\<lparr>events := events s @ evs, wait_threads := remove1 (a, cid, pid) (wait_threads s)\<rparr>)"
proof -
  have ev: "exits_of c p (events s @ evs) + waiters_of c p (remove1 (a, cid, pid) (wait_threads s))
      \<le> starts_of c p (events s @ evs)" for c p
    using shim_inv_eventsD [OF s, of c p] waiters_of_remove1 [OF th, of c p] evs
    by (auto simp: exits_of_def starts_of_def split: if_splits)
  have "waiters_inv (s\<lparr>events := events s @ evs, wait_threads := remove1 (a, cid, pid) (wait_threads s)\<rparr>)"
    using s by (auto simp: shim_inv_def waiters_inv_def distinct_map inj_on_def dest: set_mp [OF set_remove1_subset])
  with ev s show ?thesis by (simp add: shim_inv_def heap_inv_def events_inv_def)
qed

lemma finish_waiter_cases:
  assumes "finish_waiter T (a, cid, pid) s = Some t"
  obtains r u evs where "in_data a (data_wait T) s = (r, u)" and "r \<noteq> Blocked"
    and "evs = [] \<or> (\<exists>c x. evs = [TaskExit cid cid pid c x])"
    and "t = u\<lparr>events := events u @ evs, wait_threads := remove1 (a, cid, pid) (wait_threads u)\<rparr>"
proof (cases "in_data a (data_wait T) s")
  case (Pair r u)
  show thesis
  proof (cases r)
    case (Ok x)
    with Pair assms show thesis
      by (intro that [of r u "[TaskExit cid cid pid (fst x) (Some (to_timestamp (snd x)))]"])
        (auto simp: finish_waiter_def run_act_def wait_thread_body_def act_bind_def send_event_def split_def)
  qed (use Pair assms that [of r u "[]"] in
      \<open>auto simp: finish_waiter_def run_act_def wait_thread_body_def act_bind_def\<close>)
qed

lemma finish_waiter_inv:
  assumes "shim_inv s" and "th \<in> set (wait_threads s)" and "finish_waiter T th s = Some t"
  shows "shim_inv t"
proof -
  obtain a cid pid where th: "th = (a, cid, pid)" by (cases th) auto
  from assms(3) obtain r u evs where u: "in_data a (data_wait T) s = (r, u)" "r \<noteq> Blocked"
    and evs: "evs = [] \<or> (\<exists>c x. evs = [TaskExit cid cid pid c x])"
    and t: "t = u\<lparr>events := events u @ evs, wait_threads := remove1 (a, cid, pid) (wait_threads u)\<rparr>"
    unfolding th by (rule finish_waiter_cases)
  have "shim_inv u" using keepsD [OF keeps_in_data [OF good_method_wait] assms(1) u] .
  moreover have "wait_threads u = wait_threads s" using u(1) by (cases rule: in_data_cases) auto
  ultimately show ?thesis using assms(2) evs unfolding t th by (intro shim_inv_finish) simp_all
qed

lemma shim_step_inv: "shim_step sd os T s t \<Longrightarrow> shim_inv s \<Longrightarrow> shim_inv t"
  by (induction rule: shim_step.induct) (auto intro: handle_inv finish_waiter_inv)

lemma shim_run_inv: "shim_run sd os T s t \<Longrightarrow> shim_inv s \<Longrightarrow> shim_inv t"
  by (induction rule: shim_run.induct) (auto intro: shim_step_inv)

text \<open>A run as a schedule: requests, completions of the waiter at a position, changes of the world.\<close>

datatype 'w action = Request request | WaiterDone nat | Outside 'w

primrec do_action ::
  "(shim_error \<Rightarrow> string) \<Rightarrow> 'w shim_os \<Rightarrow> ('i, 'w) instance_impl \<Rightarrow> 'w action \<Rightarrow>
   ('i, 'w) shim \<Rightarrow> ('i, 'w) shim option" where
  "do_action sd os T (Request r) s = handle sd os T r s"
| "do_action sd os T (WaiterDone k) s =
     (if k < length (wait_threads s) then finish_waiter T (wait_threads s ! k) s else None)"
| "do_action sd os T (Outside w) s = Some (s\<lparr>world := w\<rparr>)"

primrec run_actions ::
  "(shim_error \<Rightarrow> string) \<Rightarrow> 'w shim_os \<Rightarrow> ('i, 'w) instance_impl \<Rightarrow> 'w action list \<Rightarrow>
   ('i, 'w) shim \<Rightarrow> ('i, 'w) shim option" where
  "run_actions sd os T [] s = Some s"
| "run_actions sd os T (a # as) s = Option.bind (do_action sd os T a s) (run_actions sd os T as)"

lemma do_action_step: "do_action sd os T a s = Some t \<Longrightarrow> shim_step sd os T s t"
  by (cases a)
    (auto intro: shim_step.request shim_step.outside shim_step.waiter [OF nth_mem] split: if_splits)

lemma shim_run_trans:
  assumes "shim_run sd os T t u" and "shim_run sd os T s t"
  shows "shim_run sd os T s u"
  using assms by (induction rule: shim_run.induct) (auto intro: shim_run.step)

lemma run_actions_run: "run_actions sd os T as s = Some t \<Longrightarrow> shim_run sd os T s t"
proof (induction as arbitrary: s)
  case (Cons a as)
  then obtain u where u: "do_action sd os T a s = Some u" and t: "run_actions sd os T as u = Some t"
    by (cases "do_action sd os T a s") auto
  from u have "shim_run sd os T s u" by (intro shim_run.step [OF shim_run.refl] do_action_step)
  with Cons.IH [OF t] show ?case by (rule shim_run_trans)
qed (simp add: shim_run.refl)

end
