(* ===== verification/Local_Spec.thy ===== *)
theory Local_Spec
  imports Local_Inv
begin

text \<open>
  The abstract state of the task service: without the heap of reference-counted tasks, the locks,
  the waiters and the world it is a map from ids to the phase of the task's life. \<open>abs_tasks\<close>
  reads that map off the state of the service; a request touches no id but its own. What each
  request does to its id, and that the service refines it, is in \<open>Local_Contract\<close>.
\<close>

section \<open>The phases of a task\<close>

text \<open>\<open>Poisoned\<close>: a call panicked while it held the lock of the task; later calls that take it panic.\<close>

datatype view = Live task_state "u32 option" | Poisoned

definition view_of :: "'i instance_data \<Rightarrow> view" where
  "view_of d = (if id_poisoned d then Poisoned else Live (id_state d) (id_pid d))"

definition abs_tasks :: "('i, 'w) shim \<Rightarrow> string \<rightharpoonup> view" where
  "abs_tasks s c = (case instances s c of None \<Rightarrow> None | Some a \<Rightarrow> map_option view_of (arcs s a))"

lemma abs_tasks_cong:
  "instances t = instances s \<Longrightarrow> arcs t = arcs s \<Longrightarrow> abs_tasks t = abs_tasks s"
  by (rule ext) (simp add: abs_tasks_def split: option.split)

lemma abs_tasks_simps [simp]:
  "abs_tasks (s\<lparr>world := w\<rparr>) = abs_tasks s" "abs_tasks (s\<lparr>events := e\<rparr>) = abs_tasks s"
  "abs_tasks (s\<lparr>wait_threads := h\<rparr>) = abs_tasks s" "abs_tasks (s\<lparr>exit_signal := b\<rparr>) = abs_tasks s"
  by (rule abs_tasks_cong; simp)+

text \<open>A method call on the task an id stands for changes the phase of that id, on any other task of none.\<close>

lemma abs_tasks_update:
  assumes s: "shim_inv s" and c: "instances s c = Some a"
  shows "abs_tasks (s\<lparr>arcs := (arcs s)(a \<mapsto> d'), world := w\<rparr>) = (abs_tasks s)(c \<mapsto> view_of d')"
proof (rule ext)
  fix x
  have "instances s x \<noteq> Some a" if "x \<noteq> c"
    using that shim_inv_injD [OF s c] by auto
  then show "abs_tasks (s\<lparr>arcs := (arcs s)(a \<mapsto> d'), world := w\<rparr>) x = ((abs_tasks s)(c \<mapsto> view_of d')) x"
    using c by (cases "x = c") (simp_all add: abs_tasks_def split: option.split)
qed

lemma abs_tasks_unregistered:
  assumes "\<nexists>c. instances s c = Some a"
  shows "abs_tasks (s\<lparr>arcs := (arcs s)(a \<mapsto> d'), world := w\<rparr>) = abs_tasks s"
  using assms by (intro ext) (simp add: abs_tasks_def split: option.split)

lemma data_delete_Ok_inv:
  assumes "data_delete T (d, w) = (Ok u, (d', w'))"
  shows "\<not> id_poisoned d \<and> id_state d \<in> {Created, Exited} \<and> d' = d\<lparr>id_state := Deleting\<rparr>"
proof -
  have p: "\<not> id_poisoned d"
    using assms by (auto simp: data_delete_def write_lock_def)
  with assms data_delete_refused [of d T w] have c: "id_state d \<in> {Created, Exited}" by fastforce
  with p assms show ?thesis
    by (cases "inst_delete T (id_instance d) w"; cases "fst (inst_delete T (id_instance d) w)")
      (auto simp: data_delete_def data_base_defs act_defs task_state_defs)
qed

lemma data_wait_timeout_Ok_inv:
  assumes "data_wait_timeout T x (d, w) = (Ok r, (d', w'))"
  shows "d' = (case r of None \<Rightarrow> d | Some _ \<Rightarrow> d\<lparr>id_state := Exited\<rparr>) \<and> (r \<noteq> None \<longrightarrow> \<not> id_poisoned d)"
  using assms
  by (cases "inst_wait_timeout T (id_instance d) x w"; cases "fst (inst_wait_timeout T (id_instance d) x w)")
    (auto simp: data_wait_timeout_def data_base_defs act_defs split: option.splits if_splits)

lemma triple_of_keeps:
  "keeps P m \<Longrightarrow> (\<And>s. P s \<Longrightarrow> R s) \<Longrightarrow> triple P m (\<lambda>_. P) R"
  unfolding keeps_def by (rule triple_conseq)

section \<open>Isolation\<close>

text \<open>
  \<open>others c M\<close>: the tasks of every id but \<open>c\<close> are those of \<open>M\<close>. The registry conditions are
  part of \<open>shim_inv\<close>; \<open>others_at\<close> adds that \<open>i\<close> is the task of \<open>c\<close>.
\<close>

definition others :: "string \<Rightarrow> (string \<rightharpoonup> view) \<Rightarrow> ('i, 'w) shim \<Rightarrow> bool" where
  "others c M s \<longleftrightarrow> (\<forall>x. x \<noteq> c \<longrightarrow> abs_tasks s x = M x) \<and>
     (\<forall>x a. instances s x = Some a \<longrightarrow> a < next_arc s) \<and>
     (\<forall>x y a. instances s x = Some a \<longrightarrow> instances s y = Some a \<longrightarrow> x = y)"

definition others_at :: "string \<Rightarrow> (string \<rightharpoonup> view) \<Rightarrow> nat \<Rightarrow> ('i, 'w) shim \<Rightarrow> bool" where
  "others_at c M i s \<longleftrightarrow> others c M s \<and> instances s c = Some i"

lemma others_init: "shim_inv s \<Longrightarrow> others c (abs_tasks s) s"
  unfolding others_def
  by (metis shim_inv_arcD shim_inv_injD shim_inv_instanceD)

text \<open>\<open>same_tasks m\<close>: \<open>m\<close> touches neither the registry nor any task.\<close>

definition same_tasks :: "(('i, 'w) shim, 'e, 'a) act \<Rightarrow> bool" where
  "same_tasks m \<longleftrightarrow> (\<forall>s. instances (snd (m s)) = instances s \<and> arcs (snd (m s)) = arcs s \<and>
     next_arc (snd (m s)) = next_arc s)"

lemma same_tasks_primitives:
  "same_tasks (in_world m)" "same_tasks (send_event e)" "same_tasks (read_shim f)"
  "same_tasks (spawn_wait_thread os th)"
  by (auto simp: same_tasks_def in_world_def send_event_def read_shim_def spawn_wait_thread_def
      act_defs split: prod.splits res.splits)

lemma others_cong:
  "instances t = instances s \<Longrightarrow> arcs t = arcs s \<Longrightarrow> next_arc t = next_arc s \<Longrightarrow> others c M t = others c M s"
  using abs_tasks_cong [of t s] by (simp add: others_def)

lemma others_same:
  assumes "same_tasks m"
  shows "keeps (others c M) m" "keeps (others_at c M i) m"
proof -
  have "others c M t = others c M s \<and> instances t = instances s" if "m s = (r, t)" for s r t
    using assms that others_cong [of t s c M] unfolding same_tasks_def by (metis snd_conv)
  then show "keeps (others c M) m" "keeps (others_at c M i) m"
    by (auto simp: others_at_def intro!: keepsI)
qed

lemmas others_primitives = same_tasks_primitives [THEN others_same(1)] same_tasks_primitives [THEN others_same(2)]

lemma others_in_data: "keeps (others_at c M i) (in_data i m)"
proof (rule keepsI)
  fix s r t
  assume s: "others_at c M i s" and eq: "in_data i m s = (r, t)"
  from eq show "others_at c M i t"
  proof (cases rule: in_data_cases)
    case dangling
    with s show ?thesis by simp
  next
    case (call d d' w)
    have "instances s x \<noteq> Some i" if "x \<noteq> c" for x
      using s that by (auto simp: others_at_def others_def)
    then have "abs_tasks t x = abs_tasks s x" if "x \<noteq> c" for x
      using that call(3) by (simp add: abs_tasks_def split: option.split)
    with s call(3) show ?thesis by (simp add: others_at_def others_def)
  qed
qed

lemma others_get_instance:
  assumes "\<And>i. triple (others_at c M i) (f i) (\<lambda>_. others c M) (others c M)"
  shows "keeps (others c M) (act_bind (get_instance c) f)"
  unfolding keeps_def
proof (rule triple_bind)
  show "triple (others c M) (get_instance c) (others_at c M) (others c M)"
    by (rule tripleI) (auto simp: get_instance_def others_at_def elim: ok_or.elims)
qed (rule assms)

lemma others_weaken: "keeps (others_at c M i) m \<Longrightarrow> triple (others_at c M i) m (\<lambda>_. others c M) (others c M)"
  unfolding keeps_def by (erule triple_conseq) (simp_all add: others_at_def)

lemma others_at_bind:
  assumes "keeps (others_at c M i) m" and "\<And>a. triple (others_at c M i) (f a) Q (others c M)"
  shows "triple (others_at c M i) (act_bind m f) Q (others c M)"
  by (rule triple_bind [OF triple_of_keeps [OF assms(1)] assms(2)]) (simp add: others_at_def)

lemma others_register: "keeps (others c M) (register_instance T c cfg)"
  unfolding register_instance_def
proof (rule keeps_bind)
  show "keeps (others c M) (in_world (data_new T c cfg))" by (rule others_primitives)
  fix d
  show "keeps (others c M) (insert_instance c d)"
  proof (rule keepsI)
  fix s r t
  assume s: "others c M s" and "insert_instance c d s = (r, t)"
  then have t: "t = s\<lparr>registry := AList.update c (next_arc s) (registry s),
      arcs := (arcs s)(next_arc s \<mapsto> d), next_arc := Suc (next_arc s)\<rparr>"
    by (simp add: insert_instance_def)
  have fresh: "instances s x \<noteq> Some (next_arc s)" for x using s by (fastforce simp: others_def)
  then have "abs_tasks t x = abs_tasks s x" if "x \<noteq> c" for x
    using that t by (simp add: abs_tasks_def split: option.split)
  with s t fresh show "others c M t" by (fastforce simp: others_def less_Suc_eq)
  qed
qed

lemma others_remove: "triple (others_at c M i) (remove_instance c) (\<lambda>_. others c M) (others c M)"
proof (rule tripleI)
  fix s u t
  assume s: "others_at c M i s" and "remove_instance c s = (Ok u, t)"
  then have t: "t = s\<lparr>registry := AList.delete c (registry s)\<rparr>" by (simp add: remove_instance_def)
  then have "abs_tasks t x = abs_tasks s x" if "x \<noteq> c" for x
    using that by (simp add: abs_tasks_def split: option.split)
  with s t show "others c M t" by (auto simp: others_at_def others_def)
qed (simp_all add: remove_instance_def)

lemma others_mount_all: "keeps (others c M) (mount_all os r ms)"
  unfolding mount_all_def by (intro keeps_for_each keeps_map_err others_primitives)

lemma others_task_create: "keeps (others (cr_id req) M) (task_create os T req)"
  unfolding task_create_def
  by (intro keeps_if keeps_pure keeps_bind keeps_map_err keeps_ignore_result others_primitives
      others_mount_all others_register)

lemma others_task_delete: "keeps (others (rq_id req) M) (task_delete T req)"
proof -
  have "triple (others c M) (act_bind (send_event e) (\<lambda>_. ret x)) (\<lambda>_. others c M) (others c M)" for c e x
    unfolding keeps_def [symmetric] by (intro keeps_bind keeps_pure others_primitives)
  then show ?thesis
    unfolding task_delete_def Let_def
    by (intro keeps_if keeps_pure others_get_instance others_at_bind others_in_data
        triple_bind [OF others_remove])
qed

lemma others_task_start: "keeps (others (rq_id req) M) (task_start os T req)"
  unfolding task_start_def
  by (intro keeps_if keeps_pure others_get_instance others_weaken keeps_bind others_in_data
      others_primitives)

lemma others_queries:
  "keeps (others (rq_id kreq) M) (task_kill T kreq)" "keeps (others (rq_id req) M) (task_wait T req)"
  "keeps (others (rq_id req) M) (task_state T req)" "keeps (others (rq_id req) M) (task_stats os req)"
  "keeps (others (rq_id req) M) (svc_connect sd os req)"
  unfolding task_kill_def task_wait_def task_state_def task_stats_def svc_connect_def split_def
  by ((intro keeps_if keeps_pure keeps_map_err)?, rule others_get_instance,
      intro others_weaken keeps_pure keeps_bind keeps_map_err others_in_data others_primitives)+

lemma others_shutdown: "keeps (others c M) svc_shutdown"
  by (rule keepsI) (auto simp: svc_shutdown_def others_def)

primrec request_id :: "request \<Rightarrow> string option" where
  "request_id (RCreate r) = Some (cr_id r)"
| "request_id (RStart r) = Some (rq_id r)"
| "request_id (RKill r) = Some (rq_id r)"
| "request_id (RDelete r) = Some (rq_id r)"
| "request_id (RWait r) = Some (rq_id r)"
| "request_id (RState r) = Some (rq_id r)"
| "request_id (RStats r) = Some (rq_id r)"
| "request_id (RConnect r) = Some (rq_id r)"
| "request_id RShutdown = None"

lemma handle_isolated:
  assumes "shim_inv s" and h: "handle sd os T r s = Some t" and "request_id r \<noteq> Some x"
  shows "abs_tasks t x = abs_tasks s x"
proof -
  have o: "others c (abs_tasks s) s" for c using assms(1) by (rule others_init)
  have run: "run_act m s = Some t \<Longrightarrow> keeps (others c (abs_tasks s)) m \<Longrightarrow> c \<noteq> x \<Longrightarrow> ?thesis"
    for m :: "(('a, 'b) shim, ttrpc_error, 'z) act" and c
    using run_act_keeps [of m s t "others c (abs_tasks s)"] o by (simp add: others_def)
  note svc = others_task_create [THEN keeps_map_err] others_task_start [THEN keeps_map_err]
    others_task_delete [THEN keeps_map_err] others_queries(1-4) [THEN keeps_map_err] others_queries(5)
  show ?thesis
  proof (cases r)
    case RShutdown
    with h have "run_act svc_shutdown s = Some t" by simp
    then show ?thesis by (auto simp: run_act_def svc_shutdown_def split: if_splits)
  qed (use h assms(3) in \<open>simp_all add: svc_create_def svc_start_def svc_kill_def svc_delete_def
        svc_wait_def svc_state_def svc_stats_def\<close>,
      (erule run, rule svc, simp)+)
qed

end
