(* ===== verification/Instance_Contract.thy ===== *)
theory Instance_Contract
  imports Local_Spec
begin

text \<open>
  The contract between the task service and the instances it runs, as a locale over the
  operations of the \<open>Instance\<close> trait. What the trait's documentation asks of an implementation
  are the laws: \<open>wait_timeout\<close> answers from the instance's exit status, which is set once and
  survives every operation, on this or any other instance. The client lemmas are the answers of
  the service. The implementations (\<open>sys/unix/container/instance.rs\<close> and the stub of the
  service's own tests) are interpretations in their own theories.
\<close>

locale instance_contract =
  fixes T :: "('i, 'w) instance_impl"
    and valid :: "'i \<Rightarrow> 'w \<Rightarrow> bool"
    and exit_of :: "'i \<Rightarrow> 'w \<Rightarrow> exit_info option"
  assumes new_valid: "inst_new T c cfg w = (Ok i, w') \<Longrightarrow> valid i w' \<and> exit_of i w' = None"
    and wait_exited: "valid i w \<Longrightarrow> exit_of i w = Some x \<Longrightarrow> inst_wait_timeout T i t w = (Ok (Some x), w)"
    and wait_zero: "valid i w \<Longrightarrow> exit_of i w = None \<Longrightarrow>
      inst_wait_timeout T i (Some DurationZero) w = (Ok None, w)"
    and wait_blocks: "valid i w \<Longrightarrow> exit_of i w = None \<Longrightarrow> fst (inst_wait_timeout T i None w) = Blocked"
    and new_stable: "valid i w \<Longrightarrow> valid i (snd (inst_new T c cfg w)) \<and>
      (exit_of i w = Some x \<longrightarrow> exit_of i (snd (inst_new T c cfg w)) = Some x)"
    and start_stable: "valid i w \<Longrightarrow> valid i (snd (inst_start T j w)) \<and>
      (exit_of i w = Some x \<longrightarrow> exit_of i (snd (inst_start T j w)) = Some x)"
    and kill_stable: "valid i w \<Longrightarrow> valid i (snd (inst_kill T j sig w)) \<and>
      (exit_of i w = Some x \<longrightarrow> exit_of i (snd (inst_kill T j sig w)) = Some x)"
    and delete_stable: "valid i w \<Longrightarrow> valid i (snd (inst_delete T j w)) \<and>
      (exit_of i w = Some x \<longrightarrow> exit_of i (snd (inst_delete T j w)) = Some x)"
begin

lemma wait_timeout_zero:
  "valid i w \<Longrightarrow> inst_wait_timeout T i (Some DurationZero) w = (Ok (exit_of i w), w)"
  by (cases "exit_of i w") (simp_all add: wait_zero wait_exited)

lemma wait_unbounded:
  "valid i w \<Longrightarrow> exit_of i w = Some x \<Longrightarrow> inst_wait T i w = (Ok x, w)"
  by (simp add: inst_wait_def wait_exited act_bind_def)

lemma data_wait_exited:
  assumes "\<not> id_poisoned d" and "valid (id_instance d) w" and "exit_of (id_instance d) w = Some x"
  shows "data_wait T (d, w) = (Ok x, (d\<lparr>id_state := Exited\<rparr>, w))"
  using assms by (intro data_wait_Some) (simp_all add: wait_exited)

lemma data_wait_zero:
  assumes "\<not> id_poisoned d" and "valid (id_instance d) w"
  shows "data_wait_timeout T (Some DurationZero) (d, w) =
    (Ok (exit_of (id_instance d) w),
     ((if exit_of (id_instance d) w = None then d else d\<lparr>id_state := Exited\<rparr>), w))"
  using assms
  by (cases "exit_of (id_instance d) w")
    (simp_all add: data_wait_timeout_None data_wait_timeout_Some wait_timeout_zero)

lemma data_wait_blocks:
  assumes "valid (id_instance d) w" and "exit_of (id_instance d) w = None"
  shows "fst (data_wait T (d, w)) = Blocked"
  using wait_blocks [OF assms]
  by (cases "inst_wait_timeout T (id_instance d) None w")
    (simp add: data_wait_def inst_wait_def data_base_defs act_defs)

text \<open>A task the service knows, whose instance is valid and whose lock is sound.\<close>

definition known :: "string \<Rightarrow> 'i instance_data \<Rightarrow> ('i, 'w) shim \<Rightarrow> bool" where
  "known c d s \<longleftrightarrow> (\<exists>a. instances s c = Some a \<and> arcs s a = Some d) \<and> \<not> id_poisoned d \<and>
     valid (id_instance d) (world s)"

lemma task_wait_exited:
  assumes "known (rq_id req) d s" and "rq_exec_id req = []"
    and "exit_of (id_instance d) (world s) = Some (code, at)"
  shows "fst (task_wait T req s) = Ok \<lparr>wr_exit_status = code, wr_exited_at = Some (to_timestamp at)\<rparr>"
  using assms
  by (auto simp: known_def task_wait_def get_instance_def in_data_def act_bind_def data_wait_exited)

lemma task_wait_blocks:
  assumes "known (rq_id req) d s" and "rq_exec_id req = []"
    and "exit_of (id_instance d) (world s) = None"
  shows "fst (task_wait T req s) = Blocked"
  using assms data_wait_blocks [of d "world s"]
  by (cases "data_wait T (d, world s)")
    (auto simp: known_def task_wait_def get_instance_def in_data_def act_bind_def split: prod.splits)

lemma task_state_known:
  assumes "known (rq_id req) d s" and "rq_exec_id req = []"
  shows "fst (task_state T req s) = Ok \<lparr>sr_bundle = cfg_bundle (id_cfg d), sr_stdin = cfg_stdin (id_cfg d),
      sr_stdout = cfg_stdout (id_cfg d), sr_stderr = cfg_stderr (id_cfg d),
      sr_pid = unwrap_or 0 (id_pid d),
      sr_exit_status = unwrap_or 0 (exit_code_of (exit_of (id_instance d) (world s))),
      sr_exited_at = exit_time_of (exit_of (id_instance d) (world s)),
      sr_status = status_of (id_pid d) (exit_code_of (exit_of (id_instance d) (world s)))\<rparr>"
  using assms
  by (auto simp: known_def task_state_def get_instance_def in_data_def act_bind_def data_wait_zero
      data_pid_def data_config_def get_data_def)

lemma task_delete_known:
  assumes "known (rq_id req) d s" and "rq_exec_id req = []" and "id_state d \<in> {Created, Exited}"
    and "inst_delete T (id_instance d) (world s) = (Ok (), w)"
    and "exit_of (id_instance d) (world s) = Some (code, at)"
  shows "\<exists>t. task_delete T req s = (Ok \<lparr>dr_pid = unwrap_or 0 (id_pid d), dr_exit_status = code,
      dr_exited_at = Some (to_timestamp at)\<rparr>, t) \<and> instances t (rq_id req) = None \<and>
      events t = events s @ [TaskDelete (rq_id req) (unwrap_or 0 (id_pid d)) code (Some (to_timestamp at))]"
proof -
  have "valid (id_instance d) w" and "exit_of (id_instance d) w = Some (code, at)"
    using assms delete_stable [of "id_instance d" "world s" "id_instance d"]
    by (simp_all add: known_def)
  then show ?thesis
    using assms
    by (auto simp: known_def task_delete_def Let_def get_instance_def in_data_def act_bind_def
        data_delete_ok data_wait_zero data_pid_def get_data_def remove_instance_def send_event_def
        exit_code_of_def exit_time_of_def)
qed

end

end
