(* ===== verification/Instance_Stub.thy ===== *)
theory Instance_Stub
  imports Instance_Contract
begin

text \<open>
  The exit cells instances keep, and \<open>InstanceStub\<close> of \<open>sandbox/shim/local/tests.rs\<close>, the
  instance the service's own tests run: it starts nothing and exits when it is killed.

  The world holds the \<open>WaitableCell\<close> of every instance made so far and the clock; an instance
  is the index of its cell. \<open>std::process::id()\<close> is a parameter.
\<close>

section \<open>Exit cells\<close>

record cell_world =
  w_cells :: "exit_info waitable_cell list"
  w_now :: datetime

definition in_cell ::
  "nat \<Rightarrow> (exit_info waitable_cell, 'f, 'a) act \<Rightarrow> ('x cell_world_scheme, 'f, 'a) act" where
  "in_cell i m = (\<lambda>w. if i < length (w_cells w)
     then (case m (w_cells w ! i) of (r, c) \<Rightarrow> (r, w\<lparr>w_cells := (w_cells w)[i := c]\<rparr>))
     else (Panic ''dangling cell'', w))"

definition new_cell :: "('x cell_world_scheme, 'e, nat) act" where
  "new_cell = (\<lambda>w. (Ok (length (w_cells w)), w\<lparr>w_cells := w_cells w @ [cell_new]\<rparr>))"

definition utc_now :: "('x cell_world_scheme, 'e, datetime) act" where
  "utc_now = (\<lambda>w. (Ok (w_now w), w))"

definition cell_valid :: "nat \<Rightarrow> 'x cell_world_scheme \<Rightarrow> bool" where
  "cell_valid i w \<longleftrightarrow> i < length (w_cells w)"

definition cell_exit :: "nat \<Rightarrow> 'x cell_world_scheme \<Rightarrow> exit_info option" where
  "cell_exit i w = cell (w_cells w ! i)"

lemmas exit_cell_defs = in_cell_def new_cell_def utc_now_def cell_valid_def cell_exit_def

text \<open>\<open>grows w w'\<close>: the cells of \<open>w\<close> are still there in \<open>w'\<close>, and the full ones unchanged.\<close>

definition grows :: "'x cell_world_scheme \<Rightarrow> 'x cell_world_scheme \<Rightarrow> bool" where
  "grows w w' \<longleftrightarrow> (\<forall>i. cell_valid i w \<longrightarrow> cell_valid i w' \<and>
     (\<forall>x. cell_exit i w = Some x \<longrightarrow> cell_exit i w' = Some x))"

lemma growsD:
  "grows w w' \<Longrightarrow> cell_valid i w \<Longrightarrow> cell_valid i w'"
  "grows w w' \<Longrightarrow> cell_valid i w \<Longrightarrow> cell_exit i w = Some x \<Longrightarrow> cell_exit i w' = Some x"
  unfolding grows_def by blast+

lemma grows_refl [simp, intro!]: "grows w w"
  by (simp add: grows_def)

lemma grows_trans: "grows u v \<Longrightarrow> grows v w \<Longrightarrow> grows u w"
  by (simp add: grows_def)

lemma grows_new_cell: "grows w (snd (new_cell w))"
  by (simp add: grows_def exit_cell_defs nth_append)

lemma grows_in_cell:
  assumes "\<And>c x. cell c = Some x \<Longrightarrow> cell (snd (m c)) = Some x"
  shows "grows w (snd (in_cell i m w))"
  using assms by (auto simp: grows_def exit_cell_defs nth_list_update split: prod.splits) force

lemma in_cell_wait:
  assumes "cell_valid i w" and "cell_exit i w = Some x"
  shows "in_cell i (cell_wait_timeout p t) w = (Ok (Some x), w)"
  using assms list_update_id [of "w_cells w" i]
  by (auto simp: exit_cell_defs cell_wait_timeout_def split: option.split duration.split)

lemma in_cell_wait_zero:
  assumes "cell_valid i w"
  shows "in_cell i (cell_wait_timeout p (Some DurationZero)) w = (Ok (cell_exit i w), w)"
  using assms by (simp add: exit_cell_defs cell_wait_timeout_def)

lemma in_cell_wait_blocks:
  assumes "cell_valid i w" and "cell_exit i w = None"
  shows "fst (in_cell i (cell_wait_timeout p None) w) = Blocked"
  using assms by (simp add: exit_cell_defs cell_wait_timeout_def)

section \<open>InstanceStub\<close>

definition stub_new :: "string \<Rightarrow> instance_config \<Rightarrow> (cell_world, error, nat) act" where
  "stub_new _ _ = new_cell"

definition stub_start :: "u32 \<Rightarrow> nat \<Rightarrow> (cell_world, error, u32) act" where
  "stub_start process_id _ = ret process_id"

definition stub_kill :: "nat \<Rightarrow> u32 \<Rightarrow> (cell_world, error, unit) act" where
  "stub_kill i _ = act_bind utc_now (\<lambda>now. ignore_result (in_cell i (cell_set (1, now))))"

definition stub_delete :: "nat \<Rightarrow> (cell_world, error, unit) act" where
  "stub_delete _ = ret ()"

definition stub_wait_timeout ::
  "(nat \<Rightarrow> exit_info waitable_cell \<Rightarrow> exit_info waitable_cell) \<Rightarrow> nat \<Rightarrow> duration option \<Rightarrow>
   (cell_world, error, exit_info option) act" where
  "stub_wait_timeout passing i t = in_cell i (cell_wait_timeout passing t)"

definition instance_stub ::
  "u32 \<Rightarrow> (nat \<Rightarrow> exit_info waitable_cell \<Rightarrow> exit_info waitable_cell) \<Rightarrow> (nat, cell_world) instance_impl" where
  "instance_stub process_id passing =
     \<lparr>inst_new = stub_new, inst_start = stub_start process_id, inst_kill = stub_kill,
      inst_delete = stub_delete, inst_wait_timeout = stub_wait_timeout passing\<rparr>"

lemmas stub_defs = instance_stub_def stub_new_def stub_start_def stub_kill_def stub_delete_def
  stub_wait_timeout_def

lemma grows_stub_kill: "grows w (snd (stub_kill j sig w))"
proof -
  have "grows w (snd (in_cell j (cell_set v) w))" for v
    by (rule grows_in_cell) (simp add: cell_set_def)
  then show ?thesis
    by (auto simp: stub_kill_def utc_now_def ignore_result_def attempt_def act_bind_def ret_def
        split: prod.splits res.splits) (metis snd_conv)+
qed

interpretation stub: instance_contract "instance_stub process_id passing" cell_valid cell_exit
proof
  fix i j :: nat and w :: cell_world and sig :: u32 and x
  assume v: "cell_valid i w"
  show "cell_valid i (snd (inst_kill (instance_stub process_id passing) j sig w)) \<and>
      (cell_exit i w = Some x \<longrightarrow>
       cell_exit i (snd (inst_kill (instance_stub process_id passing) j sig w)) = Some x)"
    using v growsD [OF grows_stub_kill [of w j sig]] by (simp add: instance_stub_def)
qed (auto simp: stub_defs in_cell_wait in_cell_wait_zero in_cell_wait_blocks,
    auto simp: exit_cell_defs cell_new_def nth_append)

end
