(* ===== verification/Local_Props.thy ===== *)
theory Local_Props
  imports Instance_Stub
begin

text \<open>
  The properties of the task service: what holds in every run, and what each request answers.
  The witnesses run the service on the stub instance, over an operating system that loads a
  specification without hooks and accepts every mount.
\<close>

section \<open>A concrete service\<close>

definition demo_os :: "cell_world shim_os" where
  "demo_os = \<lparr>os_spec_load = (\<lambda>_. ret \<lparr>spec_root = Some ''/r'', spec_process = None, spec_hooks = None,
        spec_annotations = None\<rparr>),
      os_canonicalize_rootfs = (\<lambda>_ spec. ret spec), os_create_dir_all = (\<lambda>_. ret ()),
      os_mount_rootfs = (\<lambda>_ _ _ _. ret ()),
      os_hooks = \<lparr>hook_spawn = (\<lambda>_. throw (IoError IoBrokenPipe [])), hook_write_stdin = (\<lambda>_ _. ret ()),
        hook_kill = (\<lambda>_. ret ()), hook_wait = (\<lambda>_. ret 0)\<rparr>,
      os_process_id = 7, os_spawn_thread = (\<lambda>_. ret ()),
      os_collect_metrics = (\<lambda>_. ret ''m''), os_convert_to_any = Ok\<rparr>"

definition demo_T :: "(nat, cell_world) instance_impl" where
  "demo_T = instance_stub 42 (\<lambda>_ c. c)"

definition demo_sd :: "shim_error \<Rightarrow> string" where
  "demo_sd e = []"

definition demo_create :: "string \<Rightarrow> create_request" where
  "demo_create c = \<lparr>cr_id = c, cr_bundle = ''/b'', cr_rootfs = [], cr_terminal = False, cr_stdin = [],
     cr_stdout = ''o'', cr_stderr = [], cr_checkpoint = [], cr_parent_checkpoint = []\<rparr>"

definition demo_req :: "string \<Rightarrow> task_request" where
  "demo_req c = \<lparr>rq_id = c, rq_exec_id = []\<rparr>"

definition demo_kill :: "string \<Rightarrow> kill_request" where
  "demo_kill c = \<lparr>rq_id = c, rq_exec_id = [], rq_signal = 9\<rparr>"

definition demo_now :: datetime where
  "demo_now = \<lparr>dt_timestamp = 5, dt_subsec_nanos = 6\<rparr>"

definition demo_new :: "(nat, cell_world) shim" where
  "demo_new = local_new ''ns'' ''/addr'' \<lparr>w_cells = [], w_now = demo_now\<rparr>"

definition demo_run :: "cell_world action list \<Rightarrow> (nat, cell_world) shim option" where
  "demo_run as = run_actions demo_sd demo_os demo_T as demo_new"

lemmas demo_defs = demo_run_def demo_new_def demo_now_def demo_kill_def demo_req_def demo_create_def
  demo_os_def demo_T_def

text \<open>The life of a task on the stub: created, started, killed, its exit reported.\<close>

definition demo_life :: "cell_world action list" where
  "demo_life = [Request (RCreate (demo_create ''a'')), Request (RStart (demo_req ''a'')),
     Request (RKill (demo_kill ''a'')), WaiterDone 0]"

lemma demo_life_run:
  "map_option (\<lambda>s. (events s, abs_tasks s ''a'', abs_tasks s ''b'', wait_threads s)) (demo_run demo_life) =
   Some ([TaskCreate ''a'' ''/b'' [] \<lparr>io_stdin = [], io_stdout = ''o'', io_stderr = []\<rparr>,
     TaskStart ''a'' 42, TaskExit ''a'' ''a'' 42 1 (Some \<lparr>ts_seconds = 5, ts_nanos = 6\<rparr>)],
     Some (Live Exited (Some 42)), None, [])"
  by code_simp

section \<open>What holds in every run\<close>

lemma demo_run_reachable: "demo_run as = Some s \<Longrightarrow> shim_run demo_sd demo_os demo_T demo_new s"
  unfolding demo_run_def by (rule run_actions_run)

definition demo_end :: "(nat, cell_world) shim" where
  "demo_end = the (demo_run demo_life)"

lemma demo_end_run: "demo_run demo_life = Some demo_end"
  using demo_life_run by (cases "demo_run demo_life") (simp_all add: demo_end_def)

text \<open>
  C2. In every run of the service from its start, whatever the instances and the operating system
  do and however requests, waiters and the outside world are interleaved: every id stands for a
  task of its own on the heap, no task is left in the transient \<open>Starting\<close> state, a started task
  has a pid and a created one has none, there is at most one waiter per task and it waits for a
  task that was started with the pid it will report, and the exit events sent or still owed for an
  id and pid never outnumber its start events.
\<close>

theorem service_invariant:
  assumes "shim_run sd os T (local_new namespace containerd_address w) s"
  shows "shim_inv s"
  by (rule shim_run_inv [OF assms shim_inv_new])

theorem service_invariant_witness: "shim_inv demo_end"
  using service_invariant [of demo_sd demo_os demo_T "''ns''" "''/addr''"
      "\<lparr>w_cells = [], w_now = demo_now\<rparr>" demo_end] demo_run_reachable [OF demo_end_run]
  by (simp add: demo_new_def)

text \<open>
  C10. Isolation: a request leaves the phase and the pid of every task but the one it names as they
  were, in every state the service can reach.
\<close>

theorem request_isolation:
  assumes "shim_run sd os T (local_new namespace containerd_address w) s"
    and "handle sd os T r s = Some t" and "request_id r \<noteq> Some c"
  shows "abs_tasks t c = abs_tasks s c"
  using handle_isolated [OF shim_run_inv [OF assms(1) shim_inv_new] assms(2,3)] .

definition demo_two :: "cell_world action list" where
  "demo_two = [Request (RCreate (demo_create ''a'')), Request (RCreate (demo_create ''b''))]"

lemma demo_two_start:
  "map_option (\<lambda>s. map_option (\<lambda>t. (abs_tasks s ''b'', abs_tasks t ''b'', abs_tasks t ''a''))
     (handle demo_sd demo_os demo_T (RStart (demo_req ''a'')) s)) (demo_run demo_two) =
   Some (Some (Some (Live Created None), Some (Live Created None), Some (Live Started (Some 42))))"
  by code_simp

theorem request_isolation_witness:
  "\<exists>s t. demo_run demo_two = Some s \<and> handle demo_sd demo_os demo_T (RStart (demo_req ''a'')) s = Some t \<and>
     abs_tasks t ''b'' = abs_tasks s ''b''"
proof -
  obtain s t where s: "demo_run demo_two = Some s"
    and t: "handle demo_sd demo_os demo_T (RStart (demo_req ''a'')) s = Some t"
    using demo_two_start by (auto simp: map_option_eq_Some)
  have "abs_tasks t ''b'' = abs_tasks s ''b''"
    using request_isolation [OF demo_run_reachable [OF s, unfolded demo_new_def] t, of "''b''"]
    by (simp add: demo_req_def)
  with s t show ?thesis by blast
qed

section \<open>What the requests answer\<close>

text \<open>
  The shim exits on \<open>shutdown\<close> exactly when it has no task left: the exit signal is raised if
  and only if the registry is empty (or it was raised before), and nothing else changes.
\<close>

lemma shutdown_only_when_empty:
  "fst (svc_shutdown s) = Ok () \<and>
   (exit_signal (snd (svc_shutdown s)) \<longleftrightarrow> exit_signal s \<or> dom (instances s) = {}) \<and>
   instances (snd (svc_shutdown s)) = instances s \<and> arcs (snd (svc_shutdown s)) = arcs s \<and>
   events (snd (svc_shutdown s)) = events s"
proof -
  have "registry s = [] \<longleftrightarrow> dom (instances s) = {}"
    by (simp add: instances_def dom_map_of_conv_image_fst)
  then show ?thesis by (auto simp: svc_shutdown_def shim_is_empty_def)
qed

text \<open>
  A request for an id the service does not know is answered with the ttrpc code \<open>NOT_FOUND\<close>
  and changes nothing, for each of \<open>start\<close>, \<open>kill\<close>, \<open>delete\<close>, \<open>wait\<close>, \<open>state\<close>, \<open>stats\<close> and
  \<open>connect\<close>.
\<close>

lemma unknown_id_not_found:
  assumes "instances s (rq_id req) = None" and "rq_exec_id req = []"
    and "instances s (rq_id kreq) = None" and "rq_exec_id kreq = []"
  shows "(\<exists>m. svc_start sd os T req s = (Err (RpcStatus NOT_FOUND m), s)) \<and>
    (\<exists>m. svc_kill sd T kreq s = (Err (RpcStatus NOT_FOUND m), s)) \<and>
    (\<exists>m. svc_delete sd T req s = (Err (RpcStatus NOT_FOUND m), s)) \<and>
    (\<exists>m. svc_wait sd T req s = (Err (RpcStatus NOT_FOUND m), s)) \<and>
    (\<exists>m. svc_state sd T req s = (Err (RpcStatus NOT_FOUND m), s)) \<and>
    (\<exists>m. svc_stats sd os req s = (Err (RpcStatus NOT_FOUND m), s)) \<and>
    (\<exists>m. svc_connect sd os req s = (Err (RpcStatus NOT_FOUND m), s))"
  using assms
  by (simp add: service_defs task_start_def task_kill_def task_delete_def task_wait_def task_state_def
      task_stats_def get_instance_def act_bind_def act_map_err_def)

lemma unknown_id_not_found_witness:
  "\<exists>m. svc_start demo_sd demo_os demo_T (demo_req ''x'') demo_new = (Err (RpcStatus NOT_FOUND m), demo_new)"
  using unknown_id_not_found [of demo_new "demo_req ''x''" "demo_kill ''x''" demo_sd demo_os demo_T]
  by (simp add: demo_new_def local_new_def instances_def demo_req_def demo_kill_def)

text \<open>The task an id stands for.\<close>

definition task_of :: "('i, 'w) shim \<Rightarrow> string \<Rightarrow> 'i instance_data option" where
  "task_of s c = (case instances s c of None \<Rightarrow> None | Some a \<Rightarrow> arcs s a)"

lemma task_ofE:
  assumes "task_of s c = Some d"
  obtains a where "instances s c = Some a" and "arcs s a = Some d"
  using assms by (auto simp: task_of_def split: option.splits)

lemma svc_refused:
  assumes "task_of s c = Some d" and "\<exists>m. f (d, world s) = (Err (FailedPrecondition m), (d, world s))"
  shows "\<exists>m. act_map_err (to_ttrpc sd) (act_bind (get_instance c) (\<lambda>i. act_bind (in_data i f) (g i))) s =
    (Err (RpcStatus FAILED_PRECONDITION m), s)"
proof -
  from assms(1) obtain a where a: "instances s c = Some a" "arcs s a = Some d" by (rule task_ofE)
  then have "s\<lparr>arcs := (arcs s)(a \<mapsto> d), world := world s\<rparr> = s" by (simp add: fun_upd_idem)
  with assms(2) a show ?thesis
    by (auto simp: get_instance_def in_data_def act_bind_def act_map_err_def)
qed

text \<open>
  C12. The state machine guards the requests: \<open>start\<close> on a task that is not in the created state,
  \<open>kill\<close> on one that is not running, and \<open>delete\<close> on one that is neither created nor exited are
  answered with \<open>FAILED_PRECONDITION\<close> and change nothing; the instance is not called.
\<close>

theorem requests_guarded_by_state:
  assumes "task_of s (rq_id req) = Some d" and "rq_exec_id req = []" and "\<not> id_poisoned d"
    and "task_of s (rq_id kreq) = Some d" and "rq_exec_id kreq = []"
  shows "(id_state d \<noteq> Created \<longrightarrow>
      (\<exists>m. svc_start sd os T req s = (Err (RpcStatus FAILED_PRECONDITION m), s))) \<and>
    (id_state d \<noteq> Started \<longrightarrow>
      (\<exists>m. svc_kill sd T kreq s = (Err (RpcStatus FAILED_PRECONDITION m), s))) \<and>
    (id_state d \<notin> {Created, Exited} \<longrightarrow>
      (\<exists>m. svc_delete sd T req s = (Err (RpcStatus FAILED_PRECONDITION m), s)))"
  using assms
  by (auto simp: svc_start_def svc_kill_def svc_delete_def task_start_def task_kill_def task_delete_def
      intro!: svc_refused data_start_refused data_kill_refused data_delete_refused)

definition demo_created :: "(nat, cell_world) shim" where
  "demo_created = the (demo_run [Request (RCreate (demo_create ''a''))])"

definition demo_data :: "nat instance_data" where
  "demo_data = \<lparr>id_instance = 0, id_cfg = \<lparr>cfg_stdin = [], cfg_stdout = ''o'', cfg_stderr = [],
     cfg_bundle = ''/b'', cfg_namespace = ''ns'', cfg_containerd_address = ''/addr''\<rparr>,
     id_pid = None, id_state = Created, id_poisoned = False\<rparr>"

lemma demo_created_task: "task_of demo_created ''a'' = Some demo_data"
  by code_simp

theorem requests_guarded_by_state_witness:
  "\<exists>m. svc_kill demo_sd demo_T (demo_kill ''a'') demo_created =
     (Err (RpcStatus FAILED_PRECONDITION m), demo_created)"
  using requests_guarded_by_state [of demo_created "demo_req ''a''" demo_data "demo_kill ''a''"]
    demo_created_task
  by (simp add: demo_req_def demo_kill_def demo_data_def)

text \<open>
  C13. A successful \<open>start\<close>: the instance's own pid is the answer, is the pid of the start event and
  the pid of the one new waiter; the task is running with that pid.
\<close>

theorem start_succeeds:
  assumes "task_of s (rq_id req) = Some d" and "rq_exec_id req = []" and "data_inv d"
    and "\<not> id_poisoned d" and "id_state d = Created"
    and "inst_start T (id_instance d) (world s) = (Ok pid, w)"
    and "os_spawn_thread os (rq_id req @ ''-wait'') w = (Ok (), w')"
  shows "\<exists>t a. svc_start sd os T req s = (Ok pid, t) \<and>
    task_of t (rq_id req) = Some (d\<lparr>id_state := Started, id_pid := Some pid\<rparr>) \<and>
    events t = events s @ [TaskStart (rq_id req) pid] \<and>
    wait_threads t = wait_threads s @ [(a, rq_id req, pid)] \<and> instances t (rq_id req) = Some a"
proof -
  from assms(1) obtain a where "instances s (rq_id req) = Some a" "arcs s a = Some d" by (rule task_ofE)
  moreover have "data_start T (d, world s) = (Ok pid, (d\<lparr>id_state := Started, id_pid := Some pid\<rparr>, w))"
    using assms by (intro data_start_ok) (simp_all add: data_inv_def)
  ultimately show ?thesis
    using assms by (simp add: svc_start_def task_start_def spawn_wait_thread_def local_base_defs
        act_bind_def act_map_err_def task_of_def)
qed

theorem start_succeeds_witness:
  "\<exists>t. svc_start demo_sd demo_os demo_T (demo_req ''a'') demo_created = (Ok 42, t)"
  using start_succeeds [of demo_created "demo_req ''a''" demo_data demo_T 42 "world demo_created"
      demo_os "world demo_created" demo_sd] demo_created_task
  by (auto simp: demo_req_def demo_data_def data_inv_def demo_T_def instance_stub_def stub_start_def
      demo_os_def)

text \<open>
  Exit events: in every run, for every id and pid, the number of exit events never exceeds the
  number of start events, and while a waiter for them is still running it is strictly smaller. No
  task exit is published before its start, and none is published twice.
\<close>

lemma exit_events_answer_starts:
  assumes "shim_run sd os T (local_new namespace containerd_address w) s"
  shows "exits_of c p (events s) \<le> starts_of c p (events s) \<and>
    (waiters_of c p (wait_threads s) > 0 \<longrightarrow> exits_of c p (events s) < starts_of c p (events s))"
  using shim_inv_eventsD [OF shim_run_inv [OF assms shim_inv_new], of c p] by auto

lemma exit_events_answer_starts_witness:
  "exits_of ''a'' 42 (events demo_end) \<le> starts_of ''a'' 42 (events demo_end)"
  using exit_events_answer_starts [of demo_sd demo_os demo_T "''ns''" "''/addr''"
      "\<lparr>w_cells = [], w_now = demo_now\<rparr>" demo_end] demo_run_reachable [OF demo_end_run]
  by (simp add: demo_new_def)

section \<open>Creation\<close>

text \<open>\<open>unchanged s0 s\<close>: nothing but the world differs between \<open>s0\<close> and \<open>s\<close>.\<close>

definition same_setup :: "('i, 'w) shim \<Rightarrow> ('i, 'w) shim \<Rightarrow> bool" where
  "same_setup s0 s \<longleftrightarrow> wait_threads s = wait_threads s0 \<and> exit_signal s = exit_signal s0 \<and>
     sh_namespace s = sh_namespace s0 \<and> sh_containerd_address s = sh_containerd_address s0"

definition unchanged :: "('i, 'w) shim \<Rightarrow> ('i, 'w) shim \<Rightarrow> bool" where
  "unchanged s0 s \<longleftrightarrow> same_setup s0 s \<and> registry s = registry s0 \<and> arcs s = arcs s0 \<and>
     next_arc s = next_arc s0 \<and> events s = events s0"

text \<open>
  \<open>created s0 req announced s\<close>: the id of \<open>req\<close> was free in \<open>s0\<close> and has a new task now, announced
  or not yet; no other task and no other id changed.
\<close>

definition created :: "('i, 'w) shim \<Rightarrow> create_request \<Rightarrow> bool \<Rightarrow> ('i, 'w) shim \<Rightarrow> bool" where
  "created s0 req announced s \<longleftrightarrow> same_setup s0 s \<and>
     instances s0 (cr_id req) = None \<and> instances s = (instances s0)(cr_id req \<mapsto> next_arc s0) \<and>
     (\<exists>i. arcs s = (arcs s0)(next_arc s0 \<mapsto>
       \<lparr>id_instance = i, id_cfg = \<lparr>cfg_stdin = cr_stdin req, cfg_stdout = cr_stdout req,
          cfg_stderr = cr_stderr req, cfg_bundle = cr_bundle req, cfg_namespace = sh_namespace s0,
          cfg_containerd_address = sh_containerd_address s0\<rparr>,
        id_pid = None, id_state = Created, id_poisoned = False\<rparr>)) \<and>
     next_arc s = Suc (next_arc s0) \<and>
     events s = events s0 @ (if announced then [TaskCreate (cr_id req) (cr_bundle req) (cr_rootfs req)
        \<lparr>io_stdin = cr_stdin req, io_stdout = cr_stdout req, io_stderr = cr_stderr req\<rparr>] else [])"

lemmas created_defs = same_setup_def unchanged_def created_def

lemma unchanged_world: "keeps (unchanged s0) (in_world m)"
  by (rule keepsI) (auto simp: created_defs in_world_def split: prod.splits)

lemma unchanged_mount_all: "keeps (unchanged s0) (mount_all os rootfs ms)"
  unfolding mount_all_def by (intro keeps_for_each keeps_map_err unchanged_world)

lemma created_world: "keeps (created s0 req b) (in_world m)"
  by (rule keepsI) (auto simp: created_defs in_world_def split: prod.splits)

lemma triple_unchanged_register:
  assumes "instances s0 (cr_id req) = None"
  shows "triple (unchanged s0) (register_instance T (cr_id req) (set_stderr (cr_stderr req)
       (set_stdout (cr_stdout req) (set_stdin (cr_stdin req) (set_bundle (cr_bundle req) (instance_config s0))))))
     (\<lambda>_. created s0 req False) (unchanged s0)"
  using assms
  by (intro tripleI)
    (auto simp: created_defs register_instance_def data_new_def in_world_def instances_def AList.update_conv'
      insert_instance_def instance_config_def config_defs act_defs split: prod.splits res.splits)

lemma triple_created_event:
  "triple (created s0 req False) (send_event (TaskCreate (cr_id req) (cr_bundle req) (cr_rootfs req)
      \<lparr>io_stdin = cr_stdin req, io_stdout = cr_stdout req, io_stderr = cr_stderr req\<rparr>))
     (\<lambda>_. created s0 req True) E"
  by (rule tripleI) (auto simp: created_defs send_event_def)

text \<open>What \<open>create\<close> does before the prestart hooks, once the id is known to be free.\<close>

definition create_task ::
  "'w shim_os \<Rightarrow> ('i, 'w) instance_impl \<Rightarrow> create_request \<Rightarrow> ('i, 'w, oci_spec) shim_act" where
  "create_task os T req =
     act_bind (act_map_err (\<lambda>err. InvalidArgument (''could not load runtime spec: '' @ err))
         (in_world (os_spec_load os (path_join (cr_bundle req) ''config.json'')))) (\<lambda>spec0.
     act_bind (act_map_err (\<lambda>err. Shim (ShimInvalidArgument (''could not canonicalize rootfs: '' @ err)))
         (in_world (os_canonicalize_rootfs os (cr_bundle req) spec0))) (\<lambda>spec.
     act_bind (lift_res (ok_or (InvalidArgument ''rootfs is not set in runtime spec'') (spec_root spec))) (\<lambda>rootfs.
     act_bind (ignore_result (in_world (os_create_dir_all os rootfs))) (\<lambda>_.
     act_bind (mount_all os rootfs (cr_rootfs req)) (\<lambda>_.
     act_bind (read_shim instance_config) (\<lambda>cfg.
     act_bind (register_instance T (cr_id req)
         (set_stderr (cr_stderr req) (set_stdout (cr_stdout req) (set_stdin (cr_stdin req)
           (set_bundle (cr_bundle req) cfg))))) (\<lambda>_.
     act_bind (send_event (TaskCreate (cr_id req) (cr_bundle req) (cr_rootfs req)
         \<lparr>io_stdin = cr_stdin req, io_stdout = cr_stdout req, io_stderr = cr_stderr req\<rparr>)) (\<lambda>_.
     ret spec))))))))"

lemma task_create_split:
  assumes "cr_checkpoint req = []" and "cr_parent_checkpoint req = []" and "\<not> cr_terminal req"
    and "instances s (cr_id req) = None"
  shows "task_create os T req s = act_bind (create_task os T req) (\<lambda>spec.
     act_bind (in_world (setup_prestart_hooks (os_hooks os) (os_process_id os) (spec_hooks spec))) (\<lambda>_.
     ret (os_process_id os))) s"
proof -
  have free: "act_bind (read_shim (has_instance (cr_id req))) f s = f False s" for f :: "bool \<Rightarrow> ('a, 'b, u32) shim_act"
    using assms(4) by (simp add: act_bind_def read_shim_def has_instance_def)
  show ?thesis unfolding task_create_def create_task_def act_bind_assoc free
    using assms by (simp add: free act_bind_assoc del: ret_apply)
qed

lemma create_bind:
  assumes "keeps (unchanged s) m" and "\<And>a. triple (unchanged s) (f a) Q (unchanged s)"
  shows "triple (unchanged s) (act_bind m f) Q (unchanged s)"
  by (rule triple_bind [OF triple_of_keeps [OF assms(1)] assms(2)]) simp

lemma create_read_config:
  assumes "triple (unchanged s) (f (instance_config s)) Q E"
  shows "triple (unchanged s) (act_bind (read_shim instance_config) f) Q E"
  using assms by (auto simp: triple_def act_bind_def read_shim_def created_defs instance_config_def)

lemma triple_create_task:
  assumes "instances s (cr_id req) = None"
  shows "triple (unchanged s) (create_task os T req) (\<lambda>_. created s req True) (unchanged s)"
  unfolding create_task_def
  by ((rule create_read_config triple_bind [OF triple_unchanged_register [OF assms]
        triple_bind [OF triple_created_event triple_ret [of "\<lambda>_. created s req True"]]]
      | rule create_bind
      | intro keeps_map_err keeps_ignore_result keeps_pure unchanged_world unchanged_mount_all)+)

lemma create_refused:
  "cr_checkpoint req \<noteq> [] \<or> cr_parent_checkpoint req \<noteq> [] \<Longrightarrow>
    task_create os T req s = (Err (Shim (ShimUnimplemented ''checkpoint is not supported'')), s)"
  "cr_checkpoint req = [] \<Longrightarrow> cr_parent_checkpoint req = [] \<Longrightarrow> cr_terminal req \<Longrightarrow>
    task_create os T req s = (Err (InvalidArgument ''terminal is not supported''), s)"
  "cr_checkpoint req = [] \<Longrightarrow> cr_parent_checkpoint req = [] \<Longrightarrow> \<not> cr_terminal req \<Longrightarrow>
    instances s (cr_id req) \<noteq> None \<Longrightarrow> task_create os T req s = (Err (AlreadyExists (cr_id req)), s)"
  by (auto simp: task_create_def act_bind_def read_shim_def has_instance_def)

lemma create_refuses:
  "\<not> (cr_checkpoint req = [] \<and> cr_parent_checkpoint req = [] \<and> \<not> cr_terminal req \<and> instances s (cr_id req) = None) \<Longrightarrow>
    \<exists>e. task_create os T req s = (Err e, s)"
  using create_refused by blast

lemma res_map_cases:
  "Ok b = map_res f g h \<longleftrightarrow> (\<exists>a. h = Ok a \<and> b = g a)" "Err e = map_res f g h \<longleftrightarrow> (\<exists>a. h = Err a \<and> e = f a)"
  by (cases h; auto)+

text \<open>The two ways a \<open>create\<close> ends, and what each leaves.\<close>

lemma task_create_cases:
  fixes s :: "('i, 'w) shim"
  assumes "task_create os T req s = (r, t)" and "r \<noteq> Blocked"
  obtains (refused) "unchanged s t" "\<nexists>pid. r = Ok pid"
    | (hooks) spec v h where "created s req True t" "r = map_res id (\<lambda>_. os_process_id os) h"
        "setup_prestart_hooks (os_hooks os) (os_process_id os) (spec_hooks (spec :: oci_spec)) v = (h, world t)"
proof (cases "cr_checkpoint req = [] \<and> cr_parent_checkpoint req = [] \<and> \<not> cr_terminal req \<and> instances s (cr_id req) = None")
  case False
  moreover have "unchanged s s" by (simp add: created_defs)
  ultimately have "unchanged s t" "\<nexists>pid. r = Ok pid"
    using assms create_refuses [of req s os T] by auto
  then show ?thesis by (rule refused)
next
  case True
  obtain q u where q: "create_task os T req s = (q, u)" by (metis prod.exhaust)
  have start: "unchanged s s" by (simp add: created_defs)
  have P: "post (\<lambda>_. created s req True) (unchanged s) (q, u)"
    using triple_create_task [of s req os T] True start by (simp add: triple_def flip: q)
  have run: "task_create os T req s = act_bind (create_task os T req) (\<lambda>spec.
     act_bind (in_world (setup_prestart_hooks (os_hooks os) (os_process_id os) (spec_hooks spec))) (\<lambda>_.
     ret (os_process_id os))) s"
    using True by (intro task_create_split) simp_all
  show ?thesis
  proof (cases q)
    case (Ok spec)
    obtain h v where h: "setup_prestart_hooks (os_hooks os) (os_process_id os) (spec_hooks spec) (world u) = (h, v)"
      by (metis prod.exhaust)
    have "r = map_res id (\<lambda>_. os_process_id os) h" "t = u\<lparr>world := v\<rparr>"
      using assms(1) run q Ok h by (auto simp: act_bind_def in_world_def split: res.splits)
    moreover from this h have "setup_prestart_hooks (os_hooks os) (os_process_id os) (spec_hooks spec) (world u) = (h, world t)"
      by simp
    moreover have "created s req True t" using P Ok \<open>t = _\<close> by (simp add: created_defs)
    ultimately show ?thesis using hooks by blast
  qed (use P assms run q refused in \<open>auto simp: act_bind_def\<close>)
qed



text \<open>
  The guards of \<open>create\<close>: a checkpoint, a terminal and an id that is taken are refused with
  \<open>UNKNOWN\<close> (the shim's \<open>Unimplemented\<close>), \<open>INVALID_ARGUMENT\<close> and \<open>ALREADY_EXISTS\<close>, in this order of
  precedence, before anything of the bundle is read.
\<close>

lemma create_guards_refuse:
  "(cr_checkpoint req \<noteq> [] \<or> cr_parent_checkpoint req \<noteq> [] \<longrightarrow>
     (\<exists>m. svc_create sd os T req s = (Err (RpcStatus UNKNOWN m), s))) \<and>
   (cr_checkpoint req = [] \<and> cr_parent_checkpoint req = [] \<and> cr_terminal req \<longrightarrow>
     (\<exists>m. svc_create sd os T req s = (Err (RpcStatus INVALID_ARGUMENT m), s))) \<and>
   (cr_checkpoint req = [] \<and> cr_parent_checkpoint req = [] \<and> \<not> cr_terminal req \<and>
      instances s (cr_id req) \<noteq> None \<longrightarrow>
     svc_create sd os T req s = (Err (RpcStatus ALREADY_EXISTS (cr_id req)), s))"
  by (auto simp: svc_create_def task_create_def act_map_err_apply read_shim_def has_instance_def
      act_bind_def)

lemma create_guards_refuse_witness:
  "svc_create demo_sd demo_os demo_T (demo_create ''a'') demo_created =
     (Err (RpcStatus ALREADY_EXISTS ''a''), demo_created)"
proof -
  have "instances demo_created ''a'' = Some 0" by code_simp
  then show ?thesis
    using create_guards_refuse [of "demo_create ''a''" demo_sd demo_os demo_T demo_created]
    by (simp add: demo_create_def)
qed

end
