(* ===== verification/Service_Tests.thy ===== *)
theory Service_Tests
  imports Local_Props
begin

text \<open>
  \<open>sandbox/shim/local/tests.rs\<close>: the tests of the task service, run against its model. A test is
  an action on the service, with the stub as its instance; \<open>?\<close> and \<open>unwrap\<close> end it with an error or
  a panic, as does an assertion that does not hold.

  A test starts a thread that waits for a task, finds nothing received from it yet, kills the task
  and then receives the answer. In the model the call is made at both points: at the first it must
  block, at the second it must return. The file system below the temporary directories is a
  parameter, with what the tests write there.
\<close>

section \<open>Helpers\<close>

record 'w bundle_os =
  bo_create_dir :: "path \<Rightarrow> ('w, string, unit) act"
  bo_write_spec :: "path \<Rightarrow> oci_spec \<Rightarrow> ('w, string, unit) act"

definition spec_default :: oci_spec where
  "spec_default = \<lparr>spec_root = Some ''rootfs'', spec_process = None, spec_hooks = None, spec_annotations = None\<rparr>"

text \<open>
  The closure that would copy the annotations of the given specification is the argument of a lazy
  \<open>map\<close> that nothing consumes: only the new annotation is set.
\<close>

definition with_cri_sandbox :: "oci_spec option \<Rightarrow> string \<Rightarrow> oci_spec" where
  "with_cri_sandbox spec sandbox_id =
     (unwrap_or spec_default spec)\<lparr>spec_annotations := Some [''io.kubernetes.cri.sandbox-id'' \<mapsto> sandbox_id]\<rparr>"

definition create_bundle :: "'w bundle_os \<Rightarrow> path \<Rightarrow> oci_spec option \<Rightarrow> ('w, string, unit) act" where
  "create_bundle bo dir spec =
     act_bind (bo_create_dir bo (path_join dir ''rootfs'')) (\<lambda>_.
     act_map_err (\<lambda>_. ''could not write config.json'')
       (bo_write_spec bo (path_join dir ''config.json'') (unwrap_or spec_default spec)))"

definition create_of :: "string \<Rightarrow> path \<Rightarrow> create_request" where
  "create_of cid dir = \<lparr>cr_id = cid, cr_bundle = dir, cr_rootfs = [], cr_terminal = False, cr_stdin = [],
     cr_stdout = [], cr_stderr = [], cr_checkpoint = [], cr_parent_checkpoint = []\<rparr>"

definition req_of :: "string \<Rightarrow> task_request" where
  "req_of cid = \<lparr>rq_id = cid, rq_exec_id = []\<rparr>"

definition kill_of :: "string \<Rightarrow> kill_request" where
  "kill_of cid = \<lparr>rq_id = cid, rq_exec_id = [], rq_signal = 9\<rparr>"

definition assert_that :: "bool \<Rightarrow> ('s, 'e, unit) act" where
  "assert_that b = (if b then ret () else panic ''assertion failed'')"

definition assert_status :: "('i, 'w) instance_impl \<Rightarrow> string \<Rightarrow> status \<Rightarrow> ('i, 'w, unit) shim_act" where
  "assert_status T cid st = act_bind (task_state T (req_of cid)) (\<lambda>r. assert_that (sr_status r = st))"

text \<open>\<open>unwrap_err\<close>, then the error has to be the one given or is returned.\<close>

definition expect_err :: "('e \<Rightarrow> bool) \<Rightarrow> ('s, 'e, 'a) act \<Rightarrow> ('s, 'e, unit) act" where
  "expect_err P m = act_bind (attempt m) (\<lambda>r. case r of
      Inl e \<Rightarrow> if P e then ret () else throw e
    | Inr _ \<Rightarrow> panic ''called `Result::unwrap_err()` on an `Ok` value'')"

fun is_not_found :: "error \<Rightarrow> bool" where
  "is_not_found (NotFound _) = True"
| "is_not_found _ = False"

fun is_already_exists :: "error \<Rightarrow> bool" where
  "is_already_exists (AlreadyExists _) = True"
| "is_already_exists _ = False"

definition still_waiting :: "('i, 'w) instance_impl \<Rightarrow> string \<Rightarrow> ('i, 'w, unit) shim_act" where
  "still_waiting T cid = (\<lambda>s. assert_that (fst (task_wait T (req_of cid) s) = Blocked) s)"

definition wait_answered :: "('i, 'w) instance_impl \<Rightarrow> string \<Rightarrow> ('i, 'w, unit) shim_act" where
  "wait_answered T cid = act_bind (task_wait T (req_of cid)) (\<lambda>_. ret ())"

text \<open>The end of a test: the destructor kills and deletes what is left, and unwraps the deletion.\<close>

definition local_destructor :: "('i, 'w) instance_impl \<Rightarrow> ('i, 'w, unit) shim_act" where
  "local_destructor T = act_bind (read_shim registry) (\<lambda>entries.
     for_each (\<lambda>(_, a).
       act_bind (ignore_result (in_data a (data_kill T 9))) (\<lambda>_.
       act_bind (attempt (in_data a (data_delete T))) (\<lambda>r. case r of
          Inl _ \<Rightarrow> panic ''called `Result::unwrap()` on an `Err` value'' | Inr _ \<Rightarrow> ret ()))) entries)"

section \<open>The tests\<close>

definition any_err :: "('s, string, 'a) act \<Rightarrow> ('s, error, 'a) act" where
  "any_err m = act_map_err Any m"

definition test_delete_after_create ::
  "'w bundle_os \<Rightarrow> 'w shim_os \<Rightarrow> ('i, 'w) instance_impl \<Rightarrow> path \<Rightarrow> ('i, 'w, unit) shim_act" where
  "test_delete_after_create bo os T dir =
     act_bind (any_err (in_world (create_bundle bo dir None))) (\<lambda>_.
     act_bind (task_create os T (create_of ''test-delete-after-create'' dir)) (\<lambda>_.
     act_bind (task_delete T (req_of ''test-delete-after-create'')) (\<lambda>_.
     local_destructor T)))"

definition test_task_lifecycle ::
  "'w bundle_os \<Rightarrow> 'w shim_os \<Rightarrow> ('i, 'w) instance_impl \<Rightarrow> path \<Rightarrow> ('i, 'w, unit) shim_act" where
  "test_task_lifecycle bo os T dir =
     act_bind (any_err (in_world (create_bundle bo dir None))) (\<lambda>_.
     act_bind (expect_err is_not_found (task_state T (req_of ''test''))) (\<lambda>_.
     act_bind (task_create os T (create_of ''test'' dir)) (\<lambda>_.
     act_bind (expect_err is_already_exists (task_create os T (create_of ''test'' dir))) (\<lambda>_.
     act_bind (assert_status T ''test'' CREATED) (\<lambda>_.
     act_bind (task_start os T (req_of ''test'')) (\<lambda>_.
     act_bind (assert_status T ''test'' RUNNING) (\<lambda>_.
     act_bind (still_waiting T ''test'') (\<lambda>_.
     act_bind (task_stats os (req_of ''test'')) (\<lambda>_.
     act_bind (task_kill T (kill_of ''test'')) (\<lambda>_.
     act_bind (wait_answered T ''test'') (\<lambda>_.
     act_bind (assert_status T ''test'' STOPPED) (\<lambda>_.
     act_bind (task_delete T (req_of ''test'')) (\<lambda>_.
     act_bind (expect_err is_not_found (task_state T (req_of ''test''))) (\<lambda>_.
     local_destructor T))))))))))))))"

text \<open>The two halves of the test with a sandbox: start a task, and kill and delete one.\<close>

definition cri_start ::
  "'w bundle_os \<Rightarrow> 'w shim_os \<Rightarrow> ('i, 'w) instance_impl \<Rightarrow> path \<Rightarrow> string \<Rightarrow> ('i, 'w, unit) shim_act" where
  "cri_start bo os T dir cid =
     act_bind (any_err (in_world (create_bundle bo dir (Some (with_cri_sandbox None ''test-cri-task''))))) (\<lambda>_.
     act_bind (task_create os T (create_of cid dir)) (\<lambda>_.
     act_bind (assert_status T cid CREATED) (\<lambda>_.
     act_bind (get_instance cid) (\<lambda>_.
     act_bind (task_start os T (req_of cid)) (\<lambda>_.
     assert_status T cid RUNNING)))))"

definition cri_stop :: "('i, 'w) instance_impl \<Rightarrow> string \<Rightarrow> ('i, 'w, unit) shim_act" where
  "cri_stop T cid =
     act_bind (task_kill T (kill_of cid)) (\<lambda>_.
     act_bind (wait_answered T cid) (\<lambda>_.
     act_bind (assert_status T cid STOPPED) (\<lambda>_.
     act_bind (task_delete T (req_of cid)) (\<lambda>_.
     expect_err is_not_found (task_state T (req_of cid))))))"

definition test_cri_task ::
  "'w bundle_os \<Rightarrow> 'w shim_os \<Rightarrow> ('i, 'w) instance_impl \<Rightarrow> path \<Rightarrow> path \<Rightarrow> ('i, 'w, unit) shim_act" where
  "test_cri_task bo os T dir dir2 =
     act_bind (cri_start bo os T dir ''testbase'') (\<lambda>_.
     act_bind (still_waiting T ''testbase'') (\<lambda>_.
     act_bind (cri_start bo os T dir2 ''testinstance'') (\<lambda>_.
     act_bind (task_stats os (req_of ''testinstance'')) (\<lambda>_.
     act_bind (still_waiting T ''testinstance'') (\<lambda>_.
     act_bind (cri_stop T ''testinstance'') (\<lambda>_.
     act_bind (still_waiting T ''testbase'') (\<lambda>_.
     act_bind (assert_status T ''testbase'' RUNNING) (\<lambda>_.
     act_bind (cri_stop T ''testbase'') (\<lambda>_.
     local_destructor T)))))))))"

section \<open>They pass\<close>

text \<open>The tests on the stub, over an operating system where the bundle can be written and read back.\<close>

definition demo_bo :: "cell_world bundle_os" where
  "demo_bo = \<lparr>bo_create_dir = (\<lambda>_. ret ()), bo_write_spec = (\<lambda>_ _. ret ())\<rparr>"

lemma test_delete_after_create_passes:
  "fst (test_delete_after_create demo_bo demo_os demo_T ''/d'' demo_new) = Ok ()"
  by code_simp

lemma test_task_lifecycle_passes:
  "fst (test_task_lifecycle demo_bo demo_os demo_T ''/d'' demo_new) = Ok ()"
  by code_simp

lemma test_cri_task_passes:
  "fst (test_cri_task demo_bo demo_os demo_T ''/d'' ''/e'' demo_new) = Ok ()"
  by code_simp

text \<open>
  The destructor is only good for tests that leave no running task: after its own \<open>kill\<close> the task
  is still in the state that forbids deletion, and the unwrap panics.
\<close>

lemma destructor_panics_on_running_task:
  "fst (act_bind (cri_start demo_bo demo_os demo_T ''/d'' ''a'') (\<lambda>_. local_destructor demo_T) demo_new) =
     Panic ''called `Result::unwrap()` on an `Err` value''"
  by code_simp

end
