(* ===== verification/Runtime_Context.thy ===== *)
theory Runtime_Context
  imports Oci
begin

text \<open>
  \<open>container/path.rs\<close>, \<open>container/context.rs\<close>, \<open>container/wasm.rs\<close> and
  \<open>container/engine.rs\<close>: how a module is found, what an engine is told about the container, and
  the defaults of the \<open>Engine\<close> trait.

  The file system is a record of the queries the source makes; \<open>fs_canonicalize\<close> and
  \<open>fs_read\<close> resolve a relative path against the working directory as the system does. The \<open>wat\<close>
  parser and the \<open>wasmparser\<close> predicates are parameters. An \<open>anyhow\<close> error is its text.
\<close>

section \<open>PathResolve\<close>

record fs =
  fs_cwd :: "path option"
  fs_env_path :: "string option"
  fs_canonicalize :: "path \<Rightarrow> path option"
  fs_is_dir :: "path \<Rightarrow> bool"
  fs_is_file :: "path \<Rightarrow> bool"
  fs_read :: "path \<Rightarrow> (string, bytes) res"

definition search_paths :: "fs \<Rightarrow> path list" where
  "search_paths fs = (case fs_env_path fs of None \<Rightarrow> [] | Some p \<Rightarrow> str_split (CHR '':'') p)"

text \<open>\<open>existing k\<close>: canonicalize a path and keep it if it is of kind \<open>k\<close>.\<close>

definition existing :: "fs \<Rightarrow> (path \<Rightarrow> bool) \<Rightarrow> path \<Rightarrow> path option" where
  "existing fs k p = Option.bind (fs_canonicalize fs p) (\<lambda>q. if k q then Some q else None)"

definition has_separator :: "path \<Rightarrow> bool" where
  "has_separator file \<longleftrightarrow> length (components file) > 1"

definition candidate_dirs :: "fs \<Rightarrow> path \<Rightarrow> path list \<Rightarrow> path list" where
  "candidate_dirs fs file dirs =
     (if has_separator file then (case fs_cwd fs of None \<Rightarrow> [] | Some cwd \<Rightarrow> [cwd])
      else List.map_filter (\<lambda>p. Option.bind (fs_cwd fs) (\<lambda>cwd. existing fs (fs_is_dir fs) (path_join cwd p))) dirs)"

definition resolve_in_dirs :: "fs \<Rightarrow> path \<Rightarrow> path list \<Rightarrow> path list" where
  "resolve_in_dirs fs file dirs =
     List.map_filter (\<lambda>p. existing fs (fs_is_file fs) (path_join p file)) (candidate_dirs fs file dirs)"

definition resolve_in_path :: "fs \<Rightarrow> path \<Rightarrow> path list" where
  "resolve_in_path fs file = resolve_in_dirs fs file (search_paths fs)"

definition resolve_in_path_or_cwd :: "fs \<Rightarrow> path \<Rightarrow> path list" where
  "resolve_in_path_or_cwd fs file =
     resolve_in_dirs fs file (search_paths fs @ (case fs_cwd fs of None \<Rightarrow> [] | Some cwd \<Rightarrow> [cwd]))"

lemmas resolve_defs = existing_def candidate_dirs_def resolve_in_dirs_def resolve_in_path_def
  resolve_in_path_or_cwd_def

lemma set_map_filter: "y \<in> set (List.map_filter f xs) \<longleftrightarrow> (\<exists>x \<in> set xs. f x = Some y)"
  by (induction xs) (auto simp: List.map_filter_simps split: option.split)

lemma map_filter_append [simp]: "List.map_filter f (xs @ ys) = List.map_filter f xs @ List.map_filter f ys"
  by (induction xs) (auto simp: List.map_filter_simps split: option.split)

lemma existing_Some: "existing fs k p = Some q \<longleftrightarrow> fs_canonicalize fs p = Some q \<and> k q"
  by (auto simp: existing_def bind_eq_Some_conv)

lemma resolve_in_dirs_append:
  "\<not> has_separator file \<Longrightarrow>
   resolve_in_dirs fs file (ds @ es) = resolve_in_dirs fs file ds @ resolve_in_dirs fs file es"
  by (simp add: resolve_in_dirs_def candidate_dirs_def)

section \<open>The runtime context\<close>

datatype source = SourceFile path | SourceOci "wasm_layer list"

record entrypoint_rec =
  ep_func :: string
  ep_name :: "string option"
  ep_arg0 :: "string option"
  ep_source :: source

record wasi_context =
  wc_spec :: oci_spec
  wc_wasm_layers :: "wasm_layer list"
  wc_platform :: oci_platform

definition ctx_args :: "wasi_context \<Rightarrow> string list" where
  "ctx_args ctx = unwrap_or [] (Option.bind (spec_process (wc_spec ctx)) proc_args)"

definition ctx_envs :: "wasi_context \<Rightarrow> string list" where
  "ctx_envs ctx = unwrap_or [] (Option.bind (spec_process (wc_spec ctx)) proc_env)"

definition list_first :: "'a list \<Rightarrow> 'a option" where
  "list_first xs = (case xs of [] \<Rightarrow> None | x # _ \<Rightarrow> Some x)"

definition ctx_entrypoint :: "wasi_context \<Rightarrow> entrypoint_rec" where
  "ctx_entrypoint ctx =
     (let arg0 = list_first (ctx_args ctx);
          entry_point = unwrap_or [] arg0;
          (p, func) = unwrap_or (entry_point, ''_start'') (split_once (CHR ''#'') entry_point);
          source = (if wc_wasm_layers ctx = [] then SourceFile p else SourceOci (wc_wasm_layers ctx))
      in \<lparr>ep_func = func, ep_name = file_stem p, ep_arg0 = arg0, ep_source = source\<rparr>)"

definition ctx_platform :: "wasi_context \<Rightarrow> oci_platform" where
  "ctx_platform ctx = wc_platform ctx"

lemmas ctx_defs = ctx_args_def ctx_envs_def ctx_entrypoint_def ctx_platform_def list_first_def

text \<open>\<open>Source::as_bytes\<close>.\<close>

definition first_candidate :: "fs \<Rightarrow> path \<Rightarrow> (string, path) res" where
  "first_candidate fs p = ok_or ''module not found'' (list_first (resolve_in_path_or_cwd fs p))"

fun source_as_bytes :: "fs \<Rightarrow> source \<Rightarrow> (string, bytes) res" where
  "source_as_bytes fs (SourceFile p) = res_bind (first_candidate fs p) (fs_read fs)"
| "source_as_bytes fs (SourceOci [module]) = Ok (wl_layer module)"
| "source_as_bytes fs (SourceOci _) =
     Err ''only a single module is supported when using images with OCI layers''"

section \<open>The Engine trait\<close>

text \<open>\<open>can_precompile\<close> returns an \<open>Option\<close>: it may panic, but it has no error to return.\<close>

record 'w engine =
  eng_name :: string
  eng_run_wasi :: "wasi_context \<Rightarrow> ('w, string, int) act"
  eng_can_handle :: "wasi_context \<Rightarrow> (string, unit) res"
  eng_supported_layers_types :: "string list"
  eng_precompile :: "wasm_layer list \<Rightarrow> (string, bytes option list) res"
  eng_can_precompile :: "(error, string option) res"

definition wasm_magic :: bytes where
  "wasm_magic = [0, 97, 115, 109]"

text \<open>\<open>read_exact\<close> into a buffer of four bytes.\<close>

definition read_header :: "fs \<Rightarrow> path \<Rightarrow> (string, bytes) res" where
  "read_header fs p = res_bind (fs_read fs p) (\<lambda>content.
     if length content < 4 then Err ''failed to fill whole buffer'' else Ok (take 4 content))"

text \<open>The provided \<open>can_handle\<close>: the candidate is found and dropped, the path itself is opened.\<close>

definition default_can_handle ::
  "fs \<Rightarrow> (path \<Rightarrow> (string, unit) res) \<Rightarrow> wasi_context \<Rightarrow> (string, unit) res" where
  "default_can_handle fs wat_parse_file ctx =
     (case ep_source (ctx_entrypoint ctx) of
        SourceOci _ \<Rightarrow> Ok ()
      | SourceFile p \<Rightarrow>
          res_bind (first_candidate fs p) (\<lambda>_.
          res_bind (read_header fs p) (\<lambda>buffer.
          if buffer \<noteq> wasm_magic then wat_parse_file p else Ok ())))"

definition default_supported_layers_types :: "string list" where
  "default_supported_layers_types =
     [''application/vnd.bytecodealliance.wasm.component.layer.v0+wasm'', ''application/wasm'']"

definition default_precompile :: "wasm_layer list \<Rightarrow> (string, bytes option list) res" where
  "default_precompile _ = Err ''precompile not supported''"

definition default_can_precompile :: "(error, string option) res" where
  "default_can_precompile = Ok None"

datatype wasm_binary_type = Module | Component

definition binary_type_from_bytes ::
  "(bytes \<Rightarrow> bool) \<Rightarrow> (bytes \<Rightarrow> bool) \<Rightarrow> bytes \<Rightarrow> wasm_binary_type option" where
  "binary_type_from_bytes is_component is_core_wasm bytes =
     (if is_component bytes then Some Component
      else if is_core_wasm bytes then Some Module
      else None)"

section \<open>Properties\<close>

text \<open>
  Every candidate \<open>resolve_in_dirs\<close> yields is the canonical path of an existing file, made from
  the file name and one of the allowed directories: the working directory alone when the name has
  a separator, and the given directories, resolved against the working directory, otherwise.
\<close>

lemma resolve_candidates:
  "q \<in> set (resolve_in_dirs fs file dirs) \<longleftrightarrow>
     (\<exists>dir cwd. fs_cwd fs = Some cwd \<and>
        (if has_separator file then dir = cwd
         else (\<exists>d \<in> set dirs. fs_canonicalize fs (path_join cwd d) = Some dir \<and> fs_is_dir fs dir)) \<and>
        fs_canonicalize fs (path_join dir file) = Some q \<and> fs_is_file fs q)"
proof -
  have "dir \<in> set (candidate_dirs fs file dirs) \<longleftrightarrow> (\<exists>cwd. fs_cwd fs = Some cwd \<and>
      (if has_separator file then dir = cwd
       else (\<exists>d \<in> set dirs. fs_canonicalize fs (path_join cwd d) = Some dir \<and> fs_is_dir fs dir)))" for dir
    by (cases "fs_cwd fs") (auto simp: candidate_dirs_def set_map_filter existing_Some)
  then show ?thesis
    unfolding resolve_in_dirs_def set_map_filter Bex_def existing_Some by blast
qed

text \<open>
  A bare file name is looked up like \<open>which\<close>: all candidates from the entries of \<open>PATH\<close>, in
  the order of \<open>PATH\<close>, come before those from the working directory; a name with a separator
  ignores \<open>PATH\<close>.
\<close>

lemma resolve_order:
  "(\<not> has_separator file \<longrightarrow>
      resolve_in_path_or_cwd fs file = resolve_in_path fs file @
        resolve_in_dirs fs file (case fs_cwd fs of None \<Rightarrow> [] | Some cwd \<Rightarrow> [cwd])) \<and>
   (has_separator file \<longrightarrow> resolve_in_dirs fs file dirs = resolve_in_dirs fs file [])"
  by (simp add: resolve_in_path_or_cwd_def resolve_in_path_def resolve_in_dirs_append)
    (simp add: resolve_in_dirs_def candidate_dirs_def)

definition demo_fs :: fs where
  "demo_fs = \<lparr>fs_cwd = Some ''/w'', fs_env_path = Some ''/bin:sub'', fs_canonicalize = Some,
     fs_is_dir = (\<lambda>p. p \<in> {''/bin'', ''/w/sub'', ''/w''}),
     fs_is_file = (\<lambda>p. p \<in> {''/bin/app.wasm'', ''/w/app.wasm''}),
     fs_read = (\<lambda>p. if p = ''/bin/app.wasm'' then Ok [0, 97, 115, 109, 1] else Err ''not found'')\<rparr>"

lemma resolve_order_witness:
  "resolve_in_path_or_cwd demo_fs ''app.wasm'' = [''/bin/app.wasm'', ''/w/app.wasm''] \<and>
   resolve_in_path demo_fs ''app.wasm'' = [''/bin/app.wasm'']"
proof -
  have "\<not> has_separator ''app.wasm''" by code_simp
  then have "resolve_in_path_or_cwd demo_fs ''app.wasm'' = resolve_in_path demo_fs ''app.wasm'' @
      resolve_in_dirs demo_fs ''app.wasm'' [''/w'']"
    using resolve_order [of "''app.wasm''" demo_fs] by (simp add: demo_fs_def)
  moreover have "resolve_in_path demo_fs ''app.wasm'' = [''/bin/app.wasm'']" by code_simp
  moreover have "resolve_in_dirs demo_fs ''app.wasm'' [''/w''] = [''/w/app.wasm'']" by code_simp
  ultimately show ?thesis by simp
qed

text \<open>
  C27. The entrypoint \<open>path#func\<close>: the function is what follows the first \<open>#\<close>, \<open>_start\<close> when there
  is none; the module name is the file stem of the path; the module comes from the wasm layers
  when the image has any and from the path otherwise; an empty argument list is the empty path.
\<close>

theorem entrypoint_parsed:
  "(CHR ''#'' \<notin> set p \<longrightarrow> ctx_args ctx = (p @ ''#'' @ f) # rest \<longrightarrow>
      ctx_entrypoint ctx = \<lparr>ep_func = f, ep_name = file_stem p, ep_arg0 = Some (p @ ''#'' @ f),
        ep_source = (if wc_wasm_layers ctx = [] then SourceFile p else SourceOci (wc_wasm_layers ctx))\<rparr>) \<and>
   (CHR ''#'' \<notin> set p \<longrightarrow> ctx_args ctx = p # rest \<longrightarrow>
      ctx_entrypoint ctx = \<lparr>ep_func = ''_start'', ep_name = file_stem p, ep_arg0 = Some p,
        ep_source = (if wc_wasm_layers ctx = [] then SourceFile p else SourceOci (wc_wasm_layers ctx))\<rparr>) \<and>
   (ctx_args ctx = [] \<longrightarrow>
      ctx_entrypoint ctx = \<lparr>ep_func = ''_start'', ep_name = None, ep_arg0 = None,
        ep_source = (if wc_wasm_layers ctx = [] then SourceFile [] else SourceOci (wc_wasm_layers ctx))\<rparr>)"
proof (intro conjI impI)
  assume "CHR ''#'' \<notin> set p" and args: "ctx_args ctx = (p @ ''#'' @ f) # rest"
  then have "split_once (CHR ''#'') (p @ ''#'' @ f) = Some (p, f)"
    by (simp add: split_once_Some_iff)
  with args show "ctx_entrypoint ctx = \<lparr>ep_func = f, ep_name = file_stem p, ep_arg0 = Some (p @ ''#'' @ f),
      ep_source = (if wc_wasm_layers ctx = [] then SourceFile p else SourceOci (wc_wasm_layers ctx))\<rparr>"
    by (simp add: ctx_entrypoint_def list_first_def)
next
  assume "CHR ''#'' \<notin> set p" and args: "ctx_args ctx = p # rest"
  then have "split_once (CHR ''#'') p = None" by (simp add: split_once_None_iff)
  with args show "ctx_entrypoint ctx = \<lparr>ep_func = ''_start'', ep_name = file_stem p, ep_arg0 = Some p,
      ep_source = (if wc_wasm_layers ctx = [] then SourceFile p else SourceOci (wc_wasm_layers ctx))\<rparr>"
    by (simp add: ctx_entrypoint_def list_first_def)
next
  assume args: "ctx_args ctx = []"
  have "file_stem [] = None" by code_simp
  with args show "ctx_entrypoint ctx = \<lparr>ep_func = ''_start'', ep_name = None, ep_arg0 = None,
      ep_source = (if wc_wasm_layers ctx = [] then SourceFile [] else SourceOci (wc_wasm_layers ctx))\<rparr>"
    by (simp add: ctx_entrypoint_def list_first_def)
qed

definition demo_ctx :: "string list \<Rightarrow> wasi_context" where
  "demo_ctx args = \<lparr>wc_spec = \<lparr>spec_root = None,
       spec_process = Some \<lparr>proc_args = Some args, proc_env = None\<rparr>, spec_hooks = None,
       spec_annotations = None\<rparr>,
     wc_wasm_layers = [], wc_platform = \<lparr>platform_os = [], platform_architecture = ArchWasm\<rparr>\<rparr>"

theorem entrypoint_parsed_witness:
  "ctx_entrypoint (demo_ctx [''/app/app.wasm#entry'']) =
     \<lparr>ep_func = ''entry'', ep_name = Some ''app'', ep_arg0 = Some ''/app/app.wasm#entry'',
      ep_source = SourceFile ''/app/app.wasm''\<rparr>"
proof -
  have "file_stem ''/app/app.wasm'' = Some ''app''" by code_simp
  then show ?thesis
    using entrypoint_parsed [of "''/app/app.wasm''" "demo_ctx [''/app/app.wasm#entry'']" "''entry''" "[]"]
    by (simp add: demo_ctx_def ctx_args_def)
qed

text \<open>
  The default \<open>can_handle\<close> opens the entrypoint path itself and not the candidate it resolved:
  a module that \<open>as_bytes\<close> reads through \<open>PATH\<close> is refused when the path cannot be opened as it
  is written.
\<close>

lemma can_handle_ignores_candidate:
  assumes "ep_source (ctx_entrypoint ctx) = SourceFile p" and "resolve_in_path_or_cwd fs p = q # qs"
    and "fs_read fs q = Ok content" and "fs_read fs p = Err e"
  shows "source_as_bytes fs (ep_source (ctx_entrypoint ctx)) = Ok content \<and>
    default_can_handle fs wat ctx = Err e"
  using assms by (simp add: default_can_handle_def first_candidate_def list_first_def read_header_def)

lemma can_handle_ignores_candidate_witness:
  "source_as_bytes demo_fs (SourceFile ''app.wasm'') = Ok [0, 97, 115, 109, 1] \<and>
   default_can_handle demo_fs (\<lambda>_. Ok ()) (demo_ctx [''app.wasm'']) = Err ''not found''"
proof -
  have "ep_source (ctx_entrypoint (demo_ctx [''app.wasm''])) = SourceFile ''app.wasm''" by code_simp
  moreover have "resolve_in_path_or_cwd demo_fs ''app.wasm'' = [''/bin/app.wasm'', ''/w/app.wasm'']"
    by code_simp
  moreover have "fs_read demo_fs ''/bin/app.wasm'' = Ok [0, 97, 115, 109, 1]" by code_simp
  moreover have "fs_read demo_fs ''app.wasm'' = Err ''not found''" by code_simp
  ultimately show ?thesis
    using can_handle_ignores_candidate [of "demo_ctx [''app.wasm'']" "''app.wasm''" demo_fs] by simp
qed

end
