(* ===== verification/Containerd.thy ===== *)
theory Containerd
  imports Runtime_Context
begin

text \<open>
  \<open>sandbox/containerd/client.rs\<close> and \<open>sandbox/containerd/lease.rs\<close>: the client of the
  containerd daemon, which loads the wasm layers of an image and caches their precompiled form in
  the daemon's content store.

  The daemon is the record \<open>containerd\<close> of the remote calls the client makes, over a state \<open>'w\<close>;
  a gRPC status is its code (only \<open>AlreadyExists\<close> is told apart) and its text. The digest function,
  the manifest and platform parsers and the syntax check of digests belong to other crates and are
  the record \<open>formats\<close>. A lease guard that is dropped hands the deletion of its lease to
  \<open>tokio::spawn\<close> and does not wait for it: the runtime is the current-thread one of the thread
  (\<open>async_utils.rs\<close>), so the deletion runs while that thread waits for a later call, or never.
  What \<open>tokio::spawn\<close> does with it is the field \<open>ctd_spawn_delete\<close>. An \<open>i64\<close> offset is an
  \<open>int\<close>: sizes are far from the limits of the type.
\<close>

section \<open>The daemon\<close>

datatype grpc_code = GrpcAlreadyExists | GrpcOther

datatype grpc_status = GrpcStatus (grpc_code: grpc_code) (grpc_text: string)

datatype write_action = Stat | Write | Commit

record write_request =
  wq_ref :: string
  wq_action :: write_action
  wq_total :: int
  wq_expected :: string
  wq_offset :: int
  wq_data :: bytes
  wq_labels :: "string \<rightharpoonup> string"

record write_response =
  ws_offset :: int
  ws_digest :: string

record content_info =
  info_digest :: string
  info_labels :: "string \<rightharpoonup> string"

record image =
  img_name :: string
  img_target :: "descriptor option"

record container_rec =
  con_id :: string
  con_image :: string

record manifest =
  man_config :: descriptor
  man_layers :: "descriptor list"

text \<open>The first argument of each call is the namespace. A write stream is named by a number.\<close>

record 'w containerd =
  ctd_connect :: "path \<Rightarrow> ('w, string, unit) act"
  ctd_read :: "string \<Rightarrow> string \<Rightarrow> ('w, string, (string + bytes) list) act"
  ctd_delete :: "string \<Rightarrow> string \<Rightarrow> ('w, string, unit) act"
  ctd_lease_create :: "string \<Rightarrow> string \<Rightarrow> (string \<rightharpoonup> string) \<Rightarrow> ('w, string, string option) act"
  ctd_lease_delete :: "string \<Rightarrow> string \<Rightarrow> ('w, string, unit) act"
  ctd_write :: "string \<Rightarrow> string \<Rightarrow> write_request \<Rightarrow> ('w, grpc_status, nat) act"
  ctd_send :: "nat \<Rightarrow> write_request \<Rightarrow> ('w, string, unit) act"
  ctd_message :: "nat \<Rightarrow> ('w, string, write_response option) act"
  ctd_info :: "string \<Rightarrow> string \<Rightarrow> ('w, string, content_info option) act"
  ctd_update :: "string \<Rightarrow> content_info \<Rightarrow> string list \<Rightarrow> ('w, string, content_info option) act"
  ctd_get_image :: "string \<Rightarrow> string \<Rightarrow> ('w, string, image option) act"
  ctd_get_container :: "string \<Rightarrow> string \<Rightarrow> ('w, string, container_rec option) act"
  ctd_lease_expiry :: "'w \<Rightarrow> string"
  ctd_spawn_delete :: "string \<Rightarrow> string \<Rightarrow> 'w \<Rightarrow> 'w"

record formats =
  sha256 :: "bytes \<Rightarrow> string"
  parse_digest :: "string \<Rightarrow> (string, string) res"
  parse_manifest :: "bytes \<Rightarrow> (string, manifest) res"
  parse_platform :: "bytes \<Rightarrow> (string, oci_platform) res"

record client =
  cl_namespace :: string

definition PRECOMPILE_PREFIX :: string where
  "PRECOMPILE_PREFIX = ''runwasi.io/precompiled''"

definition MAX_WRITE_CHUNK_SIZE_BYTES :: int where
  "MAX_WRITE_CHUNK_SIZE_BYTES = 1024 * 1024 * 15"

section \<open>Leases\<close>

record lease_guard =
  lg_id :: string
  lg_namespace :: string

definition lease_guard_new :: "string \<Rightarrow> string \<Rightarrow> lease_guard" where
  "lease_guard_new lid namespace = \<lparr>lg_id = lid, lg_namespace = namespace\<rparr>"

definition lease_release :: "'w containerd \<Rightarrow> lease_guard \<Rightarrow> ('w, string, unit) act" where
  "lease_release ctd g =
     act_map_err (\<lambda>_. ''Failed to remove lease'') (ctd_lease_delete ctd (lg_namespace g) (lg_id g))"

definition lease_drop :: "'w containerd \<Rightarrow> lease_guard \<Rightarrow> ('w, 'e, unit) act" where
  "lease_drop ctd g = (\<lambda>w. (Ok (), ctd_spawn_delete ctd (lg_namespace g) (lg_id g) w))"

text \<open>A block that owns a guard: leaving it with an error or a panic drops the guard.\<close>

definition owning_lease :: "'w containerd \<Rightarrow> lease_guard \<Rightarrow> ('w, 'e, 'a) act \<Rightarrow> ('w, 'e, 'a) act" where
  "owning_lease ctd g m = (\<lambda>w. case m w of
      (Err e, w') \<Rightarrow> (Err e, snd (lease_drop ctd g w' :: (unit, unit) res \<times> 'w))
    | (Panic p, w') \<Rightarrow> (Panic p, snd (lease_drop ctd g w' :: (unit, unit) res \<times> 'w))
    | r \<Rightarrow> r)"

section \<open>The client\<close>

definition client_connect ::
  "'w containerd \<Rightarrow> path \<Rightarrow> string \<Rightarrow> ('w, error, client) act" where
  "client_connect ctd address namespace =
     act_bind (act_map_err Containerd (ctd_connect ctd address)) (\<lambda>_.
     ret \<lparr>cl_namespace = namespace\<rparr>)"

text \<open>\<open>try_concat\<close>: the messages up to the first error.\<close>

primrec try_concat :: "('e + 'b list) list \<Rightarrow> ('e, 'b list) res" where
  "try_concat [] = Ok []"
| "try_concat (m # ms) =
     (case m of Inl e \<Rightarrow> Err e | Inr d \<Rightarrow> res_bind (try_concat ms) (\<lambda>ds. Ok (d @ ds)))"

definition read_content :: "'w containerd \<Rightarrow> client \<Rightarrow> string \<Rightarrow> ('w, error, bytes) act" where
  "read_content ctd c digest =
     act_bind (act_map_err Containerd (ctd_read ctd (cl_namespace c) digest)) (\<lambda>msgs.
     lift_res (map_err Containerd (try_concat msgs)))"

definition delete_content :: "'w containerd \<Rightarrow> client \<Rightarrow> string \<Rightarrow> ('w, error, unit) act" where
  "delete_content ctd c digest =
     act_bind (act_map_err Containerd (ctd_delete ctd (cl_namespace c) digest)) (\<lambda>_. ret ())"

definition client_lease :: "'w containerd \<Rightarrow> client \<Rightarrow> string \<Rightarrow> ('w, error, lease_guard) act" where
  "client_lease ctd c reference =
     act_bind (\<lambda>w. (Ok (ctd_lease_expiry ctd w), w)) (\<lambda>expire.
     act_bind (act_map_err Containerd (ctd_lease_create ctd (cl_namespace c) reference
         [''containerd.io/gc.expire'' \<mapsto> expire])) (\<lambda>l.
     act_bind (lift_res (ok_or (Containerd (''unable to create lease for  '' @ reference)) l)) (\<lambda>lid.
     ret (lease_guard_new lid (cl_namespace c)))))"

definition send_message ::
  "'w containerd \<Rightarrow> write_request \<Rightarrow> nat \<Rightarrow> string \<Rightarrow> ('w, error, write_response) act" where
  "send_message ctd request stream digest =
     act_bind (act_map_err (\<lambda>e. Containerd (''commit request error: '' @ e)) (ctd_send ctd stream request)) (\<lambda>_.
     act_bind (act_map_err (\<lambda>e. Containerd (''response stream error: '' @ e)) (ctd_message ctd stream)) (\<lambda>r.
     lift_res (ok_or (Containerd (''no response received after write content request for '' @ digest)) r)))"

definition default_request :: write_request where
  "default_request = \<lparr>wq_ref = [], wq_action = Stat, wq_total = 0, wq_expected = [], wq_offset = 0,
     wq_data = [], wq_labels = Map.empty\<rparr>"

definition chunk_request :: "bytes \<Rightarrow> int \<Rightarrow> int \<Rightarrow> write_request" where
  "chunk_request data offset stop =
     default_request\<lparr>wq_action := Write, wq_total := 0, wq_offset := offset,
       wq_data := take (nat stop - nat offset) (drop (nat offset) data)\<rparr>"

definition chunk_end :: "int \<Rightarrow> int \<Rightarrow> int" where
  "chunk_end len offset = min (offset + MAX_WRITE_CHUNK_SIZE_BYTES) len"

text \<open>The \<open>while\<close> loop. A negative offset is out of range as an index and panics.\<close>

function write_chunks ::
  "'w containerd \<Rightarrow> nat \<Rightarrow> string \<Rightarrow> bytes \<Rightarrow> int \<Rightarrow> int \<Rightarrow> ('w, error, unit) act" where
  "write_chunks ctd stream expected data len offset =
     (if offset < len then
        if offset < 0 then panic ''range start index out of range''
        else
          (let stop = chunk_end len offset in
           act_bind (send_message ctd (chunk_request data offset stop) stream expected) (\<lambda>_.
           write_chunks ctd stream expected data len stop))
      else ret ())"
  by pat_completeness auto
termination
  by (relation "measure (\<lambda>(_, _, _, _, len, offset). nat (len - offset))")
    (auto simp: chunk_end_def MAX_WRITE_CHUNK_SIZE_BYTES_def)

declare write_chunks.simps [simp del]

record write_content =
  wt_lease :: lease_guard
  wt_digest :: string

text \<open>The labelled block \<open>'digest\<close> of \<open>save_content\<close>, after the lease has been taken.\<close>

definition write_stream ::
  "'w containerd \<Rightarrow> client \<Rightarrow> bytes \<Rightarrow> string \<Rightarrow> string \<Rightarrow> (string \<rightharpoonup> string) \<Rightarrow> lease_guard \<Rightarrow>
   ('w, error, string) act" where
  "write_stream ctd c data expected reference labels lease =
     (let len = int (length data) in
      act_bind (attempt (ctd_write ctd (cl_namespace c) (lg_id lease)
         (default_request\<lparr>wq_ref := reference, wq_action := Stat, wq_expected := expected\<rparr>))) (\<lambda>opened.
      case opened of
        Inl e \<Rightarrow> if grpc_code e = GrpcAlreadyExists then ret expected else throw (Containerd (grpc_text e))
      | Inr stream \<Rightarrow>
          act_bind (act_map_err Containerd (ctd_message ctd stream)) (\<lambda>m.
          act_bind (lift_res (ok_or
            (Containerd (''no response received after write request for '' @ expected)) m)) (\<lambda>response.
          act_bind (write_chunks ctd stream expected data len (ws_offset response)) (\<lambda>_.
          act_bind (send_message ctd (default_request\<lparr>wq_action := Commit, wq_total := len,
              wq_offset := len, wq_expected := expected, wq_labels := labels, wq_data := []\<rparr>)
            stream expected) (\<lambda>response.
          if ws_offset response \<noteq> len
          then throw (Containerd (''failed to write all bytes, expected '' @ show_int len @ '' got '' @
                 show_int (ws_offset response)))
          else if ws_digest response \<noteq> expected
          then throw (Containerd (''unexpected digest, expected '' @ expected @ '' got '' @ ws_digest response))
          else ret (ws_digest response)))))))"

definition save_content ::
  "'w containerd \<Rightarrow> formats \<Rightarrow> client \<Rightarrow> bytes \<Rightarrow> string \<Rightarrow> (string \<rightharpoonup> string) \<Rightarrow>
   ('w, error, write_content) act" where
  "save_content ctd fm c data unique_id labels =
     (let expected = ''sha256:'' @ sha256 fm data; reference = ''precompile-'' @ unique_id in
      act_bind (client_lease ctd c reference) (\<lambda>lease.
      act_bind (owning_lease ctd lease (write_stream ctd c data expected reference labels lease)) (\<lambda>digest.
      ret \<lparr>wt_lease = lease, wt_digest = digest\<rparr>)))"

definition get_info :: "'w containerd \<Rightarrow> client \<Rightarrow> string \<Rightarrow> ('w, error, content_info) act" where
  "get_info ctd c digest =
     act_bind (act_map_err Containerd (ctd_info ctd (cl_namespace c) digest)) (\<lambda>i.
     lift_res (ok_or (Containerd (''failed to get info for content '' @ digest)) i))"

definition update_info :: "'w containerd \<Rightarrow> client \<Rightarrow> content_info \<Rightarrow> ('w, error, content_info) act" where
  "update_info ctd c info =
     act_bind (act_map_err Containerd (ctd_update ctd (cl_namespace c) info [''labels''])) (\<lambda>i.
     lift_res (ok_or (Containerd (''failed to update info for content '' @ info_digest info)) i))"

definition get_image :: "'w containerd \<Rightarrow> client \<Rightarrow> string \<Rightarrow> ('w, error, image) act" where
  "get_image ctd c name =
     act_bind (act_map_err Containerd (ctd_get_image ctd (cl_namespace c) name)) (\<lambda>i.
     lift_res (ok_or (Containerd (''failed to get image for image '' @ name)) i))"

definition extract_image_content_sha :: "image \<Rightarrow> (error, string) res" where
  "extract_image_content_sha img =
     (case img_target img of
        None \<Rightarrow> Err (Containerd (''failed to get image content sha for image '' @ img_name img))
      | Some d \<Rightarrow> Ok (desc_digest d))"

definition get_container :: "'w containerd \<Rightarrow> client \<Rightarrow> string \<Rightarrow> ('w, error, container_rec) act" where
  "get_container ctd c name =
     act_bind (act_map_err Containerd (ctd_get_container ctd (cl_namespace c) name)) (\<lambda>x.
     lift_res (ok_or (Containerd (''failed to get image for container '' @ name)) x))"

definition get_image_manifest_and_digest ::
  "'w containerd \<Rightarrow> formats \<Rightarrow> client \<Rightarrow> string \<Rightarrow> ('w, error, manifest \<times> string) act" where
  "get_image_manifest_and_digest ctd fm c image_name =
     act_bind (get_image ctd c image_name) (\<lambda>img.
     act_bind (lift_res (extract_image_content_sha img)) (\<lambda>sha.
     act_bind (lift_res (map_err Errors.Oci (parse_digest fm sha))) (\<lambda>image_digest.
     act_bind (read_content ctd c image_digest) (\<lambda>content.
     act_bind (lift_res (map_err Errors.Oci (parse_manifest fm content))) (\<lambda>manifest.
     ret (manifest, image_digest))))))"

definition precompile_label :: "string \<Rightarrow> string \<Rightarrow> string" where
  "precompile_label name version = PRECOMPILE_PREFIX @ ''/'' @ name @ ''/'' @ version"

definition is_wasm_layer :: "string \<Rightarrow> string list \<Rightarrow> bool" where
  "is_wasm_layer media_type supported_layer_types \<longleftrightarrow> List.member supported_layer_types media_type"

text \<open>\<open>read_wasm_layer\<close> returns the layer and the new value of \<open>needs_precompile\<close>.\<close>

definition digest_to_load ::
  "'w containerd \<Rightarrow> formats \<Rightarrow> client \<Rightarrow> descriptor \<Rightarrow> bool \<Rightarrow> string \<Rightarrow> ('w, error, string) act" where
  "digest_to_load ctd fm c original can_precompile precompile_id =
     (if can_precompile then
        act_bind (get_info ctd c (desc_digest original)) (\<lambda>info.
        case info_labels info precompile_id of
          Some label \<Rightarrow> lift_res (map_err Errors.Oci (parse_digest fm label))
        | None \<Rightarrow> ret (desc_digest original))
      else ret (desc_digest original))"

definition read_wasm_layer ::
  "'w containerd \<Rightarrow> formats \<Rightarrow> client \<Rightarrow> descriptor \<Rightarrow> bool \<Rightarrow> string \<Rightarrow> bool \<Rightarrow>
   ('w, error, wasm_layer \<times> bool) act" where
  "read_wasm_layer ctd fm c original can_precompile precompile_id needs_precompile =
     act_bind (digest_to_load ctd fm c original can_precompile precompile_id) (\<lambda>digest.
     act_bind (attempt (read_content ctd c digest)) (\<lambda>res.
     case res of
       Inr module \<Rightarrow> ret (\<lparr>wl_config = original, wl_layer = module\<rparr>, needs_precompile)
     | Inl err \<Rightarrow>
         if digest = desc_digest original then throw err
         else
           act_bind (read_content ctd c (desc_digest original)) (\<lambda>module.
           ret (\<lparr>wl_config = original, wl_layer = module\<rparr>, can_precompile))))"

primrec read_wasm_layers ::
  "'w containerd \<Rightarrow> formats \<Rightarrow> client \<Rightarrow> bool \<Rightarrow> string \<Rightarrow> bool \<Rightarrow> descriptor list \<Rightarrow>
   ('w, error, wasm_layer list \<times> bool) act" where
  "read_wasm_layers ctd fm c can_precompile precompile_id needs [] = ret ([], needs)"
| "read_wasm_layers ctd fm c can_precompile precompile_id needs (d # ds) =
     act_bind (read_wasm_layer ctd fm c d can_precompile precompile_id needs) (\<lambda>(layer, needs').
     act_bind (read_wasm_layers ctd fm c can_precompile precompile_id needs' ds) (\<lambda>(layers, needs'').
     ret (layer # layers, needs'')))"

text \<open>One round of the loop over the compiled layers.\<close>

definition gc_label :: "nat \<Rightarrow> string" where
  "gc_label i = ''containerd.io/gc.ref.content.precompile.'' @ show_nat i"

definition cache_layer ::
  "'w containerd \<Rightarrow> formats \<Rightarrow> client \<Rightarrow> string \<Rightarrow> string \<Rightarrow> nat \<Rightarrow> wasm_layer \<Rightarrow> bytes \<Rightarrow>
   ('w, error, wasm_layer) act" where
  "cache_layer ctd fm c precompile_id image_digest i original compiled =
     act_bind (save_content ctd fm c compiled precompile_id
       [precompile_id @ ''/original'' \<mapsto> desc_digest (wl_config original)]) (\<lambda>saved.
     act_bind (owning_lease ctd (wt_lease saved) (
       act_bind (get_info ctd c (desc_digest (wl_config original))) (\<lambda>original_layer.
       act_bind (update_info ctd c (original_layer\<lparr>info_labels :=
         (info_labels original_layer)(precompile_id \<mapsto> wt_digest saved, gc_label i \<mapsto> wt_digest saved)\<rparr>)) (\<lambda>_.
       act_bind (get_info ctd c image_digest) (\<lambda>image_content.
       act_bind (update_info ctd c (image_content\<lparr>info_labels :=
         (info_labels image_content)(gc_label i \<mapsto> wt_digest saved, precompile_id \<mapsto> ''true'')\<rparr>)) (\<lambda>_.
       ret ())))))) (\<lambda>_.
     act_bind (ignore_result (lease_release ctd (wt_lease saved))) (\<lambda>_.
     ret \<lparr>wl_config = wl_config original, wl_layer = compiled\<rparr>)))"

primrec cache_layers ::
  "'w containerd \<Rightarrow> formats \<Rightarrow> client \<Rightarrow> string \<Rightarrow> string \<Rightarrow> nat \<Rightarrow> (wasm_layer \<times> bytes option) list \<Rightarrow>
   ('w, error, wasm_layer list) act" where
  "cache_layers ctd fm c precompile_id image_digest i [] = ret []"
| "cache_layers ctd fm c precompile_id image_digest i (x # xs) =
     act_bind (case snd x of
         None \<Rightarrow> ret (fst x)
       | Some compiled \<Rightarrow> cache_layer ctd fm c precompile_id image_digest i (fst x) compiled) (\<lambda>l.
     act_bind (cache_layers ctd fm c precompile_id image_digest (Suc i) xs) (\<lambda>ls.
     ret (l # ls)))"

definition load_wasm_layers ::
  "'w containerd \<Rightarrow> formats \<Rightarrow> client \<Rightarrow> 'v engine \<Rightarrow> manifest \<Rightarrow> string \<Rightarrow>
   ('w, error, wasm_layer list) act" where
  "load_wasm_layers ctd fm c engine manifest image_digest =
     act_bind (lift_res (eng_can_precompile engine)) (\<lambda>can.
      let can_precompile = (can \<noteq> None);
          precompile_id = (case can of Some pid \<Rightarrow> precompile_label (eng_name engine) pid | None \<Rightarrow> [])
      in
      act_bind (get_info ctd c image_digest) (\<lambda>image_info.
      act_bind (read_wasm_layers ctd fm c can_precompile precompile_id
          (can_precompile \<and> info_labels image_info precompile_id = None)
          (filter (\<lambda>d. is_wasm_layer (desc_media_type d) (eng_supported_layers_types engine))
             (man_layers manifest))) (\<lambda>(layers, needs_precompile).
      if layers = [] then ret []
      else if needs_precompile then
        (case eng_precompile engine layers of
           Ok compiled \<Rightarrow>
             if length compiled \<noteq> length layers
             then throw (FailedPrecondition ''precompile returned wrong number of layers'')
             else cache_layers ctd fm c precompile_id image_digest 0 (zip layers compiled)
         | Err _ \<Rightarrow> ret layers
         | Panic p \<Rightarrow> panic p
         | Blocked \<Rightarrow> lift_res Blocked)
      else ret layers)))"

definition load_modules ::
  "'w containerd \<Rightarrow> formats \<Rightarrow> client \<Rightarrow> 'v engine \<Rightarrow> string \<Rightarrow>
   ('w, error, wasm_layer list \<times> oci_platform) act" where
  "load_modules ctd fm c engine containerd_id =
     act_bind (get_container ctd c containerd_id) (\<lambda>container.
     act_bind (get_image_manifest_and_digest ctd fm c (con_image container)) (\<lambda>(manifest, image_digest).
     act_bind (read_content ctd c (desc_digest (man_config manifest))) (\<lambda>image_config.
     act_bind (lift_res (map_err Json (parse_platform fm image_config))) (\<lambda>platform.
     if platform_architecture platform \<noteq> ArchWasm then ret ([], platform)
     else
       act_bind (load_wasm_layers ctd fm c engine manifest image_digest) (\<lambda>layers.
       ret (layers, platform))))))"

section \<open>The chunks\<close>

text \<open>The requests the loop sends, and the loop as a walk over them.\<close>

function chunk_requests :: "bytes \<Rightarrow> int \<Rightarrow> write_request list" where
  "chunk_requests data offset =
     (if offset < int (length data) then
        chunk_request data offset (chunk_end (int (length data)) offset) #
        chunk_requests data (chunk_end (int (length data)) offset)
      else [])"
  by pat_completeness auto
termination
  by (relation "measure (\<lambda>(data, offset). nat (int (length data) - offset))")
    (auto simp: chunk_end_def MAX_WRITE_CHUNK_SIZE_BYTES_def)

declare chunk_requests.simps [simp del]

lemma chunk_end_bounds:
  "offset < len \<Longrightarrow> offset < chunk_end len offset \<and> chunk_end len offset \<le> len \<and>
     chunk_end len offset - offset \<le> MAX_WRITE_CHUNK_SIZE_BYTES"
  by (auto simp: chunk_end_def MAX_WRITE_CHUNK_SIZE_BYTES_def)

lemma write_chunks_eq:
  assumes "0 \<le> offset"
  shows "write_chunks ctd stream expected data (int (length data)) offset =
    for_each (\<lambda>r. act_bind (send_message ctd r stream expected) (\<lambda>_. ret ())) (chunk_requests data offset)"
  using assms
proof (induction data offset rule: chunk_requests.induct)
  case (1 data offset)
  show ?case
  proof (cases "offset < int (length data)")
    case True
    then have "0 \<le> chunk_end (int (length data)) offset"
      using chunk_end_bounds [OF True] 1(2) by simp
    with 1 True show ?thesis
      by (subst write_chunks.simps, subst chunk_requests.simps)
        (simp add: Let_def act_bind_assoc del: ret_apply)
  qed (simp add: write_chunks.simps chunk_requests.simps)
qed

lemma chunk_requests_data:
  assumes "0 \<le> offset"
  shows "concat (map wq_data (chunk_requests data offset)) = drop (nat offset) data"
  using assms
proof (induction data offset rule: chunk_requests.induct)
  case (1 data offset)
  show ?case
  proof (cases "offset < int (length data)")
    case True
    let ?e = "chunk_end (int (length data)) offset"
    have e: "offset < ?e" "0 \<le> ?e" using chunk_end_bounds [OF True] 1(2) by simp_all
    then have "drop (nat offset) data = take (nat ?e - nat offset) (drop (nat offset) data) @ drop (nat ?e) data"
      by (metis append_take_drop_id drop_drop le_add_diff_inverse2 less_imp_le nat_mono)
    with 1 True e show ?thesis
      by (subst chunk_requests.simps) (simp add: chunk_request_def)
  qed (use 1(2) in \<open>simp add: chunk_requests.simps\<close>)
qed

lemma chunk_requests_sizes:
  assumes "r \<in> set (chunk_requests data offset)" and "0 \<le> offset"
  shows "wq_action r = Write \<and> int (length (wq_data r)) \<le> MAX_WRITE_CHUNK_SIZE_BYTES \<and> wq_data r \<noteq> []"
  using assms
proof (induction data offset rule: chunk_requests.induct)
  case (1 data offset)
  then have lt: "offset < int (length data)" by (auto simp: chunk_requests.simps [of data offset] split: if_splits)
  let ?e = "chunk_end (int (length data)) offset"
  note e = chunk_end_bounds [OF lt]
  from 1(2) lt consider "r = chunk_request data offset ?e" | "r \<in> set (chunk_requests data ?e)"
    by (subst (asm) chunk_requests.simps) auto
  then show ?case
  proof cases
    case 1
    with e lt \<open>0 \<le> offset\<close> show ?thesis
      by (auto simp: chunk_request_def min_def MAX_WRITE_CHUNK_SIZE_BYTES_def)
  next
    case 2
    with 1(1) lt e \<open>0 \<le> offset\<close> show ?thesis by simp
  qed
qed

text \<open>Each chunk starts where the ones before it ended.\<close>

lemma chunk_requests_offsets:
  assumes "0 \<le> offset" and "i < length (chunk_requests data offset)"
  shows "wq_offset (chunk_requests data offset ! i) =
    offset + int (length (concat (map wq_data (take i (chunk_requests data offset)))))"
  using assms
proof (induction data offset arbitrary: i rule: chunk_requests.induct)
  case (1 data offset)
  then have lt: "offset < int (length data)" by (auto simp: chunk_requests.simps [of data offset] split: if_splits)
  let ?e = "chunk_end (int (length data)) offset"
  note e = chunk_end_bounds [OF lt]
  have eq: "chunk_requests data offset = chunk_request data offset ?e # chunk_requests data ?e"
    using lt by (subst chunk_requests.simps) simp
  show ?case
  proof (cases i)
    case 0
    then show ?thesis by (simp add: eq chunk_request_def)
  next
    case (Suc j)
    then have "j < length (chunk_requests data ?e)" using 1(3) eq by simp
    moreover have "int (length (wq_data (chunk_request data offset ?e))) = ?e - offset"
      using e 1(2) by (auto simp: chunk_request_def)
    ultimately show ?thesis using Suc 1(1) [OF lt, of j] e 1(2) by (simp add: eq)
  qed
qed

text \<open>
  C17. The loop of \<open>save_content\<close> writes the content exactly: from an offset the daemon reported,
  the requests it sends carry, in order, precisely the bytes from that offset on, in non-empty
  chunks of at most 15 MiB, each at the offset where the one before it ended.
\<close>

theorem write_chunks_exact:
  assumes "0 \<le> offset"
  shows "write_chunks ctd stream expected data (int (length data)) offset =
      for_each (\<lambda>r. act_bind (send_message ctd r stream expected) (\<lambda>_. ret ())) (chunk_requests data offset) \<and>
    concat (map wq_data (chunk_requests data offset)) = drop (nat offset) data \<and>
    list_all (\<lambda>r. wq_action r = Write \<and> wq_data r \<noteq> [] \<and>
      int (length (wq_data r)) \<le> MAX_WRITE_CHUNK_SIZE_BYTES) (chunk_requests data offset) \<and>
    (i < length (chunk_requests data offset) \<longrightarrow>
      wq_offset (chunk_requests data offset ! i) =
        offset + int (length (concat (map wq_data (take i (chunk_requests data offset))))))"
  using write_chunks_eq [OF assms] chunk_requests_data [OF assms] chunk_requests_sizes [OF _ assms]
    chunk_requests_offsets [OF assms]
  by (auto simp: list_all_iff)

text \<open>
  A daemon for the witnesses: a content store with one write session at a time, where the digest
  of a content is its length in decimal.
\<close>

record demo_store =
  blobs :: "string \<rightharpoonup> bytes"
  blob_labels :: "string \<Rightarrow> (string \<rightharpoonup> string)"
  session :: bytes
  leases :: "string list"
  deletions :: "string list"
  reply :: "write_response option"

definition demo_fm :: "wasm_layer list \<Rightarrow> formats" where
  "demo_fm ls = \<lparr>sha256 = (\<lambda>d. show_nat (length d)), parse_digest = Ok,
     parse_manifest = (\<lambda>_. Ok \<lparr>man_config = \<lparr>desc_media_type = [], desc_size = 0, desc_digest = ''cfg''\<rparr>,
        man_layers = map wl_config ls\<rparr>),
     parse_platform = (\<lambda>_. Ok \<lparr>platform_os = ''wasip1'', platform_architecture = ArchWasm\<rparr>)\<rparr>"

definition demo_send :: "nat \<Rightarrow> write_request \<Rightarrow> (demo_store, string, unit) act" where
  "demo_send _ r = (\<lambda>w. (Ok (), (case wq_action r of
      Stat \<Rightarrow> w
    | Write \<Rightarrow> w\<lparr>session := session w @ wq_data r,
        reply := Some \<lparr>ws_offset = int (length (session w @ wq_data r)), ws_digest = []\<rparr>\<rparr>
    | Commit \<Rightarrow> w\<lparr>blobs := (blobs w)(''sha256:'' @ show_nat (length (session w)) \<mapsto> session w),
        reply := Some \<lparr>ws_offset = int (length (session w)),
          ws_digest = ''sha256:'' @ show_nat (length (session w))\<rparr>\<rparr>)))"

definition demo_ctd :: "demo_store containerd" where
  "demo_ctd = \<lparr>ctd_connect = (\<lambda>_. ret ()),
     ctd_read = (\<lambda>_ d w. case blobs w d of None \<Rightarrow> (Err ''not found'', w) | Some b \<Rightarrow> (Ok [Inr b], w)),
     ctd_delete = (\<lambda>_ d w. (Ok (), w\<lparr>blobs := (blobs w)(d := None)\<rparr>)),
     ctd_lease_create = (\<lambda>_ l _ w. if List.member (leases w) l then (Err ''already exists'', w)
        else (Ok (Some l), w\<lparr>leases := l # leases w\<rparr>)),
     ctd_lease_delete = (\<lambda>_ l w. (Ok (), w\<lparr>leases := removeAll l (leases w)\<rparr>)),
     ctd_write = (\<lambda>_ _ r w. if blobs w (wq_expected r) \<noteq> None
        then (Err (GrpcStatus GrpcAlreadyExists ''exists''), w)
        else (Ok 0, w\<lparr>session := [], reply := Some \<lparr>ws_offset = 0, ws_digest = []\<rparr>\<rparr>)),
     ctd_send = demo_send, ctd_message = (\<lambda>_ w. (Ok (reply w), w)),
     ctd_info = (\<lambda>_ d w. (Ok (Some \<lparr>info_digest = d, info_labels = blob_labels w d\<rparr>), w)),
     ctd_update = (\<lambda>_ i _ w. (Ok (Some i), w\<lparr>blob_labels := (blob_labels w)(info_digest i := info_labels i)\<rparr>)),
     ctd_get_image = (\<lambda>_ n. ret (Some \<lparr>img_name = n,
        img_target = Some \<lparr>desc_media_type = [], desc_size = 0, desc_digest = ''img''\<rparr>\<rparr>)),
     ctd_get_container = (\<lambda>_ n. ret (Some \<lparr>con_id = n, con_image = ''i''\<rparr>)),
     ctd_lease_expiry = (\<lambda>_. ''tomorrow''),
     ctd_spawn_delete = (\<lambda>_ l w. w\<lparr>deletions := deletions w @ [l]\<rparr>)\<rparr>"

definition demo_w :: demo_store where
  "demo_w = \<lparr>blobs = [''img'' \<mapsto> [1], ''cfg'' \<mapsto> [2], ''a'' \<mapsto> [3, 4]], blob_labels = (\<lambda>_. Map.empty), session = [],
     leases = [], deletions = [], reply = None\<rparr>"

definition demo_client :: client where
  "demo_client = \<lparr>cl_namespace = ''ns''\<rparr>"

theorem write_chunks_exact_witness:
  "concat (map wq_data (chunk_requests [1, 2, 3] 1)) = [2, 3]"
  using write_chunks_exact [of 1 demo_ctd 0 "[]" "[1, 2, 3]" 0] by simp

section \<open>Saving and loading\<close>

text \<open>What an action returns when it succeeds, whatever the state.\<close>

definition returns :: "('s, 'e, 'a) act \<Rightarrow> ('a \<Rightarrow> bool) \<Rightarrow> bool" where
  "returns m Q \<longleftrightarrow> triple (\<lambda>_. True) m (\<lambda>a _. Q a) (\<lambda>_. True)"

lemma returnsD: "returns m Q \<Longrightarrow> m s = (Ok a, t) \<Longrightarrow> Q a"
  unfolding returns_def by (drule tripleD) auto

lemma returns_bind: "returns m R \<Longrightarrow> (\<And>a. R a \<Longrightarrow> returns (f a) Q) \<Longrightarrow> returns (act_bind m f) Q"
  unfolding returns_def
  by (rule triple_bind [where R = "\<lambda>a _. R a"]) (auto simp: triple_def)

lemma returns_any: "returns m (\<lambda>_. True)"
  by (simp add: returns_def tripleI)

lemma returns_pure:
  "Q a \<Longrightarrow> returns (ret a) Q" "returns (throw e) Q" "returns (panic p) Q"
  by (auto simp: returns_def triple_def)

lemma returns_mono: "returns m Q' \<Longrightarrow> (\<And>a. Q' a \<Longrightarrow> Q a) \<Longrightarrow> returns m Q"
  unfolding returns_def by (erule triple_conseq) auto

lemma returns_bind_any: "(\<And>a. returns (f a) Q) \<Longrightarrow> returns (act_bind m f) Q"
  by (rule returns_bind [OF returns_any])

lemma returns_owning_lease: "returns m Q \<Longrightarrow> returns (owning_lease ctd g m) Q"
  unfolding returns_def triple_def
proof (intro allI impI)
  fix w
  assume "\<forall>s. True \<longrightarrow> post (\<lambda>a _. Q a) (\<lambda>_. True) (m s)"
  then have "post (\<lambda>a _. Q a) (\<lambda>_. True) (m w)" by simp
  then show "post (\<lambda>a _. Q a) (\<lambda>_. True) (owning_lease ctd g m w)"
    by (cases "m w"; cases "fst (m w)") (auto simp: owning_lease_def)
qed

lemma returns_write_stream:
  "returns (write_stream ctd c data expected reference labels lease) (\<lambda>d. d = expected)"
  unfolding write_stream_def Let_def
  by (rule returns_bind_any, split sum.split)
    (auto intro!: returns_bind_any returns_pure)

text \<open>
  \<open>save_content\<close> never reports a wrong digest: whenever it succeeds, whatever the daemon
  answered, the digest it returns is the SHA-256 digest of the bytes it was given, also when the
  content was there already, and the guard it returns is for the lease it took.
\<close>

lemma save_content_digest:
  assumes "save_content ctd fm c data unique_id labels w = (Ok r, w')"
  shows "wt_digest r = ''sha256:'' @ sha256 fm data \<and> lg_namespace (wt_lease r) = cl_namespace c"
proof -
  have lease: "returns (client_lease ctd c reference) (\<lambda>l. lg_namespace l = cl_namespace c)" for reference
    unfolding client_lease_def
    by (intro returns_bind_any returns_pure) (simp add: lease_guard_new_def)
  have "returns (save_content ctd fm c data unique_id labels)
      (\<lambda>r. wt_digest r = ''sha256:'' @ sha256 fm data \<and> lg_namespace (wt_lease r) = cl_namespace c)"
    unfolding save_content_def Let_def
    by (rule returns_bind [OF lease], rule returns_bind [OF returns_owning_lease [OF returns_write_stream]])
      (simp add: returns_pure)
  from returnsD [OF this assms] show ?thesis .
qed

lemma save_content_digest_witness:
  "\<exists>r w'. save_content demo_ctd (demo_fm []) demo_client [7, 8] ''k'' Map.empty demo_w = (Ok r, w') \<and>
     wt_digest r = ''sha256:2'' \<and> blobs w' ''sha256:2'' = Some [7, 8]"
proof -
  have "map_prod (\<lambda>r. case r of Ok _ \<Rightarrow> True | _ \<Rightarrow> False) (\<lambda>w. blobs w ''sha256:2'')
      (save_content demo_ctd (demo_fm []) demo_client [7, 8] ''k'' Map.empty demo_w) = (True, Some [7, 8])"
    by code_simp
  then obtain r w' where s: "save_content demo_ctd (demo_fm []) demo_client [7, 8] ''k'' Map.empty demo_w = (Ok r, w')"
    and "blobs w' ''sha256:2'' = Some [7, 8]"
    by (cases "save_content demo_ctd (demo_fm []) demo_client [7, 8] ''k'' Map.empty demo_w")
      (auto split: res.splits)
  moreover have "wt_digest r = ''sha256:'' @ sha256 (demo_fm []) [7, 8]"
    using save_content_digest [OF s] by simp
  moreover have "''sha256:'' @ sha256 (demo_fm []) [7, 8] = ''sha256:2''" by code_simp
  ultimately show ?thesis by auto
qed

lemma returns_read_wasm_layer:
  "returns (read_wasm_layer ctd fm c original can_precompile pid needs) (\<lambda>r. wl_config (fst r) = original)"
  unfolding read_wasm_layer_def
  by (intro returns_bind_any, split sum.split) (auto intro!: returns_bind_any returns_pure)

lemma returns_read_wasm_layers:
  "returns (read_wasm_layers ctd fm c can_precompile pid needs ds) (\<lambda>r. map wl_config (fst r) = ds)"
proof (induction ds arbitrary: needs)
  case Nil
  show ?case by (simp only: read_wasm_layers.simps cache_layers.simps) (rule returns_pure, simp)
next
  case (Cons d ds)
  show ?case
    by (simp add: split_def, rule returns_bind [OF returns_read_wasm_layer], rule returns_bind [OF Cons])
      (simp add: returns_pure)
qed

lemma returns_cache_layer:
  "returns (cache_layer ctd fm c pid digest i original compiled) (\<lambda>l. wl_config l = wl_config original \<and> wl_layer l = compiled)"
  unfolding cache_layer_def by (intro returns_bind_any returns_pure) simp

lemma returns_cache_layers:
  "returns (cache_layers ctd fm c pid digest i xs) (\<lambda>ls. map wl_config ls = map (wl_config \<circ> fst) xs)"
proof (induction xs arbitrary: i)
  case Nil
  show ?case by (simp only: read_wasm_layers.simps cache_layers.simps) (rule returns_pure, simp)
next
  case (Cons x xs)
  have "returns (case snd x of None \<Rightarrow> ret (fst x) | Some compiled \<Rightarrow> cache_layer ctd fm c pid digest i (fst x) compiled)
      (\<lambda>l. wl_config l = wl_config (fst x))"
  proof (cases "snd x")
    case (Some b)
    then show ?thesis
      using returns_mono [OF returns_cache_layer [of ctd fm c pid digest i "fst x" b]] by simp
  qed (simp add: returns_pure)
  then show ?case
    by (simp only: cache_layers.simps) (erule returns_bind, rule returns_bind [OF Cons], simp add: returns_pure)
qed

lemma map_config_zip: "length ls = length cs \<Longrightarrow> map (wl_config \<circ> fst) (zip ls cs) = map wl_config ls"
  by (simp add: map_map [symmetric] del: map_map)

text \<open>
  C18. The layers \<open>load_modules\<close> hands to the engine are exactly those of the manifest whose media
  type the engine supports, in the order of the manifest, whether they were read as they are, read
  from the cache of precompiled content, or precompiled on this call.
\<close>

theorem load_wasm_layers_configs:
  assumes "load_wasm_layers ctd fm c engine manifest image_digest w = (Ok layers, w')"
  shows "map wl_config layers =
    filter (\<lambda>d. is_wasm_layer (desc_media_type d) (eng_supported_layers_types engine)) (man_layers manifest)"
proof -
  let ?ds = "filter (\<lambda>d. is_wasm_layer (desc_media_type d) (eng_supported_layers_types engine)) (man_layers manifest)"
  let ?Q = "\<lambda>layers. map wl_config layers = ?ds"
  have tail: "returns (if ls = [] then ret []
      else if needs then
        (case eng_precompile engine ls of
           Ok compiled \<Rightarrow>
             if length compiled \<noteq> length ls then throw (FailedPrecondition ''precompile returned wrong number of layers'')
             else cache_layers ctd fm c pid image_digest 0 (zip ls compiled)
         | Err _ \<Rightarrow> ret ls | Panic p \<Rightarrow> panic p | Blocked \<Rightarrow> lift_res Blocked)
      else ret ls) ?Q" if q: "?Q ls" for ls needs pid
  proof -
    have "returns (cache_layers ctd fm c pid image_digest 0 (zip ls cs)) ?Q" if "length cs = length ls" for cs
      using returns_cache_layers [of ctd fm c pid image_digest 0 "zip ls cs"] q that
      by (simp add: map_config_zip)
    moreover have "returns (lift_res Blocked :: ('a, error, wasm_layer list) act) ?Q"
      by (simp add: returns_def triple_def)
    ultimately show ?thesis using q by (auto intro: returns_pure split: res.split)
  qed
  have "returns (load_wasm_layers ctd fm c engine manifest image_digest) ?Q"
    unfolding load_wasm_layers_def Let_def split_def
    by (rule returns_bind_any, rule returns_bind_any, rule returns_bind [OF returns_read_wasm_layers]) (rule tail)
  from returnsD [OF this assms] show ?thesis .
qed

definition demo_layer :: wasm_layer where
  "demo_layer = \<lparr>wl_config = \<lparr>desc_media_type = ''application/wasm'', desc_size = 2, desc_digest = ''a''\<rparr>,
     wl_layer = [3, 4]\<rparr>"

definition demo_engine :: "string option \<Rightarrow> unit engine" where
  "demo_engine v = \<lparr>eng_name = ''demo'', eng_run_wasi = (\<lambda>_. ret 0), eng_can_handle = (\<lambda>_. Ok ()),
     eng_supported_layers_types = default_supported_layers_types,
     eng_precompile = (\<lambda>ls. Ok (map (\<lambda>l. Some (9 # wl_layer l)) ls)), eng_can_precompile = Ok v\<rparr>"

definition demo_manifest :: manifest where
  "demo_manifest = \<lparr>man_config = \<lparr>desc_media_type = [], desc_size = 0, desc_digest = ''cfg''\<rparr>,
     man_layers = [wl_config demo_layer]\<rparr>"

theorem load_wasm_layers_configs_witness:
  "\<exists>layers w'. load_wasm_layers demo_ctd (demo_fm [demo_layer]) demo_client (demo_engine (Some ''1''))
      demo_manifest ''img'' demo_w = (Ok layers, w') \<and> map wl_config layers = [wl_config demo_layer] \<and>
      map wl_layer layers = [[9, 3, 4]]"
proof -
  let ?r = "load_wasm_layers demo_ctd (demo_fm [demo_layer]) demo_client (demo_engine (Some ''1''))
      demo_manifest ''img'' demo_w"
  have "(case fst ?r of Ok ls \<Rightarrow> Some (map wl_layer ls) | _ \<Rightarrow> None) = Some [[9, 3, 4]]" by code_simp
  then obtain layers w' where r: "?r = (Ok layers, w')" and l: "map wl_layer layers = [[9, 3, 4]]"
    by (cases ?r) (auto split: res.splits)
  have "filter (\<lambda>d. is_wasm_layer (desc_media_type d) (eng_supported_layers_types (demo_engine (Some ''1''))))
      (man_layers demo_manifest) = [wl_config demo_layer]" by code_simp
  with load_wasm_layers_configs [OF r] r l show ?thesis by simp
qed

text \<open>
  The cache of precompiled content never costs a container its module: when the content a
  layer's label points to cannot be read, the original layer is read instead and the layer is
  marked for recompilation; only a failure to read the original layer is an error.
\<close>

lemma read_wasm_layer_falls_back:
  assumes "digest_to_load ctd fm c original can_precompile pid w = (Ok digest, w1)"
    and "digest \<noteq> desc_digest original"
    and "read_content ctd c digest w1 = (Err e, w2)"
    and "read_content ctd c (desc_digest original) w2 = (Ok module, w3)"
  shows "read_wasm_layer ctd fm c original can_precompile pid needs w =
    (Ok (\<lparr>wl_config = original, wl_layer = module\<rparr>, can_precompile), w3)"
  using assms by (simp add: read_wasm_layer_def act_bind_def attempt_def)

definition demo_stale :: demo_store where
  "demo_stale = demo_w\<lparr>blob_labels := (\<lambda>d. if d = ''a'' then [''p'' \<mapsto> ''gone''] else Map.empty)\<rparr>"

lemma read_wasm_layer_falls_back_witness:
  "read_wasm_layer demo_ctd (demo_fm []) demo_client (wl_config demo_layer) True ''p'' False demo_stale =
     (Ok (demo_layer, True), demo_stale)"
proof -
  have "digest_to_load demo_ctd (demo_fm []) demo_client (wl_config demo_layer) True ''p'' demo_stale =
      (Ok ''gone'', demo_stale)"
    by (simp add: digest_to_load_def get_info_def demo_ctd_def demo_client_def demo_stale_def demo_layer_def
        demo_fm_def act_bind_def act_map_err_def)
  moreover have "read_content demo_ctd demo_client ''gone'' demo_stale = (Err (Containerd ''not found''), demo_stale)"
    by (simp add: read_content_def demo_ctd_def demo_client_def demo_stale_def demo_w_def act_bind_def act_map_err_def)
  moreover have "read_content demo_ctd demo_client (desc_digest (wl_config demo_layer)) demo_stale = (Ok [3, 4], demo_stale)"
    by (simp add: read_content_def demo_ctd_def demo_client_def demo_stale_def demo_w_def demo_layer_def
        act_bind_def act_map_err_def)
  moreover have "''gone'' \<noteq> desc_digest (wl_config demo_layer)" by (simp add: demo_layer_def)
  ultimately show ?thesis
    using read_wasm_layer_falls_back [of demo_ctd "demo_fm []" demo_client "wl_config demo_layer" True "''p''"
        demo_stale "''gone''" demo_stale "Containerd ''not found''" demo_stale "[3, 4]" demo_stale False]
    by (simp add: demo_layer_def)
qed

section \<open>What an engine promises\<close>

text \<open>The errors an action can end with.\<close>

definition errs :: "('s, 'e, 'a) act \<Rightarrow> ('e \<Rightarrow> bool) \<Rightarrow> bool" where
  "errs m E \<longleftrightarrow> (\<forall>s e t. m s = (Err e, t) \<longrightarrow> E e)"

lemma errsD: "errs m E \<Longrightarrow> m s = (Err e, t) \<Longrightarrow> E e"
  unfolding errs_def by blast

lemma errs_bind: "errs m E \<Longrightarrow> (\<And>a. errs (f a) E) \<Longrightarrow> errs (act_bind m f) E"
  unfolding errs_def by (auto simp: act_bind_def split: prod.splits res.splits)

lemma errs_map_err: "(\<And>e. E (g e)) \<Longrightarrow> errs (act_map_err g m) E"
  by (auto simp: errs_def act_map_err_apply elim: map_err.elims)

lemma errs_lift: "(\<And>e. r = Err e \<Longrightarrow> E e) \<Longrightarrow> errs (lift_res r) E"
  by (auto simp: errs_def)

lemma errs_lift_map_err: "(\<And>e. E (g e)) \<Longrightarrow> errs (lift_res (map_err g r)) E"
  by (rule errs_lift) (auto elim: map_err.elims)

lemma errs_lift_ok_or: "E e \<Longrightarrow> errs (lift_res (ok_or e x)) E"
  by (rule errs_lift) (auto elim: ok_or.elims)

lemma errs_pure: "errs (ret a) E" "errs (panic p) E" "E e \<Longrightarrow> errs (throw e) E" "errs (attempt m) E"
  by (auto simp: errs_def attempt_def split: prod.splits res.splits)

lemma errs_ignore: "errs (ignore_result m) E"
  unfolding ignore_result_def by (intro errs_bind errs_pure)

lemma errs_owning: "errs m E \<Longrightarrow> errs (owning_lease ctd g m) E"
  unfolding errs_def by (auto simp: owning_lease_def split: prod.splits res.splits)

lemmas errs_rules = errs_bind errs_map_err errs_lift_map_err errs_lift_ok_or errs_pure errs_ignore errs_owning

text \<open>Errors of the daemon and of the texts it stores.\<close>

definition daemon_error :: "error \<Rightarrow> bool" where
  "daemon_error e \<longleftrightarrow> (\<exists>x. e = Containerd x \<or> e = Errors.Oci x)"

lemma daemon_errors [simp]: "daemon_error (Containerd x)" "daemon_error (Errors.Oci x)"
  by (auto simp: daemon_error_def)

lemma errs_calls:
  "errs (read_content ctd c d) daemon_error" "errs (get_info ctd c d) daemon_error"
  "errs (update_info ctd c i) daemon_error" "errs (client_lease ctd c r) daemon_error"
  "errs (send_message ctd q stream x) daemon_error"
  unfolding read_content_def get_info_def update_info_def client_lease_def send_message_def
  by (intro errs_rules daemon_errors | simp add: errs_def)+

lemma errs_write_chunks: "errs (write_chunks ctd stream expected data len offset) daemon_error"
proof (induction ctd stream expected data len offset rule: write_chunks.induct)
  case (1 ctd stream expected data len offset)
  then show ?case
    by (subst write_chunks.simps) (auto simp: Let_def intro!: errs_bind errs_calls errs_pure)
qed

lemma errs_save_content: "errs (save_content ctd fm c data uid labels) daemon_error"
proof -
  have "errs (write_stream ctd c data expected reference labels lease) daemon_error" for expected reference lease
    unfolding write_stream_def Let_def
    by (rule errs_bind [OF errs_pure(4)], split sum.split)
      (auto intro!: errs_rules errs_calls errs_write_chunks)
  then show ?thesis
    unfolding save_content_def Let_def by (intro errs_bind errs_owning errs_calls errs_pure)
qed

lemma errs_cache_layers: "errs (cache_layers ctd fm c pid digest i xs) daemon_error"
proof (induction xs arbitrary: i)
  case (Cons x xs)
  have "errs (cache_layer ctd fm c pid digest i l b) daemon_error" for l b
    unfolding cache_layer_def by (intro errs_bind errs_owning errs_ignore errs_save_content errs_calls errs_pure)
  then have "errs (case snd x of None \<Rightarrow> ret (fst x) | Some b \<Rightarrow> cache_layer ctd fm c pid digest i (fst x) b) daemon_error"
    by (cases "snd x") (auto intro: errs_pure(1))
  with Cons show ?case by (simp only: cache_layers.simps) (intro errs_bind errs_pure)
qed (simp only: cache_layers.simps errs_pure)

lemma errs_read_wasm_layer: "errs (read_wasm_layer ctd fm c d can pid needs) daemon_error"
proof -
  have "errs (digest_to_load ctd fm c d can pid) daemon_error"
    unfolding digest_to_load_def
    by (auto intro!: errs_bind errs_calls errs_pure errs_lift_map_err split: option.split)
  moreover have "errs (act_bind (attempt (read_content ctd c digest)) (\<lambda>res. case res of
       Inr module \<Rightarrow> ret (\<lparr>wl_config = d, wl_layer = module\<rparr>, needs)
     | Inl err \<Rightarrow> if digest = desc_digest d then throw err
         else act_bind (read_content ctd c (desc_digest d)) (\<lambda>module.
           ret (\<lparr>wl_config = d, wl_layer = module\<rparr>, can)))) daemon_error" for digest
    unfolding errs_def
    by (auto simp: act_bind_def attempt_def split: prod.splits res.splits if_splits
        dest: errsD [OF errs_calls(1)])
  ultimately show ?thesis unfolding read_wasm_layer_def by (rule errs_bind)
qed

lemma errs_read_wasm_layers: "errs (read_wasm_layers ctd fm c can pid needs ds) daemon_error"
  by (induction ds arbitrary: needs)
    (simp_all only: read_wasm_layers.simps split_def errs_bind errs_read_wasm_layer errs_pure)

lemma errs_mono: "errs m E \<Longrightarrow> (\<And>e. E e \<Longrightarrow> E' e) \<Longrightarrow> errs m E'"
  unfolding errs_def by blast

lemma errs_image:
  "errs (get_container ctd c n) daemon_error" "errs (get_image_manifest_and_digest ctd fm c n) daemon_error"
  unfolding get_container_def get_image_manifest_and_digest_def get_image_def extract_image_content_sha_def
  by (intro errs_rules errs_calls daemon_errors | auto intro: errs_lift split: option.splits)+

text \<open>
  \<open>engine.rs\<close> asks \<open>precompile\<close> to return as many layers as it was given, and \<open>can_precompile\<close> has
  no error to return. Under these laws loading fails on the daemon's account only.
\<close>

locale precompiling_engine =
  fixes engine :: "'v engine"
  assumes same_length: "eng_precompile engine ls = Ok cs \<Longrightarrow> length cs = length ls"
    and no_error: "eng_can_precompile engine \<noteq> Err e"
begin

lemma load_layers_errs: "errs (load_wasm_layers ctd fm c engine manifest image_digest) daemon_error"
  unfolding load_wasm_layers_def Let_def split_def
  by (intro errs_bind errs_calls errs_read_wasm_layers)
    (auto simp: same_length no_error intro: errs_pure errs_cache_layers errs_lift split: res.split)

text \<open>The platform is read from the image configuration, a JSON text.\<close>

lemma load_errs: "errs (load_modules ctd fm c engine cid) (\<lambda>e. daemon_error e \<or> (\<exists>x. e = Json x))"
  unfolding load_modules_def split_def
  by (intro errs_bind errs_image [THEN errs_mono] errs_calls [THEN errs_mono] errs_lift_map_err)
    (auto intro!: errs_bind errs_pure load_layers_errs [THEN errs_mono])

end

text \<open>The engine of the client's own tests; an index that is missing panics.\<close>

primrec fake_compile_all :: "(bytes \<Rightarrow> string) \<Rightarrow> (string \<rightharpoonup> bytes) \<Rightarrow> (bytes \<Rightarrow> bool) \<Rightarrow> wasm_layer list \<Rightarrow>
  (string, bytes option list) res" where
  "fake_compile_all digest precompiled compiled_already [] = Ok []"
| "fake_compile_all digest precompiled compiled_already (l # ls) =
     (if desc_media_type (wl_config l) = ''textfile'' \<or> compiled_already (wl_layer l)
      then res_bind (fake_compile_all digest precompiled compiled_already ls) (\<lambda>cs. Ok (None # cs))
      else (case precompiled (digest (wl_layer l)) of
              None \<Rightarrow> Panic ''index not found''
            | Some b \<Rightarrow> res_bind (fake_compile_all digest precompiled compiled_already ls) (\<lambda>cs. Ok (Some b # cs))))"

definition fake_precompile ::
  "(bytes \<Rightarrow> string) \<Rightarrow> (string \<times> bytes) list \<Rightarrow> wasm_layer list \<Rightarrow> (string, bytes option list) res" where
  "fake_precompile digest precompiled =
     fake_compile_all digest (map_of precompiled) (\<lambda>b. list_ex (\<lambda>(_, l). digest l = digest b) precompiled)"

definition fake_engine :: "(bytes \<Rightarrow> string) \<Rightarrow> string option \<Rightarrow> (string \<times> bytes) list \<Rightarrow> 'w engine" where
  "fake_engine digest precompile_id precompiled =
     \<lparr>eng_name = ''fake'', eng_run_wasi = (\<lambda>_. panic ''not implemented''), eng_can_handle = (\<lambda>_. Ok ()),
      eng_supported_layers_types = [''application/vnd.bytecodealliance.wasm.component.layer.v0+wasm'', ''textfile''],
      eng_precompile = fake_precompile digest precompiled, eng_can_precompile = Ok precompile_id\<rparr>"

lemma fake_compile_all_length: "fake_compile_all digest p q ls = Ok cs \<Longrightarrow> length cs = length ls"
proof (induction ls arbitrary: cs)
  case (Cons l ls)
  then show ?case
    by (cases "fake_compile_all digest p q ls") (auto split: if_splits option.splits)
qed simp

interpretation fake: precompiling_engine "fake_engine digest precompile_id precompiled"
  by unfold_locales (simp_all add: fake_engine_def fake_precompile_def fake_compile_all_length)

lemma load_compiled:
  assumes "eng_can_precompile engine = Ok (Some v)"
    and "get_info ctd c image_digest w = (Ok image_info, w1)"
    and "info_labels image_info (precompile_label (eng_name engine) v) = None"
    and "read_wasm_layers ctd fm c True (precompile_label (eng_name engine) v) True
      (filter (\<lambda>d. is_wasm_layer (desc_media_type d) (eng_supported_layers_types engine)) (man_layers manifest)) w1 =
        (Ok (layers, True), w2)"
  shows "eng_precompile engine layers = Err x \<Longrightarrow>
      load_wasm_layers ctd fm c engine manifest image_digest w = (Ok layers, w2)"
    and "eng_precompile engine layers = Ok compiled \<Longrightarrow> layers \<noteq> [] \<Longrightarrow> length compiled \<noteq> length layers \<Longrightarrow>
      load_wasm_layers ctd fm c engine manifest image_digest w =
        (Err (FailedPrecondition ''precompile returned wrong number of layers''), w2)"
  using assms by (simp_all add: load_wasm_layers_def Let_def act_bind_def)

text \<open>
  C22. How loading fails. With an engine that keeps the length law of \<open>precompile\<close> every error of
  \<open>load_modules\<close> is one of the daemon or of the texts the daemon stores (a digest, a manifest, the
  platform). An engine that fails to compile does not make loading fail: the layers are returned as
  they were read. One that returns another number of layers makes it fail with
  \<open>FailedPrecondition\<close>.
\<close>

theorem load_errors:
  "((\<forall>ls cs. eng_precompile engine ls = Ok cs \<longrightarrow> length cs = length ls) \<longrightarrow>
    (\<forall>e. eng_can_precompile engine \<noteq> Err e) \<longrightarrow>
    load_modules ctd fm c engine cid w = (Err e, w') \<longrightarrow> daemon_error e \<or> (\<exists>x. e = Json x)) \<and>
   (eng_can_precompile engine = Ok (Some v) \<longrightarrow>
    get_info ctd c image_digest w = (Ok image_info, w1) \<longrightarrow>
    info_labels image_info (precompile_label (eng_name engine) v) = None \<longrightarrow>
    read_wasm_layers ctd fm c True (precompile_label (eng_name engine) v) True
      (filter (\<lambda>d. is_wasm_layer (desc_media_type d) (eng_supported_layers_types engine)) (man_layers manifest)) w1 =
        (Ok (layers, True), w2) \<longrightarrow>
    (eng_precompile engine layers = Err x \<longrightarrow>
      load_wasm_layers ctd fm c engine manifest image_digest w = (Ok layers, w2)) \<and>
    (eng_precompile engine layers = Ok compiled \<longrightarrow> layers \<noteq> [] \<longrightarrow> length compiled \<noteq> length layers \<longrightarrow>
      load_wasm_layers ctd fm c engine manifest image_digest w =
        (Err (FailedPrecondition ''precompile returned wrong number of layers''), w2)))"
proof (intro conjI impI)
  assume laws: "\<forall>ls cs. eng_precompile engine ls = Ok cs \<longrightarrow> length cs = length ls" "\<forall>e. eng_can_precompile engine \<noteq> Err e"
    and run: "load_modules ctd fm c engine cid w = (Err e, w')"
  have "precompiling_engine engine" by unfold_locales (use laws in auto)
  from errsD [OF precompiling_engine.load_errs [OF this] run] show "daemon_error e \<or> (\<exists>x. e = Json x)" .
qed (simp_all add: load_compiled)

text \<open>An engine that cannot compile, on an image that is not marked as compiled.\<close>

theorem load_errors_witness:
  "\<exists>w'. load_wasm_layers demo_ctd (demo_fm []) demo_client ((demo_engine (Some ''1''))\<lparr>eng_precompile := (\<lambda>_. Err ''no'')\<rparr>)
      demo_manifest ''img'' demo_w = (Ok [demo_layer], w')"
proof -
  let ?e = "(demo_engine (Some ''1''))\<lparr>eng_precompile := (\<lambda>_. Err ''no'')\<rparr>"
  let ?ds = "filter (\<lambda>d. is_wasm_layer (desc_media_type d) (eng_supported_layers_types ?e)) (man_layers demo_manifest)"
  have i: "get_info demo_ctd demo_client ''img'' demo_w =
      (Ok \<lparr>info_digest = ''img'', info_labels = Map.empty\<rparr>, demo_w)"
    by (simp add: get_info_def demo_ctd_def demo_client_def demo_w_def act_bind_def act_map_err_def)
  have "?ds = [wl_config demo_layer]" by code_simp
  moreover have "(case fst (read_wasm_layers demo_ctd (demo_fm []) demo_client True
      (precompile_label (eng_name ?e) ''1'') True [wl_config demo_layer] demo_w) of Ok x \<Rightarrow> x = ([demo_layer], True) | _ \<Rightarrow> False)"
    by code_simp
  ultimately obtain w2 where "read_wasm_layers demo_ctd (demo_fm []) demo_client True
      (precompile_label (eng_name ?e) ''1'') True ?ds demo_w = (Ok ([demo_layer], True), w2)"
    by (cases "read_wasm_layers demo_ctd (demo_fm []) demo_client True
      (precompile_label (eng_name ?e) ''1'') True ?ds demo_w") (auto split: res.splits)
  with load_errors [of ?e demo_ctd "demo_fm []" demo_client "[]" demo_w "Containerd []" demo_w "''1''" "''img''"
      "\<lparr>info_digest = ''img'', info_labels = Map.empty\<rparr>" demo_w demo_manifest "[demo_layer]" w2 "''no''" "[]"] i
  show ?thesis by (simp add: demo_engine_def)
qed

end
