(* ===== verification/Executor.thy ===== *)
theory Executor
  imports Runtime_Context
begin

text \<open>
  \<open>sys/unix/container/executor.rs\<close>: the decision, inside the container process, whether the
  entrypoint is a Linux executable or a wasm module, and its execution.

  The mode bits of a file are the parameter \<open>mode_of\<close>, the executor of libcontainer for Linux
  processes is \<open>default_exec\<close>. Running a wasm module ends the process: the outcome of \<open>exec\<close> is
  the exit code of the process, or the return of the call.
\<close>

datatype inner_executor = WasmInner | LinuxInner | CantHandleInner

record 'w executor =
  ex_engine :: "'w engine"
  ex_inner :: "inner_executor option"
  ex_wasm_layers :: "wasm_layer list"
  ex_platform :: oci_platform

definition executor_new :: "'w engine \<Rightarrow> wasm_layer list \<Rightarrow> oci_platform \<Rightarrow> 'w executor" where
  "executor_new engine wasm_layers platform =
     \<lparr>ex_engine = engine, ex_inner = None, ex_wasm_layers = wasm_layers, ex_platform = platform\<rparr>"

definition executor_ctx :: "'w executor \<Rightarrow> oci_spec \<Rightarrow> wasi_context" where
  "executor_ctx ex spec =
     \<lparr>wc_spec = spec, wc_wasm_layers = ex_wasm_layers ex, wc_platform = ex_platform ex\<rparr>"

definition is_executable :: "(path \<Rightarrow> nat option) \<Rightarrow> path \<Rightarrow> bool" where
  "is_executable mode_of p = (case mode_of p of None \<Rightarrow> False | Some mode \<Rightarrow> mode mod 2 = 1)"

definition elf_magic :: bytes where
  "elf_magic = [127, 69, 76, 70]"

definition linux_header :: "bytes \<Rightarrow> bool" where
  "linux_header buffer \<longleftrightarrow> buffer = elf_magic \<or> take 2 buffer = [35, 33]"

definition is_linux_container :: "fs \<Rightarrow> (path \<Rightarrow> nat option) \<Rightarrow> wasi_context \<Rightarrow> (string, unit) res" where
  "is_linux_container fs mode_of ctx =
     (case ep_source (ctx_entrypoint ctx) of
        SourceOci _ \<Rightarrow> Err ''the entry point contains wasm layers''
      | SourceFile _ \<Rightarrow>
          res_bind (ok_or ''no entrypoint provided'' (ep_arg0 (ctx_entrypoint ctx))) (\<lambda>arg0.
          res_bind (ok_or ''entrypoint not found''
            (find (is_executable mode_of) (resolve_in_path fs arg0))) (\<lambda>executable.
          res_bind (read_header fs executable) (\<lambda>buffer.
          if linux_header buffer then Ok () else Err ''not a valid script or elf file''))))"

text \<open>What \<open>get_or_init\<close> computes the first time, and the memoised access.\<close>

definition choose_inner :: "fs \<Rightarrow> (path \<Rightarrow> nat option) \<Rightarrow> 'w executor \<Rightarrow> oci_spec \<Rightarrow> inner_executor" where
  "choose_inner fs mode_of ex spec =
     (let ctx = executor_ctx ex spec in
      case is_linux_container fs mode_of ctx of
        Ok _ \<Rightarrow> LinuxInner
      | _ \<Rightarrow> (case eng_can_handle (ex_engine ex) ctx of Ok _ \<Rightarrow> WasmInner | _ \<Rightarrow> CantHandleInner))"

definition executor_inner ::
  "fs \<Rightarrow> (path \<Rightarrow> nat option) \<Rightarrow> oci_spec \<Rightarrow> 'w executor \<Rightarrow> inner_executor \<times> 'w executor" where
  "executor_inner fs mode_of spec ex =
     (case ex_inner ex of
        Some i \<Rightarrow> (i, ex)
      | None \<Rightarrow> (let i = choose_inner fs mode_of ex spec in (i, ex\<lparr>ex_inner := Some i\<rparr>)))"

datatype executor_error = CantHandle string | ExecutionError string

definition executor_validate ::
  "fs \<Rightarrow> (path \<Rightarrow> nat option) \<Rightarrow> oci_spec \<Rightarrow> ('w executor, executor_error, unit) act" where
  "executor_validate fs mode_of spec = (\<lambda>ex.
     case executor_inner fs mode_of spec ex of
       (CantHandleInner, ex') \<Rightarrow> (Err (CantHandle (eng_name (ex_engine ex))), ex')
     | (_, ex') \<Rightarrow> (Ok (), ex'))"

datatype exec_outcome = Returned "(executor_error, unit) res" | ProcessExit int

definition executor_exec ::
  "fs \<Rightarrow> (path \<Rightarrow> nat option) \<Rightarrow> (oci_spec \<Rightarrow> 'w \<Rightarrow> (string, unit) res \<times> 'w) \<Rightarrow> oci_spec \<Rightarrow>
   'w executor \<Rightarrow> 'w \<Rightarrow> exec_outcome \<times> 'w" where
  "executor_exec fs mode_of default_exec spec ex w =
     (case fst (executor_inner fs mode_of spec ex) of
        CantHandleInner \<Rightarrow> (Returned (Err (CantHandle (eng_name (ex_engine ex)))), w)
      | LinuxInner \<Rightarrow> (case default_exec spec w of (r, w') \<Rightarrow> (Returned (map_err ExecutionError r), w'))
      | WasmInner \<Rightarrow>
          (case eng_run_wasi (ex_engine ex) (executor_ctx ex spec) w of
             (Ok code, w') \<Rightarrow> (ProcessExit code, w')
           | (Err _, w') \<Rightarrow> (ProcessExit 137, w')
           | (Panic p, w') \<Rightarrow> (Returned (Panic p), w')
           | (Blocked, w') \<Rightarrow> (Returned Blocked, w')))"

definition executor_setup_envs :: "(string \<rightharpoonup> string) \<Rightarrow> ('w executor, executor_error, unit) act" where
  "executor_setup_envs _ = ret ()"

text \<open>
  C26. The decision is made once and never changes: after the first \<open>validate\<close>, every later
  \<open>validate\<close> and \<open>exec\<close> of the same executor acts on the decision that first call made, whatever
  became of the file system meanwhile.
\<close>

theorem executor_decides_once:
  assumes "executor_validate fs mode_of spec (executor_new engine layers platform) = (r, ex)"
  shows "\<exists>i. i = choose_inner fs mode_of (executor_new engine layers platform) spec \<and>
    (r = Ok () \<longleftrightarrow> i \<noteq> CantHandleInner) \<and>
    executor_inner fs' mode_of' spec' ex = (i, ex) \<and>
    executor_validate fs' mode_of' spec' ex = (r, ex) \<and>
    (i = LinuxInner \<longrightarrow> executor_exec fs' mode_of' dx spec' ex w =
       (case dx spec' w of (x, w') \<Rightarrow> (Returned (map_err ExecutionError x), w'))) \<and>
    (i = WasmInner \<longrightarrow> eng_run_wasi engine (executor_ctx ex spec') w = (Ok code, w1) \<longrightarrow>
       executor_exec fs' mode_of' dx spec' ex w = (ProcessExit code, w1)) \<and>
    (i = WasmInner \<longrightarrow> eng_run_wasi engine (executor_ctx ex spec') w = (Err e, w1) \<longrightarrow>
       executor_exec fs' mode_of' dx spec' ex w = (ProcessExit 137, w1)) \<and>
    (i = CantHandleInner \<longrightarrow>
       executor_exec fs' mode_of' dx spec' ex w = (Returned (Err (CantHandle (eng_name engine))), w))"
proof -
  let ?i = "choose_inner fs mode_of (executor_new engine layers platform) spec"
  have "ex = (executor_new engine layers platform)\<lparr>ex_inner := Some ?i\<rparr>"
    and "r = (if ?i = CantHandleInner then Err (CantHandle (eng_name engine)) else Ok ())"
    using assms by (auto simp: executor_validate_def executor_inner_def executor_new_def Let_def
        split: inner_executor.splits)
  then show ?thesis
    by (cases ?i) (simp_all add: executor_validate_def executor_inner_def executor_exec_def executor_new_def)
qed

definition demo_wasm_engine :: "unit engine" where
  "demo_wasm_engine = \<lparr>eng_name = ''e'', eng_run_wasi = (\<lambda>_. ret 3), eng_can_handle = (\<lambda>_. Ok ()),
     eng_supported_layers_types = default_supported_layers_types, eng_precompile = default_precompile,
     eng_can_precompile = Ok None\<rparr>"

definition demo_platform :: oci_platform where
  "demo_platform = \<lparr>platform_os = [], platform_architecture = ArchWasm\<rparr>"

theorem executor_decides_once_witness:
  "\<exists>r ex. executor_validate demo_fs (\<lambda>_. None) (wc_spec (demo_ctx [''app.wasm'']))
      (executor_new demo_wasm_engine [] demo_platform) = (r, ex) \<and>
     executor_exec demo_fs (\<lambda>_. None) (\<lambda>_ w. (Ok (), w)) (wc_spec (demo_ctx [''app.wasm''])) ex () = (ProcessExit 3, ())"
proof -
  obtain r ex where v: "executor_validate demo_fs (\<lambda>_. None) (wc_spec (demo_ctx [''app.wasm'']))
      (executor_new demo_wasm_engine [] demo_platform) = (r, ex)" by (metis prod.exhaust)
  have "choose_inner demo_fs (\<lambda>_. None) (executor_new demo_wasm_engine [] demo_platform)
      (wc_spec (demo_ctx [''app.wasm''])) = WasmInner" by code_simp
  then show ?thesis
    using executor_decides_once [OF v, of demo_fs "\<lambda>_. None" "wc_spec (demo_ctx [''app.wasm''])"
        "\<lambda>_ w. (Ok (), w)" "()" 3 "()"] v
    by (auto simp: demo_wasm_engine_def)
qed

text \<open>
  Which containers run as Linux processes: never one whose image has wasm layers, and otherwise
  exactly those whose entrypoint is found on \<open>PATH\<close> (or relative to the working directory, when it
  has a separator), executable for others, and starts with the ELF magic number or \<open>#!\<close>.
\<close>

lemma linux_container_iff:
  "is_linux_container fs mode_of ctx = Ok () \<longleftrightarrow>
     wc_wasm_layers ctx = [] \<and>
     (\<exists>arg0 p content. list_first (ctx_args ctx) = Some arg0 \<and>
        find (is_executable mode_of) (resolve_in_path fs arg0) = Some p \<and>
        fs_read fs p = Ok content \<and> 4 \<le> length content \<and> linux_header (take 4 content))"
proof (cases "wc_wasm_layers ctx = []")
  case False
  then show ?thesis
    by (simp add: is_linux_container_def ctx_entrypoint_def Let_def split_def)
next
  case True
  then have ep: "\<exists>p. ep_source (ctx_entrypoint ctx) = SourceFile p"
    and a0: "ep_arg0 (ctx_entrypoint ctx) = list_first (ctx_args ctx)"
    by (simp_all add: ctx_entrypoint_def Let_def split_def)
  have hdr: "read_header fs p = Ok b \<longleftrightarrow> (\<exists>content. fs_read fs p = Ok content \<and> 4 \<le> length content \<and> b = take 4 content)" for p b
    by (cases "fs_read fs p") (auto simp: read_header_def)
  have bind: "res_bind r f = Ok () \<longleftrightarrow> (\<exists>a. r = Ok a \<and> f a = Ok ())"
    for r :: "(string, 'x) res" and f by (cases r) auto
  have opt: "ok_or e x = Ok a \<longleftrightarrow> x = Some a" for e :: string and x :: "'x option" and a by (cases x) auto
  from ep obtain p where "ep_source (ctx_entrypoint ctx) = SourceFile p" by blast
  then show ?thesis
    using True by (auto simp: is_linux_container_def a0 bind opt hdr split: if_splits)
qed

end
