(* ===== verification/Unix_Instance.thy ===== *)
theory Unix_Instance
  imports Containerd Executor Instance_Stub
begin

text \<open>
  \<open>sys/unix/container/container.rs\<close>, \<open>sys/unix/container/instance.rs\<close>,
  \<open>sys/unix/stdio.rs\<close> and \<open>sandbox/instance_utils.rs\<close>: the instance the shim runs on Linux,
  and \<open>sys/windows/container/instance.rs\<close>, which is not written yet.

  A container lives in a zygote process of its own, in a variable of that process. The state has
  one slot per zygote, the exit cells of the instances, the threads that reap their processes and
  \<open>kernel\<close>, everything the operating system, libcontainer and containerd keep. What libcontainer
  does with a container is the record \<open>youki\<close>; a container value is of the parameter type \<open>'y\<close>.
\<close>

section \<open>The root directory\<close>

text \<open>\<open>open_options\<close> opens and reads the file, \<open>parse_options\<close> is the JSON reader of \<open>Options\<close>.\<close>

definition determine_rootdir ::
  "(path \<Rightarrow> ('k, io_error, bytes) act) \<Rightarrow> (bytes \<Rightarrow> (string, path option) res) \<Rightarrow>
   path \<Rightarrow> string \<Rightarrow> path \<Rightarrow> ('k, error, path) act" where
  "determine_rootdir open_options parse_options bndl namespace rootdir =
     act_bind (attempt (open_options (path_join bndl ''options.json''))) (\<lambda>file.
     case file of
       Inl e \<Rightarrow> if io_kind e = IoNotFound then ret (path_join rootdir namespace) else throw (Stdio (io_text e))
     | Inr content \<Rightarrow>
         act_bind (lift_res (map_err Json (parse_options content))) (\<lambda>root.
         ret (path_join (unwrap_or rootdir root) namespace)))"

section \<open>The container in its zygote\<close>

record container_config =
  cc_id :: string
  cc_root_path :: path
  cc_stdin :: "nat option"
  cc_stdout :: "nat option"
  cc_stderr :: "nat option"
  cc_bundle :: path
  cc_sibling :: bool
  cc_systemd :: bool
  cc_modules :: "wasm_layer list"
  cc_platform :: oci_platform

record ('y, 'k) youki =
  yk_build :: "container_config \<Rightarrow> ('k, string, 'y) act"
  yk_root_path :: "path \<Rightarrow> ('k, string, path) act"
  yk_pid :: "'y \<Rightarrow> int option"
  yk_start :: "('y \<times> 'k, string, unit) act"
  yk_kill :: "int \<Rightarrow> ('y \<times> 'k, string, unit) act"
  yk_delete :: "('y \<times> 'k, string, unit) act"
  yk_valid_signal :: "int \<Rightarrow> bool"

record ('y, 'k) unix_world = cell_world +
  zygotes :: "'y option list"
  reapers :: "(nat \<times> int) list"
  kernel :: 'k

type_synonym ('y, 'k, 'a) unix_act = "(('y, 'k) unix_world, string, 'a) act"

definition in_kernel :: "('k, 'e, 'a) act \<Rightarrow> (('y, 'k) unix_world, 'e, 'a) act" where
  "in_kernel m = (\<lambda>w. case m (kernel w) of (r, k) \<Rightarrow> (r, w\<lparr>kernel := k\<rparr>))"

text \<open>\<open>Zygote::run\<close> of a function on the variable of zygote \<open>z\<close>.\<close>

definition run_impl :: "nat \<Rightarrow> ('y option \<times> 'k, string, 'a) act \<Rightarrow> ('y, 'k, 'a) unix_act" where
  "run_impl z f = (\<lambda>w. case f (zygotes w ! z, kernel w) of
      (r, (c, k)) \<Rightarrow> (r, w\<lparr>zygotes := (zygotes w)[z := c], kernel := k\<rparr>))"

definition run_init :: "nat \<Rightarrow> ('k, string, 'y) act \<Rightarrow> ('y, 'k, unit) unix_act" where
  "run_init z f = run_impl z (\<lambda>(c, k). case f k of
      (Ok y, k') \<Rightarrow> (Ok (), (Some y, k'))
    | (Err e, k') \<Rightarrow> (Err e, (c, k'))
    | (Panic p, k') \<Rightarrow> (Panic p, (c, k'))
    | (Blocked, k') \<Rightarrow> (Blocked, (c, k')))"

definition run_container :: "nat \<Rightarrow> ('y \<times> 'k, string, 'a) act \<Rightarrow> ('y, 'k, 'a) unix_act" where
  "run_container z f = run_impl z (\<lambda>(c, k). case c of
      None \<Rightarrow> (Panic ''Container not initialized'', (c, k))
    | Some y \<Rightarrow> (case f (y, k) of (r, (y', k')) \<Rightarrow> (r, (Some y', k'))))"

definition container_build :: "('k, string, 'y) act \<Rightarrow> ('y, 'k, nat) unix_act" where
  "container_build f =
     act_bind (\<lambda>w. (Ok (length (zygotes w)), w\<lparr>zygotes := zygotes w @ [None]\<rparr>)) (\<lambda>z.
     act_bind (run_init z f) (\<lambda>_. ret z))"

definition container_pid :: "('y, 'k) youki \<Rightarrow> nat \<Rightarrow> ('y, 'k, int) unix_act" where
  "container_pid Y z =
     act_bind (run_container z (\<lambda>(y, k). (Ok (yk_pid Y y), (y, k)))) (\<lambda>pid.
     lift_res (ok_or ''Failed to obtain PID'' pid))"

definition container_start :: "('y, 'k) youki \<Rightarrow> nat \<Rightarrow> ('y, 'k, unit) unix_act" where
  "container_start Y z = run_container z (yk_start Y)"

text \<open>\<open>signal as i32\<close> reads the 32 bits as a signed number.\<close>

definition container_kill :: "('y, 'k) youki \<Rightarrow> nat \<Rightarrow> u32 \<Rightarrow> ('y, 'k, unit) unix_act" where
  "container_kill Y z signal =
     run_container z (if yk_valid_signal Y (sint signal) then yk_kill Y (sint signal)
       else throw ''invalid signal number'')"

definition container_delete :: "('y, 'k) youki \<Rightarrow> nat \<Rightarrow> ('y, 'k, unit) unix_act" where
  "container_delete Y z = run_container z (yk_delete Y)"

section \<open>The instance\<close>

definition DEFAULT_CONTAINER_ROOT_DIR :: path where
  "DEFAULT_CONTAINER_ROOT_DIR = ''/run/containerd''"

record unix_instance =
  ui_id :: string
  ui_exit_code :: nat
  ui_container :: nat

datatype wait_status = WExited int | WSignaled int | WOther

datatype wait_errno = ECHILD | OtherErrno string

text \<open>What the instance asks of the system, with the crates it calls.\<close>

record ('y, 'k) unix_env =
  ue_youki :: "('y, 'k) youki"
  ue_containerd :: "'k containerd"
  ue_formats :: formats
  ue_open :: "path \<Rightarrow> ('k, io_error, nat) act"
  ue_open_options :: "path \<Rightarrow> ('k, io_error, bytes) act"
  ue_parse_options :: "bytes \<Rightarrow> (string, path option) res"
  ue_waitid :: "int \<Rightarrow> ('k, wait_errno, wait_status) act"
  ue_spawn_thread :: "('k, io_error, unit) act"
  ue_passing :: "nat \<Rightarrow> exit_info waitable_cell \<Rightarrow> exit_info waitable_cell"
  ue_display :: "shim_error \<Rightarrow> string"
  ue_default_platform :: oci_platform

text \<open>\<open>if let Ok(f) = open(path)\<close>.\<close>

definition try_open :: "('y, 'k) unix_env \<Rightarrow> path \<Rightarrow> ('k, 'e, nat option) act" where
  "try_open U p = act_bind (attempt (ue_open U p)) (\<lambda>r. ret (case r of Inl _ \<Rightarrow> None | Inr f \<Rightarrow> Some f))"

text \<open>The function \<open>Container::build\<close> runs in the zygote.\<close>

definition build_container ::
  "('y, 'k) unix_env \<Rightarrow> 'v engine \<Rightarrow> string \<Rightarrow> instance_config \<Rightarrow> wasm_layer list \<Rightarrow> oci_platform \<Rightarrow>
   ('k, string, 'y) act" where
  "build_container U engine cid cfg modules platform =
     (let namespace = get_namespace cfg; bndl = cfg_bundle cfg;
          rootdir = path_join DEFAULT_CONTAINER_ROOT_DIR (eng_name engine) in
      act_bind (act_map_err (error_display (ue_display U))
         (determine_rootdir (ue_open_options U) (ue_parse_options U) bndl namespace rootdir)) (\<lambda>rootdir.
      act_bind (yk_root_path (ue_youki U) rootdir) (\<lambda>root_path.
      act_bind (try_open U (cfg_stdin cfg)) (\<lambda>stdin.
      act_bind (try_open U (cfg_stdout cfg)) (\<lambda>stdout.
      act_bind (try_open U (cfg_stderr cfg)) (\<lambda>stderr.
      yk_build (ue_youki U) \<lparr>cc_id = cid, cc_root_path = root_path, cc_stdin = stdin, cc_stdout = stdout,
        cc_stderr = stderr, cc_bundle = bndl, cc_sibling = True, cc_systemd = False,
        cc_modules = modules, cc_platform = platform\<rparr>))))))"

text \<open>A failure to load the modules is logged, and the files of the image are used.\<close>

definition load_or_default ::
  "('y, 'k) unix_env \<Rightarrow> 'v engine \<Rightarrow> string \<Rightarrow> client \<Rightarrow> ('k, error, wasm_layer list \<times> oci_platform) act" where
  "load_or_default U engine cid client =
     act_bind (attempt (load_modules (ue_containerd U) (ue_formats U) client engine cid)) (\<lambda>r.
     ret (case r of Inl (_ :: error) \<Rightarrow> ([], ue_default_platform U) | Inr mp \<Rightarrow> mp))"

definition unix_new ::
  "('y, 'k) unix_env \<Rightarrow> 'v engine \<Rightarrow> string \<Rightarrow> instance_config \<Rightarrow>
   (('y, 'k) unix_world, error, unix_instance) act" where
  "unix_new U engine cid cfg =
     act_bind (in_kernel (client_connect (ue_containerd U) (get_containerd_address cfg) (get_namespace cfg))) (\<lambda>client.
     act_bind (in_kernel (load_or_default U engine cid client)) (\<lambda>(modules, platform).
     act_bind (act_map_err Any (container_build (build_container U engine cid cfg modules platform))) (\<lambda>container.
     act_bind new_cell (\<lambda>c.
     ret \<lparr>ui_id = cid, ui_exit_code = c, ui_container = container\<rparr>))))"

text \<open>The guard of \<open>start\<close>: dropped on an error or a panic, it sets 137 unless a status is there.\<close>

definition drop_exit_guard :: "nat \<Rightarrow> 'x cell_world_scheme \<Rightarrow> 'x cell_world_scheme" where
  "drop_exit_guard c w = snd (in_cell c (guard_drop (ret (137, w_now w))) w :: (unit, unit) res \<times> 'x cell_world_scheme)"

definition with_exit_guard :: "nat \<Rightarrow> ('x cell_world_scheme, 'e, 'a) act \<Rightarrow> ('x cell_world_scheme, 'e, 'a) act" where
  "with_exit_guard c m = (\<lambda>w. case m w of
      (Err e, w') \<Rightarrow> (Err e, drop_exit_guard c w')
    | (Panic p, w') \<Rightarrow> (Panic p, drop_exit_guard c w')
    | r \<Rightarrow> r)"

text \<open>\<open>thread::spawn\<close> panics when the system has no thread for it.\<close>

definition thread_spawn :: "('y, 'k) unix_env \<Rightarrow> (('y, 'k) unix_world, 'e, unit) act" where
  "thread_spawn U =
     act_bind (in_kernel (attempt (ue_spawn_thread U))) (\<lambda>r.
     case r of Inl e \<Rightarrow> panic ''failed to spawn thread'' | Inr _ \<Rightarrow> ret ())"

text \<open>A closure that could not be handed to a thread is dropped with the guard in it.\<close>

definition unix_start :: "('y, 'k) unix_env \<Rightarrow> unix_instance \<Rightarrow> (('y, 'k) unix_world, error, u32) act" where
  "unix_start U i =
     act_bind (with_exit_guard (ui_exit_code i) (
       act_bind (act_map_err Any (container_pid (ue_youki U) (ui_container i))) (\<lambda>pid.
       act_bind (act_map_err Any (container_start (ue_youki U) (ui_container i))) (\<lambda>_.
       act_bind (thread_spawn U) (\<lambda>_.
       ret pid))))) (\<lambda>pid.
     act_bind (\<lambda>w. (Ok (), w\<lparr>reapers := reapers w @ [(ui_exit_code i, pid)]\<rparr>)) (\<lambda>_.
     ret (word_of_int pid)))"

text \<open>The status the reaper stores, before the cast to \<open>u32\<close>.\<close>

fun exit_status_of :: "wait_errno + wait_status \<Rightarrow> int" where
  "exit_status_of (Inr (WExited status)) = status"
| "exit_status_of (Inr (WSignaled sig)) = sig"
| "exit_status_of (Inr WOther) = 0"
| "exit_status_of (Inl ECHILD) = 0"
| "exit_status_of (Inl (OtherErrno _)) = 137"

text \<open>The reaper thread: it sets the cell, then drops the guard it owns.\<close>

definition reaper_body ::
  "('y, 'k) unix_env \<Rightarrow> nat \<times> int \<Rightarrow> (('y, 'k) unix_world, unit, unit) act" where
  "reaper_body U = (\<lambda>(c, pid).
     act_bind (in_kernel (attempt (ue_waitid U pid))) (\<lambda>r.
     act_bind utc_now (\<lambda>now.
     act_bind (ignore_result (in_cell c (cell_set (word_of_int (exit_status_of r), now)))) (\<lambda>_.
     (\<lambda>w. (Ok (), drop_exit_guard c w))))))"

definition unix_kill :: "('y, 'k) unix_env \<Rightarrow> unix_instance \<Rightarrow> u32 \<Rightarrow> (('y, 'k) unix_world, error, unit) act" where
  "unix_kill U i signal = act_map_err Any (container_kill (ue_youki U) (ui_container i) signal)"

definition unix_delete :: "('y, 'k) unix_env \<Rightarrow> unix_instance \<Rightarrow> (('y, 'k) unix_world, error, unit) act" where
  "unix_delete U i = act_map_err Any (container_delete (ue_youki U) (ui_container i))"

definition unix_wait_timeout ::
  "('y, 'k) unix_env \<Rightarrow> unix_instance \<Rightarrow> duration option \<Rightarrow> (('y, 'k) unix_world, error, exit_info option) act" where
  "unix_wait_timeout U i t = in_cell (ui_exit_code i) (cell_wait_timeout (ue_passing U) t)"

definition unix_instance_impl ::
  "('y, 'k) unix_env \<Rightarrow> 'v engine \<Rightarrow> (unix_instance, ('y, 'k) unix_world) instance_impl" where
  "unix_instance_impl U engine =
     \<lparr>inst_new = unix_new U engine, inst_start = unix_start U, inst_kill = unix_kill U,
      inst_delete = unix_delete U, inst_wait_timeout = unix_wait_timeout U\<rparr>"

definition windows_instance_impl :: "('i, 'w) instance_impl" where
  "windows_instance_impl =
     \<lparr>inst_new = (\<lambda>_ _. panic ''not yet implemented''), inst_start = (\<lambda>_. panic ''not yet implemented''),
      inst_kill = (\<lambda>_ _. panic ''not yet implemented''), inst_delete = (\<lambda>_. panic ''not yet implemented''),
      inst_wait_timeout = (\<lambda>_ _. panic ''not yet implemented'')\<rparr>"

lemmas unix_defs = unix_instance_impl_def unix_new_def unix_start_def unix_kill_def unix_delete_def
  unix_wait_timeout_def

section \<open>The exit cells only fill up\<close>

text \<open>\<open>grows_act m\<close>: \<open>m\<close> never removes an exit cell nor changes a full one.\<close>

definition grows_act :: "('x cell_world_scheme, 'e, 'a) act \<Rightarrow> bool" where
  "grows_act m \<longleftrightarrow> (\<forall>w. grows w (snd (m w)))"

lemma grows_actD: "grows_act m \<Longrightarrow> grows w (snd (m w))"
  by (simp add: grows_act_def)

lemma grows_act_bind: "grows_act m \<Longrightarrow> (\<And>a. grows_act (f a)) \<Longrightarrow> grows_act (act_bind m f)"
  unfolding grows_act_def
  by (auto simp: act_bind_def split: prod.split res.split) (metis grows_trans snd_conv)+

lemma same_cells_grows: "w_cells w' = w_cells w \<Longrightarrow> grows w w'"
  by (simp add: grows_def cell_valid_def cell_exit_def)

lemma grows_act_cells: "(\<And>w. w_cells (snd (m w)) = w_cells w) \<Longrightarrow> grows_act m"
  by (simp add: grows_act_def same_cells_grows)

lemma grows_act_pure: "grows_act (ret a)" "grows_act (throw e)" "grows_act (lift_res r)"
  by (auto intro: grows_act_cells)

lemma grows_act_map_err: "grows_act m \<Longrightarrow> grows_act (act_map_err g m)"
  by (simp add: grows_act_def act_map_err_apply)

lemma grows_in_kernel: "grows_act (in_kernel m)"
  by (rule grows_act_cells) (simp add: in_kernel_def split: prod.split)

lemma grows_run_impl: "grows_act (run_impl z f)"
  by (rule grows_act_cells) (simp add: run_impl_def split: prod.split)

lemma grows_run: "grows_act (run_init z f)" "grows_act (run_container z g)"
  by (simp_all add: run_init_def run_container_def grows_run_impl)

lemma grows_container:
  "grows_act (container_pid Y z)" "grows_act (container_start Y z)" "grows_act (container_kill Y z sig)"
  "grows_act (container_delete Y z)" "grows_act (container_build b)"
  unfolding container_pid_def container_start_def container_kill_def container_delete_def container_build_def
  by (intro grows_act_bind grows_run grows_act_pure grows_act_cells; simp)+

lemma cell_guard_drop: "cell c = Some x \<Longrightarrow> cell (snd (guard_drop (ret v) c :: (unit, unit) res \<times> _)) = Some x"
  by (simp add: guard_drop_def act_defs cell_set_def)

lemma grows_drop_exit_guard: "grows w (drop_exit_guard c w)"
  unfolding drop_exit_guard_def by (rule grows_in_cell) (rule cell_guard_drop)

lemma grows_with_exit_guard: "grows_act m \<Longrightarrow> grows_act (with_exit_guard c m)"
  unfolding grows_act_def
  by (auto simp: with_exit_guard_def split: prod.split res.split)
    (metis grows_drop_exit_guard grows_trans snd_conv)+

lemma grows_thread_spawn: "grows_act (thread_spawn U)"
  unfolding thread_spawn_def
  by (rule grows_act_bind [OF grows_in_kernel]) (auto intro: grows_act_cells split: sum.split)

lemma grows_unix_start: "grows_act (unix_start U i)"
  unfolding unix_start_def
  by (intro grows_act_bind grows_with_exit_guard grows_act_map_err grows_container grows_thread_spawn grows_act_pure
      grows_act_cells) simp

lemma grows_unix_kill: "grows_act (unix_kill U i sig)"
  unfolding unix_kill_def by (intro grows_act_map_err grows_container)

lemma grows_unix_delete: "grows_act (unix_delete U i)"
  unfolding unix_delete_def by (intro grows_act_map_err grows_container)

lemma grows_new_cell_act: "grows_act new_cell"
  by (simp add: grows_act_def grows_new_cell)

lemma grows_unix_new: "grows_act (unix_new U engine cid cfg)"
  unfolding unix_new_def split_def
  by (intro grows_act_bind grows_in_kernel grows_act_map_err grows_container grows_new_cell_act
      grows_act_pure)

lemma unix_new_fresh:
  assumes "unix_new U engine cid cfg w = (Ok i, w')"
  shows "cell_valid (ui_exit_code i) w' \<and> cell_exit (ui_exit_code i) w' = None"
  using assms unfolding unix_new_def
  by (elim act_bind_OkE)
    (auto simp: split_def new_cell_def cell_valid_def cell_exit_def cell_new_def ret_def elim!: act_bind_OkE)

definition unix_valid :: "unix_instance \<Rightarrow> ('y, 'k) unix_world \<Rightarrow> bool" where
  "unix_valid i w = cell_valid (ui_exit_code i) w"

definition unix_exit :: "unix_instance \<Rightarrow> ('y, 'k) unix_world \<Rightarrow> exit_info option" where
  "unix_exit i w = cell_exit (ui_exit_code i) w"

interpretation unix: instance_contract "unix_instance_impl U engine" unix_valid unix_exit
proof -
  have stable: "unix_valid i w \<Longrightarrow> unix_valid i (snd (m w)) \<and>
      (unix_exit i w = Some x \<longrightarrow> unix_exit i (snd (m w)) = Some x)" if "grows_act m"
    for m :: "(('a, 'b) unix_world, error, 'z) act" and i w x
    using growsD [OF grows_actD [OF that]] by (simp add: unix_valid_def unix_exit_def)
  show "instance_contract (unix_instance_impl U engine) unix_valid unix_exit"
    by unfold_locales
      (auto simp: unix_instance_impl_def unix_new_fresh unix_wait_timeout_def unix_valid_def unix_exit_def
        in_cell_wait in_cell_wait_zero in_cell_wait_blocks
        intro: stable [unfolded unix_valid_def unix_exit_def, THEN conjunct1]
          stable [unfolded unix_valid_def unix_exit_def, THEN conjunct2, rule_format]
          grows_unix_new grows_unix_start grows_unix_kill grows_unix_delete)
qed

section \<open>Properties\<close>

text \<open>A world for the witnesses: libcontainer and containerd accept everything, processes exit with 3.\<close>

definition demo_youki :: "(int option, unit) youki" where
  "demo_youki = \<lparr>yk_build = (\<lambda>_. ret (Some 77)), yk_root_path = ret, yk_pid = (\<lambda>y. y),
     yk_start = (\<lambda>(y, k). (if y = None then Err ''no init'' else Ok (), (y, k))),
     yk_kill = (\<lambda>_. ret ()), yk_delete = ret (), yk_valid_signal = (\<lambda>n. 0 < n \<and> n \<le> 64)\<rparr>"

definition demo_daemon :: "unit containerd" where
  "demo_daemon = \<lparr>ctd_connect = (\<lambda>_. ret ()), ctd_read = (\<lambda>_ _. throw []), ctd_delete = (\<lambda>_ _. throw []),
     ctd_lease_create = (\<lambda>_ _ _. throw []), ctd_lease_delete = (\<lambda>_ _. throw []),
     ctd_write = (\<lambda>_ _ _. throw (GrpcStatus GrpcOther [])), ctd_send = (\<lambda>_ _. throw []),
     ctd_message = (\<lambda>_. throw []), ctd_info = (\<lambda>_ _. throw []), ctd_update = (\<lambda>_ _ _. throw []),
     ctd_get_image = (\<lambda>_ _. throw []), ctd_get_container = (\<lambda>_ _. throw []), ctd_lease_expiry = (\<lambda>_. []), ctd_spawn_delete = (\<lambda>_ _ w. w)\<rparr>"

definition demo_unix :: "(int option, unit) unix_env" where
  "demo_unix = \<lparr>ue_youki = demo_youki, ue_containerd = demo_daemon, ue_formats = demo_fm [],
     ue_open = (\<lambda>_. throw (IoError IoNotFound [])), ue_open_options = (\<lambda>_. throw (IoError IoNotFound [])),
     ue_parse_options = (\<lambda>_. Ok None), ue_waitid = (\<lambda>_. ret (WExited 3)), ue_spawn_thread = ret (), ue_passing = (\<lambda>_ c. c),
     ue_display = (\<lambda>_. []), ue_default_platform = demo_platform\<rparr>"

definition demo_inst :: unix_instance where
  "demo_inst = \<lparr>ui_id = ''a'', ui_exit_code = 0, ui_container = 0\<rparr>"

definition demo_unix_world :: "exit_info option \<Rightarrow> int option option \<Rightarrow> (int option, unit) unix_world" where
  "demo_unix_world x z = \<lparr>w_cells = [\<lparr>cell = x\<rparr>], w_now = \<lparr>dt_timestamp = 5, dt_subsec_nanos = 6\<rparr>,
     zygotes = [z], reapers = [], kernel = ()\<rparr>"

lemma run_impl_cells: "stays (\<lambda>v. w_cells v = cs) (run_impl z f)"
  by (simp add: stays_def run_impl_def split: prod.split)

lemma thread_spawn_cells: "stays (\<lambda>v. w_cells v = cs) (thread_spawn U)"
  unfolding thread_spawn_def
  by (rule stays_bind) (auto simp: stays_def in_kernel_def split: prod.split sum.split)

lemma drop_exit_guard_sets:
  "cell_valid c w \<Longrightarrow> cell_exit c (drop_exit_guard c w) = (case cell_exit c w of None \<Rightarrow> Some (137, w_now w) | x \<Rightarrow> x)"
  by (auto simp: drop_exit_guard_def exit_cell_defs guard_drop_def act_defs cell_set_def split: option.split)

text \<open>
  C23. Every start leaves a way to an exit status: if \<open>start\<close> succeeds, a thread that waits for the
  process it returned the pid of owns the exit cell; if it fails or panics, the exit cell is full,
  with status 137 unless there was one before.
\<close>

theorem start_leaves_exit_or_reaper:
  assumes "unix_start U i w = (r, w')" and "cell_valid (ui_exit_code i) w"
  shows "(\<forall>pid. r = Ok pid \<longrightarrow> (\<exists>p. (ui_exit_code i, p) \<in> set (reapers w') \<and> pid = word_of_int p)) \<and>
    ((\<exists>e. r = Err e) \<or> (\<exists>p. r = Panic p) \<longrightarrow>
      (\<exists>x. cell_exit (ui_exit_code i) w' = Some x \<and> (cell_exit (ui_exit_code i) w = None \<longrightarrow> fst x = 137)))"
proof -
  let ?c = "ui_exit_code i"
  define m where "m = act_bind (act_map_err Any (container_pid (ue_youki U) (ui_container i))) (\<lambda>pid.
       act_bind (act_map_err Any (container_start (ue_youki U) (ui_container i))) (\<lambda>_.
       act_bind (thread_spawn U) (\<lambda>_. ret pid)))"
  have cells: "w_cells (snd (m w)) = w_cells w" for w
  proof -
    have "stays (\<lambda>v. w_cells v = w_cells w) m"
      unfolding m_def container_pid_def container_start_def run_container_def
      by (intro stays_bind stays_map_err stays_pure run_impl_cells thread_spawn_cells)
    then show ?thesis by (simp add: stays_def)
  qed
  obtain r1 w1 where m: "m w = (r1, w1)" by (metis prod.exhaust)
  have same: "cell_exit ?c w1 = cell_exit ?c w" "cell_valid ?c w1"
    using cells [of w] m assms(2) by (simp_all add: cell_exit_def cell_valid_def)
  have "unix_start U i w = (case r1 of
      Ok pid \<Rightarrow> (Ok (word_of_int pid), w1\<lparr>reapers := reapers w1 @ [(?c, pid)]\<rparr>)
    | Err e \<Rightarrow> (Err e, drop_exit_guard ?c w1) | Panic p \<Rightarrow> (Panic p, drop_exit_guard ?c w1)
    | Blocked \<Rightarrow> (Blocked, w1))"
    unfolding unix_start_def m_def [symmetric]
    by (simp add: with_exit_guard_def m act_bind_def split: res.split)
  with assms(1) same drop_exit_guard_sets [OF same(2)] show ?thesis
    by (auto split: res.splits option.splits)
qed

theorem start_leaves_exit_or_reaper_witness:
  "\<exists>e w'. unix_start demo_unix demo_inst (demo_unix_world None (Some None)) = (Err e, w') \<and>
     (\<exists>x. cell_exit 0 w' = Some x \<and> fst x = 137)"
proof -
  let ?w = "demo_unix_world None (Some None)"
  have "(case fst (unix_start demo_unix demo_inst ?w) of Err _ \<Rightarrow> True | _ \<Rightarrow> False)" by code_simp
  then obtain e w' where s: "unix_start demo_unix demo_inst ?w = (Err e, w')"
    by (cases "unix_start demo_unix demo_inst ?w") (auto split: res.splits)
  have "cell_valid (ui_exit_code demo_inst) ?w" "cell_exit (ui_exit_code demo_inst) ?w = None" by code_simp+
  with start_leaves_exit_or_reaper [OF s] s show ?thesis by (simp add: demo_inst_def)
qed

lemma reaper_exit:
  assumes "reaper_body U (c, pid) w = (Ok (), w')" and "cell_valid c w"
  shows "\<exists>r k. attempt (ue_waitid U pid) (kernel w) = ((Ok r :: (unit, wait_errno + wait_status) res), k) \<and>
    cell_exit c w' = (case cell_exit c w of
       None \<Rightarrow> Some (word_of_int (exit_status_of r), w_now w) | Some x \<Rightarrow> Some x)"
proof -
  obtain r k where r: "attempt (ue_waitid U pid) (kernel w) = ((Ok r :: (unit, wait_errno + wait_status) res), k)"
    using assms(1) by (auto simp: reaper_body_def in_kernel_def elim!: act_bind_OkE split: prod.splits)
  let ?w = "w\<lparr>kernel := k, w_cells := (w_cells w)[c := (case cell (w_cells w ! c) of
      None \<Rightarrow> (w_cells w ! c)\<lparr>cell := Some (word_of_int (exit_status_of r), w_now w)\<rparr> | Some _ \<Rightarrow> w_cells w ! c)]\<rparr>"
  have "w' = drop_exit_guard c ?w"
    using assms r
    by (auto simp: reaper_body_def in_kernel_def act_bind_def utc_now_def ignore_result_def in_cell_def
        cell_set_def cell_valid_def attempt_def split: option.splits)
  moreover have "cell_exit c ?w = (case cell_exit c w of
      None \<Rightarrow> Some (word_of_int (exit_status_of r), w_now w) | Some x \<Rightarrow> Some x)"
    using assms(2) by (simp add: cell_exit_def cell_valid_def split: option.split)
  moreover have "cell_valid c ?w" using assms(2) by (simp add: cell_valid_def)
  ultimately have "cell_exit c w' = (case cell_exit c w of
      None \<Rightarrow> Some (word_of_int (exit_status_of r), w_now w) | Some x \<Rightarrow> Some x)"
    using drop_exit_guard_sets [of c ?w] by (simp split: option.splits)
  with r show ?thesis by blast
qed

text \<open>What the reaper of a process leaves in the exit cell when it learns the status \<open>code\<close>.\<close>

definition reaper_outcome :: "('y, 'k) unix_env \<Rightarrow> nat \<Rightarrow> int \<Rightarrow> ('y, 'k) unix_world \<Rightarrow> u32 \<Rightarrow> bool" where
  "reaper_outcome U c pid w code \<longleftrightarrow> fst (reaper_body U (c, pid) w) = Ok () \<and>
     cell_exit c (snd (reaper_body U (c, pid) w)) =
       (case cell_exit c w of None \<Rightarrow> Some (code, w_now w) | Some x \<Rightarrow> Some x)"

lemma reaper_valid: "reaper_body U (c, pid) w = (Ok (), w') \<Longrightarrow> cell_valid j w \<Longrightarrow> cell_valid j w'"
  by (auto simp: reaper_body_def in_kernel_def act_bind_def utc_now_def ignore_result_def attempt_def in_cell_def
      drop_exit_guard_def cell_valid_def split: prod.splits res.splits if_splits)

text \<open>
  C24. The reaper records how the process ended, with the time at which it learned it: the exit
  status of a process that exited, the number of the signal that ended it, 0 for any other report
  and for a process that is gone, 137 for a wait that failed, each as a \<open>u32\<close>. A status that is
  there already stays. While the process runs the reaper waits.
\<close>

theorem reaper_records_exit:
  assumes "cell_valid c w"
  shows "(ue_waitid U pid (kernel w) = (Ok (WExited status), k) \<longrightarrow>
      reaper_outcome U c pid w (word_of_int status)) \<and>
    (ue_waitid U pid (kernel w) = (Ok (WSignaled sig), k) \<longrightarrow> reaper_outcome U c pid w (word_of_int sig)) \<and>
    (ue_waitid U pid (kernel w) = (Ok WOther, k) \<longrightarrow> reaper_outcome U c pid w 0) \<and>
    (ue_waitid U pid (kernel w) = (Err ECHILD, k) \<longrightarrow> reaper_outcome U c pid w 0) \<and>
    (ue_waitid U pid (kernel w) = (Err (OtherErrno e), k) \<longrightarrow> reaper_outcome U c pid w 137) \<and>
    (ue_waitid U pid (kernel w) = (Blocked, k) \<longrightarrow> fst (reaper_body U (c, pid) w) = Blocked)"
proof -
  have "reaper_outcome U c pid w (word_of_int (exit_status_of x))"
    if "attempt (ue_waitid U pid) (kernel w) = ((Ok x :: (unit, wait_errno + wait_status) res), k)" for x
  proof -
    have "fst (reaper_body U (c, pid) w) = Ok ()"
      using that assms by (auto simp: reaper_body_def in_kernel_def act_bind_def utc_now_def ignore_result_def
          attempt_def in_cell_def cell_set_def cell_valid_def split: option.splits prod.splits)
    then have run: "reaper_body U (c, pid) w = (Ok (), snd (reaper_body U (c, pid) w))" by (metis prod.collapse)
    have "fst (reaper_body U (c, pid) w) = Ok ()" using run by (metis fst_conv)
    with reaper_exit [OF run assms] that show ?thesis by (auto simp: reaper_outcome_def)
  qed
  from this [of "Inr (WExited status)"] this [of "Inr (WSignaled sig)"] this [of "Inr WOther"]
    this [of "Inl ECHILD"] this [of "Inl (OtherErrno e)"]
  show ?thesis by (auto simp: attempt_def reaper_body_def in_kernel_def act_bind_def)
qed

theorem reaper_records_exit_witness:
  "reaper_outcome demo_unix 0 77 (demo_unix_world None (Some (Some 77))) 3"
proof -
  let ?w = "demo_unix_world None (Some (Some 77))"
  have "cell_valid 0 ?w" by code_simp
  from reaper_records_exit [OF this, of demo_unix 77 3 "()" 0 undefined] show ?thesis
    by (simp add: demo_unix_def)
qed

text \<open>
  One exit status for everybody: once the exit cell of a task's instance is full, \<open>wait\<close>,
  \<open>state\<close> and \<open>delete\<close> all report that status and that time, \<open>state\<close> says stopped for a task that
  had a pid, and the delete event carries the same; as long as it is empty, \<open>wait\<close> blocks.
\<close>

lemma exit_status_agrees:
  assumes "instances s (rq_id req) = Some a" and "arcs s a = Some d" and "\<not> id_poisoned d"
    and "rq_exec_id req = []" and "unix_valid (id_instance d) (world s)"
  shows "(unix_exit (id_instance d) (world s) = None \<longrightarrow>
      fst (task_wait (unix_instance_impl U engine) req s) = Blocked) \<and>
    (unix_exit (id_instance d) (world s) = Some (code, at) \<longrightarrow>
      fst (task_wait (unix_instance_impl U engine) req s) =
        Ok \<lparr>wr_exit_status = code, wr_exited_at = Some (to_timestamp at)\<rparr> \<and>
      (\<exists>st. fst (task_state (unix_instance_impl U engine) req s) = Ok st \<and> sr_exit_status st = code \<and>
        sr_exited_at st = Some (to_timestamp at) \<and> (id_pid d \<noteq> None \<longrightarrow> sr_status st = STOPPED)) \<and>
      (id_state d \<in> {Created, Exited} \<longrightarrow>
       unix_delete U (id_instance d) (world s) = (Ok (), w) \<longrightarrow>
       (\<exists>t. task_delete (unix_instance_impl U engine) req s =
          (Ok \<lparr>dr_pid = unwrap_or 0 (id_pid d), dr_exit_status = code, dr_exited_at = Some (to_timestamp at)\<rparr>, t) \<and>
        instances t (rq_id req) = None \<and>
        events t = events s @ [TaskDelete (rq_id req) (unwrap_or 0 (id_pid d)) code (Some (to_timestamp at))])))"
proof -
  have k: "unix.known (rq_id req) d s" using assms by (auto simp: unix.known_def)
  note ans = unix.task_wait_blocks [OF k assms(4), of U engine]
    unix.task_wait_exited [OF k assms(4), of code at U engine]
    unix.task_state_known [OF k assms(4), of U engine]
    unix.task_delete_known [OF k assms(4), of U engine w code at]
  show ?thesis
    using ans by (auto simp: exit_code_of_def exit_time_of_def status_of_def unix_instance_impl_def)
qed

definition demo_task :: "unix_instance instance_data" where
  "demo_task = \<lparr>id_instance = demo_inst, id_cfg = instance_config_new [] [], id_pid = Some 77,
     id_state = Started, id_poisoned = False\<rparr>"

definition demo_unix_shim :: "(unix_instance, (int option, unit) unix_world) shim" where
  "demo_unix_shim = (local_new [] [] (demo_unix_world (Some (3, \<lparr>dt_timestamp = 5, dt_subsec_nanos = 6\<rparr>)) (Some (Some 77))))
     \<lparr>registry := [(''a'', 0)], arcs := [0 \<mapsto> demo_task], next_arc := 1\<rparr>"

lemma exit_status_agrees_witness:
  "fst (task_wait (unix_instance_impl demo_unix demo_wasm_engine) \<lparr>rq_id = ''a'', rq_exec_id = []\<rparr> demo_unix_shim) =
     Ok \<lparr>wr_exit_status = 3, wr_exited_at = Some \<lparr>ts_seconds = 5, ts_nanos = 6\<rparr>\<rparr>"
proof -
  have "to_timestamp \<lparr>dt_timestamp = 5, dt_subsec_nanos = 6\<rparr> = \<lparr>ts_seconds = 5, ts_nanos = 6\<rparr>" by code_simp
  then show ?thesis
    using exit_status_agrees [of demo_unix_shim "\<lparr>rq_id = ''a'', rq_exec_id = []\<rparr>" 0 demo_task demo_unix
        demo_wasm_engine 3 "\<lparr>dt_timestamp = 5, dt_subsec_nanos = 6\<rparr>"]
    by (simp add: demo_unix_shim_def demo_task_def demo_inst_def instances_def local_new_def unix_valid_def
        unix_exit_def cell_valid_def cell_exit_def demo_unix_world_def)
qed

text \<open>
  The runs of the instances of a process: \<open>I\<close> are the instances \<open>new\<close> has returned. Operations on
  any of them and reapers come in any order, and the system outside may change at any time.
\<close>

inductive unix_run :: "('y, 'k) unix_env \<Rightarrow> 'v engine \<Rightarrow> unix_instance set \<Rightarrow> ('y, 'k) unix_world \<Rightarrow> bool"
  for U engine where
  run_boot: "zygotes w = [] \<Longrightarrow> unix_run U engine {} w"
| run_created: "unix_run U engine I w \<Longrightarrow> unix_new U engine cid cfg w = (Ok i, w') \<Longrightarrow>
    unix_run U engine (insert i I) w'"
| run_not_created: "unix_run U engine I w \<Longrightarrow> unix_new U engine cid cfg w = (r, w') \<Longrightarrow> \<nexists>i. r = Ok i \<Longrightarrow>
    unix_run U engine I w'"
| run_started: "unix_run U engine I w \<Longrightarrow> i \<in> I \<Longrightarrow> unix_run U engine I (snd (unix_start U i w))"
| run_killed: "unix_run U engine I w \<Longrightarrow> i \<in> I \<Longrightarrow> unix_run U engine I (snd (unix_kill U i sig w))"
| run_deleted: "unix_run U engine I w \<Longrightarrow> i \<in> I \<Longrightarrow> unix_run U engine I (snd (unix_delete U i w))"
| run_waited: "unix_run U engine I w \<Longrightarrow> i \<in> I \<Longrightarrow> unix_run U engine I (snd (unix_wait_timeout U i t w))"
| run_reaped: "unix_run U engine I w \<Longrightarrow> p \<in> set (reapers w) \<Longrightarrow> unix_run U engine I (snd (reaper_body U p w))"
| run_outside: "unix_run U engine I w \<Longrightarrow> unix_run U engine I (w\<lparr>kernel := k, w_now := n\<rparr>)"

text \<open>\<open>zs\<close> are the zygotes of \<open>w\<close>, but for the one at \<open>z\<close>; where \<open>zs\<close> has a container there, so has \<open>w\<close>.\<close>

definition agree :: "nat \<Rightarrow> 'y option list \<Rightarrow> ('y, 'k) unix_world \<Rightarrow> bool" where
  "agree z zs w \<longleftrightarrow> length (zygotes w) = length zs \<and> (\<forall>y. y \<noteq> z \<longrightarrow> zygotes w ! y = zs ! y) \<and>
     (z < length zs \<longrightarrow> zs ! z \<noteq> None \<longrightarrow> zygotes w ! z \<noteq> None)"

lemma agree_same: "agree z (zygotes w) w"
  by (simp add: agree_def)

lemma agree_zygotes: "(\<And>w. zygotes (snd (m w)) = zygotes w) \<Longrightarrow> stays (agree z zs) m"
  by (simp add: stays_def agree_def)

lemma run_container_agree: "stays (agree z zs) (run_container z f)"
  unfolding stays_def
proof (intro allI impI)
  fix w :: "('a, 'b) unix_world" assume "agree z zs w"
  then show "agree z zs (snd (run_container z f w))"
    by (cases "z < length zs") (auto simp: agree_def run_container_def run_impl_def nth_list_update
        split: prod.splits option.splits)
qed

lemma zygotes_drop_exit_guard: "zygotes (drop_exit_guard c w) = zygotes w"
  by (simp add: drop_exit_guard_def in_cell_def split: prod.split)

lemma with_exit_guard_agree: "stays (agree z zs) m \<Longrightarrow> stays (agree z zs) (with_exit_guard c m)"
  unfolding stays_def
  by (auto simp: with_exit_guard_def agree_def zygotes_drop_exit_guard split: prod.split res.split)

lemma zygotes_in_kernel: "zygotes (snd (in_kernel m w)) = zygotes w"
  by (simp add: in_kernel_def split: prod.split)

lemma thread_spawn_agree: "stays (agree z zs) (thread_spawn U)"
  unfolding thread_spawn_def
  by (rule stays_bind) (auto intro!: agree_zygotes simp: zygotes_in_kernel split: sum.split)

lemma unix_operations_agree:
  "stays (agree (ui_container i) zs) (unix_start U i)" "stays (agree (ui_container i) zs) (unix_kill U i sig)"
  "stays (agree (ui_container i) zs) (unix_delete U i)"
proof -
  have reap: "stays (agree z zs) (\<lambda>w. (Ok (), w\<lparr>reapers := reapers w @ [p]\<rparr>))" for p and z
    by (rule agree_zygotes) simp
  show "stays (agree (ui_container i) zs) (unix_start U i)" "stays (agree (ui_container i) zs) (unix_kill U i sig)"
    "stays (agree (ui_container i) zs) (unix_delete U i)"
    unfolding unix_start_def unix_kill_def unix_delete_def container_pid_def container_start_def
      container_kill_def container_delete_def
    by (intro stays_bind with_exit_guard_agree stays_map_err run_container_agree thread_spawn_agree stays_pure reap)+
qed

lemmas unix_operations_frame = unix_operations_agree [THEN staysD, OF agree_same]

lemma zygotes_wait_timeout: "zygotes (snd (unix_wait_timeout U i t w)) = zygotes w"
  by (simp add: unix_wait_timeout_def in_cell_def split: prod.split)

lemma zygotes_reaper: "zygotes (snd (reaper_body U p w)) = zygotes w"
proof -
  have keep: "stays (\<lambda>v. zygotes v = zygotes w) m" if "\<And>v. zygotes (snd (m v)) = zygotes v"
    for m :: "(('a, 'b) unix_world, unit, 'z) act"
    using that by (simp add: stays_def)
  have "stays (\<lambda>v. zygotes v = zygotes w) (reaper_body U p)"
    unfolding reaper_body_def split_def
    by (intro stays_bind keep)
      (auto simp: zygotes_in_kernel utc_now_def ignore_result_def in_cell_def zygotes_drop_exit_guard
        act_bind_def attempt_def split: prod.split res.split)
  then show ?thesis by (simp add: stays_def)
qed

text \<open>\<open>new\<close> builds in a zygote of its own.\<close>

definition extends :: "'y option list \<Rightarrow> ('y, 'k) unix_world \<Rightarrow> bool" where
  "extends zs w \<longleftrightarrow> length zs \<le> length (zygotes w) \<and> take (length zs) (zygotes w) = zs"

lemma extends_same: "extends (zygotes w) w"
  by (simp add: extends_def)

lemma extends_nth: "extends zs w \<Longrightarrow> z < length zs \<Longrightarrow> zygotes w ! z = zs ! z"
  by (metis extends_def nth_take)

lemma extends_zygotes: "(\<And>w. zygotes (snd (m w)) = zygotes w) \<Longrightarrow> stays (extends zs) m"
  by (simp add: stays_def extends_def)

lemma container_build_extends: "stays (extends zs) (container_build f)"
  by (auto simp: stays_def extends_def container_build_def run_init_def run_impl_def act_bind_def
      split: prod.split res.split)

lemma unix_new_extends: "stays (extends zs) (unix_new U engine cid cfg)"
  unfolding unix_new_def split_def
  by (intro stays_bind stays_map_err container_build_extends stays_pure extends_zygotes)
    (simp_all add: zygotes_in_kernel new_cell_def)

lemma container_build_Ok:
  "container_build f w = (Ok z, w') \<Longrightarrow>
    z = length (zygotes w) \<and> (\<exists>y k. f (kernel w) = (Ok y, k) \<and> zygotes w' = zygotes w @ [Some y])"
  by (auto simp: container_build_def run_init_def run_impl_def act_bind_def split: prod.splits res.splits)

lemma unix_new_builds:
  assumes "unix_new U engine cid cfg w = (Ok i, w')"
  shows "\<exists>client k1 modules platform k2 y k3.
    client_connect (ue_containerd U) (get_containerd_address cfg) (get_namespace cfg) (kernel w) = (Ok client, k1) \<and>
    load_or_default U engine cid client k1 = (Ok (modules, platform), k2) \<and>
    build_container U engine cid cfg modules platform k2 = (Ok y, k3) \<and>
    ui_id i = cid \<and> ui_container i = length (zygotes w) \<and> zygotes w' = zygotes w @ [Some y]"
proof -
  from assms obtain client w1 mp w2 z w3 where
    1: "in_kernel (client_connect (ue_containerd U) (get_containerd_address cfg) (get_namespace cfg)) w = (Ok client, w1)"
    and 2: "in_kernel (load_or_default U engine cid client) w1 = (Ok mp, w2)"
    and 3: "act_map_err Any (container_build (build_container U engine cid cfg (fst mp) (snd mp))) w2 = (Ok z, w3)"
    and 4: "ui_id i = cid" "ui_container i = z" "zygotes w' = zygotes w3"
    unfolding unix_new_def split_def by (elim act_bind_OkE) (auto simp: new_cell_def)
  from 3 have "container_build (build_container U engine cid cfg (fst mp) (snd mp)) w2 = (Ok z, w3)"
    by (auto simp: act_map_err_def elim: map_err.elims split: prod.splits)
  from container_build_Ok [OF this] 1 2 4 show ?thesis
    by (cases mp) (auto simp: in_kernel_def split: prod.splits)
qed

text \<open>The instances of a run have containers of their own.\<close>

definition own_containers :: "unix_instance set \<Rightarrow> 'y option list \<Rightarrow> bool" where
  "own_containers I zs \<longleftrightarrow> inj_on ui_container I \<and>
     (\<forall>i \<in> I. ui_container i < length zs \<and> zs ! ui_container i \<noteq> None)"

lemma own_containers_agree: "own_containers I zs \<Longrightarrow> agree z zs w \<Longrightarrow> own_containers I (zygotes w)"
  unfolding own_containers_def agree_def by metis

lemma own_containers_extends: "own_containers I zs \<Longrightarrow> extends zs w \<Longrightarrow> own_containers I (zygotes w)"
  by (auto simp: own_containers_def extends_nth) (auto simp: extends_def)

lemma own_containers_new:
  assumes "own_containers I (zygotes w)" and "unix_new U engine cid cfg w = (Ok i, w')"
  shows "own_containers (insert i I) (zygotes w')"
proof -
  from unix_new_builds [OF assms(2)] obtain y
    where y: "ui_container i = length (zygotes w)" "zygotes w' = zygotes w @ [Some y]" by blast
  have "ui_container i \<notin> ui_container ` (I - {i})" using assms(1) y(1) by (auto simp: own_containers_def)
  with assms(1) y show ?thesis by (auto simp: own_containers_def nth_append)
qed

lemma unix_run_own_containers: "unix_run U engine I w \<Longrightarrow> own_containers I (zygotes w)"
proof (induction rule: unix_run.induct)
  case (run_not_created I w cid cfg r w')
  then show ?case
    using own_containers_extends [OF _ staysD [OF unix_new_extends extends_same]] by (metis snd_conv)
next
  case (run_boot w) then show ?case by (simp add: own_containers_def)
next
  case run_created then show ?case by (blast intro: own_containers_new)
next
  case run_started then show ?case by (blast intro: own_containers_agree unix_operations_frame)
next
  case run_killed then show ?case by (blast intro: own_containers_agree unix_operations_frame)
next
  case run_deleted then show ?case by (blast intro: own_containers_agree unix_operations_frame)
qed (simp_all add: zygotes_wait_timeout zygotes_reaper)

text \<open>The operations of an instance whose zygote has container \<open>c\<close>.\<close>

lemma run_container_at:
  "zygotes w ! z = Some c \<Longrightarrow> run_container z f w = (case f (c, kernel w) of (r, (c', k)) \<Rightarrow>
      (r, w\<lparr>zygotes := (zygotes w)[z := Some c'], kernel := k\<rparr>))"
  by (simp add: run_container_def run_impl_def split: prod.split)

lemma container_pid_at:
  assumes "zygotes w ! z = Some c"
  shows "container_pid Y z w = (ok_or ''Failed to obtain PID'' (yk_pid Y c), w)"
proof -
  have "w\<lparr>zygotes := (zygotes w)[z := Some c], kernel := kernel w\<rparr> = w"
    using assms by (simp flip: assms)
  then show ?thesis
    by (simp add: container_pid_def act_bind_def run_container_at [OF assms] lift_res_def split: option.split)
qed

lemma unix_delete_at:
  "zygotes w ! ui_container i = Some c \<Longrightarrow>
    fst (unix_delete U i w) = map_err Any (fst (yk_delete (ue_youki U) (c, kernel w)))"
  by (simp add: unix_delete_def container_delete_def act_map_err_apply run_container_at split: prod.split)

lemma unix_kill_at:
  "zygotes w ! ui_container i = Some c \<Longrightarrow> fst (unix_kill U i sig w) =
    (if yk_valid_signal (ue_youki U) (sint sig)
     then map_err Any (fst (yk_kill (ue_youki U) (sint sig) (c, kernel w))) else Err (Any ''invalid signal number''))"
  by (simp add: unix_kill_def container_kill_def act_map_err_apply run_container_at split: prod.split)

lemma unix_start_at:
  assumes "zygotes w ! ui_container i = Some c"
  shows "fst (unix_start U i w) = (case yk_pid (ue_youki U) c of
      None \<Rightarrow> Err (Any ''Failed to obtain PID'')
    | Some p \<Rightarrow> (case yk_start (ue_youki U) (c, kernel w) of
        (Ok _, (_, k)) \<Rightarrow> (case fst (ue_spawn_thread U k) of
           Ok _ \<Rightarrow> Ok (word_of_int p) | Err _ \<Rightarrow> Panic ''failed to spawn thread'' | Panic m \<Rightarrow> Panic m | Blocked \<Rightarrow> Blocked)
      | (r, _) \<Rightarrow> map_res Any (\<lambda>_. 0) r))"
  by (auto simp: unix_start_def with_exit_guard_def act_bind_def act_map_err_apply container_pid_at [OF assms]
      container_start_def run_container_at [OF assms] thread_spawn_def in_kernel_def attempt_def
      split: option.split prod.split res.split)

text \<open>
  C25. Every instance has a container of its own, whatever the order of operations on the
  instances. \<open>new\<close> builds it from the configuration and the layers it loaded, in a zygote that
  is not used yet. Nothing but operations on the instance changes it: no operation on another
  instance does, and no \<open>new\<close>. \<open>start\<close>, \<open>kill\<close> and \<open>delete\<close> of the instance end as
  libcontainer's own operations on that container do, so the \<open>expect\<close> on it never fails.
\<close>

theorem instance_owns_container:
  assumes "unix_run U engine I w" and "i \<in> I"
  shows "\<exists>c. zygotes w ! ui_container i = Some c \<and>
    (\<forall>j \<in> I - {i}.
      zygotes (snd (unix_start U j w)) ! ui_container i = Some c \<and>
      zygotes (snd (unix_kill U j sig w)) ! ui_container i = Some c \<and>
      zygotes (snd (unix_delete U j w)) ! ui_container i = Some c) \<and>
    (\<forall>cid cfg j w'. zygotes (snd (unix_new U engine cid cfg w)) ! ui_container i = Some c \<and>
      (unix_new U engine cid cfg w = (Ok j, w') \<longrightarrow>
        (\<exists>client k1 modules platform k2 y k3.
          client_connect (ue_containerd U) (get_containerd_address cfg) (get_namespace cfg) (kernel w) = (Ok client, k1) \<and>
          load_or_default U engine cid client k1 = (Ok (modules, platform), k2) \<and>
          build_container U engine cid cfg modules platform k2 = (Ok y, k3) \<and>
          zygotes w' ! ui_container j = Some y \<and> ui_container j \<notin> ui_container ` I))) \<and>
    fst (unix_start U i w) = (case yk_pid (ue_youki U) c of
      None \<Rightarrow> Err (Any ''Failed to obtain PID'')
    | Some p \<Rightarrow> (case yk_start (ue_youki U) (c, kernel w) of
        (Ok _, (_, k)) \<Rightarrow> (case fst (ue_spawn_thread U k) of
           Ok _ \<Rightarrow> Ok (word_of_int p) | Err _ \<Rightarrow> Panic ''failed to spawn thread'' | Panic m \<Rightarrow> Panic m | Blocked \<Rightarrow> Blocked)
      | (r, _) \<Rightarrow> map_res Any (\<lambda>_. 0) r)) \<and>
    fst (unix_kill U i sig w) =
      (if yk_valid_signal (ue_youki U) (sint sig)
       then map_err Any (fst (yk_kill (ue_youki U) (sint sig) (c, kernel w))) else Err (Any ''invalid signal number'')) \<and>
    fst (unix_delete U i w) = map_err Any (fst (yk_delete (ue_youki U) (c, kernel w)))"
proof -
  from unix_run_own_containers [OF assms(1)] have own: "own_containers I (zygotes w)" .
  with assms(2) obtain c where c: "zygotes w ! ui_container i = Some c" and len: "ui_container i < length (zygotes w)"
    by (auto simp: own_containers_def)
  have other: "zygotes v ! ui_container i = Some c" if "j \<in> I - {i}" "agree (ui_container j) (zygotes w) v" for j v
  proof -
    have "ui_container i \<noteq> ui_container j" using own assms(2) that(1) by (auto simp: own_containers_def inj_on_def)
    with that(2) c show ?thesis by (simp add: agree_def)
  qed
  have new: "zygotes (snd (unix_new U engine cid cfg w)) ! ui_container i = Some c" for cid cfg
    using extends_nth [OF staysD [OF unix_new_extends extends_same] len] c by simp
  have built: "\<exists>client k1 modules platform k2 y k3.
      client_connect (ue_containerd U) (get_containerd_address cfg) (get_namespace cfg) (kernel w) = (Ok client, k1) \<and>
      load_or_default U engine cid client k1 = (Ok (modules, platform), k2) \<and>
      build_container U engine cid cfg modules platform k2 = (Ok y, k3) \<and>
      zygotes w' ! ui_container j = Some y \<and> ui_container j \<notin> ui_container ` I"
    if "unix_new U engine cid cfg w = (Ok j, w')" for cid cfg j w'
  proof -
    have "ui_container j \<notin> ui_container ` I" if "ui_container j = length (zygotes w)"
      using own that by (auto simp: own_containers_def)
    with unix_new_builds [OF that] show ?thesis by (metis nth_append_length)
  qed
  show ?thesis
    using built by (intro exI [of _ c])
      (simp add: c other new unix_operations_frame unix_start_at [OF c] unix_kill_at [OF c] unix_delete_at [OF c])
qed

text \<open>Two containers, the first of which is started.\<close>

theorem instance_owns_container_witness:
  "\<exists>i j w. unix_run demo_unix demo_wasm_engine {i, j} w \<and> i \<noteq> j \<and>
     zygotes (snd (unix_delete demo_unix j w)) ! ui_container i = Some (Some 77) \<and>
     fst (unix_start demo_unix i w) = Ok 77"
proof -
  let ?cfg = "instance_config_new ''ns'' ''/s''"
  let ?new = "unix_new demo_unix demo_wasm_engine"
  define w0 where "w0 = (demo_unix_world None None)\<lparr>zygotes := []\<rparr>"
  define i j where "i = \<lparr>ui_id = ''a'', ui_exit_code = 1, ui_container = 0\<rparr>"
    and "j = \<lparr>ui_id = ''b'', ui_exit_code = 2, ui_container = 1\<rparr>"
  define w1 w2 where "w1 = snd (?new ''a'' ?cfg w0)" and "w2 = snd (?new ''b'' ?cfg w1)"
  have ev: "fst (?new ''a'' ?cfg w0) = Ok i \<and> fst (?new ''b'' ?cfg w1) = Ok j \<and> zygotes w2 = [Some (Some 77), Some (Some 77)]"
    unfolding w0_def w1_def w2_def i_def j_def by code_simp
  have "unix_run demo_unix demo_wasm_engine {} w0" by (rule run_boot) (simp add: w0_def)
  from run_created [OF this, of "''a''" ?cfg i w1] ev
  have "unix_run demo_unix demo_wasm_engine {i} w1" by (simp add: w1_def prod_eq_iff)
  from run_created [OF this, of "''b''" ?cfg j w2] ev
  have run: "unix_run demo_unix demo_wasm_engine {i, j} w2" by (simp add: w2_def prod_eq_iff insert_commute)
  have ne: "i \<noteq> j" "ui_container i = 0" by (simp_all add: i_def j_def)
  from instance_owns_container [OF run, of i] ne ev
  have "zygotes (snd (unix_delete demo_unix j w2)) ! ui_container i = Some (Some 77) \<and>
      fst (unix_start demo_unix i w2) = Ok 77"
    by (auto simp: demo_unix_def demo_youki_def)
  with run ne show ?thesis by blast
qed

text \<open>
  The root directory: the one of \<open>options.json\<close> when the bundle has the file and it names one,
  the default of the engine otherwise, in both cases with the namespace below it; a file that
  cannot be read or parsed is an error, a missing file is not.
\<close>

lemma rootdir_cases:
  "(open_options (path_join b ''options.json'') k = (Err (IoError IoNotFound m), k1) \<longrightarrow>
      determine_rootdir open_options parse_options b ns root k = (Ok (path_join root ns), k1)) \<and>
   (kind \<noteq> IoNotFound \<longrightarrow> open_options (path_join b ''options.json'') k = (Err (IoError kind m), k1) \<longrightarrow>
      determine_rootdir open_options parse_options b ns root k = (Err (Stdio m), k1)) \<and>
   (open_options (path_join b ''options.json'') k = (Ok content, k1) \<longrightarrow>
      determine_rootdir open_options parse_options b ns root k =
        (case parse_options content of
           Ok None \<Rightarrow> Ok (path_join root ns) | Ok (Some r) \<Rightarrow> Ok (path_join r ns)
         | Err e \<Rightarrow> Err (Json e) | Panic p \<Rightarrow> Panic p | Blocked \<Rightarrow> Blocked, k1))"
  by (auto simp: determine_rootdir_def act_bind_def attempt_def split: res.split option.split)

lemma rootdir_cases_witness:
  "determine_rootdir (ue_open_options demo_unix) (ue_parse_options demo_unix) ''/b'' ''ns'' ''/run/containerd/wasmtime'' () =
     (Ok ''/run/containerd/wasmtime/ns'', ())"
  using rootdir_cases [of "ue_open_options demo_unix" "''/b''" "()" "[]" "()" "ue_parse_options demo_unix" "''ns''"
      "''/run/containerd/wasmtime''"]
  by (simp add: demo_unix_def path_join_def is_absolute_def)

end
