(* ===== verification/Futures.thy ===== *)
theory Futures
  imports Prelude
begin

text \<open>
  Futures as an async function makes them: \<open>Ready\<close> with a result, or at an \<open>await\<close>. Polling a
  future runs it from where it is until it is ready or until the future it waits for is pending;
  the effects of the poll stay, and the next poll goes on from there. A poll acts on a state
  \<open>'s\<close>, in which the futures of other crates keep what they have done so far, and is told what
  there is to observe at that moment (\<open>'x\<close>).
\<close>

datatype ('x, 's, 'e, 'a) future =
    Ready "('e, 'a) res"
  | Await "'x \<Rightarrow> 's \<Rightarrow> ('x, 's, 'e, 'a) future option \<times> 's"

primrec fut_bind ::
  "('x, 's, 'e, 'a) future \<Rightarrow> ('a \<Rightarrow> ('x, 's, 'e, 'b) future) \<Rightarrow> ('x, 's, 'e, 'b) future" where
  "fut_bind (Ready r) f = (case r of
      Ok a \<Rightarrow> f a | Err e \<Rightarrow> Ready (Err e) | Panic p \<Rightarrow> Ready (Panic p) | Blocked \<Rightarrow> Ready Blocked)"
| "fut_bind (Await g) f = Await (\<lambda>x. map_prod (map_option (\<lambda>p. fut_bind p f)) id \<circ> g x)"

text \<open>A function of the result, applied when there is one.\<close>

primrec fut_res ::
  "(('e, 'a) res \<Rightarrow> ('f, 'b) res) \<Rightarrow> ('x, 's, 'e, 'a) future \<Rightarrow> ('x, 's, 'f, 'b) future" where
  "fut_res h (Ready r) = Ready (h r)"
| "fut_res h (Await g) = Await (\<lambda>x. map_prod (map_option (fut_res h)) id \<circ> g x)"

text \<open>Code between two awaits, and a future of another crate: one that blocks is pending.\<close>

definition fut_sync :: "('s, 'e, 'a) act \<Rightarrow> ('x, 's, 'e, 'a) future" where
  "fut_sync m = Await (\<lambda>_ s. case m s of (r, t) \<Rightarrow> (Some (Ready r), t))"

definition fut_await :: "('x \<Rightarrow> ('s, 'e, 'a) act) \<Rightarrow> ('x, 's, 'e, 'a) future" where
  "fut_await m = Await (\<lambda>x s. case m x s of (Blocked, t) \<Rightarrow> (None, t) | (r, t) \<Rightarrow> (Some (Ready r), t))"

primrec poll :: "('x, 's, 'e, 'a) future \<Rightarrow> 'x \<Rightarrow> 's \<Rightarrow> ('x, 's, 'e, 'a) future \<times> 's" where
  "poll (Ready r) = (\<lambda>_ s. (Ready r, s))"
| "poll (Await g) = (\<lambda>x s. case (map_prod (map_option poll) id \<circ> g x) s of
      (None, t) \<Rightarrow> (Await g, t) | (Some p, t) \<Rightarrow> p x t)"

lemma poll_Await:
  "poll (Await g) x s = (case g x s of (None, t) \<Rightarrow> (Await g, t) | (Some p, t) \<Rightarrow> poll p x t)"
  by (cases "g x s"; cases "fst (g x s)") simp_all

declare poll.simps(2) [simp del]

lemma poll_sync: "poll (fut_sync m) x s = (case m s of (r, t) \<Rightarrow> (Ready r, t))"
  by (simp add: fut_sync_def poll_Await split: prod.split)

lemma poll_await: "poll (fut_await m) x s = (case m x s of (Blocked, t) \<Rightarrow> (fut_await m, t) | (r, t) \<Rightarrow> (Ready r, t))"
  by (simp add: fut_await_def poll_Await split: prod.split res.split)

text \<open>Polling a sequence polls its first part, and goes on with the second once that is ready.\<close>

lemma poll_bind:
  "poll (fut_bind p f) x s = (case poll p x s of
      (Ready r, t) \<Rightarrow> poll (fut_bind (Ready r) f) x t | (q, t) \<Rightarrow> (fut_bind q f, t))"
proof (induction p arbitrary: s)
  case (Await g)
  show ?case
  proof (cases "g x s")
    case (Pair q t)
    show ?thesis
    proof (cases q)
      case (Some p)
      have "poll (fut_bind p f) x t = (case poll p x t of
          (Ready r, u) \<Rightarrow> poll (fut_bind (Ready r) f) x u | (q, u) \<Rightarrow> (fut_bind q f, u))"
        by (rule Await.IH [of "g x" "g x s" "fst (g x s)" p t]) (use Pair Some in \<open>auto intro: range_eqI sym\<close>)
      with Pair Some show ?thesis by (simp add: poll_Await)
    qed (use Pair in \<open>simp add: poll_Await\<close>)
  qed
qed simp

lemma poll_res:
  "poll (fut_res h p) x s = (case poll p x s of (q, t) \<Rightarrow> (fut_res h q, t))"
proof (induction p arbitrary: s)
  case (Await g)
  show ?case
  proof (cases "g x s")
    case (Pair q t)
    show ?thesis
    proof (cases q)
      case (Some p)
      have "poll (fut_res h p) x t = (case poll p x t of (q, u) \<Rightarrow> (fut_res h q, u))"
        by (rule Await.IH [of "g x" "g x s" "fst (g x s)" p t]) (use Pair Some in \<open>auto intro: range_eqI sym\<close>)
      with Pair Some show ?thesis by (simp add: poll_Await)
    qed (use Pair in \<open>simp add: poll_Await\<close>)
  qed
qed simp

end
