(* ===== verification/Http_Proxy.thy ===== *)
theory Http_Proxy
  imports Runtime_Context Futures "HOL-Library.AList" "HOL-Library.Multiset"
begin

text \<open>
  \<open>containerd-shim-wasmtime/src/http_proxy.rs\<close>: the server that runs a component of the
  \<open>wasi:http/proxy\<close> world, with \<open>envs_from_ctx\<close> of \<open>instance.rs\<close>.

  The environment collected into a \<open>HashMap\<close> is an association list with distinct keys, and the
  order in which the map is collected back is the parameter \<open>px_order\<close>. Sockets and the guest
  are operations of the record \<open>proxy_env\<close> on a state \<open>'w\<close>. What the \<open>select!\<close> of the accept
  loop observes, connection by connection, is a list of events, as is the end of each task; a
  list that runs out while the server still waits is the outcome \<open>Blocked\<close>. \<open>serve_conn\<close> is a
  future: every poll brings the events since the last one, and the listener and the tracker keep
  their state in between. \<open>TaskTracker\<close> of \<open>tokio_util\<close> is modelled by its documentation: it
  counts the tasks spawned on it that have not ended, also after it was closed, and \<open>wait\<close> is
  ready when it is closed and no task is left.
\<close>

section \<open>The environment\<close>

definition env_entry :: "string \<Rightarrow> string \<times> string" where
  "env_entry v = unwrap_or (v, []) (split_once (CHR ''='') v)"

definition envs_from_ctx :: "wasi_context \<Rightarrow> (string \<times> string) list" where
  "envs_from_ctx ctx = map env_entry (ctx_envs ctx)"

definition collect_map :: "(string \<times> string) list \<Rightarrow> (string \<times> string) list" where
  "collect_map kvs = fold (\<lambda>(k, v). AList.update k v) kvs []"

section \<open>Addresses\<close>

text \<open>
  The text form of an IPv4 socket address; that of an IPv6 one is the parameter \<open>parse_v6\<close>.
  An octet has one to three digits and no leading zero.
\<close>

datatype sock_addr = V4 "nat \<times> nat \<times> nat \<times> nat" nat | V6 string

definition parse_octet :: "string \<Rightarrow> nat option" where
  "parse_octet s =
     (if s = [] \<or> 3 < length s \<or> (hd s = CHR ''0'' \<and> 1 < length s) then None
      else Option.bind (parse_digits 0 s) (\<lambda>n. if n < 256 then Some n else None))"

definition parse_port :: "string \<Rightarrow> nat option" where
  "parse_port s =
     (if s = [] then None
      else Option.bind (parse_digits 0 s) (\<lambda>n. if n < 2 ^ 16 then Some n else None))"

definition parse_v4 :: "string \<Rightarrow> sock_addr option" where
  "parse_v4 s =
     Option.bind (split_once (CHR '':'') s) (\<lambda>(ip, port).
     (case map parse_octet (str_split (CHR ''.'') ip) of
        [Some a, Some b, Some c, Some d] \<Rightarrow> map_option (V4 (a, b, c, d)) (parse_port port)
      | _ \<Rightarrow> None))"

definition parse_addr :: "(string \<Rightarrow> sock_addr option) \<Rightarrow> string \<Rightarrow> sock_addr option" where
  "parse_addr parse_v6 s = (case parse_v4 s of Some a \<Rightarrow> Some a | None \<Rightarrow> parse_v6 s)"

definition DEFAULT_ADDR :: sock_addr where
  "DEFAULT_ADDR = V4 (0, 0, 0, 0) 8080"

definition DEFAULT_BACKLOG :: nat where
  "DEFAULT_BACKLOG = 100"

section \<open>Accepting connections\<close>

fun is_connection_error :: "io_error \<Rightarrow> bool" where
  "is_connection_error (IoError k _) \<longleftrightarrow>
     k \<in> {IoConnectionRefused, IoConnectionAborted, IoConnectionReset}"

text \<open>The stream, and the seconds slept after an error that is not the peer's.\<close>

fun tcp_accept :: "io_error + 'c \<Rightarrow> 'c option \<times> nat" where
  "tcp_accept (Inr stream) = (Some stream, 0)"
| "tcp_accept (Inl e) = (None, if is_connection_error e then 0 else 1)"

text \<open>
  What the server observes: \<open>accept\<close> returns, the token is cancelled, a task of the tracker
  ends, or a task is spawned on the tracker by the handler of a request. A task is its number.
\<close>

datatype 'c server_event = Accept "io_error + 'c" | Cancelled | TaskEnds nat | HandlerSpawns

record 'c server =
  sv_conns :: "(nat \<times> 'c) list"
  sv_live :: "nat list"
  sv_next_task :: nat
  sv_slept :: nat
  sv_closed :: bool

definition server_init :: "'c server" where
  "server_init = \<lparr>sv_conns = [], sv_live = [], sv_next_task = 0, sv_slept = 0, sv_closed = False\<rparr>"

definition tracker_spawn :: "'c server \<Rightarrow> 'c server" where
  "tracker_spawn s = s\<lparr>sv_live := sv_live s @ [sv_next_task s], sv_next_task := Suc (sv_next_task s)\<rparr>"

definition task_ends :: "nat \<Rightarrow> 'c server \<Rightarrow> 'c server" where
  "task_ends t s = s\<lparr>sv_live := remove1 t (sv_live s)\<rparr>"

text \<open>One turn of the accept loop on a connection.\<close>

definition on_accept :: "io_error + 'c \<Rightarrow> 'c server \<Rightarrow> 'c server" where
  "on_accept r s =
     (case tcp_accept r of
        (Some stream, _) \<Rightarrow> tracker_spawn (s\<lparr>sv_conns := sv_conns s @ [(sv_next_task s, stream)]\<rparr>)
      | (None, secs) \<Rightarrow> s\<lparr>sv_slept := sv_slept s + secs\<rparr>)"

text \<open>\<open>tracker.wait()\<close>: returns when the tracker is closed and empty.\<close>

fun tracker_wait :: "'c server_event list \<Rightarrow> 'c server \<Rightarrow> (string, unit) res \<times> 'c server" where
  "tracker_wait evs s =
     (if sv_closed s \<and> sv_live s = [] then (Ok (), s)
      else (case evs of
              [] \<Rightarrow> (Blocked, s)
            | TaskEnds t # evs' \<Rightarrow> tracker_wait evs' (task_ends t s)
            | HandlerSpawns # evs' \<Rightarrow> tracker_wait evs' (tracker_spawn s)
            | _ # evs' \<Rightarrow> tracker_wait evs' s))"

declare tracker_wait.simps [simp del]

fun accept_loop :: "'c server_event list \<Rightarrow> 'c server \<Rightarrow> (string, unit) res \<times> 'c server" where
  "accept_loop [] s = (Blocked, s)"
| "accept_loop (Accept r # evs) s = accept_loop evs (on_accept r s)"
| "accept_loop (TaskEnds t # evs) s = accept_loop evs (task_ends t s)"
| "accept_loop (HandlerSpawns # evs) s = accept_loop evs (tracker_spawn s)"
| "accept_loop (Cancelled # evs) s = tracker_wait evs (s\<lparr>sv_closed := True\<rparr>)"

section \<open>The handler\<close>

record 'w proxy_env =
  px_order :: "(string \<times> string) list \<Rightarrow> (string \<times> string) list"
  px_parse_v6 :: "string \<Rightarrow> sock_addr option"
  px_socket :: "bool \<Rightarrow> ('w, string, unit) act"
  px_set_reuseaddr :: "bool \<Rightarrow> ('w, string, unit) act"
  px_bind :: "sock_addr \<Rightarrow> ('w, string, unit) act"
  px_listen :: "u32 \<Rightarrow> ('w, string, unit) act"
  px_local_addr :: "('w, string, string) act"

record proxy_handler =
  ph_next_id :: u64
  ph_env :: "(string \<times> string) list"

definition proxy_handler_new :: "(string \<times> string) list \<Rightarrow> proxy_handler" where
  "proxy_handler_new env = \<lparr>ph_next_id = 0, ph_env = env\<rparr>"

text \<open>\<open>fetch_add(1)\<close> returns the old value and wraps.\<close>

definition next_req_id :: "proxy_handler \<Rightarrow> u64 \<times> proxy_handler" where
  "next_req_id h = (ph_next_id h, h\<lparr>ph_next_id := ph_next_id h + 1\<rparr>)"

definition wasi_store_for_request :: "proxy_handler \<Rightarrow> u64 \<Rightarrow> (string \<times> string) list" where
  "wasi_store_for_request h req_id = ph_env h @ [(''REQUEST_ID'', show_nat (unat req_id))]"

text \<open>What the receiver yields, and how the task of the guest ends.\<close>

datatype 'p received = Response 'p | ErrorCode string | RecvError
datatype joined = TaskOk | TaskErr string | JoinError string

record ('q, 'p, 'w) guest =
  gu_new_incoming_request :: "'q \<Rightarrow> (string, unit) res"
  gu_new_response_outparam :: "(string, unit) res"
  gu_instantiate :: "(string \<times> string) list \<Rightarrow> (string, unit) res"
  gu_call_handle :: "(string \<times> string) list \<Rightarrow> 'q \<Rightarrow> 'w \<Rightarrow> ('p received \<times> joined) \<times> 'w"

fun answer :: "'p received \<Rightarrow> joined \<Rightarrow> (string, 'p) res" where
  "answer (Response p) _ = Ok p"
| "answer (ErrorCode e) _ = Err e"
| "answer RecvError TaskOk = Panic ''if the receiver has an error, the task must have failed''"
| "answer RecvError (TaskErr e) = Err (''guest never invoked `response-outparam::set` method: '' @ e)"
| "answer RecvError (JoinError e) = Err (''guest never invoked `response-outparam::set` method: '' @ e)"

definition handle_request ::
  "('q, 'p, 'w) guest \<Rightarrow> 'q \<Rightarrow> (proxy_handler \<times> 'w, string, 'p) act" where
  "handle_request G req = (\<lambda>(h, w).
     let (req_id, h) = next_req_id h;
         store = wasi_store_for_request h req_id in
     case res_bind (gu_new_incoming_request G req) (\<lambda>_.
          res_bind (gu_new_response_outparam G) (\<lambda>_. gu_instantiate G store)) of
       Ok _ \<Rightarrow> (case gu_call_handle G store req w of ((r, j), w') \<Rightarrow> (answer r j, (h, w')))
     | Err e \<Rightarrow> (Err e, (h, w))
     | Panic p \<Rightarrow> (Panic p, (h, w))
     | Blocked \<Rightarrow> (Blocked, (h, w)))"

fun handle_requests ::
  "('q, 'p, 'w) guest \<Rightarrow> 'q list \<Rightarrow> proxy_handler \<times> 'w \<Rightarrow> (string, 'p) res list \<times> (proxy_handler \<times> 'w)" where
  "handle_requests G [] s = ([], s)"
| "handle_requests G (q # qs) s =
     (case handle_request G q s of (r, s') \<Rightarrow>
      case handle_requests G qs s' of (rs, t) \<Rightarrow> (r # rs, t))"

section \<open>The server\<close>

fun is_v4 :: "sock_addr \<Rightarrow> bool" where
  "is_v4 (V4 _ _) = True"
| "is_v4 (V6 _) = False"

definition env_addr :: "(string \<Rightarrow> sock_addr option) \<Rightarrow> (string \<times> string) list \<Rightarrow> sock_addr" where
  "env_addr parse_v6 env =
     unwrap_or DEFAULT_ADDR (Option.bind (map_of env ''WASMTIME_HTTP_PROXY_SOCKET_ADDR'') (parse_addr parse_v6))"

definition env_backlog :: "(string \<times> string) list \<Rightarrow> u32" where
  "env_backlog env =
     of_nat (unwrap_or DEFAULT_BACKLOG (Option.bind (map_of env ''WASMTIME_HTTP_BACKLOG'') (parse_uint 32)))"

definition guest_env :: "(string \<times> string) list \<Rightarrow> (string \<times> string) list" where
  "guest_env env = AList.delete ''WASMTIME_HTTP_BACKLOG'' (AList.delete ''WASMTIME_HTTP_PROXY_SOCKET_ADDR'' env)"

text \<open>\<open>windows\<close> is the value of \<open>cfg!(windows)\<close>.\<close>

definition serve_setup :: "bool \<Rightarrow> 'w proxy_env \<Rightarrow> wasi_context \<Rightarrow> ('w, string, proxy_handler) act" where
  "serve_setup windows X ctx =
     (let env = collect_map (envs_from_ctx ctx);
          addr = env_addr (px_parse_v6 X) env;
          backlog = env_backlog (AList.delete ''WASMTIME_HTTP_PROXY_SOCKET_ADDR'' env) in
      act_bind (px_socket X (is_v4 addr)) (\<lambda>_.
      act_bind (px_set_reuseaddr X (\<not> windows)) (\<lambda>_.
      act_bind (px_bind X addr) (\<lambda>_.
      act_bind (px_listen X backlog) (\<lambda>_.
      act_bind (px_local_addr X) (\<lambda>_.
      ret (proxy_handler_new (px_order X (guest_env env)))))))))"

text \<open>The server sees the cancellation only when the token is cancelled.\<close>

definition visible :: "bool \<Rightarrow> 'c server_event list \<Rightarrow> 'c server_event list" where
  "visible cancelled evs = (if cancelled then evs else filter (\<lambda>e. e \<noteq> Cancelled) evs)"

text \<open>
  The loop and, once it was left and the tracker closed, the wait for the tracker. A poll is told
  whether the token is cancelled and what happened since the last poll.
\<close>

type_synonym ('c, 'w, 'e, 'a) server_future = "(bool \<times> 'c server_event list, 'w \<times> 'c server, 'e, 'a) future"

definition serve_turn :: "bool \<Rightarrow> 'c server_event list \<Rightarrow> 'c server \<Rightarrow> (string, unit) res \<times> 'c server" where
  "serve_turn cancelled evs sv =
     (if sv_closed sv then tracker_wait evs sv else accept_loop (visible cancelled evs) sv)"

definition serve_loop :: "('c, 'w, string, unit) server_future" where
  "serve_loop = fut_await (\<lambda>(cancelled, evs) (w, sv). case serve_turn cancelled evs sv of (r, sv') \<Rightarrow> (r, (w, sv')))"

definition in_server :: "('w, 'e, 'a) act \<Rightarrow> ('w \<times> 'c server, 'e, 'a) act" where
  "in_server m = (\<lambda>(w, sv). case m w of (r, w') \<Rightarrow> (r, (w', sv)))"

definition serve_conn :: "bool \<Rightarrow> 'w proxy_env \<Rightarrow> wasi_context \<Rightarrow> ('c, 'w, string, unit) server_future" where
  "serve_conn windows X ctx =
     fut_bind (fut_sync (in_server (serve_setup windows X ctx))) (\<lambda>_.
     fut_bind (fut_sync (\<lambda>(w, _). (Ok (), (w, server_init)))) (\<lambda>_.
     serve_loop))"

section \<open>Lemmas\<close>

text \<open>The accept loop up to the cancellation is a fold over the events.\<close>

fun server_step :: "'c server_event \<Rightarrow> 'c server \<Rightarrow> 'c server" where
  "server_step (Accept r) s = on_accept r s"
| "server_step (TaskEnds t) s = task_ends t s"
| "server_step HandlerSpawns s = tracker_spawn s"
| "server_step Cancelled s = s"

fun accepted :: "'c server_event list \<Rightarrow> 'c list" where
  "accepted (Accept (Inr c) # evs) = c # accepted evs"
| "accepted (_ # evs) = accepted evs"
| "accepted [] = []"

lemma accept_loop_Cancelled:
  "Cancelled \<notin> set pre \<Longrightarrow> accept_loop (pre @ Cancelled # later) s =
     tracker_wait later ((fold server_step pre s)\<lparr>sv_closed := True\<rparr>)"
proof (induction pre arbitrary: s)
  case (Cons e pre)
  then show ?case by (cases e) auto
qed simp

lemma accept_loop_blocks: "Cancelled \<notin> set evs \<Longrightarrow> fst (accept_loop evs s) = Blocked"
proof (induction evs arbitrary: s)
  case (Cons e evs)
  then show ?case by (cases e) auto
qed simp

lemma accept_loop_pending: "Cancelled \<notin> set evs \<Longrightarrow> accept_loop evs s = (Blocked, fold server_step evs s)"
proof (induction evs arbitrary: s)
  case (Cons e evs)
  then show ?case by (cases e) auto
qed simp

lemma server_step_open: "sv_closed (server_step e s) = sv_closed s"
  by (cases e) (simp_all add: on_accept_def tracker_spawn_def task_ends_def split: option.split prod.split)

lemma fold_server_step_open: "sv_closed (fold server_step evs s) = sv_closed s"
  by (induction evs arbitrary: s) (simp_all add: server_step_open)

text \<open>Without a cancellation a poll takes the events in and is pending.\<close>

lemma serve_turn_pending:
  "\<not> sv_closed sv \<Longrightarrow> serve_turn False evs sv = (Blocked, fold server_step (visible False evs) sv)"
  by (simp add: serve_turn_def visible_def accept_loop_pending)

lemma poll_serve_loop:
  "poll serve_loop (cancelled, evs) (w, sv) = (case serve_turn cancelled evs sv of
      (Blocked, sv') \<Rightarrow> (serve_loop, (w, sv')) | (r, sv') \<Rightarrow> (Ready r, (w, sv')))"
  by (simp add: serve_loop_def poll_await split: prod.split res.split)

lemma poll_serve_conn:
  "serve_setup windows X ctx w = (Ok h, w') \<Longrightarrow>
   poll (serve_conn windows X ctx) x (w, sv) = poll serve_loop x (w', server_init)"
  by (simp add: serve_conn_def poll_bind poll_sync in_server_def)

lemma server_conns_step [simp]:
  "map snd (sv_conns (server_step e s)) = map snd (sv_conns s) @ accepted [e]"
proof (cases e)
  case (Accept r)
  then show ?thesis by (cases r) (simp_all add: on_accept_def tracker_spawn_def)
qed (simp_all add: tracker_spawn_def task_ends_def)

lemma accepted_Cons: "accepted (e # evs) = accepted [e] @ accepted evs"
proof (cases e)
  case (Accept r)
  then show ?thesis by (cases r) simp_all
qed simp_all

lemma server_conns_fold: "map snd (sv_conns (fold server_step pre s)) = map snd (sv_conns s) @ accepted pre"
proof (induction pre arbitrary: s)
  case (Cons e pre)
  then show ?case by (subst accepted_Cons) simp
qed simp

lemma tracker_wait_Cons:
  "\<not> (sv_closed s \<and> sv_live s = []) \<Longrightarrow> tracker_wait (e # evs) s =
     (case e of TaskEnds t \<Rightarrow> tracker_wait evs (task_ends t s)
      | HandlerSpawns \<Rightarrow> tracker_wait evs (tracker_spawn s) | _ \<Rightarrow> tracker_wait evs s)"
  by (subst tracker_wait.simps) auto

lemma tracker_wait_frame:
  "tracker_wait evs s = (r, t) \<Longrightarrow> sv_conns t = sv_conns s \<and> sv_closed t = sv_closed s \<and> (r = Ok () \<longrightarrow> sv_live t = [])"
proof (induction evs arbitrary: s)
  case Nil
  then show ?case by (auto simp: tracker_wait.simps split: if_splits)
next
  case (Cons e evs)
  show ?case
  proof (cases "sv_closed s \<and> sv_live s = []")
    case True
    with Cons.prems show ?thesis by (auto simp: tracker_wait.simps)
  next
    case False
    with Cons.prems have "\<exists>u. tracker_wait evs u = (r, t) \<and> sv_conns u = sv_conns s \<and> sv_closed u = sv_closed s"
      by (cases e) (simp_all add: tracker_wait_Cons tracker_spawn_def task_ends_def,
        (rule exI, rule conjI, assumption, simp)+)
    with Cons.IH show ?thesis by metis
  qed
qed

lemma tracker_wait_all_end: "sv_closed s \<Longrightarrow> sv_live s = ts \<Longrightarrow> fst (tracker_wait (map TaskEnds ts) s) = Ok ()"
proof (induction ts arbitrary: s)
  case Nil
  then show ?case by (simp add: tracker_wait.simps)
next
  case (Cons t ts)
  then show ?case by (subst tracker_wait.simps) (simp add: task_ends_def)
qed

lemma collect_map_append:
  "map_of (fold (\<lambda>(k, v). AList.update k v) kvs m) = map_of m ++ map_of (rev kvs)"
  by (induction kvs arbitrary: m) (auto simp: AList.update_conv' fun_eq_iff map_add_def split: option.splits)

text \<open>In the map collected from the entries the last entry of a key wins.\<close>

lemma map_of_collect_map: "map_of (collect_map kvs) = map_of (rev kvs)"
  by (simp add: collect_map_def collect_map_append)

lemma distinct_collect_map: "distinct (map fst (collect_map kvs))"
proof -
  have "distinct (map fst m) \<Longrightarrow> distinct (map fst (fold (\<lambda>(k, v). AList.update k v) kvs m))" for m
    by (induction kvs arbitrary: m) (auto intro: AList.distinct_update)
  then show ?thesis by (simp add: collect_map_def)
qed

lemma map_of_shuffle:
  assumes "mset xs = mset ys" and "distinct (map fst ys)"
  shows "map_of xs = map_of ys"
proof -
  have "mset (map fst xs) = mset (map fst ys)" using assms(1) by (metis mset_map)
  then have "distinct (map fst xs)" using assms(2) by (metis mset_eq_imp_distinct_iff)
  then show ?thesis using assms mset_eq_setD [OF assms(1)] by (simp add: map_of_inject_set)
qed

lemma distinct_guest_env: "distinct (map fst env) \<Longrightarrow> distinct (map fst (guest_env env))"
  by (simp add: guest_env_def AList.distinct_delete)

lemma map_of_guest_env:
  "map_of (guest_env env) k =
     (if k \<in> {''WASMTIME_HTTP_PROXY_SOCKET_ADDR'', ''WASMTIME_HTTP_BACKLOG''} then None else map_of env k)"
  by (simp add: guest_env_def AList.delete_conv')

lemma handle_request_handler: "fst (snd (handle_request G q s)) = (fst s)\<lparr>ph_next_id := ph_next_id (fst s) + 1\<rparr>"
  by (cases s) (auto simp: handle_request_def next_req_id_def Let_def split: res.split prod.split)

lemma handle_requests_handler:
  "fst (snd (handle_requests G qs s)) = (fst s)\<lparr>ph_next_id := ph_next_id (fst s) + of_nat (length qs)\<rparr>"
proof (induction qs arbitrary: s)
  case (Cons q qs)
  show ?case
    using Cons.IH [of "snd (handle_request G q s)"] handle_request_handler [of G q s]
    by (simp add: split_def)
qed simp

section \<open>Properties\<close>

text \<open>
  C29. The server shuts down gracefully. It returns only after the token was cancelled; the
  connections it has served are then exactly those accepted before, in order, and no task it
  spawned is left; without a cancellation it never returns; and once it is cancelled it returns as
  soon as the tasks alive at that moment have ended.
\<close>

theorem server_shuts_down_gracefully:
  assumes "Cancelled \<notin> set pre"
  shows "fst (accept_loop pre server_init) = Blocked \<and>
    (accept_loop (pre @ Cancelled # later) server_init = (Ok (), s) \<longrightarrow>
       map snd (sv_conns s) = accepted pre \<and> sv_live s = [] \<and> sv_closed s) \<and>
    fst (accept_loop (pre @ Cancelled # map TaskEnds (sv_live (fold server_step pre server_init))) server_init) = Ok ()"
proof (intro conjI impI)
  show "fst (accept_loop pre server_init) = Blocked" using assms by (rule accept_loop_blocks)
  assume "accept_loop (pre @ Cancelled # later) server_init = (Ok (), s)"
  then have w: "tracker_wait later ((fold server_step pre server_init)\<lparr>sv_closed := True\<rparr>) = (Ok (), s)"
    using assms by (simp add: accept_loop_Cancelled)
  show "map snd (sv_conns s) = accepted pre" "sv_live s = []" "sv_closed s"
    using tracker_wait_frame [OF w] server_conns_fold [of pre server_init] by (simp_all add: server_init_def)
next
  show "fst (accept_loop (pre @ Cancelled # map TaskEnds (sv_live (fold server_step pre server_init))) server_init) = Ok ()"
    using assms by (simp add: accept_loop_Cancelled tracker_wait_all_end)
qed

theorem server_shuts_down_gracefully_witness:
  "map snd (sv_conns (snd (accept_loop ([Accept (Inr ''c1''), Accept (Inl (IoError IoOtherKind ''EMFILE'')),
       Accept (Inr ''c2''), TaskEnds 0] @ Cancelled # [Accept (Inr ''c3''), TaskEnds 1]) server_init))) = [''c1'', ''c2'']"
proof -
  let ?pre = "[Accept (Inr ''c1''), Accept (Inl (IoError IoOtherKind ''EMFILE'')), Accept (Inr ''c2''), TaskEnds 0]"
  let ?r = "accept_loop (?pre @ Cancelled # [Accept (Inr ''c3''), TaskEnds 1]) server_init"
  have "fst ?r = Ok ()" by code_simp
  then have "?r = (Ok (), snd ?r)" by (metis prod.collapse)
  with server_shuts_down_gracefully [of ?pre "[Accept (Inr ''c3''), TaskEnds 1]" "snd ?r"]
  have "map snd (sv_conns (snd ?r)) = accepted ?pre" by auto
  then show ?thesis by simp
qed

text \<open>
  What the guest sees. However the map of the environment is iterated, the request handled
  after \<open>qs\<close> others (of the first \<open>2 ^ 64\<close>) runs with the variables of the container, the last
  entry of a name winning and the two settings of the server removed, followed by its own number
  as \<open>REQUEST_ID\<close>, so no two of these requests share one.
\<close>

lemma guest_environment:
  assumes order: "\<And>xs. mset (px_order X xs) = mset xs"
    and su: "serve_setup windows X ctx w = (Ok h, w')" and "length qs < 2 ^ 64"
  shows "\<exists>env. wasi_store_for_request (fst (snd (handle_requests G qs (h, v))))
      (fst (next_req_id (fst (snd (handle_requests G qs (h, v)))))) = env @ [(''REQUEST_ID'', show_nat (length qs))] \<and>
    map_of env = (map_of (rev (envs_from_ctx ctx)))
      (''WASMTIME_HTTP_PROXY_SOCKET_ADDR'' := None, ''WASMTIME_HTTP_BACKLOG'' := None)"
proof (intro exI conjI)
  have h: "h = proxy_handler_new (px_order X (guest_env (collect_map (envs_from_ctx ctx))))"
    using su by (auto simp: serve_setup_def Let_def elim!: act_bind_OkE)
  show "wasi_store_for_request (fst (snd (handle_requests G qs (h, v))))
      (fst (next_req_id (fst (snd (handle_requests G qs (h, v)))))) = ph_env h @ [(''REQUEST_ID'', show_nat (length qs))]"
    using assms(3) by (simp add: wasi_store_for_request_def next_req_id_def handle_requests_handler h
        proxy_handler_new_def unat_of_nat)
  have "map_of (ph_env h) = map_of (guest_env (collect_map (envs_from_ctx ctx)))"
    using map_of_shuffle [OF order] by (simp add: h proxy_handler_new_def distinct_guest_env distinct_collect_map)
  then show "map_of (ph_env h) = (map_of (rev (envs_from_ctx ctx)))
      (''WASMTIME_HTTP_PROXY_SOCKET_ADDR'' := None, ''WASMTIME_HTTP_BACKLOG'' := None)"
    by (auto simp: fun_eq_iff map_of_guest_env map_of_collect_map)
qed

definition demo_proxy :: "unit proxy_env" where
  "demo_proxy = \<lparr>px_order = rev, px_parse_v6 = (\<lambda>_. None), px_socket = (\<lambda>_. ret ()), px_set_reuseaddr = (\<lambda>_. ret ()),
     px_bind = (\<lambda>_. ret ()), px_listen = (\<lambda>_. ret ()), px_local_addr = ret ''0.0.0.0:8080''\<rparr>"

definition demo_env_ctx :: "string list \<Rightarrow> wasi_context" where
  "demo_env_ctx envs = (demo_ctx [''/hello.wasm''])\<lparr>wc_spec := (wc_spec (demo_ctx [''/hello.wasm'']))
     \<lparr>spec_process := Some \<lparr>proc_args = Some [''/hello.wasm''], proc_env = Some envs\<rparr>\<rparr>\<rparr>"

definition demo_guest :: "(string, string, unit) guest" where
  "demo_guest = \<lparr>gu_new_incoming_request = (\<lambda>_. Ok ()), gu_new_response_outparam = Ok (),
     gu_instantiate = (\<lambda>_. Ok ()), gu_call_handle = (\<lambda>_ q w. ((if q = [] then RecvError else Response q, TaskOk), w))\<rparr>"

lemma guest_environment_witness:
  "\<exists>h env. fst (serve_setup False demo_proxy (demo_env_ctx [''A=1'', ''WASMTIME_HTTP_BACKLOG=5'', ''A=2'']) ()) = Ok h \<and>
     wasi_store_for_request (fst (snd (handle_requests demo_guest [''GET /''] (h, ()))))
      (fst (next_req_id (fst (snd (handle_requests demo_guest [''GET /''] (h, ())))))) = env @ [(''REQUEST_ID'', ''1'')] \<and>
     map_of env ''A'' = Some ''2'' \<and> map_of env ''WASMTIME_HTTP_BACKLOG'' = None"
proof -
  let ?ctx = "demo_env_ctx [''A=1'', ''WASMTIME_HTTP_BACKLOG=5'', ''A=2'']"
  obtain h where h: "serve_setup False demo_proxy ?ctx () = (Ok h, ())"
    by (simp add: serve_setup_def Let_def demo_proxy_def)
  have "mset (px_order demo_proxy xs) = mset xs" for xs by (simp add: demo_proxy_def)
  from guest_environment [OF this h, of "[''GET /'']" demo_guest "()"]
  obtain env where "wasi_store_for_request (fst (snd (handle_requests demo_guest [''GET /''] (h, ()))))
      (fst (next_req_id (fst (snd (handle_requests demo_guest [''GET /''] (h, ())))))) = env @ [(''REQUEST_ID'', show_nat 1)]"
    and "map_of env = (map_of (rev (envs_from_ctx ?ctx)))
      (''WASMTIME_HTTP_PROXY_SOCKET_ADDR'' := None, ''WASMTIME_HTTP_BACKLOG'' := None)" by auto
  moreover have "map_of (rev (envs_from_ctx ?ctx)) ''A'' = Some ''2''" by code_simp
  moreover have "show_nat 1 = ''1''" by code_simp
  ultimately show ?thesis using h by (intro exI [of _ h] exI [of _ env]) simp
qed

text \<open>
  C30. How a request is answered: with the guest's response, with its error, with an error that
  carries the failure of its task when it never answered, and with a panic of the connection's
  task in the one case left, a guest that returns normally without having set a response.
\<close>

theorem silent_guest_panics:
  assumes "gu_new_incoming_request G q = Ok ()" and "gu_new_response_outparam G = Ok ()"
    and "gu_instantiate G (wasi_store_for_request h (ph_next_id h)) = Ok ()"
    and "gu_call_handle G (wasi_store_for_request h (ph_next_id h)) q w = ((r, j), w')"
  shows "fst (handle_request G q (h, w)) = answer r j \<and>
    ((\<exists>p. fst (handle_request G q (h, w)) = Panic p) \<longleftrightarrow> r = RecvError \<and> j = TaskOk) \<and>
    ((\<exists>p. fst (handle_request G q (h, w)) = Ok p) \<longleftrightarrow> (\<exists>p. r = Response p))"
proof -
  have "wasi_store_for_request (h\<lparr>ph_next_id := n\<rparr>) i = wasi_store_for_request h i" for n i
    by (simp add: wasi_store_for_request_def)
  then have "fst (handle_request G q (h, w)) = answer r j"
    using assms by (simp add: handle_request_def next_req_id_def Let_def)
  then show ?thesis by (cases r; cases j) auto
qed

theorem silent_guest_panics_witness:
  "\<exists>p. fst (handle_request demo_guest [] (proxy_handler_new [], ())) = Panic p"
  using silent_guest_panics [of demo_guest "[]" "proxy_handler_new []" "()" RecvError TaskOk "()"]
  by (simp add: demo_guest_def)

end
