(* ===== verification/Wasmtime.thy ===== *)
theory Wasmtime
  imports Containerd Http_Proxy Executor
begin

text \<open>
  \<open>containerd-shim-wasmtime/src/instance.rs\<close>: the wasmtime engine.

  The wasmtime crates are the record \<open>wasmtime\<close>: engines, compiled modules (\<open>'m\<close>), components
  (\<open>'c\<close>) and instances are opaque, and running code acts on a state \<open>'w\<close>. An error may carry
  the exit code of the guest (\<open>I32Exit\<close>). \<open>cfg!(test)\<close> is False. A component is a future, and the
  \<open>select!\<close> between it and the signals is a walk over the list of what becomes ready: \<open>Polled\<close>
  polls the component, which goes on from where it was, with what its HTTP server (if it has one)
  observed since the last poll; \<open>SignalReady\<close> is the result of \<open>wait_for_signal\<close>. The state a
  run ends in is the one at the end of the \<open>select!\<close>, before the component is dropped.
\<close>

section \<open>Configuration and contexts\<close>

record wt_config =
  cf_parallel_compilation :: bool
  cf_component_model :: bool
  cf_async_support :: bool
  cf_pooling :: bool
  cf_memory64 :: bool
  cf_static_memory_maximum :: "nat option"

definition wt_config_new :: wt_config where
  "wt_config_new = \<lparr>cf_parallel_compilation = True, cf_component_model = False, cf_async_support = False,
     cf_pooling = False, cf_memory64 = False, cf_static_memory_maximum = None\<rparr>"

record wasi_builder_rec =
  wb_args :: "string list"
  wb_envs :: "(string \<times> string) list"
  wb_inherit_stdio :: bool
  wb_inherit_network :: bool
  wb_tcp :: bool
  wb_udp :: bool
  wb_ip_name_lookup :: bool
  wb_preopened :: "(string \<times> string) list"

datatype wt_error = I32Exit int | WtError string

record ('m, 'c, 'w) wasmtime =
  wt_engine_new :: "wt_config \<Rightarrow> (string, nat) res"
  wt_memory_new :: "nat \<Rightarrow> nat \<Rightarrow> bool"
  wt_is_component :: "bytes \<Rightarrow> bool"
  wt_is_core_wasm :: "bytes \<Rightarrow> bool"
  wt_detect_precompiled :: "nat \<Rightarrow> bytes \<Rightarrow> wasm_binary_type option"
  wt_precompile_module :: "nat \<Rightarrow> bytes \<Rightarrow> (string, bytes) res"
  wt_precompile_component :: "nat \<Rightarrow> bytes \<Rightarrow> (string, bytes) res"
  wt_compatibility_hash :: "nat \<Rightarrow> u64"
  wt_module_from_binary :: "nat \<Rightarrow> bytes \<Rightarrow> (wt_error, 'm) res"
  wt_module_deserialize :: "nat \<Rightarrow> bytes \<Rightarrow> (wt_error, 'm) res"
  wt_component_from_binary :: "nat \<Rightarrow> bytes \<Rightarrow> (wt_error, 'c) res"
  wt_component_deserialize :: "nat \<Rightarrow> bytes \<Rightarrow> (wt_error, 'c) res"
  wt_exports :: "'c \<Rightarrow> string list"
  wt_preopened_dir :: "string \<Rightarrow> string \<Rightarrow> ('w, wt_error, unit) act"
  wt_p1_linker :: "(wt_error, unit) res"
  wt_p2_linker :: "(wt_error, unit) res"
  wt_http_linker :: "(wt_error, unit) res"
  wt_instantiate_module :: "wasi_builder_rec \<Rightarrow> 'm \<Rightarrow> ('w, wt_error, nat) act"
  wt_instantiate_pre :: "'c \<Rightarrow> (wt_error, unit) res"
  wt_proxy_pre :: "'c \<Rightarrow> (wt_error, unit) res"
  wt_instantiate_command :: "wasi_builder_rec \<Rightarrow> 'c \<Rightarrow> ('w, wt_error, nat) act"
  wt_instantiate_component :: "wasi_builder_rec \<Rightarrow> 'c \<Rightarrow> ('w, wt_error, nat) act"
  wt_get_func :: "nat \<Rightarrow> string \<Rightarrow> nat option"
  wt_call :: "nat \<Rightarrow> ('w, wt_error, unit) act"
  wt_call_run :: "nat \<Rightarrow> ('w, wt_error, unit + unit) act"
  wt_proxy_env :: "'w proxy_env"

definition wasi_builder :: "('m, 'c, 'w) wasmtime \<Rightarrow> wasi_context \<Rightarrow> ('w, wt_error, wasi_builder_rec) act" where
  "wasi_builder W ctx =
     act_bind (wt_preopened_dir W ''/'' ''/'') (\<lambda>_.
     ret \<lparr>wb_args = ctx_args ctx, wb_envs = envs_from_ctx ctx, wb_inherit_stdio = True, wb_inherit_network = True,
          wb_tcp = True, wb_udp = True, wb_ip_name_lookup = True, wb_preopened = [(''/'', ''/'')]\<rparr>)"

text \<open>The probe for the pooling allocator: a 64-bit memory of \<open>2 ^ 42\<close> bytes must be possible.\<close>

definition use_pooling_allocator_by_default :: "('m, 'c, 'w) wasmtime \<Rightarrow> bool" where
  "use_pooling_allocator_by_default W =
     (case wt_engine_new W (wt_config_new\<lparr>cf_memory64 := True, cf_static_memory_maximum := Some (2 ^ 42)\<rparr>) of
        Ok engine \<Rightarrow> wt_memory_new W engine (2 ^ (42 - 16))
      | _ \<Rightarrow> False)"

definition precompiler :: "('m, 'c, 'w) wasmtime \<Rightarrow> (string, nat) res" where
  "precompiler W =
     (case wt_engine_new W (wt_config_new\<lparr>cf_component_model := True, cf_async_support := True\<rparr>) of
        Err e \<Rightarrow> Panic ''failed to create wasmtime precompilation engine''
      | r \<Rightarrow> r)"

definition wasmtime_engine_impl :: "('m, 'c, 'w) wasmtime \<Rightarrow> (string, nat) res" where
  "wasmtime_engine_impl W =
     (case wt_engine_new W (wt_config_new\<lparr>cf_component_model := True, cf_async_support := True,
          cf_pooling := use_pooling_allocator_by_default W\<rparr>) of
        Err e \<Rightarrow> Panic ''failed to create wasmtime engine''
      | r \<Rightarrow> r)"

section \<open>Exit codes and targets\<close>

fun into_error_code :: "(wt_error, int) res \<Rightarrow> (wt_error, int) res" where
  "into_error_code (Err (I32Exit n)) = Ok n"
| "into_error_code r = r"

definition unit_into_error_code :: "(wt_error, unit) res \<Rightarrow> (wt_error, int) res" where
  "unit_into_error_code r = into_error_code (res_bind r (\<lambda>_. Ok 0))"

definition act_res :: "(('e, 'a) res \<Rightarrow> ('f, 'b) res) \<Rightarrow> ('w, 'e, 'a) act \<Rightarrow> ('w, 'f, 'b) act" where
  "act_res f m = (\<lambda>w. case m w of (r, w') \<Rightarrow> (f r, w'))"

datatype component_target = HttpProxy | CommandTarget | Core string

fun find_map :: "('a \<Rightarrow> 'b option) \<Rightarrow> 'a list \<Rightarrow> 'b option" where
  "find_map f [] = None"
| "find_map f (x # xs) = (case f x of None \<Rightarrow> find_map f xs | Some y \<Rightarrow> Some y)"

definition component_target_new :: "string list \<Rightarrow> string \<Rightarrow> component_target" where
  "component_target_new exports func =
     unwrap_or (Core func) (find_map (\<lambda>name.
       if starts_with ''wasi:http/incoming-handler'' name then Some HttpProxy
       else if starts_with ''wasi:cli/run'' name then Some CommandTarget
       else None) exports)"

section \<open>Running\<close>

definition execute_module ::
  "('m, 'c, 'w) wasmtime \<Rightarrow> wasi_context \<Rightarrow> 'm \<Rightarrow> string \<Rightarrow> ('w, wt_error, int) act" where
  "execute_module W ctx module func =
     act_bind (wasi_builder W ctx) (\<lambda>wasi.
     act_bind (lift_res (wt_p1_linker W)) (\<lambda>_.
     act_bind (wt_instantiate_module W wasi module) (\<lambda>inst.
     act_bind (lift_res (ok_or (WtError ''module does not have a WASI start function'') (wt_get_func W inst func))) (\<lambda>start_func.
     act_res unit_into_error_code (wt_call W start_func)))))"

text \<open>
  What a component that does not serve HTTP runs with: the context of \<open>WasiPreview2Ctx::new\<close> (the
  HTTP context and the resource table start empty), and a store and a linker for it.
\<close>

definition wasi_preview2_ctx_new :: "('m, 'c, 'w) wasmtime \<Rightarrow> wasi_context \<Rightarrow> ('w, wt_error, wasi_builder_rec) act" where
  "wasi_preview2_ctx_new W ctx = act_bind (wasi_builder W ctx) (\<lambda>wasi_ctx. ret wasi_ctx)"

definition store_for_context :: "('m, 'c, 'w) wasmtime \<Rightarrow> wasi_builder_rec \<Rightarrow> ('w, wt_error, wasi_builder_rec) act" where
  "store_for_context W ctx = act_bind (lift_res (wt_p2_linker W)) (\<lambda>_. ret ctx)"

definition execute_component_async ::
  "('m, 'c, 'w) wasmtime \<Rightarrow> wasi_context \<Rightarrow> 'c \<Rightarrow> string \<Rightarrow> (nat, 'w, wt_error, int) server_future" where
  "execute_component_async W ctx component func =
     (case component_target_new (wt_exports W component) func of
        HttpProxy \<Rightarrow>
          fut_bind (Ready (wt_p2_linker W)) (\<lambda>_.
          fut_bind (Ready (wt_http_linker W)) (\<lambda>_.
          fut_bind (Ready (wt_instantiate_pre W component)) (\<lambda>_.
          fut_bind (Ready (wt_proxy_pre W component)) (\<lambda>_.
          fut_res (\<lambda>r. unit_into_error_code (map_err WtError r)) (serve_conn False (wt_proxy_env W) ctx)))))
      | CommandTarget \<Rightarrow>
          fut_bind (fut_sync (in_server (wasi_preview2_ctx_new W ctx))) (\<lambda>wasi_ctx.
          fut_bind (fut_sync (in_server (store_for_context W wasi_ctx))) (\<lambda>wasi.
          fut_bind (fut_await (\<lambda>_. in_server (wt_instantiate_command W wasi component))) (\<lambda>command.
          fut_bind (fut_await (\<lambda>_. in_server (wt_call_run W command))) (\<lambda>r.
          Ready (unit_into_error_code (case r of
              Inr _ \<Rightarrow> Ok ()
            | Inl _ \<Rightarrow> Err (WtError ''failed to run component targeting `wasi:cli/command` world'')))))))
      | Core f \<Rightarrow>
          fut_bind (fut_sync (in_server (wasi_preview2_ctx_new W ctx))) (\<lambda>wasi_ctx.
          fut_bind (fut_sync (in_server (store_for_context W wasi_ctx))) (\<lambda>wasi.
          fut_bind (Ready (wt_instantiate_pre W component)) (\<lambda>_.
          fut_bind (fut_await (\<lambda>_. in_server (wt_instantiate_component W wasi component))) (\<lambda>inst.
          fut_bind (Ready (ok_or (WtError (''component does not have exported function '' @ [CHR 0x22] @ f @ [CHR 0x22])) (wt_get_func W inst f))) (\<lambda>start_func.
          fut_res unit_into_error_code (fut_await (\<lambda>_. in_server (wt_call W start_func)))))))))"

datatype unix_signal = SIGQUIT | SIGTERM | SIGINT

fun signal_number :: "unix_signal \<Rightarrow> int" where
  "signal_number SIGINT = 2"
| "signal_number SIGQUIT = 3"
| "signal_number SIGTERM = 15"

text \<open>What \<open>wait_for_signal\<close> returns for the signal that arrives.\<close>

fun wait_for_signal :: "unix_signal \<Rightarrow> int" where
  "wait_for_signal SIGQUIT = signal_number SIGINT"
| "wait_for_signal SIGTERM = signal_number SIGTERM"
| "wait_for_signal SIGINT = signal_number SIGINT"

text \<open>
  \<open>handle_signals\<close>, one signal at a time: \<open>second\<close> tells that the token is cancelled already.
  \<open>None\<close>: the token is cancelled and the function waits again.
\<close>

fun handle_signal :: "bool \<Rightarrow> (wt_error, unix_signal) res \<Rightarrow> (wt_error, int) res option" where
  "handle_signal second (Ok s) =
     (if second then Some (Ok (wait_for_signal s))
      else if wait_for_signal s = signal_number SIGINT then None
      else Some (Ok (128 + wait_for_signal s)))"
| "handle_signal second (Err e) = Some (Err e)"
| "handle_signal second (Panic p) = Some (Panic p)"
| "handle_signal second Blocked = Some Blocked"

datatype race_event = Polled "nat server_event list" | SignalReady "(wt_error, unix_signal) res"

text \<open>
  The first of the two to be ready gives the result. The component sees in each poll whether the
  token is cancelled; one that is pending has done what it has done.
\<close>

fun select_run ::
  "(bool \<times> nat server_event list, 's, wt_error, int) future \<Rightarrow> bool \<Rightarrow> race_event list \<Rightarrow> ('s, wt_error, int) act" where
  "select_run fut cancelled [] s = (Blocked, s)"
| "select_run fut cancelled (Polled evs # race) s =
     (case poll fut (cancelled, evs) s of
        (Ready r, t) \<Rightarrow> (r, t)
      | (fut', t) \<Rightarrow> select_run fut' cancelled race t)"
| "select_run fut cancelled (SignalReady sig # race) s =
     (case handle_signal cancelled sig of
        None \<Rightarrow> select_run fut True race s
      | Some r \<Rightarrow> (r, s))"

definition execute_component ::
  "('m, 'c, 'w) wasmtime \<Rightarrow> wasi_context \<Rightarrow> 'c \<Rightarrow> string \<Rightarrow> race_event list \<Rightarrow> ('w, wt_error, int) act" where
  "execute_component W ctx component func race =
     (\<lambda>w. case select_run (execute_component_async W ctx component func) False race (w, server_init) of
        (r, (w', _)) \<Rightarrow> (r, w'))"

definition execute ::
  "('m, 'c, 'w) wasmtime \<Rightarrow> nat \<Rightarrow> wasi_context \<Rightarrow> bytes \<Rightarrow> string \<Rightarrow> race_event list \<Rightarrow>
   ('w, wt_error, int) act" where
  "execute W engine ctx wasm_binary func race =
     (case binary_type_from_bytes (wt_is_component W) (wt_is_core_wasm W) wasm_binary of
        Some Module \<Rightarrow>
          act_bind (lift_res (wt_module_from_binary W engine wasm_binary)) (\<lambda>m. execute_module W ctx m func)
      | Some Component \<Rightarrow>
          act_bind (lift_res (wt_component_from_binary W engine wasm_binary)) (\<lambda>c. execute_component W ctx c func race)
      | None \<Rightarrow>
          (case wt_detect_precompiled W engine wasm_binary of
             Some Module \<Rightarrow>
               act_bind (lift_res (wt_module_deserialize W engine wasm_binary)) (\<lambda>m. execute_module W ctx m func)
           | Some Component \<Rightarrow>
               act_bind (lift_res (wt_component_deserialize W engine wasm_binary)) (\<lambda>c. execute_component W ctx c func race)
           | None \<Rightarrow> throw (WtError ''invalid precompiled module'')))"

fun wt_error_text :: "wt_error \<Rightarrow> string" where
  "wt_error_text (I32Exit n) = ''Exited with i32 exit status '' @ show_int n"
| "wt_error_text (WtError m) = m"

definition wasmtime_run_wasi ::
  "('m, 'c, 'w) wasmtime \<Rightarrow> fs \<Rightarrow> race_event list \<Rightarrow> wasi_context \<Rightarrow> ('w, string, int) act" where
  "wasmtime_run_wasi W fs race ctx =
     (let ep = ctx_entrypoint ctx in
      act_bind (lift_res (source_as_bytes fs (ep_source ep))) (\<lambda>wasm_bytes.
      act_bind (lift_res (wasmtime_engine_impl W)) (\<lambda>engine.
      act_map_err wt_error_text (act_res into_error_code (execute W engine ctx wasm_bytes (ep_func ep) race)))))"

section \<open>Precompilation\<close>

text \<open>A layer of an unknown binary type is skipped: nothing is pushed for it.\<close>

primrec precompile_layers ::
  "('m, 'c, 'w) wasmtime \<Rightarrow> nat \<Rightarrow> wasm_layer list \<Rightarrow> (string, bytes option list) res" where
  "precompile_layers W engine [] = Ok []"
| "precompile_layers W engine (l # ls) =
     (if wt_detect_precompiled W engine (wl_layer l) \<noteq> None
      then res_bind (precompile_layers W engine ls) (\<lambda>cs. Ok (None # cs))
      else (case binary_type_from_bytes (wt_is_component W) (wt_is_core_wasm W) (wl_layer l) of
              Some Module \<Rightarrow> res_bind (wt_precompile_module W engine (wl_layer l)) (\<lambda>b.
                res_bind (precompile_layers W engine ls) (\<lambda>cs. Ok (Some b # cs)))
            | Some Component \<Rightarrow> res_bind (wt_precompile_component W engine (wl_layer l)) (\<lambda>b.
                res_bind (precompile_layers W engine ls) (\<lambda>cs. Ok (Some b # cs)))
            | None \<Rightarrow> precompile_layers W engine ls))"

definition wasmtime_precompile ::
  "('m, 'c, 'w) wasmtime \<Rightarrow> wasm_layer list \<Rightarrow> (string, bytes option list) res" where
  "wasmtime_precompile W layers =
     (if layers = [] then Ok [] else res_bind (precompiler W) (\<lambda>engine. precompile_layers W engine layers))"

text \<open>The engine; its \<open>can_precompile\<close> panics as \<open>PRECOMPILER\<close> does when the engine cannot be made.\<close>

definition wasmtime_can_precompile :: "('m, 'c, 'w) wasmtime \<Rightarrow> (error, string option) res" where
  "wasmtime_can_precompile W =
     res_bind (map_err Any (precompiler W)) (\<lambda>engine. Ok (Some (show_nat (unat (wt_compatibility_hash W engine)))))"

definition wasmtime_engine ::
  "('m, 'c, 'w) wasmtime \<Rightarrow> fs \<Rightarrow> (path \<Rightarrow> (string, unit) res) \<Rightarrow> race_event list \<Rightarrow> 'w engine" where
  "wasmtime_engine W fs wat_parse_file race =
     \<lparr>eng_name = ''wasmtime'', eng_run_wasi = wasmtime_run_wasi W fs race,
      eng_can_handle = default_can_handle fs wat_parse_file,
      eng_supported_layers_types = default_supported_layers_types, eng_precompile = wasmtime_precompile W,
      eng_can_precompile = wasmtime_can_precompile W\<rparr>"

section \<open>Lemmas\<close>

text \<open>The layers \<open>precompile\<close> has an answer for.\<close>

definition known_layer :: "('m, 'c, 'w) wasmtime \<Rightarrow> nat \<Rightarrow> wasm_layer \<Rightarrow> bool" where
  "known_layer W engine l \<longleftrightarrow> wt_detect_precompiled W engine (wl_layer l) \<noteq> None \<or>
     binary_type_from_bytes (wt_is_component W) (wt_is_core_wasm W) (wl_layer l) \<noteq> None"

lemma res_bind_OkE:
  assumes "res_bind r f = Ok b"
  obtains a where "r = Ok a" and "f a = Ok b"
  using assms by (cases r) auto

lemma precompile_layers_length:
  "precompile_layers W engine ls = Ok cs \<Longrightarrow> length cs = length (filter (known_layer W engine) ls)"
  by (induction ls arbitrary: cs)
    (auto simp: known_layer_def elim!: res_bind_OkE split: if_splits option.splits wasm_binary_type.splits)

lemma filter_shorter_iff: "length (filter P xs) = length xs \<longleftrightarrow> list_all P xs"
  by (metis filter_True length_filter_less list_all_iff less_irrefl)

text \<open>An HTTP component whose linkers and socket are set up is its server.\<close>

definition http_future :: "(nat, 'w, wt_error, int) server_future" where
  "http_future = fut_res (\<lambda>r. unit_into_error_code (map_err WtError r)) serve_loop"

lemma http_future_Await: "\<exists>g. http_future = Await g"
  by (simp add: http_future_def serve_loop_def fut_await_def)

lemma select_http:
  "select_run http_future cancelled (Polled evs # race) (w, sv) = (case serve_turn cancelled evs sv of
      (Blocked, sv') \<Rightarrow> select_run http_future cancelled race (w, sv')
    | (r, sv') \<Rightarrow> (unit_into_error_code (map_err WtError r), (w, sv')))"
proof -
  obtain g where g: "(http_future :: (nat, 'a, wt_error, int) server_future) = Await g" using http_future_Await by blast
  show ?thesis
    unfolding select_run.simps
    by (subst (1) http_future_def, subst poll_res)
      (auto simp: poll_serve_loop http_future_def [symmetric] g split: prod.split res.split)
qed

lemma select_http_polls:
  assumes "\<not> sv_closed sv"
  shows "select_run http_future False (map Polled ess @ race) (w, sv) =
    select_run http_future False race (w, fold server_step (visible False (concat ess)) sv)"
  using assms
proof (induction ess arbitrary: sv)
  case (Cons evs ess)
  then show ?case
    by (simp add: select_http serve_turn_pending fold_server_step_open del: select_run.simps(2))
      (simp add: visible_def)
qed (simp add: visible_def)

lemma execute_http:
  assumes "component_target_new (wt_exports W component) func = HttpProxy"
    and "wt_p2_linker W = Ok ()" and "wt_http_linker W = Ok ()"
    and "wt_instantiate_pre W component = Ok ()" and "wt_proxy_pre W component = Ok ()"
    and "serve_setup False (wt_proxy_env W) ctx w = (Ok h, w')"
  shows "select_run (execute_component_async W ctx component func) c (Polled evs # race) (w, sv) =
    select_run http_future c (Polled evs # race) (w', server_init)"
proof -
  have "poll (execute_component_async W ctx component func) (c, evs) (w, sv) = poll http_future (c, evs) (w', server_init)"
    using assms by (simp add: execute_component_async_def http_future_def poll_res poll_serve_conn)
  then show ?thesis by simp
qed

section \<open>Properties\<close>

text \<open>
  C31. What loading an image with this engine comes to once its layers are read and have to be
  compiled: every layer is cached with its compiled form, provided each of them is a module, a
  component or already precompiled; a single layer that is none of these makes the whole load
  fail with \<open>FailedPrecondition\<close>, because \<open>precompile\<close> returns no entry for it.
\<close>

theorem unknown_layer_breaks_load:
  assumes "precompiler W = Ok engine" and "layers \<noteq> []"
    and "get_info ctd c image_digest w = (Ok info, w1)"
    and "read_wasm_layers ctd fm c True (precompile_label ''wasmtime'' version)
          (info_labels info (precompile_label ''wasmtime'' version) = None)
          (filter (\<lambda>d. is_wasm_layer (desc_media_type d) default_supported_layers_types) (man_layers manifest)) w1 =
        (Ok (layers, True), w2)"
    and "version = show_nat (unat (wt_compatibility_hash W engine))"
    and "precompile_layers W engine layers = Ok cs"
  shows "load_wasm_layers ctd fm c (wasmtime_engine W fs wat race) manifest image_digest w =
    (if list_all (known_layer W engine) layers
     then cache_layers ctd fm c (precompile_label ''wasmtime'' version) image_digest 0 (zip layers cs) w2
     else (Err (FailedPrecondition ''precompile returned wrong number of layers''), w2))"
proof -
  have "length cs = length layers \<longleftrightarrow> list_all (known_layer W engine) layers"
    using precompile_layers_length [OF assms(6)] by (simp add: filter_shorter_iff)
  moreover have "wasmtime_precompile W layers = Ok cs" and "wasmtime_can_precompile W = Ok (Some version)"
    using assms by (simp_all add: wasmtime_precompile_def wasmtime_can_precompile_def)
  ultimately show ?thesis
    using assms(2,3,4) by (simp add: load_wasm_layers_def wasmtime_engine_def Let_def act_bind_eq)
qed

definition demo_wasmtime :: "(nat, nat, unit) wasmtime" where
  "demo_wasmtime =
     \<lparr>wt_engine_new = (\<lambda>_. Ok 0), wt_memory_new = (\<lambda>_ _. True), wt_is_component = (\<lambda>b. take 1 b = [1]),
      wt_is_core_wasm = (\<lambda>b. take 1 b = [0]),
      wt_detect_precompiled = (\<lambda>_ b. if take 1 b = [9] then Some Module else None),
      wt_precompile_module = (\<lambda>_ b. Ok (9 # b)), wt_precompile_component = (\<lambda>_ b. Ok (9 # b)),
      wt_compatibility_hash = (\<lambda>_. 42), wt_module_from_binary = (\<lambda>_ _. Ok 0), wt_module_deserialize = (\<lambda>_ _. Ok 0),
      wt_component_from_binary = (\<lambda>_ _. Ok 0), wt_component_deserialize = (\<lambda>_ _. Ok 0),
      wt_exports = (\<lambda>_. [''wasi:http/incoming-handler@0.2.0'']), wt_preopened_dir = (\<lambda>_ _. ret ()),
      wt_p1_linker = Ok (), wt_p2_linker = Ok (), wt_http_linker = Ok (), wt_instantiate_module = (\<lambda>_ _. ret 0),
      wt_instantiate_pre = (\<lambda>_. Ok ()), wt_proxy_pre = (\<lambda>_. Ok ()), wt_instantiate_command = (\<lambda>_ _. ret 0),
      wt_instantiate_component = (\<lambda>_ _. ret 0), wt_get_func = (\<lambda>_ _. Some 0),
      wt_call = (\<lambda>_. throw (I32Exit 7)), wt_call_run = (\<lambda>_. ret (Inr ())), wt_proxy_env = demo_proxy\<rparr>"

theorem unknown_layer_breaks_load_witness:
  "fst (load_wasm_layers demo_ctd (demo_fm []) demo_client (wasmtime_engine demo_wasmtime demo_fs (\<lambda>_. Ok ()) [])
      demo_manifest ''img'' demo_w) = Err (FailedPrecondition ''precompile returned wrong number of layers'')"
proof -
  let ?l = "precompile_label ''wasmtime'' (show_nat 42)"
  let ?ds = "filter (\<lambda>d. is_wasm_layer (desc_media_type d) default_supported_layers_types) (man_layers demo_manifest)"
  have info: "get_info demo_ctd demo_client ''img'' demo_w = (Ok \<lparr>info_digest = ''img'', info_labels = Map.empty\<rparr>, demo_w)"
    by (simp add: get_info_def demo_ctd_def demo_w_def act_map_err_def act_bind_def demo_client_def)
  have read: "read_wasm_layers demo_ctd (demo_fm []) demo_client True ?l True ?ds demo_w = (Ok ([demo_layer], True), demo_w)"
    by (simp add: demo_manifest_def demo_layer_def default_supported_layers_types_def is_wasm_layer_def
        read_wasm_layer_def digest_to_load_def get_info_def read_content_def demo_ctd_def demo_w_def demo_client_def
        act_map_err_def act_bind_def attempt_def split_def)
  have unknown: "\<not> list_all (known_layer demo_wasmtime 0) [demo_layer]"
    by (simp add: known_layer_def demo_wasmtime_def demo_layer_def binary_type_from_bytes_def)
  have pre: "precompiler demo_wasmtime = Ok 0" and cs: "precompile_layers demo_wasmtime 0 [demo_layer] = Ok []"
    and version: "show_nat 42 = show_nat (unat (wt_compatibility_hash demo_wasmtime 0))"
    by (simp_all add: precompiler_def demo_wasmtime_def demo_layer_def binary_type_from_bytes_def)
  have "read_wasm_layers demo_ctd (demo_fm []) demo_client True ?l
      (info_labels \<lparr>info_digest = ''img'', info_labels = Map.empty\<rparr> ?l = None) ?ds demo_w = (Ok ([demo_layer], True), demo_w)"
    using read by simp
  from unknown_layer_breaks_load [OF pre not_Cons_self2 info this version cs] unknown show ?thesis
    by (simp only: if_False fst_conv not_False_eq_True)
qed

text \<open>
  C28. How signals end an HTTP component. Once it has been polled its socket is bound, and that
  stays so, whatever ends it. A \<open>SIGTERM\<close> ends it with 143 at once. A \<open>SIGINT\<close> or
  \<open>SIGQUIT\<close> asks the server to stop: it goes on with the connections it has, and the component ends
  with 0 in the poll in which the server has left its loop and drained them. A second signal
  before that ends it at once with the bare number of the signal (2 or 15, not 128 more). A
  \<open>SIGTERM\<close> that comes before the first poll finds nothing set up.
\<close>

theorem signals_end_http_component:
  assumes "component_target_new (wt_exports W component) func = HttpProxy"
    and "wt_p2_linker W = Ok ()" and "wt_http_linker W = Ok ()"
    and "wt_instantiate_pre W component = Ok ()" and "wt_proxy_pre W component = Ok ()"
    and "serve_setup False (wt_proxy_env W) ctx w = (Ok h, w')"
    and ess: "ess \<noteq> []" and sv: "sv = fold server_step (visible False (concat ess)) server_init"
    and drained: "fst (accept_loop evs sv) = Ok ()" and pending: "fst (accept_loop fs sv) = Blocked"
    and s: "s \<noteq> SIGTERM"
  shows "execute_component W ctx component func (SignalReady (Ok SIGTERM) # later) w = (Ok 143, w) \<and>
    execute_component W ctx component func (map Polled ess @ SignalReady (Ok SIGTERM) # later) w = (Ok 143, w') \<and>
    execute_component W ctx component func (map Polled ess @ SignalReady (Ok s) # Polled evs # later) w = (Ok 0, w') \<and>
    execute_component W ctx component func (map Polled ess @ SignalReady (Ok s) # Polled fs # SignalReady (Ok t) # later) w =
      (Ok (if t = SIGTERM then 15 else 2), w')"
proof -
  let ?fut = "execute_component_async W ctx component func"
  obtain e es where e: "ess = e # es" using ess by (cases ess) auto
  have init: "\<not> sv_closed (server_init :: nat server)" by (simp add: server_init_def)
  have open_sv: "\<not> sv_closed sv" using init by (simp add: sv fold_server_step_open)
  have start: "select_run ?fut False (map Polled ess @ race) (w, server_init) = select_run http_future False race (w', sv)" for race
    using execute_http [OF assms(1-6), of False e "map Polled es @ race" server_init]
      select_http_polls [OF init, of ess race w'] by (simp add: e sv del: select_run.simps(2))
  have sig: "handle_signal False (Ok s) = None" "handle_signal True (Ok t) = Some (Ok (if t = SIGTERM then 15 else 2))"
    using s by (cases s; simp) (cases t; simp)
  have "serve_turn True evs sv = (Ok (), snd (accept_loop evs sv))" "serve_turn True fs sv = (Blocked, snd (accept_loop fs sv))"
    using drained pending open_sv by (simp_all add: serve_turn_def visible_def prod_eq_iff)
  then show ?thesis
    unfolding execute_component_def start
    by (simp add: sig select_http unit_into_error_code_def del: select_run.simps(2) handle_signal.simps(1))
      simp
qed

theorem signals_end_http_component_witness:
  "execute_component demo_wasmtime (demo_ctx []) 0 ''_start''
     (map Polled [[Accept (Inr 1)], []] @ SignalReady (Ok SIGINT) # Polled [Cancelled, TaskEnds 0] # []) () = (Ok 0, ())"
proof -
  have target: "component_target_new (wt_exports demo_wasmtime 0) ''_start'' = HttpProxy"
    by (simp add: component_target_new_def demo_wasmtime_def starts_with_def)
  have linkers: "wt_p2_linker demo_wasmtime = Ok ()" "wt_http_linker demo_wasmtime = Ok ()"
    "wt_instantiate_pre demo_wasmtime 0 = Ok ()" "wt_proxy_pre demo_wasmtime 0 = Ok ()"
    by (simp_all add: demo_wasmtime_def)
  have served: "\<exists>h. serve_setup False (wt_proxy_env demo_wasmtime) (demo_ctx []) () = (Ok h, ())"
    by (simp add: serve_setup_def Let_def demo_proxy_def demo_wasmtime_def)
  let ?ess = "[[Accept (Inr 1)], []] :: nat server_event list list"
  let ?sv = "fold server_step (visible False (concat ?ess)) server_init"
  have drained: "fst (accept_loop [Cancelled, TaskEnds 0] ?sv) = Ok ()" and pending: "fst (accept_loop [] ?sv) = Blocked"
    by code_simp+
  have ne: "?ess \<noteq> []" "SIGINT \<noteq> SIGTERM" by simp_all
  from served obtain h where h: "serve_setup False (wt_proxy_env demo_wasmtime) (demo_ctx []) () = (Ok h, ())" by blast
  from signals_end_http_component [OF target linkers h ne(1) HOL.refl drained pending ne(2)] show ?thesis by blast
qed

lemma exec_module:
  assumes "ctx = executor_ctx ex spec" and "ex_inner ex = Some WasmInner" and "ex_engine ex = wasmtime_engine W fs wat race"
    and "source_as_bytes fs (ep_source (ctx_entrypoint ctx)) = Ok b" and "wasmtime_engine_impl W = Ok engine"
    and "binary_type_from_bytes (wt_is_component W) (wt_is_core_wasm W) b = Some Module"
    and "wt_module_from_binary W engine b = Ok m"
    and "wt_preopened_dir W ''/'' ''/'' w = (Ok (), w1)" and "wt_p1_linker W = Ok ()"
    and "\<And>wasi. wt_instantiate_module W wasi m w1 = (Ok inst, w2)"
    and "wt_get_func W inst (ep_func (ctx_entrypoint ctx)) = Some f" and "wt_call W f w2 = (r, w3)"
  shows "(r = Ok () \<longrightarrow> executor_exec fs mode_of default_exec spec ex w = (ProcessExit 0, w3)) \<and>
    (r = Err (I32Exit n) \<longrightarrow> executor_exec fs mode_of default_exec spec ex w = (ProcessExit n, w3)) \<and>
    (r = Err (WtError e) \<longrightarrow> executor_exec fs mode_of default_exec spec ex w = (ProcessExit 137, w3))"
proof -
  have "execute W engine ctx b (ep_func (ctx_entrypoint ctx)) race w = (unit_into_error_code r, w3)"
    using assms by (simp add: execute_def execute_module_def wasi_builder_def act_bind_def act_res_def)
  then have "eng_run_wasi (ex_engine ex) ctx w = (map_err wt_error_text (into_error_code (unit_into_error_code r)), w3)"
    using assms by (simp add: wasmtime_engine_def wasmtime_run_wasi_def Let_def act_bind_def act_map_err_def act_res_def)
  then show ?thesis
    using assms(1,2) by (auto simp: executor_exec_def executor_inner_def unit_into_error_code_def)
qed

text \<open>
  The exit code of a container that runs a wasm module: 0 when its function returns, the
  guest's own code when it called \<open>proc_exit\<close>, and 137 when it trapped.
\<close>

lemma module_exit_code:
  assumes "ctx = executor_ctx ex spec" and "ex_inner ex = Some WasmInner" and "ex_engine ex = wasmtime_engine W fs wat race"
    and "source_as_bytes fs (ep_source (ctx_entrypoint ctx)) = Ok b" and "wasmtime_engine_impl W = Ok engine"
    and "binary_type_from_bytes (wt_is_component W) (wt_is_core_wasm W) b = Some Module"
    and "wt_module_from_binary W engine b = Ok m"
    and "wt_preopened_dir W ''/'' ''/'' w = (Ok (), w1)" and "wt_p1_linker W = Ok ()"
    and "\<And>wasi. wt_instantiate_module W wasi m w1 = (Ok inst, w2)"
    and "wt_get_func W inst (ep_func (ctx_entrypoint ctx)) = Some f" and "wt_call W f w2 = (r, w3)"
  shows "(r = Ok () \<longrightarrow> executor_exec fs mode_of default_exec spec ex w = (ProcessExit 0, w3)) \<and>
    (r = Err (I32Exit n) \<longrightarrow> executor_exec fs mode_of default_exec spec ex w = (ProcessExit n, w3)) \<and>
    (r = Err (WtError e) \<longrightarrow> executor_exec fs mode_of default_exec spec ex w = (ProcessExit 137, w3))"
  using exec_module [OF assms] .

lemma module_exit_code_witness:
  "executor_exec demo_fs (\<lambda>_. None) (\<lambda>_. ret ()) (wc_spec (demo_ctx [''x.wasm'']))
     ((executor_new (wasmtime_engine demo_wasmtime demo_fs (\<lambda>_. Ok ()) []) [demo_layer\<lparr>wl_layer := [0, 1]\<rparr>]
        (wc_platform (demo_ctx [])))\<lparr>ex_inner := Some WasmInner\<rparr>) () = (ProcessExit 7, ())"
proof -
  let ?ex = "(executor_new (wasmtime_engine demo_wasmtime demo_fs (\<lambda>_. Ok ()) []) [demo_layer\<lparr>wl_layer := [0, 1]\<rparr>]
        (wc_platform (demo_ctx [])))\<lparr>ex_inner := Some WasmInner\<rparr>"
  have src: "ep_source (ctx_entrypoint (executor_ctx ?ex (wc_spec (demo_ctx [''x.wasm''])))) =
      SourceOci [demo_layer\<lparr>wl_layer := [0, 1]\<rparr>]"
    by (simp add: ctx_entrypoint_def executor_ctx_def executor_new_def Let_def split_def)
  show ?thesis
    using module_exit_code [where ctx = "executor_ctx ?ex (wc_spec (demo_ctx [''x.wasm'']))" and ex = ?ex
        and spec = "wc_spec (demo_ctx [''x.wasm''])" and W = demo_wasmtime and fs = demo_fs and wat = "\<lambda>_. Ok ()"
        and race = "[]" and b = "[0, 1]" and r = "Err (I32Exit 7)" and n = 7] src
    by (simp add: demo_wasmtime_def binary_type_from_bytes_def executor_new_def wasmtime_engine_impl_def)
qed

end
