(* ===== verification/Engines.thy ===== *)
theory Engines
  imports Containerd
begin

text \<open>
  The other engines: \<open>containerd-shim-wamr\<close>, \<open>containerd-shim-wasmer\<close> and
  \<open>containerd-shim-wasmedge\<close>, \<open>src/instance.rs\<close> of each.

  Each runtime's crate is a record of operations: modules (\<open>'m\<close>) and instances (\<open>'i\<close>) are
  opaque and running acts on a state \<open>'w\<close>. None of the three overrides a provided method of
  the trait, so none precompiles. \<open>with_context\<close> is \<open>anyhow\<close>'s \<open>context\<close>: the message shown is
  the one it adds.
\<close>

definition with_context :: "string \<Rightarrow> ('w, string, 'a) act \<Rightarrow> ('w, string, 'a) act" where
  "with_context msg m = act_map_err (\<lambda>_. msg) m"

definition plain_engine_of ::
  "string \<Rightarrow> fs \<Rightarrow> (path \<Rightarrow> (string, unit) res) \<Rightarrow> (wasi_context \<Rightarrow> ('w, string, int) act) \<Rightarrow> 'w engine" where
  "plain_engine_of name fs wat_parse_file run_wasi =
     \<lparr>eng_name = name, eng_run_wasi = run_wasi, eng_can_handle = default_can_handle fs wat_parse_file,
      eng_supported_layers_types = default_supported_layers_types, eng_precompile = default_precompile,
      eng_can_precompile = default_can_precompile\<rparr>"

definition mod_name :: "wasi_context \<Rightarrow> string" where
  "mod_name ctx = unwrap_or ''main'' (ep_name (ctx_entrypoint ctx))"

section \<open>WAMR\<close>

record wamr_wasi =
  ww_pre_open :: "string list"
  ww_envs :: "string list"
  ww_args :: "string list"

record ('m, 'i, 'w) wamr =
  wr_runtime_new :: "(string, unit) res"
  wr_from_buf :: "bytes \<Rightarrow> string \<Rightarrow> ('w, string, 'm) act"
  wr_instance_new :: "wamr_wasi \<Rightarrow> 'm \<Rightarrow> nat \<Rightarrow> ('w, string, 'i) act"
  wr_find_export_func :: "'i \<Rightarrow> string \<Rightarrow> ('w, string, nat) act"
  wr_call :: "'i \<Rightarrow> nat \<Rightarrow> ('w, string, unit) act"

definition wamr_new :: "('m, 'i, 'w) wamr \<Rightarrow> (string, unit) res" where
  "wamr_new R = (case wr_runtime_new R of Err e \<Rightarrow> Panic e | r \<Rightarrow> r)"

definition wamr_run_wasi :: "('m, 'i, 'w) wamr \<Rightarrow> fs \<Rightarrow> wasi_context \<Rightarrow> ('w, string, int) act" where
  "wamr_run_wasi R fs ctx =
     (let ep = ctx_entrypoint ctx in
      act_bind (with_context ''Failed to get bytes from source'' (lift_res (source_as_bytes fs (ep_source ep)))) (\<lambda>wasm_bytes.
      act_bind (with_context ''Failed to create module from bytes'' (wr_from_buf R wasm_bytes (mod_name ctx))) (\<lambda>module.
      act_bind (with_context ''Failed to create instance''
         (wr_instance_new R \<lparr>ww_pre_open = [''/''], ww_envs = ctx_envs ctx, ww_args = ctx_args ctx\<rparr> module (1024 * 64))) (\<lambda>inst.
      act_bind (with_context ''Failed to find function'' (wr_find_export_func R inst (ep_func ep))) (\<lambda>function.
      act_bind (with_context ''Failed to call function'' (wr_call R inst function)) (\<lambda>_.
      ret 0))))))"

definition wamr_engine :: "('m, 'i, 'w) wamr \<Rightarrow> fs \<Rightarrow> (path \<Rightarrow> (string, unit) res) \<Rightarrow> 'w engine" where
  "wamr_engine R fs wat = plain_engine_of ''wamr'' fs wat (wamr_run_wasi R fs)"

section \<open>Wasmer\<close>

datatype wasmer_error = WasiExit int | WasmerError string

fun wasmer_error_text :: "wasmer_error \<Rightarrow> string" where
  "wasmer_error_text (WasiExit n) = ''WASI exited with code: '' @ show_int n"
| "wasmer_error_text (WasmerError m) = m"

record ('m, 'i, 'w) wasmer =
  ws_from_binary :: "bytes \<Rightarrow> ('w, string, 'm) act"
  ws_runtime :: "('w, string, unit) act"
  ws_file_system :: "string \<Rightarrow> ('w, string, unit) act"
  ws_preopen_dir :: "string \<Rightarrow> ('w, string, unit) act"
  ws_instantiate :: "string \<Rightarrow> string list \<Rightarrow> (string \<times> string) list \<Rightarrow> 'm \<Rightarrow> ('w, string, 'i) act"
  ws_get_function :: "'i \<Rightarrow> string \<Rightarrow> ('w, string, nat) act"
  ws_set_status_running :: "'i \<Rightarrow> 'w \<Rightarrow> 'w"
  ws_call :: "nat \<Rightarrow> ('w, wasmer_error, unit) act"

definition wasmer_env :: "string \<Rightarrow> string \<times> string" where
  "wasmer_env v = (case split_once (CHR ''='') v of None \<Rightarrow> (v, []) | Some kv \<Rightarrow> kv)"

text \<open>\<open>&args[1..]\<close>.\<close>

definition skip_arg0 :: "string list \<Rightarrow> (string, string list) res" where
  "skip_arg0 args =
     (if args = [] then Panic ''range start index 1 out of range for slice of length 0'' else Ok (tl args))"

fun wasmer_status :: "(wasmer_error, unit) res \<Rightarrow> (string, int) res" where
  "wasmer_status (Ok _) = Ok 0"
| "wasmer_status (Err (WasiExit code)) = Ok code"
| "wasmer_status (Err e) = Err (wasmer_error_text e)"
| "wasmer_status (Panic p) = Panic p"
| "wasmer_status Blocked = Blocked"

definition wasmer_call :: "('m, 'i, 'w) wasmer \<Rightarrow> nat \<Rightarrow> ('w, string, int) act" where
  "wasmer_call R start = (\<lambda>w. case ws_call R start w of (r, w') \<Rightarrow> (wasmer_status r, w'))"

definition wasmer_run_wasi :: "('m, 'i, 'w) wasmer \<Rightarrow> fs \<Rightarrow> wasi_context \<Rightarrow> ('w, string, int) act" where
  "wasmer_run_wasi R fs ctx =
     (let ep = ctx_entrypoint ctx; envs = map wasmer_env (ctx_envs ctx) in
      act_bind (lift_res (source_as_bytes fs (ep_source ep))) (\<lambda>wasm_bytes.
      act_bind (ws_from_binary R wasm_bytes) (\<lambda>module.
      act_bind (ws_runtime R) (\<lambda>_.
      act_bind (ws_file_system R ''/'') (\<lambda>_.
      act_bind (lift_res (skip_arg0 (ctx_args ctx))) (\<lambda>args.
      act_bind (ws_preopen_dir R ''/'') (\<lambda>_.
      act_bind (ws_instantiate R (mod_name ctx) args envs module) (\<lambda>inst.
      act_bind (ws_get_function R inst (ep_func ep)) (\<lambda>start.
      act_bind (\<lambda>w. (Ok (), ws_set_status_running R inst w)) (\<lambda>_.
      wasmer_call R start))))))))))"

definition wasmer_engine :: "('m, 'i, 'w) wasmer \<Rightarrow> fs \<Rightarrow> (path \<Rightarrow> (string, unit) res) \<Rightarrow> 'w engine" where
  "wasmer_engine R fs wat = plain_engine_of ''wasmer'' fs wat (wasmer_run_wasi R fs)"

section \<open>WasmEdge\<close>

record ('m, 'w) wasmedge =
  we_config :: "(string, unit) res"
  we_wasi_create :: "string list \<Rightarrow> string list \<Rightarrow> string list \<Rightarrow> ('w, string, unit) act"
  we_from_bytes :: "bytes \<Rightarrow> ('w, string, 'm) act"
  we_store_new :: "('w, string, unit) act"
  we_register_module :: "string \<Rightarrow> 'm \<Rightarrow> ('w, string, unit) act"
  we_run_func :: "string \<Rightarrow> string \<Rightarrow> ('w, string, unit) act"
  we_exit_code :: "'w \<Rightarrow> u32"

definition wasmedge_new :: "('m, 'w) wasmedge \<Rightarrow> (string, unit) res" where
  "wasmedge_new R = (case we_config R of Err e \<Rightarrow> Panic ''failed to create config'' | r \<Rightarrow> r)"

text \<open>\<open>unwrap\<close> on the result of an operation.\<close>

definition act_unwrap :: "('w, string, 'a) act \<Rightarrow> ('w, string, 'a) act" where
  "act_unwrap m = (\<lambda>w. case m w of (Err e, w') \<Rightarrow> (Panic e, w') | r \<Rightarrow> r)"

definition wasmedge_run_wasi :: "('m, 'w) wasmedge \<Rightarrow> fs \<Rightarrow> wasi_context \<Rightarrow> ('w, string, int) act" where
  "wasmedge_run_wasi R fs ctx =
     (let ep = ctx_entrypoint ctx in
      act_bind (we_wasi_create R (ctx_args ctx) (ctx_envs ctx) [''/:/'']) (\<lambda>_.
      act_bind (lift_res (source_as_bytes fs (ep_source ep))) (\<lambda>wasm_bytes.
      act_bind (we_from_bytes R wasm_bytes) (\<lambda>module.
      act_bind (act_unwrap (we_store_new R)) (\<lambda>_.
      act_bind (with_context ''registering module'' (we_register_module R (mod_name ctx) module)) (\<lambda>_.
      act_bind (we_run_func R (mod_name ctx) (ep_func ep)) (\<lambda>_.
      \<lambda>w. (Ok (sint (we_exit_code R w)), w))))))))"

definition wasmedge_engine :: "('m, 'w) wasmedge \<Rightarrow> fs \<Rightarrow> (path \<Rightarrow> (string, unit) res) \<Rightarrow> 'w engine" where
  "wasmedge_engine R fs wat = plain_engine_of ''wasmedge'' fs wat (wasmedge_run_wasi R fs)"

section \<open>Engines that do not precompile\<close>

definition read_original :: "'w containerd \<Rightarrow> client \<Rightarrow> descriptor \<Rightarrow> ('w, error, wasm_layer) act" where
  "read_original ctd c d = act_bind (read_content ctd c (desc_digest d)) (\<lambda>b. ret \<lparr>wl_config = d, wl_layer = b\<rparr>)"

lemma read_wasm_layer_plain:
  "read_wasm_layer ctd fm c d False pid False = act_bind (read_original ctd c d) (\<lambda>l. ret (l, False))"
  by (rule ext) (auto simp: read_wasm_layer_def digest_to_load_def read_original_def act_bind_def attempt_def
      split: res.split prod.split)

lemma read_wasm_layers_plain:
  "read_wasm_layers ctd fm c False pid False ds = act_bind (map_each (read_original ctd c) ds) (\<lambda>ls. ret (ls, False))"
  by (induction ds) (simp_all add: read_wasm_layer_plain act_bind_assoc del: ret_apply)

lemma act_bind_nonempty: "act_bind m (\<lambda>ls. if ls = [] then ret [] else ret ls) = m"
  by (rule ext) (auto simp: act_bind_def split: res.split prod.split)

locale plain_engine =
  fixes engine :: "'v engine"
  assumes no_precompile: "eng_can_precompile engine = Ok None"
    and precompile_fails: "\<not> is_ok (eng_precompile engine ls)"
begin

lemma load_originals:
  "load_wasm_layers ctd fm c engine manifest image_digest =
     act_bind (get_info ctd c image_digest) (\<lambda>_.
     map_each (read_original ctd c)
       (filter (\<lambda>d. is_wasm_layer (desc_media_type d) (eng_supported_layers_types engine)) (man_layers manifest)))"
  by (simp add: load_wasm_layers_def no_precompile lift_res_Ok read_wasm_layers_plain act_bind_assoc act_bind_nonempty Let_def
      del: ret_apply cong: if_cong)

end

text \<open>An engine that never compiles keeps the length law of \<open>precompile\<close>.\<close>

sublocale plain_engine \<subseteq> precompiling_engine engine
proof
  fix ls cs assume "eng_precompile engine ls = Ok cs"
  then show "length cs = length ls" using precompile_fails [of ls] by simp
qed (simp add: no_precompile)

interpretation wamr: plain_engine "wamr_engine R fs wat"
  by unfold_locales (simp_all add: wamr_engine_def plain_engine_of_def default_can_precompile_def default_precompile_def)

interpretation wasmer: plain_engine "wasmer_engine R fs wat"
  by unfold_locales (simp_all add: wasmer_engine_def plain_engine_of_def default_can_precompile_def default_precompile_def)

interpretation wasmedge: plain_engine "wasmedge_engine R fs wat"
  by unfold_locales (simp_all add: wasmedge_engine_def plain_engine_of_def default_can_precompile_def default_precompile_def)

text \<open>So loading with any of them fails on the daemon's account only.\<close>

lemma plain_engines_load_errors:
  "errs (load_wasm_layers ctd fm c (wamr_engine R1 fs wat) manifest dig) daemon_error"
  "errs (load_wasm_layers ctd fm c (wasmer_engine R2 fs wat) manifest dig) daemon_error"
  "errs (load_wasm_layers ctd fm c (wasmedge_engine R3 fs wat) manifest dig) daemon_error"
  by (rule wamr.load_layers_errs wasmer.load_layers_errs wasmedge.load_layers_errs)+

section \<open>Properties\<close>

text \<open>
  C33. The three engines take the layers of an image as they are: loading with any of them is
  reading, in the order of the manifest, the original content of each layer of a supported media
  type; labels of precompiled content are never followed and nothing is written to containerd.
\<close>

theorem plain_engines_load_originals:
  "load_wasm_layers ctd fm c (wamr_engine R1 fs wat) manifest dig w =
     act_bind (get_info ctd c dig) (\<lambda>_. map_each (read_original ctd c) (filter (\<lambda>d. is_wasm_layer (desc_media_type d) default_supported_layers_types) (man_layers manifest))) w \<and>
   load_wasm_layers ctd fm c (wasmer_engine R2 fs wat) manifest dig w =
     act_bind (get_info ctd c dig) (\<lambda>_. map_each (read_original ctd c) (filter (\<lambda>d. is_wasm_layer (desc_media_type d) default_supported_layers_types) (man_layers manifest))) w \<and>
   load_wasm_layers ctd fm c (wasmedge_engine R3 fs wat) manifest dig w =
     act_bind (get_info ctd c dig) (\<lambda>_. map_each (read_original ctd c) (filter (\<lambda>d. is_wasm_layer (desc_media_type d) default_supported_layers_types) (man_layers manifest))) w"
  by (simp add: wamr.load_originals wasmer.load_originals wasmedge.load_originals)
    (simp add: wamr_engine_def wasmer_engine_def wasmedge_engine_def plain_engine_of_def)

text \<open>
  The wasmer engine and the arguments of the container. The first one is not passed on to
  the module; a container with no arguments at all (whose module is then one of its layers)
  panics the container process instead of ending it with an error. When there are arguments, the exit status of a
  module that was instantiated and has the function is 0, or the code of its exit.
\<close>

lemma wasmer_arguments:
  assumes "source_as_bytes fs (ep_source (ctx_entrypoint ctx)) = Ok b"
    and "ws_from_binary R b w = (Ok m, w1)" and "ws_runtime R w1 = (Ok (), w2)"
    and "ws_file_system R ''/'' w2 = (Ok (), w3)"
  shows "(ctx_args ctx = [] \<longrightarrow> (\<exists>p. wasmer_run_wasi R fs ctx w = (Panic p, w3))) \<and>
    (\<forall>a rest. ctx_args ctx = a # rest \<longrightarrow> ws_preopen_dir R ''/'' w3 = (Ok (), w4) \<longrightarrow>
       ws_instantiate R (mod_name ctx) rest (map wasmer_env (ctx_envs ctx)) m w4 = (Ok i, w5) \<longrightarrow>
       ws_get_function R i (ep_func (ctx_entrypoint ctx)) w5 = (Ok f, w6) \<longrightarrow>
       ws_call R f (ws_set_status_running R i w6) = (r, w7) \<longrightarrow>
       wasmer_run_wasi R fs ctx w = (wasmer_status r, w7))"
  using assms by (auto simp: wasmer_run_wasi_def Let_def act_bind_def skip_arg0_def wasmer_call_def)

definition demo_wasmer :: "(unit, unit, unit) wasmer" where
  "demo_wasmer = \<lparr>ws_from_binary = (\<lambda>_. ret ()), ws_runtime = ret (), ws_file_system = (\<lambda>_. ret ()),
     ws_preopen_dir = (\<lambda>_. ret ()), ws_instantiate = (\<lambda>_ _ _ _. ret ()), ws_get_function = (\<lambda>_ _. ret 0),
     ws_set_status_running = (\<lambda>_ w. w), ws_call = (\<lambda>_. throw (WasiExit 3))\<rparr>"

definition demo_layer_ctx :: "string list \<Rightarrow> wasi_context" where
  "demo_layer_ctx args = (demo_ctx args)\<lparr>wc_wasm_layers := [demo_layer]\<rparr>"

lemma wasmer_arguments_witness:
  "(\<exists>p. wasmer_run_wasi demo_wasmer demo_fs (demo_layer_ctx []) () = (Panic p, ())) \<and>
   wasmer_run_wasi demo_wasmer demo_fs (demo_layer_ctx [''hello'', ''x'']) () = (Ok 3, ())"
proof -
  have src: "source_as_bytes demo_fs (ep_source (ctx_entrypoint (demo_layer_ctx args))) = Ok (wl_layer demo_layer)" for args
    by (simp add: demo_layer_ctx_def ctx_entrypoint_def Let_def split_def demo_ctx_def)
  have args: "ctx_args (demo_layer_ctx as) = as" for as
    by (simp add: ctx_args_def demo_layer_ctx_def demo_ctx_def)
  show ?thesis
    using wasmer_arguments [OF src [of "[]"], where R = demo_wasmer and w = "()"]
      wasmer_arguments [OF src [of "[''hello'', ''x'']"], where R = demo_wasmer and w = "()"]
    by (simp add: demo_wasmer_def args)
qed

end
