(* ===== verification/Otel.thy ===== *)
theory Otel
  imports Runtime_Context
begin

text \<open>
  \<open>sandbox/shim/otel.rs\<close>: the configuration of tracing from the environment, the installation
  of the tracer and the propagation of the trace context.

  The environment is a map from names to values of the operating system, which need not be
  Unicode: \<open>env::var_os\<close> returns any value, \<open>env::var\<close> only a Unicode one. The OpenTelemetry and
  tracing crates are the record \<open>otel\<close> of operations on a state \<open>'w\<close>, with \<open>'x\<close> a trace context.
\<close>

datatype os_string = Unicode string | NotUnicode bytes

type_synonym env = "string \<rightharpoonup> os_string"

datatype var_error = NotPresent | VarNotUnicode

definition env_var :: "env \<Rightarrow> string \<Rightarrow> (var_error, string) res" where
  "env_var e name =
     (case e name of
        None \<Rightarrow> Err NotPresent
      | Some (Unicode s) \<Rightarrow> Ok s
      | Some (NotUnicode _) \<Rightarrow> Err VarNotUnicode)"

fun os_is_empty :: "os_string \<Rightarrow> bool" where
  "os_is_empty (Unicode s) \<longleftrightarrow> s = []"
| "os_is_empty (NotUnicode b) \<longleftrightarrow> b = []"

definition traces_enabled :: "env \<Rightarrow> bool" where
  "traces_enabled e =
     (let check_env_var = (\<lambda>var. case e var of None \<Rightarrow> False | Some v \<Rightarrow> \<not> os_is_empty v);
          traces_endpoint = check_env_var ''OTEL_EXPORTER_OTLP_TRACES_ENDPOINT'';
          otlp_endpoint = check_env_var ''OTEL_EXPORTER_OTLP_ENDPOINT'';
          sdk_disabled = (e ''OTEL_SDK_DISABLED'' = Some (Unicode ''true''))
      in (traces_endpoint \<or> otlp_endpoint) \<and> \<not> sdk_disabled)"

datatype otlp_protocol = HttpBinary | HttpJson | Grpc

record otel_config =
  ot_traces_endpoint :: string
  ot_traces_protocol :: otlp_protocol

datatype otel_error = VarError var_error | TraceError string

definition traces_endpoint_from_env :: "env \<Rightarrow> (otel_error, string) res" where
  "traces_endpoint_from_env e =
     map_err VarError (case env_var e ''OTEL_EXPORTER_OTLP_TRACES_ENDPOINT'' of
        Ok v \<Rightarrow> Ok v
      | _ \<Rightarrow> env_var e ''OTEL_EXPORTER_OTLP_ENDPOINT'')"

definition var_or :: "env \<Rightarrow> string \<Rightarrow> string \<Rightarrow> string" where
  "var_or e name d = (case env_var e name of Ok v \<Rightarrow> v | _ \<Rightarrow> d)"

text \<open>\<open>default_protocol\<close> is the constant of the exporter crate.\<close>

definition traces_protocol_from_env :: "string \<Rightarrow> env \<Rightarrow> (otel_error, otlp_protocol) res" where
  "traces_protocol_from_env default_protocol e =
     (let traces_protocol = var_or e ''OTEL_EXPORTER_OTLP_TRACES_PROTOCOL''
            (var_or e ''OTEL_EXPORTER_OTLP_PROTOCOL'' default_protocol)
      in if traces_protocol = ''http/protobuf'' then Ok HttpBinary
         else if traces_protocol = ''grpc'' then Ok Grpc
         else if traces_protocol = ''http/json'' then Ok HttpJson
         else Err (TraceError ''Invalid OTEL_EXPORTER_OTLP_PROTOCOL value''))"

definition build_from_env :: "string \<Rightarrow> env \<Rightarrow> (otel_error, otel_config) res" where
  "build_from_env default_protocol e =
     res_bind (traces_endpoint_from_env e) (\<lambda>endpoint.
     res_bind (traces_protocol_from_env default_protocol e) (\<lambda>protocol.
     Ok \<lparr>ot_traces_endpoint = endpoint, ot_traces_protocol = protocol\<rparr>))"

section \<open>Installation\<close>

datatype exporter = HttpExporter string | TonicExporter string

record ('x, 'w) otel =
  ot_install_batch :: "exporter \<Rightarrow> ('w, string, unit) act"
  ot_set_propagator :: "'w \<Rightarrow> 'w"
  ot_env_filter :: "string \<Rightarrow> (string, unit) res"
  ot_set_global_default :: "('w, string, unit) act"
  ot_current :: "'w \<Rightarrow> 'x"
  ot_inject :: "'x \<Rightarrow> (string \<rightharpoonup> string)"
  ot_extract :: "(string \<rightharpoonup> string) \<Rightarrow> 'x"
  ot_to_json :: "(string \<rightharpoonup> string) \<Rightarrow> (string, string) res"
  ot_from_json :: "string \<Rightarrow> (string, string \<rightharpoonup> string) res"
  ot_set_parent :: "'x \<Rightarrow> 'w \<Rightarrow> 'w"
  ot_shutdown_tracer_provider :: "'w \<Rightarrow> 'w"

definition init_tracer_http :: "otel_config \<Rightarrow> exporter" where
  "init_tracer_http c = HttpExporter (ot_traces_endpoint c)"

definition init_tracer_grpc :: "otel_config \<Rightarrow> exporter" where
  "init_tracer_grpc c = TonicExporter (ot_traces_endpoint c)"

definition init_tracer :: "('x, 'w) otel \<Rightarrow> otel_config \<Rightarrow> ('w, string, unit) act" where
  "init_tracer T c =
     ot_install_batch T (case ot_traces_protocol c of
        HttpBinary \<Rightarrow> init_tracer_http c
      | HttpJson \<Rightarrow> init_tracer_http c
      | Grpc \<Rightarrow> init_tracer_grpc c)"

definition otel_init :: "('x, 'w) otel \<Rightarrow> otel_config \<Rightarrow> ('w, string, unit) act" where
  "otel_init T c =
     act_bind (init_tracer T c) (\<lambda>_.
     act_bind (\<lambda>w. (Ok (), ot_set_propagator T w)) (\<lambda>_.
     act_bind (lift_res (ot_env_filter T ''info,h2=off'')) (\<lambda>_.
     ot_set_global_default T)))"

definition shutdown_guard_drop :: "('x, 'w) otel \<Rightarrow> 'w \<Rightarrow> 'w" where
  "shutdown_guard_drop T w = ot_shutdown_tracer_provider T w"

section \<open>The trace context\<close>

definition get_trace_context :: "('x, 'w) otel \<Rightarrow> ('w, string, string) act" where
  "get_trace_context T = (\<lambda>w. (ot_to_json T (ot_inject T (ot_current T w)), w))"

definition set_trace_context :: "('x, 'w) otel \<Rightarrow> string \<Rightarrow> ('w, string, unit) act" where
  "set_trace_context T trace_context =
     act_bind (lift_res (ot_from_json T trace_context)) (\<lambda>extractor.
     \<lambda>w. (Ok (), ot_set_parent T (ot_extract T extractor) w))"

text \<open>The name \<open>SpanNamingLayer\<close> gives a span that has OpenTelemetry data.\<close>

definition on_new_span :: "string \<Rightarrow> string \<Rightarrow> string option \<Rightarrow> string option" where
  "on_new_span target name builder_name = map_option (\<lambda>_. target @ ''::'' @ name) builder_name"

definition extractor_get :: "(string \<rightharpoonup> string list) \<Rightarrow> string \<Rightarrow> string option" where
  "extractor_get metadata key = Option.bind (metadata key) list_first"

definition extract_context :: "('x, 'w) otel \<Rightarrow> (string \<rightharpoonup> string list) \<Rightarrow> 'x" where
  "extract_context T metadata = ot_extract T (extractor_get metadata)"

section \<open>Properties\<close>

text \<open>
  When tracing is enabled and the endpoints are Unicode, building the configuration never
  fails for want of an endpoint. The endpoint is the one for traces whenever that variable is
  set, also when it is set to the empty string: then tracing, enabled by the general endpoint, is
  configured with no endpoint at all.
\<close>

lemma enabled_traces_have_endpoint:
  assumes "traces_enabled e"
    and "e ''OTEL_EXPORTER_OTLP_TRACES_ENDPOINT'' = map_option Unicode t"
    and "e ''OTEL_EXPORTER_OTLP_ENDPOINT'' = map_option Unicode g"
  shows "\<exists>endpoint. traces_endpoint_from_env e = Ok endpoint \<and>
    (case t of Some v \<Rightarrow> endpoint = v | None \<Rightarrow> Some endpoint = g \<and> endpoint \<noteq> []) \<and>
    (endpoint = [] \<longleftrightarrow> t = Some []) \<and>
    (\<forall>d. build_from_env d e = res_bind (traces_protocol_from_env d e)
        (\<lambda>p. Ok \<lparr>ot_traces_endpoint = endpoint, ot_traces_protocol = p\<rparr>))"
  using assms
  by (cases t; cases g)
    (auto simp: traces_enabled_def traces_endpoint_from_env_def env_var_def build_from_env_def Let_def split: if_splits)

lemma enabled_traces_have_endpoint_witness:
  "traces_endpoint_from_env [''OTEL_EXPORTER_OTLP_TRACES_ENDPOINT'' \<mapsto> Unicode [],
     ''OTEL_EXPORTER_OTLP_ENDPOINT'' \<mapsto> Unicode ''http://collector''] = Ok []"
  using enabled_traces_have_endpoint [of "[''OTEL_EXPORTER_OTLP_TRACES_ENDPOINT'' \<mapsto> Unicode [],
     ''OTEL_EXPORTER_OTLP_ENDPOINT'' \<mapsto> Unicode ''http://collector'']" "Some []" "Some ''http://collector''"]
  by (simp add: traces_enabled_def)

end
