(* ===== verification/Cli.thy ===== *)
theory Cli
  imports Local_Inv Otel
begin

text \<open>
  \<open>sandbox/shim/cli.rs\<close> and \<open>sandbox/cli.rs\<close>: the command line of the shim, from its arguments
  to the task service, and the memory report it logs at the end.

  The \<open>containerd_shim\<close> crate (flag parsing, spawning the shim process, running the service) is
  the record \<open>shim_crate\<close> of operations on a state \<open>'w\<close>. The exit signal \<open>Cli\<close> shares with the task
  service is the field \<open>exit_signal\<close> of the service.
\<close>

section \<open>Cli\<close>

record flags =
  fl_namespace :: string
  fl_address :: string
  fl_id :: string
  fl_version :: bool

record cli =
  cli_namespace :: string
  cli_containerd_address :: string
  cli_id :: string

definition cli_new :: "flags \<Rightarrow> cli" where
  "cli_new args = \<lparr>cli_namespace = fl_namespace args, cli_containerd_address = fl_address args, cli_id = fl_id args\<rparr>"

record start_opts =
  so_id :: string
  so_namespace :: string
  so_address :: string

datatype shim_api_error = ApiOther string | ApiInvalidArgument string

record 'w shim_crate =
  sc_current_dir :: "('w, io_error, path) act"
  sc_spec_load :: "path \<Rightarrow> ('w, string, oci_spec) act"
  sc_spawn :: "start_opts \<Rightarrow> string \<Rightarrow> ('w, shim_api_error, string) act"
  sc_write_address :: "string \<Rightarrow> ('w, shim_api_error, unit) act"
  sc_parse :: "string list \<Rightarrow> (string, flags) res"
  sc_run :: "string \<Rightarrow> ('w, string, unit) act"
  sc_print :: "string list \<Rightarrow> 'w \<Rightarrow> 'w"

text \<open>The shim a container joins: that of its pod, or its own.\<close>

definition grouping_of :: "oci_spec \<Rightarrow> string \<Rightarrow> string" where
  "grouping_of spec cid = unwrap_or cid (Option.bind (spec_annotations spec) (\<lambda>a. a ''io.kubernetes.cri.sandbox-id''))"

definition start_shim :: "'w shim_crate \<Rightarrow> start_opts \<Rightarrow> ('w, shim_api_error, string) act" where
  "start_shim C opts =
     act_bind (act_map_err (\<lambda>e. ApiOther (io_text e)) (sc_current_dir C)) (\<lambda>dir.
     act_bind (act_map_err (\<lambda>err. ApiInvalidArgument (''error loading runtime spec: '' @ err))
        (sc_spec_load C (path_join dir ''config.json''))) (\<lambda>spec.
     act_bind (sc_spawn C opts (grouping_of spec (so_id opts))) (\<lambda>address.
     act_bind (sc_write_address C address) (\<lambda>_.
     ret address))))"

text \<open>\<open>wait\<close> returns once the exit signal is raised.\<close>

definition cli_wait :: "(('i, 'w) shim, 'e, unit) act" where
  "cli_wait = (\<lambda>s. (if exit_signal s then Ok () else Blocked, s))"

definition create_task_service :: "cli \<Rightarrow> 'w \<Rightarrow> ('i, 'w) shim" where
  "create_task_service c w = local_new (cli_namespace c) (cli_containerd_address c) w"

definition delete_shim :: "datetime \<Rightarrow> (shim_api_error, delete_response) res" where
  "delete_shim now = Ok \<lparr>dr_pid = 0, dr_exit_status = 137, dr_exited_at = Some (to_timestamp now)\<rparr>"

section \<open>The memory report\<close>

definition parse_or_0 :: "string \<Rightarrow> nat" where
  "parse_or_0 s = unwrap_or 0 (parse_uint 64 (str_trim s))"

text \<open>One line of \<open>/proc/<pid>/status\<close>; the pair is the peak resident set and the peak total.\<close>

definition mem_line :: "nat \<times> nat \<Rightarrow> string \<Rightarrow> nat \<times> nat" where
  "mem_line acc raw =
     (let line = str_trim raw; (rss, total) = acc in
      case strip_prefix ''VmPeak:'' line of
        Some rest \<Rightarrow>
          (case strip_suffix ''kB'' rest of Some n \<Rightarrow> (rss, parse_or_0 n) | None \<Rightarrow> (rss, total))
      | None \<Rightarrow>
          (case strip_prefix ''VmHWM:'' line of
             Some rest \<Rightarrow>
               (case strip_suffix ''kB'' rest of Some n \<Rightarrow> (parse_or_0 n, total) | None \<Rightarrow> (rss, total))
           | None \<Rightarrow> (rss, total)))"

definition get_mem :: "(nat \<Rightarrow> (io_error, string) res) \<Rightarrow> nat \<Rightarrow> (unit, nat \<times> nat) res" where
  "get_mem read_to_string pid =
     (case read_to_string pid of
        Ok text \<Rightarrow> Ok (foldl mem_line (0, 0) (str_lines text))
      | Err e \<Rightarrow> Panic (io_text e)
      | Panic p \<Rightarrow> Panic p
      | Blocked \<Rightarrow> Blocked)"

definition mem_message :: "string \<Rightarrow> nat \<times> nat \<Rightarrow> string" where
  "mem_message who m = who @ '' peak memory usage was: peak resident set '' @ show_nat (fst m) @
     '' kB, peak total '' @ show_nat (snd m) @ '' kB''"

definition log_mem :: "(nat \<Rightarrow> (io_error, string) res) \<Rightarrow> nat \<Rightarrow> nat \<Rightarrow> (unit, string list) res" where
  "log_mem read_to_string shim_pid zygote_pid =
     res_bind (get_mem read_to_string shim_pid) (\<lambda>m.
     res_bind (get_mem read_to_string zygote_pid) (\<lambda>z.
     Ok [mem_message ''Shim'' m, mem_message ''Zygote'' z]))"

section \<open>The entry point\<close>

text \<open>How the process goes on: it exits with a status, or \<open>main\<close> returns.\<close>

datatype main_end = ExitProcess int | Returns

definition revision_text :: "string option \<Rightarrow> string" where
  "revision_text r = unwrap_or ''<none>'' r"

definition version_lines :: "string \<Rightarrow> string \<Rightarrow> string \<Rightarrow> string option \<Rightarrow> string list" where
  "version_lines argv0 name version revision =
     [argv0 @ '':'', ''  Runtime: '' @ name, ''  Version: '' @ version, ''  Revision: '' @ revision_text revision, []]"

definition shim_id :: "string \<Rightarrow> string option \<Rightarrow> string" where
  "shim_id name shim_version =
     ''io.containerd.'' @ to_lowercase name @ ''.'' @ unwrap_or ''v1'' shim_version"

definition expecting :: "(string \<Rightarrow> string) \<Rightarrow> ('w, string, 'a) act \<Rightarrow> ('w, string, 'a) act" where
  "expecting msg m = (\<lambda>w. case m w of (Err e, w') \<Rightarrow> (Panic (msg e), w') | r \<Rightarrow> r)"

text \<open>
  With the \<open>opentelemetry\<close> feature the trace context is read from \<open>TRACECONTEXT\<close>, or made and put
  there; \<open>get_ctx\<close> and \<open>put_ctx\<close> access that variable.
\<close>

definition trace_context_setup ::
  "('x, 'w) otel \<Rightarrow> ('w \<Rightarrow> string option) \<Rightarrow> (string \<Rightarrow> 'w \<Rightarrow> 'w) \<Rightarrow> ('w, string, unit) act" where
  "trace_context_setup T get_ctx put_ctx = (\<lambda>w.
     case get_ctx w of
       Some ctx \<Rightarrow> expecting id (set_trace_context T ctx) w
     | None \<Rightarrow> act_bind (expecting id (get_trace_context T)) (\<lambda>ctx. \<lambda>w. (Ok (), put_ctx ctx w)) w)"

definition shim_main_inner ::
  "('w, string, unit) act \<Rightarrow> 'w shim_crate \<Rightarrow> string list \<Rightarrow> string \<Rightarrow> string \<Rightarrow> string option \<Rightarrow> string option \<Rightarrow>
   ('w, string, main_end) act" where
  "shim_main_inner trace C os_args name version revision shim_version =
     act_bind trace (\<lambda>_.
     case os_args of
       [] \<Rightarrow> panic ''range start index 1 out of range for slice of length 0''
     | arg0 # args \<Rightarrow>
         act_bind (expecting id (lift_res (sc_parse C args))) (\<lambda>flags.
         if fl_version flags
         then \<lambda>w. (Ok (ExitProcess 0),
                   sc_print C (version_lines (unwrap_or [] (file_stem arg0)) name version revision) w)
         else act_bind (sc_run C (shim_id name shim_version)) (\<lambda>_. ret Returns)))"

text \<open>\<open>main\<close> with the \<open>opentelemetry\<close> feature, up to the memory report; the guard shuts the tracer down.\<close>

definition shim_main ::
  "('x, 'w) otel \<Rightarrow> env \<Rightarrow> string \<Rightarrow> ('w, string, unit) act \<Rightarrow> 'w shim_crate \<Rightarrow> string list \<Rightarrow> string \<Rightarrow> string \<Rightarrow>
   string option \<Rightarrow> string option \<Rightarrow> ('w, string, main_end) act" where
  "shim_main T e default_protocol trace C os_args name version revision shim_version =
     (if traces_enabled e then
        (case build_from_env default_protocol e of
           Ok c \<Rightarrow>
             act_bind (expecting (\<lambda>err. ''Failed to initialize OpenTelemetry.'') (otel_init T c)) (\<lambda>_. \<lambda>w.
             case shim_main_inner trace C os_args name version revision shim_version w of
               (Ok (ExitProcess n), w') \<Rightarrow> (Ok (ExitProcess n), w')
             | (Blocked, w') \<Rightarrow> (Blocked, w')
             | (r, w') \<Rightarrow> (r, shutdown_guard_drop T w'))
         | Err err \<Rightarrow> panic ''Failed to build OtelConfig.''
         | Panic p \<Rightarrow> panic p
         | Blocked \<Rightarrow> lift_res Blocked)
      else shim_main_inner trace C os_args name version revision shim_version)"

section \<open>The shim binaries\<close>

text \<open>
  \<open>main\<close> of the four shims. What the build bakes in is the version of the package and the output of
  \<open>git describe\<close>, of which an empty one is no revision. The instance type each of them passes is
  behind \<open>sc_run\<close>.
\<close>

definition shim_revision :: "string \<Rightarrow> string option" where
  "shim_revision git = (if git = [] then None else Some git)"

definition wasmtime_main ::
  "('x, 'w) otel \<Rightarrow> env \<Rightarrow> string \<Rightarrow> ('w, string, unit) act \<Rightarrow> 'w shim_crate \<Rightarrow> string list \<Rightarrow> string \<Rightarrow> string \<Rightarrow>
   ('w, string, main_end) act" where
  "wasmtime_main T e default_protocol trace C os_args version git =
     shim_main T e default_protocol trace C os_args ''wasmtime'' version (shim_revision git) (Some ''v1'')"

definition wasmer_main ::
  "('x, 'w) otel \<Rightarrow> env \<Rightarrow> string \<Rightarrow> ('w, string, unit) act \<Rightarrow> 'w shim_crate \<Rightarrow> string list \<Rightarrow> string \<Rightarrow> string \<Rightarrow>
   ('w, string, main_end) act" where
  "wasmer_main T e default_protocol trace C os_args version git =
     shim_main T e default_protocol trace C os_args ''wasmer'' version (shim_revision git) (Some ''v1'')"

definition wasmedge_main ::
  "('x, 'w) otel \<Rightarrow> env \<Rightarrow> string \<Rightarrow> ('w, string, unit) act \<Rightarrow> 'w shim_crate \<Rightarrow> string list \<Rightarrow> string \<Rightarrow> string \<Rightarrow>
   ('w, string, main_end) act" where
  "wasmedge_main T e default_protocol trace C os_args version git =
     shim_main T e default_protocol trace C os_args ''wasmedge'' version (shim_revision git) (Some ''v1'')"

text \<open>The WAMR shim is not built for Windows, where its \<open>main\<close> panics.\<close>

definition wamr_main ::
  "bool \<Rightarrow> ('x, 'w) otel \<Rightarrow> env \<Rightarrow> string \<Rightarrow> ('w, string, unit) act \<Rightarrow> 'w shim_crate \<Rightarrow> string list \<Rightarrow> string \<Rightarrow> string \<Rightarrow>
   ('w, string, main_end) act" where
  "wamr_main windows T e default_protocol trace C os_args version git =
     (if windows then panic ''WAMR shim is not supported on Windows''
      else shim_main T e default_protocol trace C os_args ''wamr'' version (shim_revision git) (Some ''v1''))"

section \<open>Lemmas\<close>

text \<open>
  The shims are run under the ids containerd derives the names of their binaries from; they are
  different.
\<close>

lemma shim_ids:
  "map (\<lambda>n. shim_id n (Some ''v1'')) [''wasmtime'', ''wasmer'', ''wasmedge'', ''wamr''] =
   [''io.containerd.wasmtime.v1'', ''io.containerd.wasmer.v1'', ''io.containerd.wasmedge.v1'', ''io.containerd.wamr.v1'']"
  by code_simp

lemma wasmtime_main_runs:
  assumes "\<not> traces_enabled e" and "trace w = (Ok (), w1)" and "sc_parse C args = Ok flags" and "\<not> fl_version flags"
    and "sc_run C ''io.containerd.wasmtime.v1'' w1 = (Ok (), w2)"
  shows "wasmtime_main T e default_protocol trace C (arg0 # args) version git w = (Ok Returns, w2)"
proof -
  have "shim_id ''wasmtime'' (Some ''v1'') = ''io.containerd.wasmtime.v1''" using shim_ids by simp
  then show ?thesis
    using assms by (simp add: wasmtime_main_def shim_main_def shim_main_inner_def act_bind_def expecting_def)
qed

text \<open>The lines of a text are the pieces a newline ends.\<close>

lemma str_split_line: "c \<notin> set l \<Longrightarrow> str_split c (l @ c # s) = l # str_split c s"
  by (simp add: str_split_append_sep str_split_single)

lemma str_split_lines:
  "\<forall>l \<in> set ls. c \<notin> set l \<Longrightarrow> str_split c (concat (map (\<lambda>l. l @ [c]) ls)) = ls @ [[]]"
  by (induction ls) (simp_all add: str_split_line)

lemma str_lines_concat:
  "\<forall>l \<in> set ls. CHR 0x0A \<notin> set l \<Longrightarrow> str_lines (concat (map (\<lambda>l. l @ [CHR 0x0A]) ls)) = ls"
  by (simp add: str_lines_def str_split_lines)

lemma str_trim_id: "s \<noteq> [] \<Longrightarrow> \<not> is_space (hd s) \<Longrightarrow> \<not> is_space (last s) \<Longrightarrow> str_trim s = s"
  by (simp add: str_trim_def hd_rev dropWhile_eq_self_iff [THEN iffD2])

lemma dropWhile_space: "list_all is_space s \<Longrightarrow> dropWhile is_space s = []"
  by (simp add: list_all_iff)

lemma str_trim_spaces:
  assumes "list_all is_space a" and "list_all is_space b"
  shows "str_trim (a @ s @ b) = str_trim s"
proof -
  have drop: "dropWhile is_space (u @ v) = dropWhile is_space v" if "list_all is_space u" for u v
    using that by (induction u) auto
  show ?thesis
  proof (cases "list_all is_space s")
    case True
    then have "dropWhile is_space (a @ s @ b) = []" and "dropWhile is_space s = []"
      using assms by (simp_all only: dropWhile_space list_all_append)
    then show ?thesis by (simp only: str_trim_def)
  next
    case False
    then have "dropWhile is_space (s @ b) = dropWhile is_space s @ b"
      by (metis (mono_tags, lifting) dropWhile_append1 list_all_iff)
    moreover have "list_all is_space (rev b)" using assms(2) by simp
    ultimately show ?thesis using assms by (simp add: str_trim_def drop)
  qed
qed

lemma digit_not_space: "d < 10 \<Longrightarrow> \<not> is_space (digit_char d)"
proof
  assume d: "d < 10" and "is_space (digit_char d)"
  then have "of_char (digit_char d) \<in> {9, 10, 11, 12, 13, 32 :: nat}"
    by (auto simp: is_space_def)
  then show False using d by (simp add: digit_char_def)
qed

lemma show_nat_no_space: "c \<in> set (show_nat n) \<Longrightarrow> \<not> is_space c"
proof (induction n rule: show_nat.induct)
  case (1 n)
  then show ?case
    by (subst (asm) (2) show_nat.simps) (auto simp: digit_not_space split: if_splits)
qed

lemma str_trim_show_nat: "str_trim (show_nat n) = show_nat n"
  using show_nat_no_space [OF hd_in_set, of n] show_nat_no_space [OF last_in_set, of n] by (simp add: str_trim_id)

text \<open>The lines of \<open>/proc/<pid>/status\<close> the report reads.\<close>

definition status_line :: "string \<Rightarrow> string \<Rightarrow> nat \<Rightarrow> string" where
  "status_line key pad n = key @ pad @ show_nat n @ '' kB''"

definition other_line :: "string \<Rightarrow> bool" where
  "other_line l \<longleftrightarrow> strip_prefix ''VmPeak:'' (str_trim l) = None \<and> strip_prefix ''VmHWM:'' (str_trim l) = None"

lemma mem_line_other: "other_line l \<Longrightarrow> mem_line acc l = acc"
  by (auto simp: other_line_def mem_line_def Let_def split: prod.split)

lemma foldl_mem_other: "list_all other_line ls \<Longrightarrow> foldl mem_line acc ls = acc"
  by (induction ls) (simp_all add: mem_line_other)

lemma str_trim_status_line:
  "str_trim (status_line (CHR ''V'' # key) pad n) = status_line (CHR ''V'' # key) pad n"
  by (rule str_trim_id) (simp_all add: status_line_def is_space_def)

lemma strip_status_value: "strip_suffix ''kB'' (pad @ show_nat n @ '' kB'') = Some (pad @ show_nat n @ '' '')"
  by (simp add: strip_suffix_Some_iff)

lemma parse_status_value:
  assumes "list_all is_space pad" and "n < 2 ^ 64"
  shows "parse_or_0 (pad @ show_nat n @ '' '') = n"
proof -
  have "str_trim (pad @ show_nat n @ '' '') = show_nat n"
    using assms(1) by (simp add: str_trim_spaces str_trim_show_nat is_space_def)
  with assms(2) show ?thesis by (simp add: parse_or_0_def parse_uint_show_nat)
qed

lemma mem_line_peak:
  assumes "list_all is_space pad" and "n < 2 ^ 64"
  shows "mem_line (rss, tot) (status_line ''VmPeak:'' pad n) = (rss, n)"
  using strip_status_value [of pad n] parse_status_value [OF assms]
  by (simp add: mem_line_def str_trim_status_line Let_def) (simp add: status_line_def)

lemma mem_line_hwm:
  assumes "list_all is_space pad" and "n < 2 ^ 64"
  shows "mem_line (rss, tot) (status_line ''VmHWM:'' pad n) = (n, tot)"
  using strip_status_value [of pad n] parse_status_value [OF assms]
  by (simp add: mem_line_def str_trim_status_line Let_def) (simp add: status_line_def)

section \<open>Properties\<close>

text \<open>
  The memory report reads what the kernel prints. For a status file whose lines are those of
  \<open>VmPeak\<close> and \<open>VmHWM\<close>, each a value padded with white space and followed by the unit, between
  any other lines, \<open>get_mem\<close> is the pair of the two values.
\<close>

lemma get_mem_reads_status:
  assumes "list_all other_line before" and "list_all other_line between" and "list_all other_line after"
    and "\<forall>l \<in> set (before @ between @ after) \<union> {pad}. CHR 0x0A \<notin> set l"
    and pad: "list_all is_space pad" and "peak < 2 ^ 64" and "hwm < 2 ^ 64"
    and "read_to_string pid = Ok (concat (map (\<lambda>l. l @ [CHR 0x0A])
      (before @ status_line ''VmPeak:'' pad peak # between @ status_line ''VmHWM:'' pad hwm # after)))"
  shows "get_mem read_to_string pid = Ok (hwm, peak)"
proof -
  let ?ls = "before @ status_line ''VmPeak:'' pad peak # between @ status_line ''VmHWM:'' pad hwm # after"
  have "CHR 0x0A \<notin> set (show_nat n)" for n
    using show_nat_no_space [of "CHR 0x0A" n] by (auto simp: is_space_def)
  then have "\<forall>l \<in> set ?ls. CHR 0x0A \<notin> set l" using assms(4) by (auto simp: status_line_def)
  then have "str_lines (concat (map (\<lambda>l. l @ [CHR 0x0A]) ?ls)) = ?ls" by (rule str_lines_concat)
  then show ?thesis
    using assms by (simp add: get_mem_def foldl_mem_other mem_line_peak mem_line_hwm)
qed

lemma get_mem_reads_status_witness:
  "get_mem (\<lambda>_. Ok (concat (map (\<lambda>l. l @ [CHR 0x0A])
     ([''Name: shim''] @ status_line ''VmPeak:'' '' '' 2048 # [] @ status_line ''VmHWM:'' '' '' 512 # [])))) 7 = Ok (512, 2048)"
proof -
  have "other_line ''Name: shim''" by code_simp
  then show ?thesis
    by (intro get_mem_reads_status [where before = "[''Name: shim'']" and between = "[]" and after = "[]" and pad = "'' ''"])
      (simp_all add: is_space_def)
qed

end
