(* ===== verification/Oci_Tar_Builder.thy ===== *)
theory Oci_Tar_Builder
  imports Rust_Path "HOL-Library.AList"
begin

text \<open>
  \<open>oci-tar-builder/src/lib.rs\<close> and \<open>src/bin.rs\<close>: writing the layers and the configuration of a
  wasm image as an OCI layout in a tar archive.

  The archive being written is the list of the entries appended so far, beside the rest of the world
  (\<open>'w\<close>). Files, hashing, JSON and the tar header checks are operations of the record \<open>oci_env\<close>. An
  entry keeps the size its header announces apart from the data that follows it, since the
  source takes the size from the metadata of the file and the data from reading it later.
  \<open>IndexMap::insert\<close> is \<open>AList.update\<close>: a key that is there keeps its place. A configuration is the
  type \<open>'c\<close> with the operations of the trait \<open>OciConfig\<close>.
\<close>

section \<open>Data\<close>

datatype media_type = ImageLayer | ImageManifest | ImageIndex | ImageConfig | OtherType string

record 'c oci_config =
  oc_os :: "'c \<Rightarrow> string"
  oc_architecture :: "'c \<Rightarrow> string"
  oc_layers :: "'c \<Rightarrow> string list"
  oc_to_string :: "'c \<Rightarrow> (string, string) res"

record 'c builder =
  bd_configs :: "('c \<times> string \<times> media_type) list"
  bd_layers :: "(path \<times> string) list"

record blob_descriptor =
  bl_media_type :: media_type
  bl_digest :: string
  bl_size :: nat

record image_manifest =
  im_layers :: "blob_descriptor list"
  im_config :: blob_descriptor
  im_annotations :: "string \<rightharpoonup> string"

record index_entry =
  ix_manifest :: blob_descriptor
  ix_os :: string
  ix_architecture :: string
  ix_annotations :: "string \<rightharpoonup> string"

record docker_manifest =
  dm_config :: string
  dm_repo_tags :: "string list"
  dm_layers :: "string list"

record tar_entry =
  te_path :: string
  te_mode :: nat
  te_size :: nat
  te_data :: bytes

record 'w tar_state =
  ts_entries :: "tar_entry list"
  ts_world :: 'w

type_synonym ('w, 'a) tar_act = "('w tar_state, string, 'a) act"

record 'w oci_env =
  oe_try_digest :: "path \<Rightarrow> ('w, string, string) act"
  oe_metadata_len :: "path \<Rightarrow> ('w, string, nat) act"
  oe_read_file :: "path \<Rightarrow> ('w, string, bytes) act"
  oe_write :: "tar_entry \<Rightarrow> ('w, string, unit) act"
  oe_finish :: "('w, string, unit) act"
  oe_digest :: "bytes \<Rightarrow> string"
  oe_parse_digest :: "string \<Rightarrow> (string, string) res"
  oe_set_path :: "string \<Rightarrow> (string, unit) res"
  oe_manifest_json :: "image_manifest \<Rightarrow> (string, string) res"
  oe_index_json :: "index_entry list \<Rightarrow> (string, string) res"
  oe_layout_json :: "string \<Rightarrow> (string, string) res"
  oe_docker_json :: "docker_manifest list \<Rightarrow> (string, string) res"

definition as_bytes :: "string \<Rightarrow> bytes" where
  "as_bytes s = map (\<lambda>c. of_nat (of_char c)) s"

definition in_ts_world :: "('w, string, 'a) act \<Rightarrow> ('w, 'a) tar_act" where
  "in_ts_world m = (\<lambda>s. case m (ts_world s) of (r, w) \<Rightarrow> (r, s\<lparr>ts_world := w\<rparr>))"

definition ctx_err :: "string \<Rightarrow> ('s, string, 'a) act \<Rightarrow> ('s, string, 'a) act" where
  "ctx_err msg m = act_map_err (\<lambda>_. msg) m"

primrec fold_act :: "('x \<Rightarrow> 'a \<Rightarrow> ('s, 'e, 'a) act) \<Rightarrow> 'x list \<Rightarrow> 'a \<Rightarrow> ('s, 'e, 'a) act" where
  "fold_act f [] acc = ret acc"
| "fold_act f (x # xs) acc = act_bind (f x acc) (fold_act f xs)"

section \<open>The builder\<close>

definition builder_default :: "'c builder" where
  "builder_default = \<lparr>bd_configs = [], bd_layers = []\<rparr>"

definition WASM_LAYER_MEDIA_TYPE :: string where
  "WASM_LAYER_MEDIA_TYPE = ''application/vnd.bytecodealliance.wasm.component.layer.v0+wasm''"

definition add_config :: "'c \<Rightarrow> string \<Rightarrow> media_type \<Rightarrow> 'c builder \<Rightarrow> 'c builder" where
  "add_config config name mt b = b\<lparr>bd_configs := bd_configs b @ [(config, name, mt)]\<rparr>"

definition add_layer :: "path \<Rightarrow> 'c builder \<Rightarrow> 'c builder" where
  "add_layer layer b = b\<lparr>bd_layers := bd_layers b @ [(layer, [])]\<rparr>"

definition add_layer_with_media_type :: "path \<Rightarrow> string \<Rightarrow> 'c builder \<Rightarrow> 'c builder" where
  "add_layer_with_media_type layer mt b = b\<lparr>bd_layers := bd_layers b @ [(layer, mt)]\<rparr>"

text \<open>The path of the header, and \<open>tb.append\<close>.\<close>

definition tar_set_path :: "'w oci_env \<Rightarrow> string \<Rightarrow> string \<Rightarrow> ('w, unit) tar_act" where
  "tar_set_path E msg path = ctx_err msg (lift_res (oe_set_path E path))"

definition tar_put :: "'w oci_env \<Rightarrow> tar_entry \<Rightarrow> ('w, unit) tar_act" where
  "tar_put E e = act_bind (in_ts_world (oe_write E e)) (\<lambda>_. \<lambda>s. (Ok (), s\<lparr>ts_entries := ts_entries s @ [e]\<rparr>))"

definition tar_append :: "'w oci_env \<Rightarrow> string \<Rightarrow> string \<Rightarrow> nat \<Rightarrow> bytes \<Rightarrow> ('w, unit) tar_act" where
  "tar_append E msg path mode data =
     act_bind (tar_set_path E msg path) (\<lambda>_.
     tar_put E \<lparr>te_path = path, te_mode = mode, te_size = length data, te_data = data\<rparr>)"

definition mode_444 :: nat where
  "mode_444 = 4 * 64 + 4 * 8 + 4"

definition mode_644 :: nat where
  "mode_644 = 6 * 64 + 4 * 8 + 4"

definition blob_path :: "string \<Rightarrow> string" where
  "blob_path dgst = ''blobs/sha256/'' @ dgst"

definition layer_media_type :: "string \<Rightarrow> media_type" where
  "layer_media_type mt = (if mt \<noteq> [] then OtherType mt else ImageLayer)"

text \<open>One round of the loop over the layers.\<close>

definition build_layer ::
  "'w oci_env \<Rightarrow> path \<times> string \<Rightarrow> (string \<times> blob_descriptor) list \<times> string list \<Rightarrow>
   ('w, (string \<times> blob_descriptor) list \<times> string list) tar_act" where
  "build_layer E layer acc =
     (case (layer, acc) of ((p, mt), (layer_digests, paths)) \<Rightarrow>
      act_bind (ctx_err ''failed to digest layer'' (in_ts_world (oe_try_digest E p))) (\<lambda>dgst.
      act_bind (ctx_err ''could not get layer metadata'' (in_ts_world (oe_metadata_len E p))) (\<lambda>len.
      act_bind (lift_res (oe_parse_digest E (''sha256:'' @ dgst))) (\<lambda>d.
      let desc = \<lparr>bl_media_type = layer_media_type mt, bl_digest = d, bl_size = len\<rparr>;
          layer_digests = AList.update (''sha256:'' @ dgst) desc layer_digests in
      act_bind (tar_set_path E ''could not set path for layer'' (blob_path dgst)) (\<lambda>_.
      act_bind (ctx_err ''could not open layer'' (in_ts_world (oe_read_file E p))) (\<lambda>f.
      act_bind (tar_put E \<lparr>te_path = blob_path dgst, te_mode = mode_444, te_size = len, te_data = f\<rparr>) (\<lambda>_.
      ret (layer_digests, paths @ [blob_path dgst]))))))))"

text \<open>\<open>split(':')[1]\<close> of an image name that contains a colon.\<close>

definition ref_name :: "string \<Rightarrow> string option" where
  "ref_name name =
     (if CHR '':'' \<in> set name then Some (str_split (CHR '':'') name ! 1) else None)"

definition image_annotations :: "string \<Rightarrow> string \<rightharpoonup> string" where
  "image_annotations name =
     (case ref_name name of
        Some r \<Rightarrow> Map.empty(''org.opencontainers.image.ref.name'' \<mapsto> r)
      | None \<Rightarrow> Map.empty)(''io.containerd.image.name'' \<mapsto> name)"

text \<open>One round of the loop over the configurations.\<close>

definition build_config ::
  "'w oci_env \<Rightarrow> 'c oci_config \<Rightarrow> (string \<times> blob_descriptor) list \<Rightarrow> 'c \<times> string \<times> media_type \<Rightarrow>
   docker_manifest \<times> index_entry list \<Rightarrow> ('w, docker_manifest \<times> index_entry list) tar_act" where
  "build_config E C layer_digests config acc =
     (case (config, acc) of ((conf, name, mt), (mfst, manifests)) \<Rightarrow>
      act_bind (lift_res (case oc_to_string C conf of Err e \<Rightarrow> Panic e | r \<Rightarrow> r)) (\<lambda>s.
      let b = as_bytes s; dgst = oe_digest E b in
      act_bind (tar_append E ''could not set path for config'' (blob_path dgst) mode_444 b) (\<lambda>_.
      act_bind (lift_res (oe_parse_digest E (''sha256:'' @ dgst))) (\<lambda>d.
      let manifest = \<lparr>im_layers = map snd layer_digests,
            im_config = \<lparr>bl_media_type = mt, bl_digest = d, bl_size = length b\<rparr>,
            im_annotations = image_annotations name\<rparr> in
      act_bind (ctx_err ''failed to serialize manifest'' (lift_res (oe_manifest_json E manifest))) (\<lambda>ms.
      let mb = as_bytes ms; mdgst = oe_digest E mb in
      act_bind (tar_append E ''could not set path for manifest'' (blob_path mdgst) mode_444 mb) (\<lambda>_.
      act_bind (lift_res (oe_parse_digest E (''sha256:'' @ mdgst))) (\<lambda>md.
      ret (mfst\<lparr>dm_config := blob_path dgst, dm_repo_tags := dm_repo_tags mfst @ [name]\<rparr>,
           manifests @ [\<lparr>ix_manifest = \<lparr>bl_media_type = ImageManifest, bl_digest = md, bl_size = length mb\<rparr>,
              ix_os = oc_os C conf, ix_architecture = oc_architecture C conf,
              ix_annotations = image_annotations name\<rparr>]))))))))"

text \<open>The end of the archive: the index, the layout and the manifest of \<open>docker load\<close>.\<close>

definition build_trailer ::
  "'w oci_env \<Rightarrow> docker_manifest \<Rightarrow> index_entry list \<Rightarrow> ('w, unit) tar_act" where
  "build_trailer E mfst manifests =
      act_bind (ctx_err ''failed to serialize index'' (lift_res (oe_index_json E manifests))) (\<lambda>s.
      act_bind (tar_append E ''could not set path to index.json'' ''index.json'' mode_644 (as_bytes s)) (\<lambda>_.
      act_bind (ctx_err ''failed to serialize oci-layout'' (lift_res (oe_layout_json E ''1.0.0''))) (\<lambda>s.
      act_bind (tar_append E ''could not set path for oci-layout file'' ''oci-layout'' mode_644 (as_bytes s)) (\<lambda>_.
      act_bind (ctx_err ''failed to serialize manifest'' (lift_res (oe_docker_json E [mfst]))) (\<lambda>s.
      act_bind (tar_append E [] ''manifest.json'' mode_644 (as_bytes s)) (\<lambda>_.
      in_ts_world (oe_finish E)))))))"

definition build :: "'w oci_env \<Rightarrow> 'c oci_config \<Rightarrow> 'c builder \<Rightarrow> ('w, unit) tar_act" where
  "build E C b =
     (if 1 < length (bd_configs b) then throw ''only one config is supported''
      else
      act_bind (fold_act (build_layer E) (bd_layers b) ([], [])) (\<lambda>(layer_digests, paths).
      act_bind (fold_act (build_config E C layer_digests) (bd_configs b)
         (\<lparr>dm_config = [], dm_repo_tags = [], dm_layers = paths\<rparr>, [])) (\<lambda>(mfst, manifests).
      build_trailer E mfst manifests)))"

section \<open>The command\<close>

record args =
  ar_out_path :: "path option"
  ar_name :: string
  ar_tag :: string
  ar_repo :: string
  ar_module :: "path list"
  ar_layer :: "string list"
  ar_components :: "path option"
  ar_as_artifact :: bool

text \<open>The two configurations: what the command fills in of an image configuration, and the configuration \<open>oci_wasm\<close> makes.\<close>

record image_configuration =
  ic_entrypoint :: "string list"
  ic_labels :: "string \<rightharpoonup> string"
  ic_os :: string
  ic_architecture :: string
  ic_diff_ids :: "string list"

record wasm_config =
  wcf_os :: string
  wcf_layer_digests :: "string list"

definition image_configuration_impl ::
  "(image_configuration \<Rightarrow> (string, string) res) \<Rightarrow> image_configuration oci_config" where
  "image_configuration_impl to_string_pretty =
     \<lparr>oc_os = ic_os, oc_architecture = ic_architecture, oc_layers = ic_diff_ids, oc_to_string = to_string_pretty\<rparr>"

definition wasm_config_impl :: "string \<Rightarrow> (wasm_config \<Rightarrow> (string, string) res) \<Rightarrow> wasm_config oci_config" where
  "wasm_config_impl wasm_architecture to_string_pretty =
     \<lparr>oc_os = wcf_os, oc_architecture = (\<lambda>_. wasm_architecture), oc_layers = wcf_layer_digests,
      oc_to_string = to_string_pretty\<rparr>"

text \<open>What the command asks of the file system and of \<open>oci_wasm\<close>, beside the builder.\<close>

record 'w cmd_env =
  ce_create :: "path \<Rightarrow> ('w, string, unit) act"
  ce_remove_file :: "path \<Rightarrow> ('w, string, unit) act"
  ce_create_dir_all :: "path \<Rightarrow> ('w, string, unit) act"
  ce_current_dir :: "('w, string, path) act"
  ce_parent :: "path \<Rightarrow> path option"
  ce_read_dir :: "path \<Rightarrow> ('w, string, (string, path) res list) act"
  ce_from_component :: "path \<Rightarrow> ('w, string, wasm_config) act"
  ce_from_module :: "path \<Rightarrow> ('w, string, wasm_config) act"
  ce_print :: "string \<Rightarrow> 'w \<Rightarrow> 'w"
  ce_wasm_config_type :: string
  ce_wasm_layer_type :: string

definition print_line :: "'w cmd_env \<Rightarrow> string \<Rightarrow> ('w, string, unit) act" where
  "print_line X s = (\<lambda>w. (Ok (), ce_print X s w))"

definition image_name :: "args \<Rightarrow> string" where
  "image_name a = ar_repo a @ ''/'' @ ar_name a @ '':'' @ ar_tag a"

text \<open>
  Writing the archive. An error of the builder is printed and the file removed; the fallback
  message is an argument of \<open>unwrap_or\<close> and printed in any case.
\<close>

definition write_archive ::
  "'w cmd_env \<Rightarrow> string \<Rightarrow> path \<Rightarrow> ('w, unit) tar_act \<Rightarrow> ('w, string, unit) act" where
  "write_archive X cleanup_message out_dir m = (\<lambda>w.
     case m \<lparr>ts_entries = [], ts_world = w\<rparr> of
       (Ok _, s) \<Rightarrow> print_line X (''Successfully created oci tar file '' @ out_dir) (ts_world s)
     | (Err e, s) \<Rightarrow>
         act_bind (print_line X (''Building oci tar file '' @ out_dir @ '' failed: '' @ e)) (\<lambda>_.
         act_bind (attempt (ce_remove_file X out_dir)) (\<lambda>_.
         print_line X cleanup_message)) (ts_world s)
     | (Panic p, s) \<Rightarrow> (Panic p, ts_world s)
     | (Blocked, s) \<Rightarrow> (Blocked, ts_world s))"

definition generate_wasm_artifact ::
  "'w cmd_env \<Rightarrow> 'w oci_env \<Rightarrow> wasm_config oci_config \<Rightarrow> args \<Rightarrow> path \<Rightarrow> ('w, string, unit) act" where
  "generate_wasm_artifact X E C a out_dir =
     act_bind (print_line X ''Generating wasm artifact'') (\<lambda>_.
     act_bind
       (case ar_components a of
          Some p \<Rightarrow>
            act_bind (ce_read_dir X p) (\<lambda>paths.
            act_bind (if length paths \<noteq> 1 then print_line X (''Currently only supports a single component file '' @ p) else ret ()) (\<lambda>_.
            act_bind (ce_from_component X p) (\<lambda>conf. ret (conf, p))))
        | None \<Rightarrow>
            act_bind (lift_res (unwrap_option (if ar_module a = [] then None else Some (hd (ar_module a))))) (\<lambda>module_path.
            act_bind (ce_from_module X module_path) (\<lambda>conf. ret (conf, module_path)))) (\<lambda>(conf, p).
     act_bind (print_line X (''Creating oci tar file '' @ out_dir)) (\<lambda>_.
     act_bind (ce_create X out_dir) (\<lambda>_.
     write_archive X ''Failed to clean up oci tar file on error'' out_dir
       (build E C (add_layer_with_media_type p (ce_wasm_layer_type X)
          (add_config conf (image_name a) (OtherType (ce_wasm_config_type X)) builder_default)))))))"

text \<open>A layer given as \<open>type=path\<close>: the first and the last piece.\<close>

definition layer_option :: "string \<Rightarrow> string \<times> path" where
  "layer_option s = (hd (str_split (CHR ''='') s), last (str_split (CHR ''='') s))"

text \<open>Adding a layer and its digest to the list of digests.\<close>

definition add_digested ::
  "'w oci_env \<Rightarrow> path \<times> string \<Rightarrow> 'c builder \<times> string list \<Rightarrow> ('w, string, 'c builder \<times> string list) act" where
  "add_digested E layer acc =
     act_bind (ctx_err ''failed to calculate digest for module'' (oe_try_digest E (fst layer))) (\<lambda>d.
     ret (add_layer_with_media_type (fst layer) (snd layer) (fst acc), snd acc @ [d]))"

definition add_component ::
  "'w cmd_env \<Rightarrow> 'w oci_env \<Rightarrow> (string, path) res \<Rightarrow> 'c builder \<times> string list \<Rightarrow> ('w, string, 'c builder \<times> string list) act" where
  "add_component X E entry acc =
     act_bind (lift_res entry) (\<lambda>p.
     if unwrap_or [] (path_extension p) = ''wasm'' then add_digested E (p, WASM_LAYER_MEDIA_TYPE) acc
     else act_bind (print_line X (''Skipping Unknown file type: '' @ p @ '' with extension '' @ unwrap_or [] (path_extension p))) (\<lambda>_. ret acc))"

definition generate_wasi_image ::
  "'w cmd_env \<Rightarrow> 'w oci_env \<Rightarrow> image_configuration oci_config \<Rightarrow> args \<Rightarrow> path \<Rightarrow> ('w, string, unit) act" where
  "generate_wasi_image X E C a out_dir =
     act_bind (print_line X ''Generating wasm oci image'') (\<lambda>_.
     act_bind (fold_act (\<lambda>m. add_digested E (m, WASM_LAYER_MEDIA_TYPE)) (ar_module a) (builder_default, [])) (\<lambda>acc.
     act_bind (fold_act (\<lambda>l. add_digested E (snd (layer_option l), fst (layer_option l))) (ar_layer a) acc) (\<lambda>acc.
     act_bind
       (case ar_components a of
          Some p \<Rightarrow> act_bind (ce_read_dir X p) (\<lambda>paths. fold_act (add_component X E) paths acc)
        | None \<Rightarrow> ret acc) (\<lambda>(b, layer_digests).
     let conf = \<lparr>ic_entrypoint = [ar_name a @ ''.wasm''],
            ic_labels = [''containerd.runwasi.layers'' \<mapsto> oe_digest E (as_bytes (concat layer_digests))],
            ic_os = ''wasip1'', ic_architecture = ''wasm'', ic_diff_ids = []\<rparr> in
     act_bind (print_line X (''Creating oci tar file '' @ out_dir)) (\<lambda>_.
     act_bind (\<lambda>w. case ce_create X out_dir w of (Err e, w') \<Rightarrow> (Panic e, w') | r \<Rightarrow> r) (\<lambda>_.
     write_archive X ''Failed to remove temporary file'' out_dir
       (build E C (add_config conf (image_name a) ImageConfig b))))))))"

text \<open>\<open>main\<close>: the errors of the two functions are unwrapped.\<close>

definition unwrap_act :: "('w, string, 'a) act \<Rightarrow> ('w, string, 'a) act" where
  "unwrap_act m = (\<lambda>w. case m w of (Err e, w') \<Rightarrow> (Panic e, w') | r \<Rightarrow> r)"

definition builder_main ::
  "'w cmd_env \<Rightarrow> 'w oci_env \<Rightarrow> wasm_config oci_config \<Rightarrow> image_configuration oci_config \<Rightarrow> args \<Rightarrow> ('w, string, unit) act" where
  "builder_main X E WC IC a =
     act_bind
       (case ar_out_path a of
          Some p \<Rightarrow>
            act_bind (lift_res (unwrap_option (ce_parent X p))) (\<lambda>parent.
            act_bind (unwrap_act (ce_create_dir_all X parent)) (\<lambda>_. ret p))
        | None \<Rightarrow> unwrap_act (ce_current_dir X)) (\<lambda>out_dir.
     if ar_module a \<noteq> [] \<and> ar_components a \<noteq> None then print_line X ''Mutually exclusive flags: module and components''
     else if ar_module a = [] \<and> ar_components a = None then print_line X ''Must supply module or components''
     else if ar_as_artifact a then unwrap_act (generate_wasm_artifact X E WC a out_dir)
     else unwrap_act (generate_wasi_image X E IC a out_dir))"

section \<open>Lemmas\<close>

text \<open>
  The files do not change while the archive is written: hashing, measuring and reading a path see
  the same content. A digest that parses prints as it was given.
\<close>

definition stable_files :: "'w oci_env \<Rightarrow> (path \<rightharpoonup> bytes) \<Rightarrow> bool" where
  "stable_files E file \<longleftrightarrow>
     (\<forall>p w g w'. oe_try_digest E p w = (Ok g, w') \<longrightarrow> (\<exists>b. file p = Some b \<and> g = oe_digest E b)) \<and>
     (\<forall>p w n w'. oe_metadata_len E p w = (Ok n, w') \<longrightarrow> (\<exists>b. file p = Some b \<and> n = length b)) \<and>
     (\<forall>p w b w'. oe_read_file E p w = (Ok b, w') \<longrightarrow> file p = Some b) \<and>
     (\<forall>s d. oe_parse_digest E s = Ok d \<longrightarrow> d = s)"

text \<open>The archive has the blob a descriptor is about, under the path of its digest.\<close>

definition is_blob :: "'w oci_env \<Rightarrow> tar_entry \<Rightarrow> blob_descriptor \<Rightarrow> bool" where
  "is_blob E e d \<longleftrightarrow> te_path e = blob_path (oe_digest E (te_data e)) \<and> te_size e = length (te_data e) \<and>
     bl_digest d = ''sha256:'' @ oe_digest E (te_data e) \<and> bl_size d = length (te_data e)"

definition has_blob :: "'w oci_env \<Rightarrow> 'w tar_state \<Rightarrow> blob_descriptor \<Rightarrow> bool" where
  "has_blob E s d \<longleftrightarrow> (\<exists>e \<in> set (ts_entries s). is_blob E e d)"

definition layer_descriptor :: "'w oci_env \<Rightarrow> bytes \<Rightarrow> string \<Rightarrow> blob_descriptor" where
  "layer_descriptor E b mt =
     \<lparr>bl_media_type = layer_media_type mt, bl_digest = ''sha256:'' @ oe_digest E b, bl_size = length b\<rparr>"

text \<open>The descriptors of the layers: in the order the layers were added, one per content.\<close>

definition insert_layer ::
  "'w oci_env \<Rightarrow> (path \<rightharpoonup> bytes) \<Rightarrow> path \<times> string \<Rightarrow> (string \<times> blob_descriptor) list \<Rightarrow> (string \<times> blob_descriptor) list" where
  "insert_layer E file layer ds =
     (let b = unwrap_or [] (file (fst layer)) in
      AList.update (''sha256:'' @ oe_digest E b) (layer_descriptor E b (snd layer)) ds)"

lemma ctx_err_Ok [simp]: "ctx_err msg m s = (Ok a, t) \<longleftrightarrow> m s = (Ok a, t)"
  by (cases "m s"; cases "fst (m s)") (auto simp: ctx_err_def act_map_err_def)

lemma in_ts_world_Ok: "in_ts_world m s = (Ok a, t) \<Longrightarrow> m (ts_world s) = (Ok a, ts_world t) \<and> ts_entries t = ts_entries s"
  by (auto simp: in_ts_world_def split: prod.splits)

lemma tar_put_Ok: "tar_put E e s = (Ok u, t) \<Longrightarrow> ts_entries t = ts_entries s @ [e]"
  by (auto simp: tar_put_def elim!: act_bind_OkE dest!: in_ts_world_Ok)

lemma tar_append_Ok:
  "tar_append E msg p mode data s = (Ok u, t) \<Longrightarrow>
   ts_entries t = ts_entries s @ [\<lparr>te_path = p, te_mode = mode, te_size = length data, te_data = data\<rparr>]"
  by (auto simp: tar_append_def tar_set_path_def elim!: act_bind_OkE dest!: tar_put_Ok)

lemma has_blob_mono: "has_blob E s d \<Longrightarrow> set (ts_entries s) \<subseteq> set (ts_entries t) \<Longrightarrow> has_blob E t d"
  by (auto simp: has_blob_def)

lemma set_update_subset: "set (AList.update k v al) \<subseteq> insert (k, v) (set al)"
  by (induction al) auto

lemma build_layer_Ok:
  assumes "stable_files E file" and "build_layer E (p, mt) (ds, ps) s = (Ok (ds', ps'), t)"
  obtains b where "file p = Some b" and "ds' = insert_layer E file (p, mt) ds"
    and "ts_entries t = ts_entries s @ [\<lparr>te_path = blob_path (oe_digest E b), te_mode = mode_444,
           te_size = length b, te_data = b\<rparr>]"
proof -
  from assms(2) obtain g n f d s1 s2 s4 s5 where
    g: "in_ts_world (oe_try_digest E p) s = (Ok g, s1)" and n: "in_ts_world (oe_metadata_len E p) s1 = (Ok n, s2)"
    and d: "oe_parse_digest E (''sha256:'' @ g) = Ok d"
    and f: "in_ts_world (oe_read_file E p) s2 = (Ok f, s4)"
    and put: "tar_put E \<lparr>te_path = blob_path g, te_mode = mode_444, te_size = n, te_data = f\<rparr> s4 = (Ok (), s5)"
    and t: "t = s5"
    and ds': "ds' = AList.update (''sha256:'' @ g) \<lparr>bl_media_type = layer_media_type mt, bl_digest = d, bl_size = n\<rparr> ds"
    by (auto simp: build_layer_def Let_def tar_set_path_def elim!: act_bind_OkE)
  from assms(1) have st: "\<And>w g w'. oe_try_digest E p w = (Ok g, w') \<Longrightarrow> \<exists>b. file p = Some b \<and> g = oe_digest E b"
    "\<And>w n w'. oe_metadata_len E p w = (Ok n, w') \<Longrightarrow> \<exists>b. file p = Some b \<and> n = length b"
    "\<And>w b w'. oe_read_file E p w = (Ok b, w') \<Longrightarrow> file p = Some b"
    "\<And>s d. oe_parse_digest E s = Ok d \<Longrightarrow> d = s"
    unfolding stable_files_def by blast+
  from st(3) f have b: "file p = Some f" by (blast dest: in_ts_world_Ok)
  from st(1) g b have "g = oe_digest E f" by (force dest: in_ts_world_Ok)
  moreover from st(2) n b have "n = length f" by (force dest: in_ts_world_Ok)
  moreover from st(4) d have "d = ''sha256:'' @ g" by blast
  moreover have "ts_entries s4 = ts_entries s" using g n f by (auto dest!: in_ts_world_Ok)
  ultimately show thesis
    using that [OF b] tar_put_Ok [OF put] ds' t by (simp add: insert_layer_def layer_descriptor_def b Let_def)
qed

lemma build_layers_Ok:
  assumes "stable_files E file" and "fold_act (build_layer E) ls (ds, ps) s = (Ok (ds', ps'), t)"
    and "\<forall>(k, d) \<in> set ds. has_blob E s d"
  shows "ds' = fold (insert_layer E file) ls ds \<and> (\<forall>(k, d) \<in> set ds'. has_blob E t d)"
  using assms(2,3)
proof (induction ls arbitrary: ds ps s)
  case (Cons l ls)
  obtain p mt where l: "l = (p, mt)" by (cases l)
  from Cons.prems(1) obtain ds1 ps1 s1 where one: "build_layer E (p, mt) (ds, ps) s = (Ok (ds1, ps1), s1)"
    and rest: "fold_act (build_layer E) ls (ds1, ps1) s1 = (Ok (ds', ps'), t)"
    by (auto simp: l elim!: act_bind_OkE)
  from assms(1) one obtain b where b: "file p = Some b" and ds1: "ds1 = insert_layer E file (p, mt) ds"
    and e: "ts_entries s1 = ts_entries s @ [\<lparr>te_path = blob_path (oe_digest E b), te_mode = mode_444,
           te_size = length b, te_data = b\<rparr>]"
    by (rule build_layer_Ok)
  have "has_blob E s1 (layer_descriptor E b mt)"
    by (simp add: has_blob_def is_blob_def e layer_descriptor_def)
  moreover have "has_blob E s1 d" if "has_blob E s d" for d
    using that by (rule has_blob_mono) (auto simp: e)
  moreover have "set ds1 \<subseteq> insert (''sha256:'' @ oe_digest E b, layer_descriptor E b mt) (set ds)"
    using set_update_subset by (simp add: ds1 insert_layer_def b Let_def)
  ultimately have "\<forall>(k, d) \<in> set ds1. has_blob E s1 d" using Cons.prems(2) by fastforce
  from Cons.IH [OF rest this] show ?case by (simp add: l ds1)
qed simp

lemma build_config_Ok:
  assumes "\<And>s d. oe_parse_digest E s = Ok d \<Longrightarrow> d = s"
    and "build_config E C ds (conf, name, mt) (mfst, []) s = (Ok (mfst', idx), t)"
  obtains manifest ms entry where "oe_manifest_json E manifest = Ok ms" and "idx = [entry]"
    and "im_layers manifest = map snd ds" and "has_blob E t (im_config manifest)" and "has_blob E t (ix_manifest entry)"
    and "bl_digest (ix_manifest entry) = ''sha256:'' @ oe_digest E (as_bytes ms)"
    and "set (ts_entries s) \<subseteq> set (ts_entries t)"
proof -
  let ?md = "\<lambda>d n. \<lparr>im_layers = map snd ds, im_config = \<lparr>bl_media_type = mt, bl_digest = d, bl_size = n\<rparr>,
      im_annotations = image_annotations name\<rparr>"
  let ?ix = "\<lambda>d n. \<lparr>ix_manifest = \<lparr>bl_media_type = ImageManifest, bl_digest = d, bl_size = n\<rparr>,
      ix_os = oc_os C conf, ix_architecture = oc_architecture C conf, ix_annotations = image_annotations name\<rparr>"
  from assms(2) obtain c b ms mb d md s1 where b: "b = as_bytes c"
    and one: "tar_append E ''could not set path for config'' (blob_path (oe_digest E b)) mode_444 b s = (Ok (), s1)"
    and d: "oe_parse_digest E (''sha256:'' @ oe_digest E b) = Ok d"
    and ms: "oe_manifest_json E (?md d (length b)) = Ok ms" and mb: "mb = as_bytes ms"
    and two: "tar_append E ''could not set path for manifest'' (blob_path (oe_digest E mb)) mode_444 mb s1 = (Ok (), t)"
    and md: "oe_parse_digest E (''sha256:'' @ oe_digest E mb) = Ok md" and idx: "idx = [?ix md (length mb)]"
    by (auto simp: build_config_def Let_def elim!: act_bind_OkE)
  note digests = assms(1) [OF d] assms(1) [OF md]
  note entries = tar_append_Ok [OF one] tar_append_Ok [OF two]
  show thesis
    by (rule that [OF ms idx]) (auto simp: has_blob_def is_blob_def entries digests mb)
qed

section \<open>Properties\<close>

text \<open>
  C34. The archive is self-contained. When the files do not change under the builder and \<open>build\<close>
  succeeds with a configuration, the index of the archive names one manifest, that manifest is in
  the archive, and so are the configuration and every layer the manifest names: each under the
  path of its digest, with the size its descriptor says. The layers of the manifest are those that
  were added, in that order, the same content once.
\<close>

theorem archive_is_closed:
  assumes "stable_files E file" and "bd_configs b = [(conf, name, mt)]" and "build E C b s0 = (Ok (), s)"
  shows "\<exists>manifest ms entry js e. oe_index_json E [entry] = Ok js \<and> e \<in> set (ts_entries s) \<and>
    te_path e = ''index.json'' \<and> te_data e = as_bytes js \<and> te_size e = length (te_data e) \<and>
    has_blob E s (ix_manifest entry) \<and>
    oe_manifest_json E manifest = Ok ms \<and> bl_digest (ix_manifest entry) = ''sha256:'' @ oe_digest E (as_bytes ms) \<and>
    has_blob E s (im_config manifest) \<and> (\<forall>l \<in> set (im_layers manifest). has_blob E s l) \<and>
    im_layers manifest = map snd (fold (insert_layer E file) (bd_layers b) [])"
proof -
  from assms(2,3) obtain ds ps s1 mfst idx s2 js s3 s5 s7 js2 js3 where
    layers: "fold_act (build_layer E) (bd_layers b) ([], []) s0 = (Ok (ds, ps), s1)"
    and config: "build_config E C ds (conf, name, mt) (\<lparr>dm_config = [], dm_repo_tags = [], dm_layers = ps\<rparr>, []) s1 =
        (Ok (mfst, idx), s2)"
    and js: "oe_index_json E idx = Ok js"
    and s3: "tar_append E ''could not set path to index.json'' ''index.json'' mode_644 (as_bytes js) s2 = (Ok (), s3)"
    and s5: "tar_append E ''could not set path for oci-layout file'' ''oci-layout'' mode_644 (as_bytes js2) s3 = (Ok (), s5)"
    and s7: "tar_append E [] ''manifest.json'' mode_644 (as_bytes js3) s5 = (Ok (), s7)"
    and fin: "in_ts_world (oe_finish E) s7 = (Ok (), s)"
    by (auto simp: build_def build_trailer_def elim!: act_bind_OkE)
  have parse: "\<And>s d. oe_parse_digest E s = Ok d \<Longrightarrow> d = s"
    using assms(1) unfolding stable_files_def by blast
  from parse config obtain manifest ms entry where ms: "oe_manifest_json E manifest = Ok ms" and idx: "idx = [entry]"
    and ls: "im_layers manifest = map snd ds" and cb: "has_blob E s2 (im_config manifest)"
    and mb: "has_blob E s2 (ix_manifest entry)"
    and md: "bl_digest (ix_manifest entry) = ''sha256:'' @ oe_digest E (as_bytes ms)"
    and sub: "set (ts_entries s1) \<subseteq> set (ts_entries s2)"
    by (rule build_config_Ok)
  have ds: "ds = fold (insert_layer E file) (bd_layers b) []" and lb: "\<forall>(k, d) \<in> set ds. has_blob E s1 d"
    using build_layers_Ok [OF assms(1) layers] by simp_all
  have entries: "ts_entries s = ts_entries s7" using fin by (simp add: in_ts_world_Ok)
  note appended = entries tar_append_Ok [OF s3] tar_append_Ok [OF s5] tar_append_Ok [OF s7]
  have mono: "has_blob E s d" if "has_blob E s2 d" for d
    using that by (rule has_blob_mono) (auto simp: appended)
  let ?e = "\<lparr>te_path = ''index.json'', te_mode = mode_644, te_size = length (as_bytes js), te_data = as_bytes js\<rparr>"
  have "?e \<in> set (ts_entries s)" by (simp add: appended)
  moreover have "\<forall>l \<in> set (im_layers manifest). has_blob E s l"
    using lb sub mono by (force simp: ls intro: has_blob_mono)
  ultimately show ?thesis
    using js idx ms md mono [OF cb] mono [OF mb] ls ds
    by (intro exI [of _ manifest] exI [of _ ms] exI [of _ entry] exI [of _ js] exI [of _ ?e]) simp
qed

definition demo_file :: "path \<rightharpoonup> bytes" where
  "demo_file p = (if p = ''/m.wasm'' then Some [1, 2] else None)"

definition demo_oci :: "unit oci_env" where
  "demo_oci =
     \<lparr>oe_try_digest = (\<lambda>p. lift_res (ok_or ''missing'' (map_option (\<lambda>b. show_nat (length b)) (demo_file p)))),
      oe_metadata_len = (\<lambda>p. lift_res (ok_or ''missing'' (map_option length (demo_file p)))),
      oe_read_file = (\<lambda>p. lift_res (ok_or ''missing'' (demo_file p))),
      oe_write = (\<lambda>_. ret ()), oe_finish = ret (), oe_digest = (\<lambda>b. show_nat (length b)), oe_parse_digest = Ok,
      oe_set_path = (\<lambda>_. Ok ()), oe_manifest_json = (\<lambda>m. Ok ''{manifest}''), oe_index_json = (\<lambda>_. Ok ''{}''),
      oe_layout_json = Ok, oe_docker_json = (\<lambda>_. Ok ''[]'')\<rparr>"

definition demo_oci_config :: "string oci_config" where
  "demo_oci_config = \<lparr>oc_os = (\<lambda>_. ''wasip1''), oc_architecture = (\<lambda>_. ''wasm''), oc_layers = (\<lambda>_. []), oc_to_string = Ok\<rparr>"

definition demo_builder :: "string builder" where
  "demo_builder = add_config ''config'' ''r/n:t'' ImageConfig
     (add_layer ''/m.wasm'' (add_layer_with_media_type ''/m.wasm'' WASM_LAYER_MEDIA_TYPE builder_default))"

theorem archive_is_closed_witness:
  "\<exists>(manifest :: image_manifest) s. build demo_oci demo_oci_config demo_builder \<lparr>ts_entries = [], ts_world = ()\<rparr> = (Ok (), s) \<and>
     has_blob demo_oci s (im_config manifest) \<and> (\<forall>l \<in> set (im_layers manifest). has_blob demo_oci s l) \<and>
     map bl_digest (im_layers manifest) = [''sha256:2'']"
proof -
  let ?r = "build demo_oci demo_oci_config demo_builder \<lparr>ts_entries = [], ts_world = ()\<rparr>"
  have layers: "bd_layers demo_builder = [(''/m.wasm'', WASM_LAYER_MEDIA_TYPE), (''/m.wasm'', [])]"
    by (simp add: demo_builder_def add_config_def add_layer_def add_layer_with_media_type_def builder_default_def)
  have st: "stable_files demo_oci demo_file"
    unfolding stable_files_def by (auto simp: demo_oci_def ok_or.simps split: option.splits elim: ok_or.elims)
  have cfg: "bd_configs demo_builder = [(''config'', ''r/n:t'', ImageConfig)]"
    by (simp add: demo_builder_def add_config_def add_layer_def add_layer_with_media_type_def builder_default_def)
  have "fst ?r = Ok ()"
    by (simp add: build_def build_trailer_def cfg layers build_layer_def build_config_def tar_append_def tar_put_def tar_set_path_def
        in_ts_world_def ctx_err_def act_map_err_def act_bind_def demo_oci_def demo_file_def demo_oci_config_def Let_def)
  then obtain s where r: "?r = (Ok (), s)" by (metis prod.collapse)
  have "show_nat 2 = ''2''" by code_simp
  then have digests: "map bl_digest (map snd (fold (insert_layer demo_oci demo_file) (bd_layers demo_builder) [])) = [''sha256:2'']"
    by (simp add: layers insert_layer_def layer_descriptor_def demo_oci_def demo_file_def Let_def numeral_2_eq_2)
  from archive_is_closed [OF st cfg r] obtain manifest :: image_manifest where "has_blob demo_oci s (im_config manifest)"
    and "\<forall>l \<in> set (im_layers manifest). has_blob demo_oci s l"
    and "im_layers manifest = map snd (fold (insert_layer demo_oci demo_file) (bd_layers demo_builder) [])"
    by (elim exE conjE) blast
  with r digests show ?thesis by (intro exI [of _ manifest] exI [of _ s]) simp
qed

text \<open>
  The reference name an image is annotated with: the tag of the image when the repository has
  no port, but when the repository names a registry with a port it is what stands between the two
  colons (the port and the path), and the tag is lost.
\<close>

lemma ref_name_of_image:
  assumes "CHR '':'' \<notin> set (host @ port @ ar_name a @ ar_tag a)"
  shows "(ar_repo a = host \<longrightarrow> ref_name (image_name a) = Some (ar_tag a)) \<and>
    (ar_repo a = host @ '':'' @ port \<longrightarrow> ref_name (image_name a) = Some (port @ ''/'' @ ar_name a))"
proof -
  have "str_split (CHR '':'') (host @ ''/'' @ ar_name a @ '':'' @ ar_tag a) = [host @ ''/'' @ ar_name a, ar_tag a]"
    using assms str_split_append_sep [of "CHR '':''" "host @ ''/'' @ ar_name a" "ar_tag a"] by (simp add: str_split_single)
  moreover have "str_split (CHR '':'') (host @ '':'' @ port @ ''/'' @ ar_name a @ '':'' @ ar_tag a) =
      [host, port @ ''/'' @ ar_name a, ar_tag a]"
    using assms str_split_append_sep [of "CHR '':''" host "port @ ''/'' @ ar_name a @ '':'' @ ar_tag a"]
      str_split_append_sep [of "CHR '':''" "port @ ''/'' @ ar_name a" "ar_tag a"]
    by (simp add: str_split_single)
  ultimately show ?thesis by (auto simp: ref_name_def image_name_def)
qed

lemma ref_name_of_image_witness:
  "ref_name (image_name \<lparr>ar_out_path = None, ar_name = ''app'', ar_tag = ''v1'', ar_repo = ''localhost:5000'',
     ar_module = [], ar_layer = [], ar_components = None, ar_as_artifact = False\<rparr>) = Some ''5000/app''"
  using ref_name_of_image [of "''localhost''" "''5000''" "\<lparr>ar_out_path = None, ar_name = ''app'', ar_tag = ''v1'',
     ar_repo = ''localhost:5000'', ar_module = [], ar_layer = [], ar_components = None, ar_as_artifact = False\<rparr>"]
  by simp

end
