(* ===== verification/Stress_Run.thy ===== *)
theory Stress_Run
  imports Sync
begin

text \<open>
  \<open>stress-test/src/main.rs\<close>: the run of the stress test, \<open>count\<close> tasks that prepare their bundles,
  meet at a barrier and then go through create, start, wait and delete with at most \<open>permits\<close> of
  them between the first and the second, and the loop that collects their results.

  The futures interleave, so the run is a step relation. \<open>Barrier\<close> is the number of arrivals, of
  which \<open>count + 1\<close> open it; \<open>Semaphore\<close> is the number of free permits; an early return of a
  task drops its permit. Whether an operation of a task succeeds is not determined. A task that
  has ended remembers whether it got past its preparation. The guard \<open>setup_done.is_terminated()\<close>
  of the timeout is \<open>st_setup_done\<close>. The messages printed are left out.
\<close>

section \<open>State\<close>

datatype phase =
    Preparing | AtBarrier | WantPermit | Creating | Starting | WaitingTask | DeletingTask
  | Ended bool bool | Reported bool bool

datatype stress_end = TimeoutEnd | CancelledEnd | AllDone

record stress =
  st_phases :: "phase list"
  st_free :: nat
  st_arrived :: nat
  st_main_arrived :: bool
  st_setup_done :: bool
  st_start :: bool
  st_incomplete :: nat
  st_success :: nat
  st_failed :: nat
  st_end :: "stress_end option"

definition permits_of :: "nat \<Rightarrow> nat \<Rightarrow> nat" where
  "permits_of parallel count = (if parallel = 0 then count else parallel)"

definition stress_init :: "nat \<Rightarrow> nat \<Rightarrow> stress" where
  "stress_init parallel count =
     \<lparr>st_phases = replicate count Preparing, st_free = permits_of parallel count, st_arrived = 0,
      st_main_arrived = False, st_setup_done = False, st_start = False, st_incomplete = count,
      st_success = 0, st_failed = 0, st_end = None\<rparr>"

definition st_at :: "stress \<Rightarrow> nat \<Rightarrow> phase \<Rightarrow> bool" where
  "st_at s i p \<longleftrightarrow> i < length (st_phases s) \<and> st_phases s ! i = p"

definition st_move :: "nat \<Rightarrow> phase \<Rightarrow> stress \<Rightarrow> stress" where
  "st_move i p s = s\<lparr>st_phases := (st_phases s)[i := p]\<rparr>"

definition barrier_open :: "stress \<Rightarrow> bool" where
  "barrier_open s \<longleftrightarrow> st_arrived s = length (st_phases s) + 1"

section \<open>Steps\<close>

text \<open>A task moves on by itself.\<close>

inductive task_step :: "stress \<Rightarrow> stress \<Rightarrow> bool" where
  prepared: "st_at s i Preparing \<Longrightarrow> task_step s (st_move i AtBarrier (s\<lparr>st_arrived := st_arrived s + 1\<rparr>))"
| prepare_fails: "st_at s i Preparing \<Longrightarrow> task_step s (st_move i (Ended False False) s)"
| pass_barrier: "st_at s i AtBarrier \<Longrightarrow> barrier_open s \<Longrightarrow> task_step s (st_move i WantPermit s)"
| acquire: "st_at s i WantPermit \<Longrightarrow> 0 < st_free s \<Longrightarrow>
    task_step s (st_move i Creating (s\<lparr>st_free := st_free s - 1, st_start := True\<rparr>))"
| created: "st_at s i Creating \<Longrightarrow> task_step s (st_move i Starting s)"
| create_fails: "st_at s i Creating \<Longrightarrow> task_step s (st_move i (Ended True False) (s\<lparr>st_free := st_free s + 1\<rparr>))"
| started: "st_at s i Starting \<Longrightarrow> task_step s (st_move i WaitingTask (s\<lparr>st_free := st_free s + 1\<rparr>))"
| start_fails: "st_at s i Starting \<Longrightarrow> task_step s (st_move i (Ended True False) (s\<lparr>st_free := st_free s + 1\<rparr>))"
| waited: "st_at s i WaitingTask \<Longrightarrow> task_step s (st_move i DeletingTask s)"
| wait_fails: "st_at s i WaitingTask \<Longrightarrow> task_step s (st_move i (Ended True False) s)"
| deleted: "st_at s i DeletingTask \<Longrightarrow> task_step s (st_move i (Ended True True) s)"
| delete_fails: "st_at s i DeletingTask \<Longrightarrow> task_step s (st_move i (Ended True False) s)"

text \<open>The collecting loop moves on: it arrives at the barrier, passes it, takes a result, or finds no task left.\<close>

inductive loop_step :: "stress \<Rightarrow> stress \<Rightarrow> bool" where
  main_arrives: "\<not> st_main_arrived s \<Longrightarrow>
    loop_step s (s\<lparr>st_main_arrived := True, st_arrived := st_arrived s + 1\<rparr>)"
| setup_done: "st_main_arrived s \<Longrightarrow> barrier_open s \<Longrightarrow> \<not> st_setup_done s \<Longrightarrow> loop_step s (s\<lparr>st_setup_done := True\<rparr>)"
| take_ok: "st_at s i (Ended a True) \<Longrightarrow>
    loop_step s (st_move i (Reported a True) (s\<lparr>st_incomplete := st_incomplete s - 1, st_success := st_success s + 1\<rparr>))"
| take_err: "st_at s i (Ended a False) \<Longrightarrow>
    loop_step s (st_move i (Reported a False) (s\<lparr>st_incomplete := st_incomplete s - 1, st_failed := st_failed s + 1\<rparr>))"
| none_left: "\<forall>p \<in> set (st_phases s). \<exists>a ok. p = Reported a ok \<Longrightarrow> loop_step s (s\<lparr>st_end := Some AllDone\<rparr>)"

text \<open>The loop is left by the timeout, once the setup is done, or by the user.\<close>

inductive abort_step :: "duration \<Rightarrow> stress \<Rightarrow> stress \<Rightarrow> bool" for t where
  timeout: "st_setup_done s \<Longrightarrow> t \<noteq> DurationZero \<Longrightarrow> abort_step t s (s\<lparr>st_end := Some TimeoutEnd\<rparr>)"
| ctrl_c: "abort_step t s (s\<lparr>st_end := Some CancelledEnd\<rparr>)"

definition stress_step :: "duration \<Rightarrow> stress \<Rightarrow> stress \<Rightarrow> bool" where
  "stress_step t s u \<longleftrightarrow> st_end s = None \<and> (task_step s u \<or> loop_step s u \<or> abort_step t s u)"

inductive stress_reach :: "duration \<Rightarrow> nat \<Rightarrow> nat \<Rightarrow> stress \<Rightarrow> bool" for t parallel count where
  init: "stress_reach t parallel count (stress_init parallel count)"
| step: "stress_reach t parallel count s \<Longrightarrow> stress_step t s u \<Longrightarrow> stress_reach t parallel count u"

text \<open>What the run returns after the loop.\<close>

definition stress_result :: "nat \<Rightarrow> stress \<Rightarrow> (string, unit) res" where
  "stress_result count s =
     (if st_success s \<noteq> count then Err ''Some tasks did not succeed''
      else if st_start s then Ok ()
      else Panic ''called `Option::unwrap()` on a `None` value'')"


section \<open>The invariant\<close>

fun arrived :: "phase \<Rightarrow> bool" where
  "arrived Preparing = False"
| "arrived (Ended a _) = a"
| "arrived (Reported a _) = a"
| "arrived _ = True"

fun holds_permit :: "phase \<Rightarrow> bool" where
  "holds_permit Creating = True"
| "holds_permit Starting = True"
| "holds_permit _ = False"

fun past_barrier :: "phase \<Rightarrow> bool" where
  "past_barrier Preparing = False"
| "past_barrier AtBarrier = False"
| "past_barrier (Ended a _) = a"
| "past_barrier (Reported a _) = a"
| "past_barrier _ = True"

fun got_permit :: "phase \<Rightarrow> bool" where
  "got_permit WantPermit = False"
| "got_permit p = past_barrier p"

fun phase_ok :: "phase \<Rightarrow> bool" where
  "phase_ok (Ended a ok) = (ok \<longrightarrow> a)"
| "phase_ok (Reported a ok) = (ok \<longrightarrow> a)"
| "phase_ok _ = True"

fun reported :: "phase \<Rightarrow> bool" where
  "reported (Reported _ _) = True"
| "reported _ = False"

fun succeeded :: "phase \<Rightarrow> bool" where
  "succeeded (Reported _ ok) = ok"
| "succeeded _ = False"

definition num :: "(phase \<Rightarrow> bool) \<Rightarrow> stress \<Rightarrow> nat" where
  "num P s = length (filter P (st_phases s))"

definition stress_inv :: "nat \<Rightarrow> nat \<Rightarrow> stress \<Rightarrow> bool" where
  "stress_inv parallel count s \<longleftrightarrow>
     length (st_phases s) = count \<and>
     st_free s + num holds_permit s = permits_of parallel count \<and>
     st_arrived s = num arrived s + (if st_main_arrived s then 1 else 0) \<and>
     st_success s = num succeeded s \<and> st_failed s + st_success s = num reported s \<and>
     st_incomplete s + num reported s = count \<and>
     (0 < num past_barrier s \<longrightarrow> barrier_open s) \<and> (st_setup_done s \<longrightarrow> barrier_open s) \<and>
     (0 < num got_permit s \<longleftrightarrow> st_start s) \<and>
     list_all phase_ok (st_phases s) \<and>
     (st_end s = Some AllDone \<longrightarrow> num reported s = count) \<and>
     (st_end s = Some TimeoutEnd \<longrightarrow> st_setup_done s)"

lemma num_move:
  assumes "st_at s i p" and "st_phases u = st_phases s"
  shows "num P (st_move i q u) + of_bool (P p) = num P s + of_bool (P q)"
proof -
  have i: "i < length (st_phases s)" and p: "st_phases s ! i = p" using assms(1) by (auto simp: st_at_def)
  let ?a = "take i (st_phases s)" and ?b = "drop (Suc i) (st_phases s)"
  have "length (filter P (st_phases s)) = length (filter P (?a @ p # ?b))" using id_take_nth_drop [OF i] p by simp
  moreover have "st_phases (st_move i q u) = ?a @ q # ?b"
    using i assms(2) by (simp add: st_move_def upd_conv_take_nth_drop)
  ultimately show ?thesis by (simp add: num_def)
qed

lemma st_move_simps [simp]:
  "length (st_phases (st_move i p s)) = length (st_phases s)" "st_free (st_move i p s) = st_free s"
  "st_arrived (st_move i p s) = st_arrived s" "st_main_arrived (st_move i p s) = st_main_arrived s"
  "st_setup_done (st_move i p s) = st_setup_done s" "st_start (st_move i p s) = st_start s"
  "st_incomplete (st_move i p s) = st_incomplete s" "st_success (st_move i p s) = st_success s"
  "st_failed (st_move i p s) = st_failed s" "st_end (st_move i p s) = st_end s"
  by (simp_all add: st_move_def)

lemma num_cong [simp]:
  "num P (s\<lparr>st_free := a\<rparr>) = num P s" "num P (s\<lparr>st_arrived := a\<rparr>) = num P s"
  "num P (s\<lparr>st_main_arrived := b\<rparr>) = num P s" "num P (s\<lparr>st_setup_done := b\<rparr>) = num P s"
  "num P (s\<lparr>st_start := b\<rparr>) = num P s" "num P (s\<lparr>st_incomplete := a\<rparr>) = num P s"
  "num P (s\<lparr>st_success := a\<rparr>) = num P s" "num P (s\<lparr>st_failed := a\<rparr>) = num P s"
  "num P (s\<lparr>st_end := e\<rparr>) = num P s"
  by (simp_all add: num_def)

lemma num_le: "num P s \<le> length (st_phases s)"
  by (simp add: num_def)

lemma num_less: "st_at s i p \<Longrightarrow> \<not> P p \<Longrightarrow> num P s < length (st_phases s)"
  unfolding num_def st_at_def by (rule length_filter_less [of "st_phases s ! i"]) auto

lemma num_pos: "st_at s i p \<Longrightarrow> P p \<Longrightarrow> 0 < num P s"
  by (force simp: num_def st_at_def filter_empty_conv)

lemma phase_ok_move:
  assumes "st_phases u = st_phases s" and "list_all phase_ok (st_phases s)" and "phase_ok q"
  shows "list_all phase_ok (st_phases (st_move i q u))"
  using assms set_update_subset_insert [of "st_phases s" i q] by (auto simp: st_move_def list_all_iff)

lemma stress_inv_init: "stress_inv parallel count (stress_init parallel count)"
  by (simp add: stress_inv_def stress_init_def num_def barrier_open_def list_all_iff)

lemma arrived_le: "stress_inv parallel count s \<Longrightarrow> barrier_open s \<Longrightarrow> num arrived s = length (st_phases s) \<and> st_main_arrived s"
  using num_le [of arrived s] by (auto simp: stress_inv_def barrier_open_def split: if_splits)

text \<open>
  A move of one task with the changes of the counters that belong to it keeps the invariant: each
  counter moves by what the two phases contribute to it.
\<close>

lemma stress_inv_move:
  assumes inv: "stress_inv parallel count s" and at: "st_at s i p" and u: "st_phases u = st_phases s"
    and free: "st_free u + of_bool (holds_permit q) = st_free s + of_bool (holds_permit p)"
    and arr: "st_arrived u + of_bool (arrived p) = st_arrived s + of_bool (arrived q)"
    and main: "st_main_arrived u = st_main_arrived s" "st_setup_done u = st_setup_done s"
    and start: "st_start u \<longleftrightarrow> st_start s \<or> got_permit q \<and> \<not> got_permit p"
    and suc: "st_success u + of_bool (succeeded p) = st_success s + of_bool (succeeded q)"
    and rep: "st_failed u + st_success u + of_bool (reported p) = st_failed s + st_success s + of_bool (reported q)"
    and inc: "st_incomplete u + of_bool (reported q) = st_incomplete s + of_bool (reported p)"
    and ok: "phase_ok q" and got: "got_permit p \<longrightarrow> got_permit q" and mono: "arrived p \<longrightarrow> arrived q"
    and past: "past_barrier q \<longrightarrow> past_barrier p \<or> barrier_open s"
    and ends: "st_end s = None" "st_end u = None"
  shows "stress_inv parallel count (st_move i q u)"
proof -
  note n = num_move [OF at u]
  have keep: "barrier_open (st_move i q u)" if "barrier_open s"
  proof -
    have "arrived p" using num_less [OF at, of arrived] arrived_le [OF inv that] by auto
    then show ?thesis using that arr mono u by (simp add: barrier_open_def)
  qed
  have "0 < num past_barrier (st_move i q u) \<longrightarrow> barrier_open s"
    using n [of past_barrier q] past num_pos [OF at, of past_barrier] inv by (cases "past_barrier p") (auto simp: stress_inv_def)
  moreover have "0 < num got_permit (st_move i q u) \<longleftrightarrow> st_start u"
    using n [of got_permit q] start got inv num_pos [OF at, of got_permit]
    by (cases "got_permit p"; cases "got_permit q") (auto simp: stress_inv_def)
  ultimately show ?thesis
    using inv u free arr main suc rep inc ends keep n [of holds_permit q] n [of arrived q] n [of succeeded q] n [of reported q]
      phase_ok_move [of u s q i] ok
    by (simp add: stress_inv_def)
qed

lemma task_step_inv:
  assumes "task_step s u" and "stress_inv parallel count s" and "st_end s = None"
  shows "stress_inv parallel count u"
  using assms
  by (induction rule: task_step.induct) (erule (1) stress_inv_move; simp)+

lemma reported_iff: "(\<forall>p \<in> set (st_phases s). \<exists>a ok. p = Reported a ok) \<longleftrightarrow> num reported s = length (st_phases s)"
proof -
  have "reported p \<longleftrightarrow> (\<exists>a ok. p = Reported a ok)" for p by (cases p) auto
  moreover have "num P s = length (st_phases s) \<longleftrightarrow> (\<forall>p \<in> set (st_phases s). P p)" for P
    unfolding num_def by (metis filter_True length_filter_less less_irrefl)
  ultimately show ?thesis by simp
qed

lemma loop_step_inv:
  assumes "loop_step s u" and "stress_inv parallel count s" and "st_end s = None"
  shows "stress_inv parallel count u"
  using assms
proof (induction rule: loop_step.induct)
  case (main_arrives s)
  then have "\<not> barrier_open s" using arrived_le by blast
  with main_arrives show ?case by (auto simp: stress_inv_def)
next
  case (take_ok s i a)
  have "0 < st_incomplete s"
    using take_ok num_less [OF take_ok(1), of reported] by (simp add: stress_inv_def)
  moreover have "a" using take_ok by (auto simp: stress_inv_def st_at_def list_all_length)
  ultimately show ?case using take_ok(1,2,3) by - (erule (1) stress_inv_move; simp)
next
  case (take_err s i a)
  have "0 < st_incomplete s"
    using take_err num_less [OF take_err(1), of reported] by (simp add: stress_inv_def)
  then show ?case using take_err by - (erule (1) stress_inv_move; simp)
next
  case (none_left s)
  then have "num reported s = count" by (auto simp: reported_iff stress_inv_def)
  with none_left(2) show ?case by (auto simp: stress_inv_def barrier_open_def)
qed (auto simp: stress_inv_def barrier_open_def)

lemma abort_step_inv:
  "abort_step t s u \<Longrightarrow> stress_inv parallel count s \<Longrightarrow> stress_inv parallel count u"
  by (induction rule: abort_step.induct) (auto simp: stress_inv_def barrier_open_def)

lemma stress_step_inv: "stress_step t s u \<Longrightarrow> stress_inv parallel count s \<Longrightarrow> stress_inv parallel count u"
  by (auto simp: stress_step_def intro: task_step_inv loop_step_inv abort_step_inv)

lemma stress_reach_inv: "stress_reach t parallel count s \<Longrightarrow> stress_inv parallel count s"
  by (induction rule: stress_reach.induct) (auto intro: stress_inv_init stress_step_inv)

section \<open>Runs are finite\<close>

fun phase_rank :: "phase \<Rightarrow> nat" where
  "phase_rank Preparing = 8"
| "phase_rank AtBarrier = 7"
| "phase_rank WantPermit = 6"
| "phase_rank Creating = 5"
| "phase_rank Starting = 4"
| "phase_rank WaitingTask = 3"
| "phase_rank DeletingTask = 2"
| "phase_rank (Ended _ _) = 1"
| "phase_rank (Reported _ _) = 0"

definition stress_rank :: "stress \<Rightarrow> nat" where
  "stress_rank s = sum_list (map phase_rank (st_phases s)) + of_bool (\<not> st_main_arrived s) +
     of_bool (\<not> st_setup_done s) + of_bool (st_end s = None)"

lemma phase_rank_move:
  assumes "st_at s i p" and "phase_rank q < phase_rank p" and "st_phases u = st_phases s"
  shows "sum_list (map phase_rank (st_phases (st_move i q u))) < sum_list (map phase_rank (st_phases s))"
proof -
  let ?xs = "st_phases s"
  have i: "i < length ?xs" and p: "?xs ! i = p" using assms(1) by (auto simp: st_at_def)
  have "map phase_rank ?xs ! i \<le> sum_list (map phase_rank ?xs)" using i by (intro elem_le_sum_list) simp
  then have "sum_list (map phase_rank (?xs[i := q])) + phase_rank p = sum_list (map phase_rank ?xs) + phase_rank q"
    using i p by (simp add: map_update sum_list_update)
  with assms(2,3) show ?thesis by (simp add: st_move_def)
qed

lemma stress_rank_move:
  assumes "st_at s i p" and "phase_rank q < phase_rank p" and "st_phases u = st_phases s"
    and "st_main_arrived u = st_main_arrived s" and "st_setup_done u = st_setup_done s" and "st_end u = st_end s"
  shows "stress_rank (st_move i q u) < stress_rank s"
  using phase_rank_move [OF assms(1-3)] assms(4-6) by (simp add: stress_rank_def)

lemma task_step_rank: "task_step s u \<Longrightarrow> stress_rank u < stress_rank s"
  by (induction rule: task_step.induct) (erule stress_rank_move; simp)+

lemma loop_step_rank:
  assumes "loop_step s u" and "st_end s = None"
  shows "stress_rank u < stress_rank s"
  using assms
proof (induction rule: loop_step.induct)
  case (take_ok s i a)
  then show ?case by - (erule stress_rank_move; simp)
next
  case (take_err s i a)
  then show ?case by - (erule stress_rank_move; simp)
qed (simp_all add: stress_rank_def)

lemma abort_step_rank: "abort_step t s u \<Longrightarrow> st_end s = None \<Longrightarrow> stress_rank u < stress_rank s"
  by (induction rule: abort_step.induct) (simp_all add: stress_rank_def)

lemma stress_step_rank: "stress_step t s u \<Longrightarrow> stress_rank u < stress_rank s"
  by (auto simp: stress_step_def intro: task_step_rank loop_step_rank abort_step_rank)

lemma stress_run_rank: "(stress_step t ^^ k) s u \<Longrightarrow> k + stress_rank u \<le> stress_rank s"
proof (induction k arbitrary: u)
  case (Suc k)
  then obtain v where "(stress_step t ^^ k) s v" and "stress_step t v u" by auto
  with Suc.IH [of v] stress_step_rank [of t v u] show ?case by simp
qed simp

section \<open>Progress\<close>

text \<open>A task that failed in its preparation, which never arrives at the barrier.\<close>

fun setup_failed :: "phase \<Rightarrow> bool" where
  "setup_failed (Ended a _) = (\<not> a)"
| "setup_failed (Reported a _) = (\<not> a)"
| "setup_failed _ = False"

lemma all_arrived:
  assumes inv: "stress_inv parallel count s" and "\<And>i. \<not> st_at s i Preparing"
    and "\<And>i p. st_at s i p \<Longrightarrow> \<not> setup_failed p" and "st_main_arrived s"
  shows "barrier_open s"
proof -
  have "arrived p" if "p \<in> set (st_phases s)" for p
  proof -
    obtain i where "st_at s i p" using \<open>p \<in> _\<close> by (auto simp: in_set_conv_nth st_at_def)
    with assms(2) [of i] assms(3) [of i p] show ?thesis by (cases p) auto
  qed
  then have "num arrived s = length (st_phases s)" by (simp add: num_def)
  with inv assms(4) show ?thesis by (simp add: stress_inv_def barrier_open_def)
qed

text \<open>The phases a task can always leave.\<close>

fun can_move :: "phase \<Rightarrow> bool" where
  "can_move AtBarrier = False"
| "can_move WantPermit = False"
| "can_move (Reported _ _) = False"
| "can_move _ = True"

lemma can_move_steps: "st_at s i p \<Longrightarrow> can_move p \<Longrightarrow> \<exists>u. task_step s u \<or> loop_step s u"
proof (cases p)
  case (Ended a ok)
  assume "st_at s i p"
  with Ended show ?thesis by (cases ok) (auto intro: take_ok take_err)
qed (auto intro: task_step.intros)

lemma stress_progress:
  assumes inv: "stress_inv parallel count s" and free: "0 < permits_of parallel count"
    and setup_ok: "\<And>i p. st_at s i p \<Longrightarrow> \<not> setup_failed p"
  shows "\<exists>u. task_step s u \<or> loop_step s u"
proof (rule ccontr)
  assume no: "\<not> ?thesis"
  then have stuck: "\<not> can_move p" if "st_at s i p" for i p using that can_move_steps by blast
  have "st_main_arrived s" using no by (blast intro: main_arrives)
  moreover have "\<not> st_at s i Preparing" for i using stuck by force
  ultimately have "barrier_open s" using inv setup_ok by (blast intro: all_arrived)
  then have nobar: "\<not> st_at s i AtBarrier" for i using no by (blast intro: pass_barrier)
  have "\<not> holds_permit p" if "p \<in> set (st_phases s)" for p
  proof -
    obtain i where "st_at s i p" using \<open>p \<in> _\<close> by (auto simp: in_set_conv_nth st_at_def)
    with stuck [of i p] show ?thesis by (cases p) auto
  qed
  then have "num holds_permit s = 0" by (simp add: num_def filter_empty_conv)
  then have "0 < st_free s" using inv free by (simp add: stress_inv_def)
  then have nowant: "\<not> st_at s i WantPermit" for i using no by (blast intro: acquire)
  have "\<exists>a ok. p = Reported a ok" if "p \<in> set (st_phases s)" for p
  proof -
    obtain i where "st_at s i p" using \<open>p \<in> _\<close> by (auto simp: in_set_conv_nth st_at_def)
    with stuck [of i p] nobar [of i] nowant [of i] show ?thesis by (cases p) auto
  qed
  then show False using no by (blast intro: none_left)
qed

section \<open>A preparation that fails\<close>

text \<open>Some task will never arrive.\<close>

definition missing :: "nat \<Rightarrow> stress \<Rightarrow> bool" where
  "missing i s \<longleftrightarrow> (\<exists>p. st_at s i p \<and> setup_failed p)"

lemma setup_failed_not_arrived: "setup_failed p \<Longrightarrow> \<not> arrived p"
  by (cases p) auto

lemma missing_closed: "stress_inv parallel count s \<Longrightarrow> missing i s \<Longrightarrow> \<not> barrier_open s"
  using num_less arrived_le setup_failed_not_arrived unfolding missing_def by (metis less_irrefl)

lemma st_at_move: "st_phases u = st_phases s \<Longrightarrow> i < length (st_phases s) \<Longrightarrow>
   st_at (st_move i q u) j p \<longleftrightarrow> (if j = i then p = q else st_at s j p)"
  by (auto simp: st_at_def st_move_def)

text \<open>One task will never arrive and another waits for it.\<close>

definition hung :: "nat \<Rightarrow> nat \<Rightarrow> stress \<Rightarrow> bool" where
  "hung i j s \<longleftrightarrow> missing i s \<and> st_at s j AtBarrier"

lemma hung_same: "hung i j s \<Longrightarrow> st_phases v = st_phases s \<Longrightarrow> hung i j v"
  by (simp add: hung_def missing_def st_at_def)

lemma hung_move:
  assumes "st_at s k p" and "hung i j s" and "st_phases v = st_phases s" and "p \<noteq> AtBarrier"
    and "setup_failed p \<longrightarrow> setup_failed q"
  shows "hung i j (st_move k q v)"
proof -
  have "k < length (st_phases s)" and "st_phases s ! k = p" using assms(1) by (auto simp: st_at_def)
  with assms show ?thesis by (auto simp: hung_def missing_def st_at_move) (auto simp: st_at_def)
qed

lemma task_step_hung: "task_step s u \<Longrightarrow> hung i j s \<Longrightarrow> \<not> barrier_open s \<Longrightarrow> hung i j u \<and> st_end u = st_end s"
proof (induction rule: task_step.induct)
qed (auto intro: hung_move)

lemma loop_step_hung: "loop_step s u \<Longrightarrow> hung i j s \<Longrightarrow> hung i j u \<and> st_end u = st_end s"
proof (induction rule: loop_step.induct)
  case (none_left s)
  then have "AtBarrier \<in> set (st_phases s)" by (auto simp: hung_def st_at_def in_set_conv_nth)
  with none_left(1) show ?case by blast
next
  case (main_arrives s)
  then show ?case using hung_same by simp
next
  case (setup_done s)
  then show ?case using hung_same by simp
qed (auto intro: hung_move)

lemma stress_step_hung:
  assumes "stress_step t s u" and inv: "stress_inv parallel count s" and "hung i j s"
  shows "hung i j u \<and> (st_end u = None \<or> st_end u = Some CancelledEnd)"
proof -
  have closed: "\<not> barrier_open s" using missing_closed assms(2,3) unfolding hung_def by blast
  then have "\<not> st_setup_done s" using inv by (simp add: stress_inv_def)
  then have "hung i j u \<and> st_end u = Some CancelledEnd" if "abort_step t s u"
    using that assms(3) by (auto elim!: abort_step.cases intro: hung_same)
  with assms closed show ?thesis
    using task_step_hung [of s u i j] loop_step_hung [of s u i j] by (auto simp: stress_step_def)
qed

lemma stress_run_hung:
  assumes "(stress_step t)\<^sup>*\<^sup>* s u" and "stress_inv parallel count s" and "hung i j s" and "st_end s = None"
  shows "hung i j u \<and> (st_end u = None \<or> st_end u = Some CancelledEnd)"
proof -
  have "stress_inv parallel count u \<and> hung i j u \<and> (st_end u = None \<or> st_end u = Some CancelledEnd)"
    using assms by (induction rule: rtranclp_induct) (auto dest: stress_step_inv stress_step_hung)
  then show ?thesis by blast
qed

section \<open>Properties\<close>

definition all_succeeded :: "stress \<Rightarrow> bool" where
  "all_succeeded s \<longleftrightarrow> list_all succeeded (st_phases s)"

lemma succeeded_got_permit: "succeeded p \<Longrightarrow> phase_ok p \<Longrightarrow> got_permit p"
  by (cases p) auto

lemma num_succeeded: "num succeeded s = length (st_phases s) \<longleftrightarrow> all_succeeded s"
  unfolding num_def all_succeeded_def by (metis filter_True length_filter_less less_irrefl list_all_iff)

text \<open>
  C35. What holds throughout a run of the stress test: at most the configured number of tasks is
  between acquiring its permit and having started; no task is created before every task has its
  bundle; the three counters always add up to the number of tasks. When the loop ends because no
  task is left, the run succeeds if all tasks did, fails if one did not, and panics when there was
  no task to begin with.
\<close>

theorem stress_run_safe:
  assumes "stress_reach t parallel count s"
  shows "num holds_permit s \<le> permits_of parallel count \<and>
    (st_at s i p \<longrightarrow> past_barrier p \<longrightarrow> \<not> st_at s j Preparing) \<and>
    st_incomplete s + st_success s + st_failed s = count \<and>
    (st_end s = Some AllDone \<longrightarrow> stress_result count s =
       (if \<not> all_succeeded s then Err ''Some tasks did not succeed''
        else if count = 0 then Panic ''called `Option::unwrap()` on a `None` value'' else Ok ()))"
proof -
  note inv = stress_reach_inv [OF assms]
  have "\<not> st_at s j Preparing" if "st_at s i p" "past_barrier p"
  proof -
    have "barrier_open s" using inv num_pos [of s i p past_barrier] that by (simp add: stress_inv_def)
    then show ?thesis using arrived_le [OF inv] num_less [of s j Preparing arrived] by auto
  qed
  moreover have "st_start s \<longleftrightarrow> count \<noteq> 0" if "all_succeeded s"
  proof -
    have "num got_permit s = num succeeded s"
      using that inv succeeded_got_permit by (auto simp: num_def all_succeeded_def stress_inv_def list_all_iff intro!: arg_cong [of _ _ length] filter_cong)
    then show ?thesis using inv that num_succeeded [of s] by (auto simp: stress_inv_def)
  qed
  ultimately show ?thesis
    using inv num_succeeded [of s] by (auto simp: stress_inv_def stress_result_def)
qed

text \<open>A run of one task that succeeds.\<close>

definition demo_stress :: "phase \<Rightarrow> stress" where
  "demo_stress p = (stress_init 1 1)\<lparr>st_phases := [p], st_arrived := 1\<rparr>"

lemma demo_stress_prepared: "stress_reach t 1 1 (demo_stress AtBarrier)"
proof -
  have "task_step (stress_init 1 1) (demo_stress AtBarrier)"
    using task_step.prepared [of "stress_init 1 1" 0] by (simp add: st_at_def st_move_def stress_init_def demo_stress_def)
  then show ?thesis by (auto intro!: stress_reach.intros(2) [OF stress_reach.init] simp: stress_step_def stress_init_def)
qed

theorem stress_run_safe_witness:
  "st_incomplete (demo_stress AtBarrier) + st_success (demo_stress AtBarrier) + st_failed (demo_stress AtBarrier) = 1"
  using stress_run_safe [OF demo_stress_prepared] by blast

text \<open>
  C36. The stress test ends: every run has at most \<open>8 * count + 3\<close> steps, and as long as no task
  has failed to prepare its bundle (and there is a permit to give) a run that has not ended can
  always go on without being aborted, so it ends with every task accounted for.
\<close>

theorem stress_run_ends:
  assumes "(stress_step t ^^ k) (stress_init parallel count) s"
  shows "k \<le> 8 * count + 3 \<and>
    (st_end s = None \<longrightarrow> 0 < permits_of parallel count \<longrightarrow> list_all (\<lambda>p. \<not> setup_failed p) (st_phases s) \<longrightarrow>
      (\<exists>u. stress_step t s u \<and> st_end u \<noteq> Some TimeoutEnd \<and> st_end u \<noteq> Some CancelledEnd))"
proof -
  have "stress_rank (stress_init parallel count) = 8 * count + 3"
    by (simp add: stress_rank_def stress_init_def sum_list_replicate)
  then have "k \<le> 8 * count + 3" using stress_run_rank [OF assms] by simp
  moreover have reach: "stress_reach t parallel count s"
    using assms by (induction k arbitrary: s) (auto intro: stress_reach.intros)
  have "\<exists>u. stress_step t s u \<and> st_end u \<noteq> Some TimeoutEnd \<and> st_end u \<noteq> Some CancelledEnd"
    if run: "st_end s = None" "0 < permits_of parallel count" "list_all (\<lambda>p. \<not> setup_failed p) (st_phases s)"
  proof -
    have "\<not> setup_failed p" if "st_at s i p" for i p
      using that run(3) by (auto simp: st_at_def list_all_length)
    then obtain u where u: "task_step s u \<or> loop_step s u"
      using stress_progress [OF stress_reach_inv [OF reach] run(2)] by blast
    then have "st_end u = st_end s \<or> st_end u = Some AllDone"
      by (auto elim!: task_step.cases loop_step.cases)
    with u run(1) show ?thesis by (auto simp: stress_step_def)
  qed
  ultimately show ?thesis by blast
qed

theorem stress_run_ends_witness:
  "\<exists>u. stress_step (DurationMillis 5) (stress_init 0 2) u \<and> st_end u \<noteq> Some TimeoutEnd \<and> st_end u \<noteq> Some CancelledEnd"
  using stress_run_ends [of 0 "DurationMillis 5" 0 2 "stress_init 0 2"]
  by (simp add: stress_init_def permits_of_def numeral_2_eq_2)

text \<open>
  C37. One task that fails to prepare its bundle hangs the stress test: from then on the tasks that
  wait at the barrier stay there in every continuation, the timeout can never fire (it is only
  armed once the barrier has opened), and the only way the loop can end is the user's interrupt.
\<close>

theorem setup_failure_hangs:
  assumes "stress_reach t parallel count s" and "st_end s = None" and "missing i s" and "st_at s j AtBarrier"
    and "(stress_step t)\<^sup>*\<^sup>* s u"
  shows "st_at u j AtBarrier \<and> st_end u \<noteq> Some TimeoutEnd \<and> st_end u \<noteq> Some AllDone"
  using stress_run_hung [OF assms(5) stress_reach_inv [OF assms(1)], of i j] assms(2,3,4) by (auto simp: hung_def)

definition demo_hung :: stress where
  "demo_hung = (stress_init 1 2)\<lparr>st_phases := [AtBarrier, Ended False False], st_arrived := 1\<rparr>"

theorem setup_failure_hangs_witness:
  "st_at (demo_hung\<lparr>st_main_arrived := True, st_arrived := 2\<rparr>) 0 AtBarrier"
proof -
  let ?m = "(stress_init 1 2)\<lparr>st_phases := [AtBarrier, Preparing], st_arrived := 1\<rparr>"
  have one: "stress_step DurationZero (stress_init 1 2) ?m"
    using task_step.prepared [of "stress_init 1 2" 0]
    by (simp add: stress_step_def st_at_def st_move_def stress_init_def numeral_2_eq_2)
  have two: "stress_step DurationZero ?m demo_hung"
    using task_step.prepare_fails [of ?m 1]
    by (simp add: stress_step_def st_at_def st_move_def stress_init_def demo_hung_def)
  have "stress_reach DurationZero 1 2 demo_hung" using one two by (blast intro: stress_reach.intros)
  moreover have "stress_step DurationZero demo_hung (demo_hung\<lparr>st_main_arrived := True, st_arrived := 2\<rparr>)"
    using loop_step.main_arrives [of demo_hung] by (simp add: stress_step_def demo_hung_def stress_init_def numeral_2_eq_2)
  ultimately show ?thesis
    using setup_failure_hangs [of DurationZero 1 2 demo_hung 1 0 "demo_hung\<lparr>st_main_arrived := True, st_arrived := 2\<rparr>"]
    by (auto simp: missing_def st_at_def demo_hung_def stress_init_def)
qed

end
