(* ===== verification/Stress_Utils.thy ===== *)
theory Stress_Utils
  imports Sync Rust_Path
begin

text \<open>
  \<open>stress-test/src/utils.rs\<close>: the names of tasks, the guard that runs a future at most once, and
  the loop that kills the children left at the end of a run.

  The static counter is the field \<open>pg_counter\<close> of the state of the process; \<open>AtomicUsize\<close> wraps
  at 64 bits. The mutex of \<open>RunOnce\<close> is held while the future runs, so calls on it come one after
  the other and the flag it protects is part of the state each call starts from. Reading
  \<open>/proc\<close>, \<open>kill\<close> and \<open>waitpid\<close> are operations of the system passed in.
\<close>

section \<open>Task names\<close>

record 'w prog =
  pg_counter :: u64
  pg_world :: 'w

definition in_prog :: "('w, 'e, 'a) act \<Rightarrow> ('w prog, 'e, 'a) act" where
  "in_prog m = (\<lambda>s. case m (pg_world s) of (r, w) \<Rightarrow> (r, s\<lparr>pg_world := w\<rparr>))"

definition task_id_text :: "u32 \<Rightarrow> u64 \<Rightarrow> string" where
  "task_id_text pid n = ''shim-stress-test-'' @ show_nat (unat pid) @ ''-task-'' @ show_nat (unat n)"

definition make_task_id :: "u32 \<Rightarrow> ('w prog, 'e, string) act" where
  "make_task_id pid = (\<lambda>s. (Ok (task_id_text pid (pg_counter s)), s\<lparr>pg_counter := pg_counter s + 1\<rparr>))"

lemma task_id_text_inject: "task_id_text pid m = task_id_text pid n \<longleftrightarrow> m = n"
  by (simp add: task_id_text_def word_unat_eq_iff)

lemma make_task_id_apply:
  "make_task_id pid s = (Ok (task_id_text pid (pg_counter s)), s\<lparr>pg_counter := pg_counter s + 1\<rparr>)"
  by (simp add: make_task_id_def)

lemma counter_after:
  "map_each (\<lambda>_. make_task_id pid) xs s =
     (Ok (map (\<lambda>k. task_id_text pid (pg_counter s + word_of_nat k)) [0..<length xs]),
      s\<lparr>pg_counter := pg_counter s + word_of_nat (length xs)\<rparr>)"
proof (induction xs arbitrary: s)
  case Nil
  then show ?case by (simp add: ret_def)
next
  case (Cons x xs)
  have "map (\<lambda>k. task_id_text pid (pg_counter s + word_of_nat k)) [0..<length (x # xs)] =
    task_id_text pid (pg_counter s) # map (\<lambda>k. task_id_text pid (pg_counter s + 1 + word_of_nat k)) [0..<length xs]"
    by (simp add: upt_conv_Cons map_Suc_upt [symmetric] ac_simps del: upt_Suc)
  then show ?case by (simp add: act_bind_def ret_def make_task_id_apply [of pid s] Cons add.assoc del: upt_Suc)
qed

lemma counter_wraps: "(word_of_nat (2 ^ 64) :: u64) = 0"
  by (simp only: word_of_nat_eq_0_iff) simp

text \<open>
  The names a process gives to its tasks are all different, as long as it makes at most
  \<open>2 ^ 64\<close> of them; after that the first one comes again.
\<close>

lemma task_ids_distinct:
  assumes "length xs \<le> 2 ^ 64" and "xs \<noteq> []"
  shows "\<exists>ids t. map_each (\<lambda>_. make_task_id pid) xs (s :: 'w prog) = ((Ok ids :: (string, string list) res), t) \<and>
    length ids = length xs \<and> distinct ids \<and>
    (length xs = 2 ^ 64 \<longrightarrow> fst (make_task_id pid t) = (Ok (hd ids) :: (string, string) res))"
proof -
  let ?ids = "map (\<lambda>k. task_id_text pid (pg_counter s + word_of_nat k)) [0..<length xs]"
  let ?t = "s\<lparr>pg_counter := pg_counter s + word_of_nat (length xs)\<rparr>"
  have "inj_on (word_of_nat :: nat \<Rightarrow> u64) {0..<length xs}"
    using assms(1) by (intro inj_onI) (simp add: word_of_nat_eq_iff take_bit_nat_eq_self)
  then have "inj_on (\<lambda>k. task_id_text pid (pg_counter s + word_of_nat k)) {0..<length xs}"
    by (simp add: inj_on_def task_id_text_inject)
  then have "distinct ?ids" by (simp add: distinct_map)
  moreover have "fst (make_task_id pid ?t) = (Ok (hd ?ids) :: (string, string) res)" if "length xs = 2 ^ 64"
    unfolding that counter_wraps make_task_id_apply by (subst hd_map) simp_all
  ultimately have "map_each (\<lambda>_. make_task_id pid) xs s = ((Ok ?ids :: (string, string list) res), ?t) \<and>
    length ?ids = length xs \<and> distinct ?ids \<and>
    (length xs = 2 ^ 64 \<longrightarrow> fst (make_task_id pid ?t) = (Ok (hd ?ids) :: (string, string) res))"
    unfolding counter_after by simp
  then show ?thesis by blast
qed

lemma task_ids_distinct_witness:
  "distinct [task_id_text 7 4, task_id_text 7 5]"
  using task_ids_distinct [of "[(), ()]" 7 "\<lparr>pg_counter = 4, pg_world = ()\<rparr>"]
  by (simp add: make_task_id_def act_bind_def ret_def)

section \<open>\<open>RunOnce\<close>\<close>

definition try_run :: "('w, 'e, unit) act \<Rightarrow> (bool \<times> 'w, 'e, unit) act" where
  "try_run fut = (\<lambda>(finished, w).
     if finished then (Ok (), (True, w))
     else (case fut w of
         (Ok _, w') \<Rightarrow> (Ok (), (True, w'))
       | (Err e, w') \<Rightarrow> (Err e, (False, w'))
       | (Panic p, w') \<Rightarrow> (Panic p, (False, w'))
       | (Blocked, w') \<Rightarrow> (Blocked, (False, w'))))"

lemma try_run_done [simp]: "try_run fut (True, w) = (Ok (), (True, w))"
  by (simp add: try_run_def)

lemma try_run_Ok_iff: "fst (try_run fut s) = Ok () \<longleftrightarrow> fst (snd (try_run fut s))"
  by (cases s) (auto simp: try_run_def split: res.splits prod.splits)

section \<open>\<open>watchdog\<close>\<close>

text \<open>The time after which the future is ready, if ever.\<close>

definition watchdog :: "duration \<Rightarrow> duration option" where
  "watchdog timeout = (if timeout = DurationZero then None else Some timeout)"

section \<open>\<open>reap_children\<close>\<close>

record 'w proc_os =
  po_pid :: u32
  po_read :: "path \<Rightarrow> ('w, string, string) act"
  po_kill :: "int \<Rightarrow> ('w, string, unit) act"
  po_waitpid :: "int \<Rightarrow> ('w, string, unit) act"

definition children_file :: "u32 \<Rightarrow> path" where
  "children_file pid = ''/proc/'' @ show_nat (unat pid) @ ''/task/'' @ show_nat (unat pid) @ ''/children''"

definition parse_children :: "string \<Rightarrow> nat list" where
  "parse_children listing = List.map_filter (parse_uint 32) (split_whitespace listing)"

text \<open>\<open>Pid::from_raw(pid as _)\<close> reads the 32 bits as a signed number.\<close>

definition raw_pid :: "nat \<Rightarrow> int" where
  "raw_pid n = sint (word_of_nat n :: u32)"

definition reap_round :: "'w proc_os \<Rightarrow> nat list \<Rightarrow> ('w, string, unit) act" where
  "reap_round os ps = for_each (\<lambda>p.
     act_bind (ignore_result (po_kill os (raw_pid p))) (\<lambda>_. ignore_result (po_waitpid os (raw_pid p)))) ps"

text \<open>The loop need not end: \<open>None\<close> is a loop that does not.\<close>

partial_function (option) reap_children :: "'w proc_os \<Rightarrow> 'w \<Rightarrow> ((string, unit) res \<times> 'w) option" where
  "reap_children os w =
     (case po_read os (children_file (po_pid os)) w of (r, w1) \<Rightarrow>
       (case r of
          Ok listing \<Rightarrow>
            if parse_children listing = [] then Some (Ok (), w1)
            else (case reap_round os (parse_children listing) w1 of (r2, w2) \<Rightarrow>
              (case r2 of Ok _ \<Rightarrow> reap_children os w2 | Err e \<Rightarrow> Some (Err e, w2)
                 | Panic p \<Rightarrow> Some (Panic p, w2) | Blocked \<Rightarrow> Some (Blocked, w2)))
        | Err e \<Rightarrow> Some (Err e, w1)
        | Panic p \<Rightarrow> Some (Panic p, w1)
        | Blocked \<Rightarrow> Some (Blocked, w1)))"

text \<open>One turn of the loop that found children and tried to kill and reap them all.\<close>

inductive reap_turn :: "'w proc_os \<Rightarrow> 'w \<Rightarrow> 'w \<Rightarrow> bool" for os where
  "po_read os (children_file (po_pid os)) w = (Ok listing, w1) \<Longrightarrow> parse_children listing \<noteq> [] \<Longrightarrow>
   reap_round os (parse_children listing) w1 = (Ok (), w2) \<Longrightarrow> reap_turn os w w2"

definition no_children :: "'w proc_os \<Rightarrow> 'w \<Rightarrow> bool" where
  "no_children os w \<longleftrightarrow> (\<exists>listing w1. po_read os (children_file (po_pid os)) w = (Ok listing, w1) \<and> parse_children listing = [])"

lemma reap_turn_unfold: "reap_turn os w w2 \<Longrightarrow> reap_children os w = reap_children os w2"
  by (induction rule: reap_turn.induct) (subst reap_children.simps, simp)

lemma reap_turns_unfold: "(reap_turn os)\<^sup>*\<^sup>* w w2 \<Longrightarrow> reap_children os w = reap_children os w2"
  by (induction rule: rtranclp_induct) (simp_all add: reap_turn_unfold)

lemma reap_returns:
  assumes "reap_children os w = Some y"
  shows "fst y = Ok () \<longrightarrow> (\<exists>u. (reap_turn os)\<^sup>*\<^sup>* w u \<and> no_children os u \<and>
    snd y = snd (po_read os (children_file (po_pid os)) u))"
proof (rule reap_children.raw_induct [where P = "\<lambda>os w y. fst y = Ok () \<longrightarrow> (\<exists>u. (reap_turn os)\<^sup>*\<^sup>* w u \<and>
    no_children os u \<and> snd y = snd (po_read os (children_file (po_pid os)) u))", OF _ assms], goal_cases)
  case (1 rc os w y)
  show ?case
  proof
    assume r: "fst y = Ok ()"
    then obtain listing w1 where rd: "po_read os (children_file (po_pid os)) w = (Ok listing, w1)"
      using 1(2) by (auto split: prod.splits res.splits)
    show "\<exists>u. (reap_turn os)\<^sup>*\<^sup>* w u \<and> no_children os u \<and> snd y = snd (po_read os (children_file (po_pid os)) u)"
    proof (cases "parse_children listing = []")
      case True
      then show ?thesis using 1(2) rd by (auto simp: no_children_def)
    next
      case False
      then obtain w2 where rr: "reap_round os (parse_children listing) w1 = (Ok (), w2)" and rc: "rc os w2 = Some y"
        using 1(2) rd r
        by (cases "reap_round os (parse_children listing) w1"; cases "fst (reap_round os (parse_children listing) w1)") auto
      then show ?thesis
        using 1(1) [OF rc] r reap_turn.intros [OF rd False rr] by (meson converse_rtranclp_into_rtranclp)
    qed
  qed
qed

text \<open>
  The loop at the end of the stress test returns successfully exactly when, after some number
  of rounds that each killed and reaped every child listed, the list of children is empty; it
  never returns while a child is listed.
\<close>

lemma reap_children_returns_iff:
  "reap_children os w = Some (Ok (), w') \<longleftrightarrow>
     (\<exists>u. (reap_turn os)\<^sup>*\<^sup>* w u \<and> no_children os u \<and> w' = snd (po_read os (children_file (po_pid os)) u))"
proof
  assume "reap_children os w = Some (Ok (), w')"
  from reap_returns [OF this]
  show "\<exists>u. (reap_turn os)\<^sup>*\<^sup>* w u \<and> no_children os u \<and> w' = snd (po_read os (children_file (po_pid os)) u)" by simp
next
  assume "\<exists>u. (reap_turn os)\<^sup>*\<^sup>* w u \<and> no_children os u \<and> w' = snd (po_read os (children_file (po_pid os)) u)"
  then obtain u where u: "(reap_turn os)\<^sup>*\<^sup>* w u" "no_children os u" "w' = snd (po_read os (children_file (po_pid os)) u)" by blast
  then have "reap_children os u = Some (Ok (), w')"
    by (subst reap_children.simps) (auto simp: no_children_def)
  then show "reap_children os w = Some (Ok (), w')" using reap_turns_unfold [OF u(1)] by simp
qed

end
