(* ===== verification/Stress_Client.thy ===== *)
theory Stress_Client
  imports Stress_Utils Containerd Events
begin

text \<open>
  \<open>stress-test/src/containerd/client.rs\<close>: the containerd client of the stress test. It holds a
  lease for its whole life, sends it with every request and gives it back when it is dropped.

  The daemon is the record \<open>daemon\<close> of the remote calls, over a state \<open>'w\<close>; a call takes the
  metadata of the request and the fields of the request the client sets. Errors are \<open>anyhow\<close>
  errors, represented by their text. Which strings are valid metadata, the JSON form of a
  specification and the readers of manifests and image configurations belong to other crates and
  are parameters. \<open>Client\<close> shares its \<open>ClientInner\<close> through an \<open>Arc\<close>: the methods of \<open>Client\<close>
  are those of the inner client, whose drop is that of the last clone.
\<close>

section \<open>The daemon\<close>

type_synonym metadata = "string \<rightharpoonup> string"

record spec_process =
  sp_args :: "string list"
  sp_cwd :: path

record runtime_spec =
  rs_version :: string
  rs_process :: spec_process
  rs_annotations :: "(string \<times> string) list"
  rs_root :: path

record spec_container =
  sc_id :: string
  sc_image :: string
  sc_runtime :: string
  sc_spec_type :: string
  sc_spec :: bytes

record snapshot_request =
  sn_key :: string
  sn_parent :: string
  sn_snapshotter :: string

record create_task_request =
  ct_container_id :: string
  ct_rootfs :: "mount list"
  ct_stdout :: string

record kill_task_request =
  kt_container_id :: string
  kt_signal :: u32
  kt_all :: bool

record image_settings =
  is_diff_ids :: "string list"
  is_config :: "string list option option"

record 'w daemon =
  dm_connect :: "path \<Rightarrow> ('w, string, unit) act"
  dm_expiry :: "'w \<Rightarrow> string"
  dm_lease_create :: "metadata \<Rightarrow> (string \<times> string) list \<Rightarrow> ('w, string, string option) act"
  dm_lease_delete :: "metadata \<Rightarrow> string \<Rightarrow> bool \<Rightarrow> ('w, string, unit) act"
  dm_read :: "metadata \<Rightarrow> string \<Rightarrow> ('w, string, (string + int \<times> bytes) list) act"
  dm_get_image :: "metadata \<Rightarrow> string \<Rightarrow> ('w, string, image option) act"
  dm_prepare :: "metadata \<Rightarrow> snapshot_request \<Rightarrow> ('w, string, mount list) act"
  dm_create_container :: "metadata \<Rightarrow> spec_container \<Rightarrow> ('w, string, unit) act"
  dm_delete_container :: "metadata \<Rightarrow> string \<Rightarrow> ('w, string, unit) act"
  dm_create_task :: "metadata \<Rightarrow> create_task_request \<Rightarrow> ('w, string, unit) act"
  dm_start_task :: "metadata \<Rightarrow> string \<Rightarrow> ('w, string, unit) act"
  dm_wait_task :: "metadata \<Rightarrow> string \<Rightarrow> ('w, string, unit) act"
  dm_kill_task :: "metadata \<Rightarrow> kill_task_request \<Rightarrow> ('w, string, unit) act"
  dm_delete_task :: "metadata \<Rightarrow> string \<Rightarrow> ('w, string, unit) act"

record codecs =
  cd_header_ok :: "string \<Rightarrow> bool"
  cd_spec_json :: "runtime_spec \<Rightarrow> (string, bytes) res"
  cd_manifest :: "bytes \<Rightarrow> (string, manifest) res"
  cd_image_settings :: "bytes \<Rightarrow> (string, image_settings) res"

section \<open>The inner client\<close>

record client_inner =
  ci_namespace :: string
  ci_lease :: string

definition UNWRAP_ERR :: string where
  "UNWRAP_ERR = ''called `Result::unwrap()` on an `Err` value''"

definition with_metadata :: "codecs \<Rightarrow> client_inner \<Rightarrow> ('s, string, metadata) act" where
  "with_metadata cd c =
     (if \<not> cd_header_ok cd (ci_namespace c) then panic UNWRAP_ERR
      else if ci_lease c = [] then ret [''containerd-namespace'' \<mapsto> ci_namespace c]
      else if \<not> cd_header_ok cd (ci_lease c) then panic UNWRAP_ERR
      else ret [''containerd-namespace'' \<mapsto> ci_namespace c, ''containerd-lease'' \<mapsto> ci_lease c])"

definition inner_connect :: "'w daemon \<Rightarrow> path \<Rightarrow> string \<Rightarrow> ('w, string, client_inner) act" where
  "inner_connect dm socket namespace =
     act_bind (dm_connect dm socket) (\<lambda>_. ret \<lparr>ci_namespace = namespace, ci_lease = []\<rparr>)"

definition with_lease :: "'w daemon \<Rightarrow> codecs \<Rightarrow> client_inner \<Rightarrow> ('w, string, client_inner) act" where
  "with_lease dm cd c =
     act_bind (\<lambda>w. (Ok (dm_expiry dm w), w)) (\<lambda>expiry.
     act_bind (with_metadata cd c) (\<lambda>meta.
     act_bind (dm_lease_create dm meta [(''containerd.io/gc.expire'', expiry)]) (\<lambda>lease.
     act_bind (lift_res (ok_or ''creating lease'' lease)) (\<lambda>lease_id.
     ret \<lparr>ci_namespace = ci_namespace c, ci_lease = lease_id\<rparr>))))"

text \<open>\<open>take\<close> empties the lease before the request is built, so the request does not carry it.\<close>

definition drop_lease :: "'w daemon \<Rightarrow> codecs \<Rightarrow> (client_inner \<times> 'w, string, unit) act" where
  "drop_lease dm cd = (\<lambda>(c, w).
     if ci_lease c = [] then (Ok (), (c, w))
     else
       (let c' = c\<lparr>ci_lease := []\<rparr> in
        case act_bind (with_metadata cd c') (\<lambda>meta. dm_lease_delete dm meta (ci_lease c) False) w of
          (r, w') \<Rightarrow> (r, (c', w'))))"

definition inner_drop :: "'w daemon \<Rightarrow> codecs \<Rightarrow> (client_inner \<times> 'w, string, unit) act" where
  "inner_drop dm cd = ignore_result (drop_lease dm cd)"

text \<open>The loop over the messages of a read. \<open>content.offset as usize\<close> reads the 64 bits as unsigned.\<close>

primrec read_messages :: "bytes \<Rightarrow> (string + int \<times> bytes) list \<Rightarrow> (string, bytes) res" where
  "read_messages data [] = Ok data"
| "read_messages data (m # ms) =
     (case m of
        Inl e \<Rightarrow> Err e
      | Inr (offset, content) \<Rightarrow>
          if offset mod 2 ^ 64 \<noteq> int (length data) then Err ''bad offset!''
          else read_messages (data @ content) ms)"

definition inner_read_content :: "'w daemon \<Rightarrow> codecs \<Rightarrow> client_inner \<Rightarrow> string \<Rightarrow> ('w, string, bytes) act" where
  "inner_read_content dm cd c digest =
     act_bind (with_metadata cd c) (\<lambda>meta.
     act_bind (dm_read dm meta digest) (\<lambda>msgs.
     lift_res (read_messages [] msgs)))"

definition image_config :: "'w daemon \<Rightarrow> codecs \<Rightarrow> client_inner \<Rightarrow> string \<Rightarrow> ('w, string, image_settings) act" where
  "image_config dm cd c img =
     act_bind (with_metadata cd c) (\<lambda>meta.
     act_bind (dm_get_image dm meta img) (\<lambda>response.
     act_bind (lift_res (ok_or ''Could not find image'' response)) (\<lambda>found.
     act_bind (lift_res (ok_or ''Could not find image descriptor'' (img_target found))) (\<lambda>descriptor.
     act_bind (inner_read_content dm cd c (desc_digest descriptor)) (\<lambda>manifest_bytes.
     act_bind (lift_res (cd_manifest cd manifest_bytes)) (\<lambda>manifest.
     act_bind (inner_read_content dm cd c (desc_digest (man_config manifest))) (\<lambda>config_bytes.
     lift_res (cd_image_settings cd config_bytes))))))))"

definition snapshot :: "'w daemon \<Rightarrow> codecs \<Rightarrow> client_inner \<Rightarrow> string \<Rightarrow> string list \<Rightarrow> ('w, string, mount list) act" where
  "snapshot dm cd c key diffs =
     act_bind (with_metadata cd c) (\<lambda>meta.
     dm_prepare dm meta \<lparr>sn_key = key, sn_parent = str_join '' '' diffs, sn_snapshotter = ''overlayfs''\<rparr>)"

definition create_container ::
  "'w daemon \<Rightarrow> codecs \<Rightarrow> client_inner \<Rightarrow> string \<Rightarrow> string \<Rightarrow> string \<Rightarrow> runtime_spec \<Rightarrow> ('w, string, unit) act" where
  "create_container dm cd c cid img runtime spec =
     (case cd_spec_json cd spec of
        Ok json \<Rightarrow>
          act_bind (with_metadata cd c) (\<lambda>meta.
          dm_create_container dm meta \<lparr>sc_id = cid, sc_image = img, sc_runtime = runtime,
            sc_spec_type = ''types.containerd.io/opencontainers/runtime-spec/1/Spec'', sc_spec = json\<rparr>)
      | _ \<Rightarrow> panic UNWRAP_ERR)"

definition create_task ::
  "'w daemon \<Rightarrow> codecs \<Rightarrow> client_inner \<Rightarrow> string \<Rightarrow> mount list \<Rightarrow> string \<Rightarrow> ('w, string, unit) act" where
  "create_task dm cd c cid mounts stdout =
     act_bind (with_metadata cd c) (\<lambda>meta.
     dm_create_task dm meta \<lparr>ct_container_id = cid, ct_rootfs = mounts, ct_stdout = stdout\<rparr>)"

definition start_task :: "'w daemon \<Rightarrow> codecs \<Rightarrow> client_inner \<Rightarrow> string \<Rightarrow> ('w, string, unit) act" where
  "start_task dm cd c cid = act_bind (with_metadata cd c) (\<lambda>meta. dm_start_task dm meta cid)"

definition wait_task :: "'w daemon \<Rightarrow> codecs \<Rightarrow> client_inner \<Rightarrow> string \<Rightarrow> ('w, string, unit) act" where
  "wait_task dm cd c cid = act_bind (with_metadata cd c) (\<lambda>meta. dm_wait_task dm meta cid)"

definition kill_task :: "'w daemon \<Rightarrow> codecs \<Rightarrow> client_inner \<Rightarrow> string \<Rightarrow> ('w, string, unit) act" where
  "kill_task dm cd c cid =
     act_bind (with_metadata cd c) (\<lambda>meta.
     dm_kill_task dm meta \<lparr>kt_container_id = cid, kt_signal = 9, kt_all = True\<rparr>)"

definition delete_task :: "'w daemon \<Rightarrow> codecs \<Rightarrow> client_inner \<Rightarrow> string \<Rightarrow> ('w, string, unit) act" where
  "delete_task dm cd c cid = act_bind (with_metadata cd c) (\<lambda>meta. dm_delete_task dm meta cid)"

definition delete_container :: "'w daemon \<Rightarrow> codecs \<Rightarrow> client_inner \<Rightarrow> string \<Rightarrow> ('w, string, unit) act" where
  "delete_container dm cd c cid = act_bind (with_metadata cd c) (\<lambda>meta. dm_delete_container dm meta cid)"

section \<open>The client\<close>

definition stress_connect :: "'w daemon \<Rightarrow> codecs \<Rightarrow> path \<Rightarrow> string \<Rightarrow> ('w, string, client_inner) act" where
  "stress_connect dm cd socket namespace =
     act_bind (inner_connect dm socket namespace) (\<lambda>inner. with_lease dm cd inner)"

definition client_default :: "'w daemon \<Rightarrow> codecs \<Rightarrow> ('w, string, client_inner) act" where
  "client_default dm cd = stress_connect dm cd ''/run/containerd/containerd.sock'' ''default''"

definition get_mounts :: "'w daemon \<Rightarrow> codecs \<Rightarrow> client_inner \<Rightarrow> string \<Rightarrow> string \<Rightarrow> ('w, string, mount list) act" where
  "get_mounts dm cd c cid img =
     act_bind (image_config dm cd c img) (\<lambda>config.
     act_bind (snapshot dm cd c cid (is_diff_ids config)) (\<lambda>mounts.
     ret mounts))"

definition image_entrypoint :: "'w daemon \<Rightarrow> codecs \<Rightarrow> client_inner \<Rightarrow> string \<Rightarrow> ('w, string, string list) act" where
  "image_entrypoint dm cd c img =
     act_bind (image_config dm cd c img) (\<lambda>config.
     ret (case is_config config of
            None \<Rightarrow> []
          | Some settings \<Rightarrow> (case settings of None \<Rightarrow> [] | Some entrypoint \<Rightarrow> entrypoint)))"

section \<open>The content of a read\<close>

text \<open>The messages whose offsets count the bytes that came before them.\<close>

primrec consecutive :: "nat \<Rightarrow> (string + int \<times> bytes) list \<Rightarrow> bool" where
  "consecutive n [] = True"
| "consecutive n (m # ms) =
     (case m of Inl _ \<Rightarrow> False
      | Inr (offset, content) \<Rightarrow> offset mod 2 ^ 64 = int n \<and> consecutive (n + length content) ms)"

definition payload :: "(string + int \<times> bytes) list \<Rightarrow> bytes" where
  "payload msgs = concat (map (snd \<circ> projr) msgs)"

lemma read_messages_consecutive:
  "consecutive (length data) msgs \<Longrightarrow> read_messages data msgs = Ok (data @ payload msgs)"
proof (induction msgs arbitrary: data)
  case (Cons m ms)
  then show ?case using Cons.IH [of "data @ snd (projr m)"] by (auto simp: payload_def split: sum.splits)
qed (simp add: payload_def)

lemma read_messages_refused:
  "\<not> consecutive (length data) msgs \<Longrightarrow> \<exists>e. read_messages data msgs = Err e"
proof (induction msgs arbitrary: data)
  case (Cons m ms)
  then show ?case by (auto split: sum.splits) (metis length_append)
qed simp

lemma try_concat_consecutive:
  "consecutive n msgs \<Longrightarrow> try_concat (map (map_sum id snd) msgs) = Ok (payload msgs)"
  by (induction msgs arbitrary: n) (auto simp: payload_def split: sum.splits)

section \<open>The lease\<close>

text \<open>A client with a lease sends both headers; the one without sends the namespace only.\<close>

lemma with_metadata_Ok:
  "with_metadata cd c w = (Ok meta, w') \<Longrightarrow>
     w' = w \<and> meta ''containerd-namespace'' = Some (ci_namespace c) \<and>
     meta ''containerd-lease'' = (if ci_lease c = [] then None else Some (ci_lease c))"
  by (auto simp: with_metadata_def split: if_splits)

lemma drop_lease_empty: "drop_lease dm cd (c, w) = (r, (c', w')) \<Longrightarrow> ci_lease c' = [] \<and> ci_namespace c' = ci_namespace c"
  by (auto simp: drop_lease_def Let_def split: if_splits prod.splits)

lemma drop_lease_idle: "ci_lease c = [] \<Longrightarrow> drop_lease dm cd (c, w) = (Ok (), (c, w))"
  by (simp add: drop_lease_def)

end
