(* ===== verification/Stress_Tasks.thy ===== *)
theory Stress_Tasks
  imports Stress_Client Local "HOL-Library.Sublist"
begin

text \<open>
  The tasks of the stress test: \<open>containerd/{task,shim,containerd}.rs\<close>, which run a task through
  the containerd daemon, and \<open>mocks/{task,shim,containerd}.rs\<close>, which start a shim binary
  themselves and speak the task API to it. Both implement the traits of \<open>traits.rs\<close>.

  In \<open>so_save_spec\<close> no specification stands for the one a builder makes with nothing set.
  A method takes \<open>&self\<close>; what it can change is the two \<open>RunOnce\<close> guards of the task and the
  world, so it acts on a task and a world. The file system, the builders of \<open>oci_spec\<close>, the child
  process and the client of the shim are operations passed in. A drop runs at the point where the
  value goes out of scope.
\<close>

section \<open>What the two share\<close>

record 'w stress_os =
  so_pid :: u32
  so_canonicalize :: "path \<Rightarrow> ('w, string, path) act"
  so_symlink :: "path \<Rightarrow> path \<Rightarrow> ('w, string, unit) act"
  so_remove_file :: "path \<Rightarrow> ('w, string, unit) act"
  so_tempdir :: "path option \<Rightarrow> ('w, string, path) act"
  so_create_dir_all :: "path \<Rightarrow> ('w, string, unit) act"
  so_write :: "path \<Rightarrow> string \<Rightarrow> ('w, string, unit) act"
  so_save_spec :: "runtime_spec option \<Rightarrow> path \<Rightarrow> ('w, string, unit) act"
  so_build_user :: "(string, unit) res"
  so_build_process :: "spec_process \<Rightarrow> (string, spec_process) res"
  so_build_root :: "path \<Rightarrow> (string, path) res"
  so_build_spec :: "runtime_spec \<Rightarrow> (string, runtime_spec) res"
  so_build_default_spec :: "(string, unit) res"

definition unwrap_res :: "('e, 'a) res \<Rightarrow> ('s, 'f, 'a) act" where
  "unwrap_res r = (case r of Ok a \<Rightarrow> ret a | Err _ \<Rightarrow> panic UNWRAP_ERR | Panic p \<Rightarrow> panic p | Blocked \<Rightarrow> lift_res Blocked)"

text \<open>The arguments of the container: those given, behind the first word of the entry point.\<close>

definition task_args :: "string list \<Rightarrow> string list \<Rightarrow> string list" where
  "task_args args entrypoint =
     (if args = [] then entrypoint
      else (case entrypoint of [] \<Rightarrow> args | argv0 # _ \<Rightarrow> argv0 # args))"

definition task_spec :: "'w stress_os \<Rightarrow> string list \<Rightarrow> ('s, string, runtime_spec) act" where
  "task_spec os args =
     act_bind (unwrap_res (so_build_user os)) (\<lambda>_.
     act_bind (lift_res (so_build_process os \<lparr>sp_args = args, sp_cwd = ''/''\<rparr>)) (\<lambda>process.
     act_bind (lift_res (so_build_root os ''rootfs'')) (\<lambda>root.
     lift_res (so_build_spec os \<lparr>rs_version = ''1.1.0'', rs_process = process,
       rs_annotations = [(''io.kubernetes.cri.sandbox-id'', ''sandbox-'' @ show_nat (unat (so_pid os)))],
       rs_root = root\<rparr>))))"

definition task_stdout :: "'w stress_os \<Rightarrow> bool \<Rightarrow> ('w, string, path) act" where
  "task_stdout os verbose =
     (if \<not> verbose then ret []
      else act_bind (attempt (so_canonicalize os ''/proc/self/fd/1'')) (\<lambda>r.
        ret (case r of Inr stdout \<Rightarrow> stdout | Inl _ \<Rightarrow> [])))"

text \<open>\<open>res1.and(res2)\<close>, with both computed before.\<close>

definition and_then_res :: "('s, 'e, unit) act \<Rightarrow> ('s, 'e, unit) act \<Rightarrow> ('s, 'e, unit) act" where
  "and_then_res m n =
     act_bind (attempt m) (\<lambda>res1.
     act_bind (attempt n) (\<lambda>res2.
     (case res1 of Inl e \<Rightarrow> throw e | Inr _ \<Rightarrow> (case res2 of Inl e \<Rightarrow> throw e | Inr _ \<Rightarrow> ret ()))))"

section \<open>Tasks of the daemon\<close>

record ctask =
  tk_containerd :: client_inner
  tk_runtime :: string
  tk_id :: string
  tk_image :: string
  tk_mounts :: "mount list"
  tk_spec :: runtime_spec
  tk_task_deleted :: bool
  tk_container_deleted :: bool

definition ctask_new ::
  "'w daemon \<Rightarrow> codecs \<Rightarrow> 'w stress_os \<Rightarrow> client_inner \<Rightarrow> string \<Rightarrow> string \<Rightarrow> string list \<Rightarrow>
   ('w prog, string, ctask) act" where
  "ctask_new dm cd os containerd runtime img args =
     act_bind (make_task_id (so_pid os)) (\<lambda>tid.
     act_bind (in_prog (image_entrypoint dm cd containerd img)) (\<lambda>entrypoint.
     act_bind (in_prog (get_mounts dm cd containerd tid img)) (\<lambda>mounts.
     act_bind (task_spec os (task_args args entrypoint)) (\<lambda>spec.
     ret \<lparr>tk_containerd = containerd, tk_runtime = runtime, tk_id = tid, tk_image = img,
          tk_mounts = mounts, tk_spec = spec, tk_task_deleted = False, tk_container_deleted = False\<rparr>))))"

definition with_task :: "('t \<Rightarrow> ('w, 'e, 'a) act) \<Rightarrow> ('t \<times> 'w, 'e, 'a) act" where
  "with_task f = (\<lambda>(t, w). case f t w of (r, w') \<Rightarrow> (r, (t, w')))"

definition ctask_create :: "'w daemon \<Rightarrow> codecs \<Rightarrow> 'w stress_os \<Rightarrow> bool \<Rightarrow> (ctask \<times> 'w, string, unit) act" where
  "ctask_create dm cd os verbose = with_task (\<lambda>t.
     act_bind (task_stdout os verbose) (\<lambda>stdout.
     act_bind (create_container dm cd (tk_containerd t) (tk_id t) (tk_image t) (tk_runtime t) (tk_spec t)) (\<lambda>_.
     create_task dm cd (tk_containerd t) (tk_id t) (tk_mounts t) stdout)))"

definition ctask_start :: "'w daemon \<Rightarrow> codecs \<Rightarrow> (ctask \<times> 'w, string, unit) act" where
  "ctask_start dm cd = with_task (\<lambda>t. start_task dm cd (tk_containerd t) (tk_id t))"

definition ctask_wait :: "'w daemon \<Rightarrow> codecs \<Rightarrow> (ctask \<times> 'w, string, unit) act" where
  "ctask_wait dm cd = with_task (\<lambda>t. wait_task dm cd (tk_containerd t) (tk_id t))"

text \<open>The two futures \<open>delete\<close> hands to its guards, and the guards.\<close>

definition ctask_delete_task :: "'w daemon \<Rightarrow> codecs \<Rightarrow> ctask \<Rightarrow> ('w, string, unit) act" where
  "ctask_delete_task dm cd t =
     act_bind (ignore_result (kill_task dm cd (tk_containerd t) (tk_id t))) (\<lambda>_.
     delete_task dm cd (tk_containerd t) (tk_id t))"

definition ctask_delete_container :: "'w daemon \<Rightarrow> codecs \<Rightarrow> ctask \<Rightarrow> ('w, string, unit) act" where
  "ctask_delete_container dm cd t = delete_container dm cd (tk_containerd t) (tk_id t)"

definition guarded ::
  "('t \<Rightarrow> bool) \<Rightarrow> (bool \<Rightarrow> 't \<Rightarrow> 't) \<Rightarrow> ('t \<Rightarrow> ('w, 'e, unit) act) \<Rightarrow> ('t \<times> 'w, 'e, unit) act" where
  "guarded flag set_flag fut = (\<lambda>(t, w). case try_run (fut t) (flag t, w) of
     (r, (finished, w')) \<Rightarrow> (r, (set_flag finished t, w')))"

definition ctask_delete :: "'w daemon \<Rightarrow> codecs \<Rightarrow> (ctask \<times> 'w, string, unit) act" where
  "ctask_delete dm cd = and_then_res
     (guarded tk_task_deleted (\<lambda>b t. t\<lparr>tk_task_deleted := b\<rparr>) (ctask_delete_task dm cd))
     (guarded tk_container_deleted (\<lambda>b t. t\<lparr>tk_container_deleted := b\<rparr>) (ctask_delete_container dm cd))"

definition ctask_drop :: "'w daemon \<Rightarrow> codecs \<Rightarrow> (ctask \<times> 'w, string, unit) act" where
  "ctask_drop dm cd = ignore_result (ctask_delete dm cd)"

record cshim =
  cs_link :: path
  cs_runtime :: string
  cs_containerd :: client_inner

definition cshim_new :: "'w stress_os \<Rightarrow> client_inner \<Rightarrow> path \<Rightarrow> ('w, string, cshim) act" where
  "cshim_new os containerd binary =
     (let pid = show_nat (unat (so_pid os)); link = ''/usr/local/bin/containerd-shim-runwasi'' @ pid @ ''-v1'' in
      act_bind (so_canonicalize os binary) (\<lambda>target.
      act_bind (so_symlink os target link) (\<lambda>_.
      ret \<lparr>cs_link = link, cs_runtime = ''io.containerd.runwasi'' @ pid @ ''.v1'', cs_containerd = containerd\<rparr>)))"

definition cshim_drop :: "'w stress_os \<Rightarrow> cshim \<Rightarrow> ('w, string, unit) act" where
  "cshim_drop os s = ignore_result (so_remove_file os (cs_link s))"

definition cshim_task ::
  "'w daemon \<Rightarrow> codecs \<Rightarrow> 'w stress_os \<Rightarrow> cshim \<Rightarrow> string \<Rightarrow> string list \<Rightarrow> ('w prog, string, ctask) act" where
  "cshim_task dm cd os s img args = ctask_new dm cd os (cs_containerd s) (cs_runtime s) img args"

definition ccontainerd_new :: "'w daemon \<Rightarrow> codecs \<Rightarrow> ('w, string, client_inner) act" where
  "ccontainerd_new dm cd = client_default dm cd"

definition ccontainerd_start_shim :: "'w stress_os \<Rightarrow> client_inner \<Rightarrow> path \<Rightarrow> ('w, string, cshim) act" where
  "ccontainerd_start_shim os containerd shim = cshim_new os containerd shim"

section \<open>Tasks of a shim\<close>

text \<open>
  The blocking jobs a task has handed to the runtime and that have not run yet are \<open>mw_jobs\<close>: the
  roots below which everything is to be unmounted. The client of the shim is named by the address
  it is connected to.
\<close>

record 'w mock_world =
  mw_jobs :: "path list"
  mw_world :: 'w

definition in_mock :: "('w, 'e, 'a) act \<Rightarrow> ('w mock_world, 'e, 'a) act" where
  "in_mock m = (\<lambda>s. case m (mw_world s) of (r, w) \<Rightarrow> (r, s\<lparr>mw_world := w\<rparr>))"

record shim_command =
  sm_binary :: path
  sm_args :: "string list"
  sm_env :: "(string \<times> string) list"
  sm_dir :: path
  sm_process_group :: int

record 'w shim_api =
  sa_output :: "shim_command \<Rightarrow> ('w, string, string) act"
  sa_utf8 :: "string \<Rightarrow> bool"
  sa_connect :: "string \<Rightarrow> ('w, string, unit) act"
  sa_bind :: "string \<Rightarrow> ('w, string, unit) act"
  sa_create :: "string \<Rightarrow> create_request \<Rightarrow> ('w, string, unit) act"
  sa_start :: "string \<Rightarrow> task_request \<Rightarrow> ('w, string, unit) act"
  sa_wait :: "string \<Rightarrow> task_request \<Rightarrow> ('w, string, unit) act"
  sa_delete :: "string \<Rightarrow> task_request \<Rightarrow> ('w, string, unit) act"
  sa_shutdown :: "string \<Rightarrow> bool \<Rightarrow> ('w, string, unit) act"
  sa_read_mounts :: "('w, string, string) act"
  sa_umount :: "path \<Rightarrow> ('w, string, unit) act"

record mtask =
  mt_id :: string
  mt_dir :: path
  mt_client :: string
  mt_mounts :: "mount list"
  mt_deleted :: bool
  mt_unmounted :: bool

definition map_mount :: "mount \<Rightarrow> mount" where
  "map_mount m = \<lparr>mount_type = mount_type m, mount_source = mount_source m,
     mount_target = mount_target m, mount_options = mount_options m\<rparr>"

definition map_mounts :: "mount list \<Rightarrow> mount list" where
  "map_mounts ms = map map_mount ms"

definition mtask_new ::
  "'w daemon \<Rightarrow> codecs \<Rightarrow> 'w stress_os \<Rightarrow> client_inner \<Rightarrow> path \<Rightarrow> string \<Rightarrow> string list \<Rightarrow> string \<Rightarrow>
   ('w prog, string, mtask) act" where
  "mtask_new dm cd os containerd scratch img args client =
     act_bind (make_task_id (so_pid os)) (\<lambda>tid.
     act_bind (in_prog (get_mounts dm cd containerd tid img)) (\<lambda>mounts.
     act_bind (in_prog (image_entrypoint dm cd containerd img)) (\<lambda>entrypoint.
     act_bind (task_spec os (task_args args entrypoint)) (\<lambda>spec.
     act_bind (in_prog (so_tempdir os (Some scratch))) (\<lambda>dir.
     act_bind (in_prog (so_create_dir_all os (path_join dir ''rootfs''))) (\<lambda>_.
     act_bind (in_prog (so_write os (path_join dir ''options.json'') ''{\"root\":\"rootfs\"}'')) (\<lambda>_.
     act_bind (in_prog (so_save_spec os (Some spec) (path_join dir ''config.json''))) (\<lambda>_.
     ret \<lparr>mt_id = tid, mt_dir = dir, mt_client = client, mt_mounts = map_mounts mounts,
          mt_deleted = False, mt_unmounted = False\<rparr>))))))))"

definition default_create_request :: create_request where
  "default_create_request = \<lparr>cr_id = [], cr_bundle = [], cr_rootfs = [], cr_terminal = False, cr_stdin = [],
     cr_stdout = [], cr_stderr = [], cr_checkpoint = [], cr_parent_checkpoint = []\<rparr>"

definition request_for :: "string \<Rightarrow> task_request" where
  "request_for tid = \<lparr>rq_id = tid, rq_exec_id = []\<rparr>"

definition mtask_create ::
  "'w shim_api \<Rightarrow> 'w stress_os \<Rightarrow> bool \<Rightarrow> (mtask \<times> 'w mock_world, string, unit) act" where
  "mtask_create api os verbose = with_task (\<lambda>t. in_mock (
     act_bind (task_stdout os verbose) (\<lambda>stdout.
     sa_create api (mt_client t) (default_create_request\<lparr>cr_id := mt_id t, cr_bundle := mt_dir t,
       cr_stdout := stdout, cr_rootfs := mt_mounts t\<rparr>))))"

definition mtask_start :: "'w shim_api \<Rightarrow> (mtask \<times> 'w mock_world, string, unit) act" where
  "mtask_start api = with_task (\<lambda>t. in_mock (sa_start api (mt_client t) (request_for (mt_id t))))"

definition mtask_wait :: "'w shim_api \<Rightarrow> (mtask \<times> 'w mock_world, string, unit) act" where
  "mtask_wait api = with_task (\<lambda>t. in_mock (sa_wait api (mt_client t) (request_for (mt_id t))))"

text \<open>The mount points below a root in the order in which they are unmounted: the longest path first.\<close>

definition mount_points :: "string \<Rightarrow> path list" where
  "mount_points content = List.map_filter (\<lambda>l. let ws = split_whitespace l in
     if 1 < length ws then Some (ws ! 1) else None) (str_lines content)"

definition unmount_order :: "path \<Rightarrow> string \<Rightarrow> path list" where
  "unmount_order root content =
     rev (sort_key length (filter (\<lambda>p. path_starts_with p root) (mount_points content)))"

definition unmount_job :: "'w shim_api \<Rightarrow> path \<Rightarrow> ('w, string, unit) act" where
  "unmount_job api root =
     act_bind (sa_read_mounts api) (\<lambda>content.
     for_each (sa_umount api) (unmount_order root content))"

text \<open>\<open>unmount_recursive\<close> only hands the job over: it does not wait for it and drops its result.\<close>

definition unmount_recursive :: "path \<Rightarrow> ('w mock_world, string, unit) act" where
  "unmount_recursive root = (\<lambda>s. (Ok (), s\<lparr>mw_jobs := mw_jobs s @ [root]\<rparr>))"

definition run_job :: "'w shim_api \<Rightarrow> 'w mock_world \<Rightarrow> 'w mock_world" where
  "run_job api s = (case mw_jobs s of
      [] \<Rightarrow> s
    | root # jobs \<Rightarrow> s\<lparr>mw_jobs := jobs, mw_world := snd (unmount_job api root (mw_world s))\<rparr>)"

definition mtask_delete :: "'w shim_api \<Rightarrow> (mtask \<times> 'w mock_world, string, unit) act" where
  "mtask_delete api = and_then_res
     (guarded mt_deleted (\<lambda>b t. t\<lparr>mt_deleted := b\<rparr>)
        (\<lambda>t. in_mock (sa_delete api (mt_client t) (request_for (mt_id t)))))
     (guarded mt_unmounted (\<lambda>b t. t\<lparr>mt_unmounted := b\<rparr>)
        (\<lambda>t. unmount_recursive (path_join (mt_dir t) ''rootfs'')))"

definition mtask_drop :: "'w shim_api \<Rightarrow> (mtask \<times> 'w mock_world, string, unit) act" where
  "mtask_drop api = ignore_result (mtask_delete api)"

record mshim =
  ms_dir :: path
  ms_client :: string
  ms_containerd :: client_inner

definition shim_start_command :: "u32 \<Rightarrow> path \<Rightarrow> path \<Rightarrow> path \<Rightarrow> shim_command" where
  "shim_start_command pid binary socket dir =
     \<lparr>sm_binary = binary,
      sm_args = [''-namespace'', ''shim-benchmark-'' @ show_nat (unat pid), ''-id'', ''shim-benchmark-'' @ show_nat (unat pid),
        ''-address'', ''/run/containerd/containerd.sock'', ''start''],
      sm_env = [(''TTRPC_ADDRESS'', socket)], sm_dir = dir, sm_process_group = 0\<rparr>"

definition mshim_new ::
  "'w shim_api \<Rightarrow> 'w stress_os \<Rightarrow> client_inner \<Rightarrow> path \<Rightarrow> bool \<Rightarrow> path \<Rightarrow> ('w, string, mshim) act" where
  "mshim_new api os containerd scratch verbose binary =
     act_bind (so_tempdir os (Some scratch)) (\<lambda>dir.
     act_bind (lift_res (so_build_default_spec os)) (\<lambda>_.
     act_bind (so_save_spec os None (path_join dir ''config.json'')) (\<lambda>_.
     act_bind (if verbose
         then act_bind (so_canonicalize os ''/proc/self/fd/2'') (\<lambda>stderr. so_symlink os stderr (path_join dir ''log''))
         else so_symlink os ''/dev/null'' (path_join dir ''log'')) (\<lambda>_.
     act_bind (sa_output api (shim_start_command (so_pid os) binary (path_join scratch ''containerd.sock.ttrpc'') dir)) (\<lambda>output.
     if \<not> sa_utf8 api output then throw ''invalid utf-8 sequence''
     else
       act_bind (sa_connect api (str_trim output)) (\<lambda>_.
       ret \<lparr>ms_dir = dir, ms_client = str_trim output, ms_containerd = containerd\<rparr>))))))"

definition mshim_task ::
  "'w daemon \<Rightarrow> codecs \<Rightarrow> 'w stress_os \<Rightarrow> mshim \<Rightarrow> string \<Rightarrow> string list \<Rightarrow> ('w prog, string, mtask) act" where
  "mshim_task dm cd os s img args = mtask_new dm cd os (ms_containerd s) (ms_dir s) img args (ms_client s)"

definition mshim_drop :: "'w shim_api \<Rightarrow> mshim \<Rightarrow> ('w, string, unit) act" where
  "mshim_drop api s = ignore_result (sa_shutdown api (ms_client s) True)"

record mcontainerd =
  mc_dir :: path
  mc_verbose :: bool
  mc_containerd :: client_inner

definition events_forward :: "event \<Rightarrow> ('s, string, unit) act" where
  "events_forward forward_request = ret ()"

definition mcontainerd_new ::
  "'w daemon \<Rightarrow> codecs \<Rightarrow> 'w shim_api \<Rightarrow> 'w stress_os \<Rightarrow> bool \<Rightarrow> ('w, string, mcontainerd) act" where
  "mcontainerd_new dm cd api os verbose =
     act_bind (so_tempdir os None) (\<lambda>dir.
     act_bind (client_default dm cd) (\<lambda>containerd.
     act_bind (sa_bind api (''unix://'' @ path_join dir ''containerd.sock.ttrpc'')) (\<lambda>_.
     ret \<lparr>mc_dir = dir, mc_verbose = verbose, mc_containerd = containerd\<rparr>)))"

definition mcontainerd_start_shim ::
  "'w shim_api \<Rightarrow> 'w stress_os \<Rightarrow> mcontainerd \<Rightarrow> path \<Rightarrow> ('w, string, mshim) act" where
  "mcontainerd_start_shim api os c shim = mshim_new api os (mc_containerd c) (mc_dir c) (mc_verbose c) shim"

section \<open>Deleting under two guards\<close>

text \<open>
  \<open>delete\<close> of both tasks runs two futures, each under a guard of its own. The interface is the
  two flags and the two futures; the laws say that they are separate fields and that the futures do
  not read them.
\<close>

locale two_guards =
  fixes flag1 :: "'t \<Rightarrow> bool" and set1 :: "bool \<Rightarrow> 't \<Rightarrow> 't" and fut1 :: "'t \<Rightarrow> ('w, 'e, unit) act"
    and flag2 :: "'t \<Rightarrow> bool" and set2 :: "bool \<Rightarrow> 't \<Rightarrow> 't" and fut2 :: "'t \<Rightarrow> ('w, 'e, unit) act"
    and delete :: "('t \<times> 'w, 'e, unit) act"
  assumes delete_def: "delete = and_then_res (guarded flag1 set1 fut1) (guarded flag2 set2 fut2)"
    and flag1_set1: "flag1 (set1 b t) = b" and flag2_set2: "flag2 (set2 b t) = b"
    and flag1_set2: "flag1 (set2 b t) = flag1 t" and flag2_set1: "flag2 (set1 b t) = flag2 t"
    and set1_flag1: "set1 (flag1 t) t = t" and set2_flag2: "set2 (flag2 t) t = t"
    and fut2_set1: "fut2 (set1 b t) = fut2 t"
begin

lemma guarded1_done: "flag1 t \<Longrightarrow> guarded flag1 set1 fut1 (t, w) = (Ok (), (t, w))"
  using set1_flag1 [of t] by (simp add: guarded_def)

lemma guarded2_done: "flag2 t \<Longrightarrow> guarded flag2 set2 fut2 (t, w) = (Ok (), (t, w))"
  using set2_flag2 [of t] by (simp add: guarded_def)

lemma guarded1_open:
  "\<not> flag1 t \<Longrightarrow> guarded flag1 set1 fut1 (t, w) = (fst (fut1 t w), (if is_ok (fst (fut1 t w)) then set1 True t else t, snd (fut1 t w)))"
  using set1_flag1 [of t] by (cases "fut1 t w"; cases "fst (fut1 t w)") (auto simp: guarded_def try_run_def)

lemma guarded2_open:
  "\<not> flag2 t \<Longrightarrow> guarded flag2 set2 fut2 (t, w) = (fst (fut2 t w), (if is_ok (fst (fut2 t w)) then set2 True t else t, snd (fut2 t w)))"
  using set2_flag2 [of t] by (cases "fut2 t w"; cases "fst (fut2 t w)") (auto simp: guarded_def try_run_def)

lemma nothing_left: "flag1 t \<Longrightarrow> flag2 t \<Longrightarrow> delete (t, w) = (Ok (), (t, w))"
  by (simp add: delete_def and_then_res_def attempt_def act_bind_def guarded1_done guarded2_done)

lemma second_left:
  "flag1 t \<Longrightarrow> \<not> flag2 t \<Longrightarrow>
     delete (t, w) = (fst (fut2 t w), (if is_ok (fst (fut2 t w)) then set2 True t else t, snd (fut2 t w)))"
  by (cases "fst (fut2 t w)") (simp_all add: delete_def and_then_res_def attempt_def act_bind_def guarded1_done guarded2_open)

text \<open>A first future that fails does not keep the second from running; its error is reported.\<close>

lemma second_runs_after_error:
  "\<not> flag1 t \<Longrightarrow> fut1 t w = (Err e, w1) \<Longrightarrow> \<not> flag2 t \<Longrightarrow> fut2 t w1 = (Ok (), w2) \<Longrightarrow>
     delete (t, w) = (Err e, (set2 True t, w2))"
  by (simp add: delete_def and_then_res_def attempt_def act_bind_def guarded1_open guarded2_open)

lemma both_run:
  "\<not> flag1 t \<Longrightarrow> fut1 t w = (Ok (), w1) \<Longrightarrow> \<not> flag2 t \<Longrightarrow> fut2 t w1 = (Ok (), w2) \<Longrightarrow>
     delete (t, w) = (Ok (), (set2 True (set1 True t), w2))"
  by (simp add: delete_def and_then_res_def attempt_def act_bind_def guarded1_open guarded2_open flag2_set1 fut2_set1)

lemma succeeds_iff_done:
  assumes "delete (t, w) = (r, (t', w'))" and "is_ok r"
  shows "flag1 t' \<and> flag2 t'"
proof -
  from assms obtain a t1 w1 where one: "guarded flag1 set1 fut1 (t, w) = (Ok a, (t1, w1))" and two: "guarded flag2 set2 fut2 (t1, w1) = (Ok (), (t', w'))"
    by (cases r) (auto simp: delete_def and_then_res_def attempt_def act_bind_def split: res.splits prod.splits)
  have "flag1 t1" using one by (cases "flag1 t") (auto simp: guarded1_done guarded1_open flag1_set1 split: if_splits)
  with two show ?thesis
    by (cases "flag2 t1") (auto simp: guarded2_done guarded2_open flag2_set2 flag1_set2 split: if_splits)
qed

lemma silent_after_success:
  "delete (t, w) = (Ok (), (t', w')) \<Longrightarrow> delete (t', v) = (Ok (), (t', v)) \<and> ignore_result delete (t', v) = (Ok (), (t', v))"
  using succeeds_iff_done [of t w "Ok ()" t' w'] by (simp add: nothing_left ignore_result_def attempt_def act_bind_def)

end

interpretation ctask: two_guards tk_task_deleted "\<lambda>b t. t\<lparr>tk_task_deleted := b\<rparr>" "ctask_delete_task dm cd"
  tk_container_deleted "\<lambda>b t. t\<lparr>tk_container_deleted := b\<rparr>" "ctask_delete_container dm cd" "ctask_delete dm cd"
  by unfold_locales (simp_all add: ctask_delete_def ctask_delete_container_def)

interpretation mtask: two_guards mt_deleted "\<lambda>b t. t\<lparr>mt_deleted := b\<rparr>"
  "\<lambda>t. in_mock (sa_delete api (mt_client t) (request_for (mt_id t)))"
  mt_unmounted "\<lambda>b t. t\<lparr>mt_unmounted := b\<rparr>" "\<lambda>t. unmount_recursive (path_join (mt_dir t) ''rootfs'')"
  "mtask_delete api"
  by unfold_locales (simp_all add: mtask_delete_def)

section \<open>Properties\<close>

text \<open>
  Deletion of a task of the daemon. When it succeeds both the task and the container are
  deleted, and nothing is sent for them again, by a second call or by the drop. What has been
  deleted is not deleted again when only the rest is left, and a task that cannot be deleted does
  not keep its container from being deleted, after which only the task is retried.
\<close>

lemma task_deletion:
  assumes "ctask_delete dm cd (t, w) = (r, (t', w'))"
  shows "(is_ok r \<longrightarrow> tk_task_deleted t' \<and> tk_container_deleted t' \<and> (\<forall>v. ctask_drop dm cd (t', v) = (Ok (), (t', v)))) \<and>
    (tk_task_deleted t \<longrightarrow> \<not> tk_container_deleted t \<longrightarrow> (r, w') = ctask_delete_container dm cd t w) \<and>
    (\<not> tk_task_deleted t \<longrightarrow> \<not> tk_container_deleted t \<longrightarrow> ctask_delete_task dm cd t w = (Err e, w1) \<longrightarrow>
       ctask_delete_container dm cd t w1 = (Ok (), w2) \<longrightarrow>
       r = Err e \<and> w' = w2 \<and> tk_container_deleted t' \<and> \<not> tk_task_deleted t')"
proof (intro conjI impI)
  assume ok: "is_ok r"
  show "tk_task_deleted t'" "tk_container_deleted t'" using ctask.succeeds_iff_done [OF assms ok] by simp_all
  have "ctask_delete dm cd (t, w) = (Ok (), (t', w'))" using assms ok by (cases r) simp_all
  then show "\<forall>v. ctask_drop dm cd (t', v) = (Ok (), (t', v))"
    by (simp add: ctask_drop_def ctask.silent_after_success)
next
  assume "tk_task_deleted t" "\<not> tk_container_deleted t"
  then show "(r, w') = ctask_delete_container dm cd t w"
    using ctask.second_left [of t dm cd w] assms by simp
next
  assume "\<not> tk_task_deleted t" "\<not> tk_container_deleted t" "ctask_delete_task dm cd t w = (Err e, w1)"
    "ctask_delete_container dm cd t w1 = (Ok (), w2)"
  then show "r = Err e" "w' = w2" "tk_container_deleted t'" "\<not> tk_task_deleted t'"
    using ctask.second_runs_after_error [of t dm cd w e w1 w2] assms by simp_all
qed

text \<open>A daemon that refuses to delete tasks, and counts the containers it deletes.\<close>

definition demo_stress_daemon :: "nat daemon" where
  "demo_stress_daemon = \<lparr>dm_connect = (\<lambda>_. ret ()), dm_expiry = (\<lambda>_. []), dm_lease_create = (\<lambda>_ _. ret (Some ''l'')),
     dm_lease_delete = (\<lambda>_ _ _. ret ()), dm_read = (\<lambda>_ _. ret []), dm_get_image = (\<lambda>_ _. ret None),
     dm_prepare = (\<lambda>_ _. ret []), dm_create_container = (\<lambda>_ _. ret ()),
     dm_delete_container = (\<lambda>_ _ n. (Ok (), n + 1)), dm_create_task = (\<lambda>_ _. ret ()),
     dm_start_task = (\<lambda>_ _. ret ()), dm_wait_task = (\<lambda>_ _. ret ()), dm_kill_task = (\<lambda>_ _. ret ()),
     dm_delete_task = (\<lambda>_ _. throw ''not found'')\<rparr>"

definition demo_codecs :: codecs where
  "demo_codecs = \<lparr>cd_header_ok = (\<lambda>_. True), cd_spec_json = (\<lambda>_. Ok []), cd_manifest = (\<lambda>_. Err []), cd_image_settings = (\<lambda>_. Err [])\<rparr>"

definition demo_ctask :: ctask where
  "demo_ctask = \<lparr>tk_containerd = \<lparr>ci_namespace = ''default'', ci_lease = ''l''\<rparr>, tk_runtime = [], tk_id = ''t'', tk_image = [],
     tk_mounts = [], tk_spec = \<lparr>rs_version = [], rs_process = \<lparr>sp_args = [], sp_cwd = []\<rparr>, rs_annotations = [], rs_root = []\<rparr>,
     tk_task_deleted = False, tk_container_deleted = False\<rparr>"

lemmas demo_ctask_defs = demo_stress_daemon_def demo_codecs_def demo_ctask_def ctask_delete_task_def
  ctask_delete_container_def kill_task_def delete_task_def delete_container_def with_metadata_def act_defs

lemma task_deletion_witness:
  "fst (ctask_delete demo_stress_daemon demo_codecs (demo_ctask, 0)) = Err ''not found'' \<and>
   snd (snd (ctask_delete demo_stress_daemon demo_codecs (demo_ctask, 0))) = 1"
proof -
  obtain r t' w' where eq: "ctask_delete demo_stress_daemon demo_codecs (demo_ctask, 0) = (r, (t', w'))" by (metis prod.exhaust)
  have "ctask_delete_task demo_stress_daemon demo_codecs demo_ctask 0 = (Err ''not found'', 0)"
    and "ctask_delete_container demo_stress_daemon demo_codecs demo_ctask 0 = (Ok (), 1)"
    by (simp_all add: demo_ctask_defs)
  then show ?thesis
    using task_deletion [OF eq, of "''not found''" 0 1] eq by (simp add: demo_ctask_def)
qed

text \<open>
  The unmounting of a task's root file system: exactly the mount points below the root are
  unmounted, and one that lies below another always before it.
\<close>

lemma unmount_nested_first:
  "set (unmount_order root content) = {p \<in> set (mount_points content). path_starts_with p root} \<and>
   (\<forall>i j. i < length (unmount_order root content) \<and> j < length (unmount_order root content) \<and>
      strict_prefix (unmount_order root content ! i) (unmount_order root content ! j) \<longrightarrow> j < i)"
proof -
  let ?o = "unmount_order root content"
  have "sorted_wrt (\<lambda>p q. length q \<le> length p) ?o"
    unfolding unmount_order_def sorted_wrt_rev
    using sorted_sort_key [of length "filter (\<lambda>p. path_starts_with p root) (mount_points content)"] by (simp add: sorted_map)
  then have "length (?o ! j) \<le> length (?o ! i)" if "i \<le> j" "j < length ?o" for i j
    using that by (cases "i = j") (auto simp: sorted_wrt_iff_nth_less)
  then have "j < i" if "i < length ?o" "j < length ?o" "strict_prefix (?o ! i) (?o ! j)" for i j
    using that prefix_length_less [OF that(3)] by (metis not_le)
  then show ?thesis by (auto simp: unmount_order_def)
qed

definition demo_mounts :: string where
  "demo_mounts = ''a /r x'' @ [CHR 0x0A] @ ''a /r/b x'' @ [CHR 0x0A] @ ''a /s x''"

lemma unmount_nested_first_witness:
  "set (unmount_order ''/r'' demo_mounts) = {''/r'', ''/r/b''} \<and>
   strict_prefix (unmount_order ''/r'' demo_mounts ! 1) (unmount_order ''/r'' demo_mounts ! 0)"
proof -
  have pts: "mount_points demo_mounts = [''/r'', ''/r/b'', ''/s'']" by code_simp
  have under: "path_starts_with ''/r'' ''/r''" "path_starts_with ''/r/b'' ''/r''" "\<not> path_starts_with ''/s'' ''/r''"
    by code_simp+
  note law = unmount_nested_first [of "''/r''" demo_mounts]
  have ord: "unmount_order ''/r'' demo_mounts = [''/r/b'', ''/r'']"
    unfolding unmount_order_def pts using under by simp
  have "set (unmount_order ''/r'' demo_mounts) = {''/r'', ''/r/b''}" using law pts under by auto
  then show ?thesis unfolding ord by (simp add: strict_prefix_def prefix_def)
qed

text \<open>
  \<open>delete\<close> of a mock task succeeds as soon as the shim has deleted the task: the unmounting it
  reports as done is still a job that has not run.
\<close>

lemma mock_delete_does_not_unmount:
  assumes "mtask_delete api (t, w) = (Ok (), (t', w'))" and "mt_deleted t" and "\<not> mt_unmounted t"
  shows "mt_unmounted t' \<and> mw_world w' = mw_world w \<and> mw_jobs w' = mw_jobs w @ [path_join (mt_dir t) ''rootfs'']"
  using mtask.second_left [of t api w] assms by (auto simp: unmount_recursive_def)

end
