(* ===== verification/Stress_Main.thy ===== *)
theory Stress_Main
  imports Stress_Run Stress_Tasks
begin

text \<open>
  \<open>stress-test/src/main.rs\<close> around the run: the options, the choice between containerd and a shim
  started by the test itself, the pause task that keeps the shim alive, and the children killed at
  the end. The run itself is the step relation of \<open>Stress_Run\<close>; here it is an argument, with what it
  returns.
\<close>

record stress_cli =
  sl_containerd :: bool
  sl_verbose :: bool
  sl_container_output :: bool
  sl_parallel :: nat
  sl_count :: nat
  sl_timeout :: duration
  sl_image :: string
  sl_shim :: path
  sl_args :: "string list"

text \<open>The traits, by the operations the run starts with.\<close>

record ('h, 't, 'w) stress_impl =
  si_start_shim :: "path \<Rightarrow> ('w prog, string, 'h) act"
  si_task :: "'h \<Rightarrow> string \<Rightarrow> string list \<Rightarrow> ('w prog, string, 't) act"
  si_create :: "'t \<Rightarrow> bool \<Rightarrow> ('w prog, string, unit) act"
  si_drop_task :: "'t \<Rightarrow> ('w prog, string, unit) act"
  si_drop_shim :: "'h \<Rightarrow> ('w prog, string, unit) act"

text \<open>A value that is dropped when the block is left, in whichever way.\<close>

definition scoped :: "('s, 'e, unit) act \<Rightarrow> ('s, 'e, 'a) act \<Rightarrow> ('s, 'e, 'a) act" where
  "scoped on_drop m = (\<lambda>s. case m s of
      (Blocked, s') \<Rightarrow> (Blocked, s')
    | (r, s') \<Rightarrow> (r, snd (on_drop s')))"

text \<open>The shim and its pause task live as long as the run.\<close>

definition run_with_pause ::
  "('h, 't, 'w) stress_impl \<Rightarrow> ('h \<Rightarrow> ('w prog, string, unit) act) \<Rightarrow> stress_cli \<Rightarrow> ('w prog, string, unit) act" where
  "run_with_pause I run cli =
     act_bind (si_start_shim I (sl_shim cli)) (\<lambda>shim.
     scoped (si_drop_shim I shim) (
       act_bind (si_task I shim (sl_image cli) (sl_args cli)) (\<lambda>pause.
       scoped (si_drop_task I pause) (
         act_bind (si_create I pause False) (\<lambda>_. run shim)))))"

definition on_value :: "('t \<times> 'w, 'e, 'a) act \<Rightarrow> 't \<Rightarrow> ('w prog, 'e, 'a) act" where
  "on_value m t = (\<lambda>s. case m (t, pg_world s) of (r, (_, w)) \<Rightarrow> (r, s\<lparr>pg_world := w\<rparr>))"

definition containerd_impl ::
  "'w daemon \<Rightarrow> codecs \<Rightarrow> 'w stress_os \<Rightarrow> client_inner \<Rightarrow> (cshim, ctask, 'w) stress_impl" where
  "containerd_impl dm cd os c =
     \<lparr>si_start_shim = (\<lambda>p. in_prog (ccontainerd_start_shim os c p)), si_task = cshim_task dm cd os,
      si_create = (\<lambda>t v. on_value (ctask_create dm cd os v) t), si_drop_task = on_value (ctask_drop dm cd),
      si_drop_shim = (\<lambda>s. in_prog (cshim_drop os s))\<rparr>"

text \<open>The blocking job of a mock task, if the call has made one, runs when the call has returned.\<close>

definition settled :: "'w shim_api \<Rightarrow> ('t \<times> 'w mock_world, 'e, 'a) act \<Rightarrow> ('t \<times> 'w, 'e, 'a) act" where
  "settled api m = (\<lambda>(t, w). case m (t, \<lparr>mw_jobs = [], mw_world = w\<rparr>) of (r, (t', s)) \<Rightarrow> (r, (t', mw_world (run_job api s))))"

definition mock_impl ::
  "'w daemon \<Rightarrow> codecs \<Rightarrow> 'w shim_api \<Rightarrow> 'w stress_os \<Rightarrow> mcontainerd \<Rightarrow> (mshim, mtask, 'w) stress_impl" where
  "mock_impl dm cd api os c =
     \<lparr>si_start_shim = (\<lambda>p. in_prog (mcontainerd_start_shim api os c p)), si_task = mshim_task dm cd os,
      si_create = (\<lambda>t v. on_value (settled api (mtask_create api os v)) t),
      si_drop_task = on_value (settled api (mtask_drop api)),
      si_drop_shim = (\<lambda>s. in_prog (mshim_drop api s))\<rparr>"

definition main_impl ::
  "'w daemon \<Rightarrow> codecs \<Rightarrow> 'w shim_api \<Rightarrow> 'w stress_os \<Rightarrow> ('w prog, string, unit) act \<Rightarrow>
   (cshim \<Rightarrow> ('w prog, string, unit) act) \<Rightarrow> (mshim \<Rightarrow> ('w prog, string, unit) act) \<Rightarrow> stress_cli \<Rightarrow> ('w prog, string, unit) act" where
  "main_impl dm cd api os init_logger crun mrun cli =
     act_bind init_logger (\<lambda>_.
     if sl_containerd cli
     then act_bind (in_prog (ccontainerd_new dm cd)) (\<lambda>c. run_with_pause (containerd_impl dm cd os c) crun cli)
     else act_bind (in_prog (mcontainerd_new dm cd api os (sl_verbose cli))) (\<lambda>c.
       run_with_pause (mock_impl dm cd api os c) mrun cli))"

text \<open>\<open>res1.and(res2)\<close>: the children are reaped whatever the test returned.\<close>

fun and_res :: "('e, unit) res \<Rightarrow> ('e, unit) res \<Rightarrow> ('e, unit) res" where
  "and_res (Ok _) r = r"
| "and_res r _ = r"

definition stress_main ::
  "'w proc_os \<Rightarrow> ('w prog, string, unit) act \<Rightarrow> ('w prog, string, unit) act \<Rightarrow> 'w prog \<Rightarrow> ((string, unit) res \<times> 'w prog) option" where
  "stress_main pos subreaper body s =
     (case subreaper s of
        (Ok _, s1) \<Rightarrow>
          (case body s1 of
             (Panic p, s2) \<Rightarrow> Some (Panic p, s2)
           | (Blocked, s2) \<Rightarrow> Some (Blocked, s2)
           | (res1, s2) \<Rightarrow> map_option (\<lambda>(res2, w). (and_res res1 res2, s2\<lparr>pg_world := w\<rparr>)) (reap_children pos (pg_world s2)))
      | (r, s1) \<Rightarrow> Some (r, s1))"

text \<open>
  Whatever the run returned, an exit without a panic means that no child was left: a test that
  failed still reports its own error, and one that succeeded reports that of the reaping.
\<close>

lemma main_reaps:
  assumes "stress_main pos subreaper body s = Some (Ok (), s')" and "fst (subreaper s) = Ok ()"
  shows "fst (body (snd (subreaper s))) = Ok () \<and>
    (\<exists>u. (reap_turn pos)\<^sup>*\<^sup>* (pg_world (snd (body (snd (subreaper s))))) u \<and> no_children pos u)"
proof -
  obtain s1 where s1: "subreaper s = (Ok (), s1)" using assms(2) by (cases "subreaper s") simp
  obtain s2 w where "body s1 = (Ok (), s2)" "reap_children pos (pg_world s2) = Some (Ok (), w)"
    using assms(1) s1 by (cases "body s1"; cases "fst (body s1)") (auto simp: stress_main_def)
  then show ?thesis using s1 reap_children_returns_iff [of pos "pg_world s2" w] by auto
qed

text \<open>The pause task is dropped, and with it deleted, also when creating it has failed.\<close>

lemma pause_dropped:
  assumes "si_start_shim I (sl_shim cli) s = (Ok h, s1)" and "si_task I h (sl_image cli) (sl_args cli) s1 = (Ok t, s2)"
    and "si_create I t False s2 = (Err e, s3)"
  shows "run_with_pause I run cli s = (Err e, snd (si_drop_shim I h (snd (si_drop_task I t s3))))"
  using assms by (simp add: run_with_pause_def act_bind_def scoped_def)

end
