(* ===== verification/Wasi_Test.thy ===== *)
theory Wasi_Test
  imports Runtime_Context Instances Oci_Tar_Builder
begin

text \<open>
  \<open>containerd-shim-wasm/src/testing.rs\<close>: the harness the shims are tested with. A builder prepares
  a bundle in a temporary directory, a test runs an instance on it, and helpers import images and
  clean them up with the \<open>ctr\<close> command.

  The instance is the one of the trait, given by its operations. The file system, the builders of
  \<open>oci_spec\<close>, the commands that are run and the clock are operations of the record \<open>test_os\<close>; a
  pipe of \<open>ctr\<close> into \<open>grep\<close> is one operation. Logging and the initialisation of the zygote are left
  out. An \<open>anyhow\<close> error is its text.
\<close>

section \<open>The outside\<close>

datatype namespace_type = NsNetwork | NsOther string

record test_namespace =
  tn_type :: namespace_type
  tn_path :: "path option"

record test_spec =
  tsp_root :: path
  tsp_namespaces :: "test_namespace list"
  tsp_cwd :: path
  tsp_args :: "string list"

record 'w test_os =
  tw_tempdir :: "('w, string, path) act"
  tw_create_dir :: "path \<Rightarrow> ('w, string, unit) act"
  tw_write_options :: "path \<Rightarrow> path \<Rightarrow> ('w, string, unit) act"
  tw_write :: "path \<Rightarrow> bytes \<Rightarrow> ('w, string, unit) act"
  tw_read :: "path \<Rightarrow> ('w, string, bytes) act"
  tw_read_to_string :: "path \<Rightarrow> ('w, string, string) act"
  tw_is_symlink :: "path \<Rightarrow> 'w \<Rightarrow> bool"
  tw_canonicalize :: "path \<Rightarrow> ('w, string, path) act"
  tw_remove_file :: "path \<Rightarrow> ('w, string, unit) act"
  tw_symlink :: "path \<Rightarrow> path \<Rightarrow> ('w, string, unit) act"
  tw_create_file :: "path \<Rightarrow> ('w, string, unit) act"
  tw_default_namespaces :: "test_namespace list"
  tw_build_spec :: "test_spec \<Rightarrow> (string, test_spec) res"
  tw_save_spec :: "test_spec \<Rightarrow> path \<Rightarrow> ('w, string, unit) act"
  tw_ctr :: "string list \<Rightarrow> ('w, string, bool) act"
  tw_ctr_output :: "string list \<Rightarrow> ('w, string, string) act"
  tw_ctr_grep :: "string list \<Rightarrow> string list \<Rightarrow> ('w, string, string) act"
  tw_utf8 :: "string \<Rightarrow> bool"
  tw_now :: "'w \<Rightarrow> nat"

definition TEST_NAMESPACE :: string where
  "TEST_NAMESPACE = ''runwasi-test''"

definition SIGKILL :: u32 where
  "SIGKILL = 9"

definition SIGINT :: u32 where
  "SIGINT = 2"

definition SIGTERM :: u32 where
  "SIGTERM = 15"

section \<open>Commands on images\<close>

text \<open>\<open>ctr -n runwasi-test ...\<close>, run to its end; a failure gives the message.\<close>

definition ctr_success :: "'w test_os \<Rightarrow> string list \<Rightarrow> string \<Rightarrow> ('w, string, unit) act" where
  "ctr_success os cmd msg =
     act_bind (tw_ctr os ([''-n'', TEST_NAMESPACE] @ cmd)) (\<lambda>success. if success then ret () else throw msg)"

definition clean_container :: "'w test_os \<Rightarrow> string \<Rightarrow> ('w, string, unit) act" where
  "clean_container os container_name = ctr_success os [''c'', ''rm'', container_name] ''failed to clean container''"

definition ctr_create_container :: "'w test_os \<Rightarrow> string \<Rightarrow> string \<Rightarrow> ('w, string, unit) act" where
  "ctr_create_container os container_name img =
     ctr_success os [''c'', ''create'', img, container_name] '' failed to create container for image''"

record image_content =
  ict_bytes :: bytes
  ict_media_type :: string

text \<open>The layers are written to numbered files and added to the builder.\<close>

primrec add_contents ::
  "'w test_os \<Rightarrow> path \<Rightarrow> nat \<Rightarrow> image_content list \<Rightarrow> 'c builder \<Rightarrow> ('w, string, 'c builder) act" where
  "add_contents os dir i [] b = ret b"
| "add_contents os dir i (x # xs) b =
     (let p = path_join dir (show_nat i @ ''.wasm'') in
      act_bind (tw_write os p (ict_bytes x)) (\<lambda>_.
      add_contents os dir (Suc i) xs (add_layer_with_media_type p (ict_media_type x) b)))"

definition test_image_configuration :: image_configuration where
  "test_image_configuration = \<lparr>ic_entrypoint = [''_start''], ic_labels = Map.empty, ic_os = ''wasip1'',
     ic_architecture = ''wasm'', ic_diff_ids = []\<rparr>"

definition import_image ::
  "'w test_os \<Rightarrow> 'w oci_env \<Rightarrow> image_configuration oci_config \<Rightarrow> (string, unit) res \<Rightarrow> string \<Rightarrow>
   image_content list \<Rightarrow> ('w, string, unit) act" where
  "import_image os E C built img contents =
     act_bind (tw_tempdir os) (\<lambda>dir.
     act_bind (add_contents os dir 0 contents builder_default) (\<lambda>b.
     act_bind (lift_res built) (\<lambda>_.
     let img_path = path_join dir ''img.tar'' in
     act_bind (tw_create_file os img_path) (\<lambda>_.
     act_bind (\<lambda>w. case build E C (add_config test_image_configuration img ImageConfig b)
                 \<lparr>ts_entries = [], ts_world = w\<rparr> of (r, s) \<Rightarrow> (r, ts_world s)) (\<lambda>_.
     ctr_success os [''image'', ''import'', ''--all-platforms'', img_path] '' failed to import image'')))))"

definition get_image_sha :: "'w test_os \<Rightarrow> string \<Rightarrow> ('w, string, string) act" where
  "get_image_sha os img =
     act_bind (tw_ctr_grep os [img] [''-n'', TEST_NAMESPACE, ''i'', ''ls'']) (\<lambda>stdout.
     if \<not> tw_utf8 os stdout then throw ''invalid utf-8 sequence''
     else
       (let parts = str_split (CHR '' '') (str_trim stdout) in
        if length parts < 3 then throw ''failed to get image sha'' else ret (parts ! 2)))"

text \<open>The first and the last piece of the output cut at the equal signs.\<close>

definition label_pair :: "string \<Rightarrow> string \<times> string" where
  "label_pair stdout = (let label = str_split (CHR ''='') stdout in (str_trim (hd label), str_trim (last label)))"

definition grep_label :: "'w test_os \<Rightarrow> string \<Rightarrow> string \<Rightarrow> ('w, string, string \<times> string) act" where
  "grep_label os pattern noun =
     act_bind (tw_ctr_grep os [''-ohE'', pattern] [''-n'', TEST_NAMESPACE, noun, ''ls'']) (\<lambda>stdout.
     if \<not> tw_utf8 os stdout then throw ''invalid utf-8 sequence'' else ret (label_pair stdout))"

definition get_image_label :: "'w test_os \<Rightarrow> ('w, string, string \<times> string) act" where
  "get_image_label os = grep_label os ''runwasi.io/precompiled/.*'' ''i''"

definition get_content_label :: "'w test_os \<Rightarrow> ('w, string, string \<times> string) act" where
  "get_content_label os = grep_label os ''runwasi.io/precompiled/[[:alpha:]]*/[0-9]+=.*'' ''content''"

text \<open>\<open>str::contains\<close>.\<close>

fun str_contains :: "string \<Rightarrow> string \<Rightarrow> bool" where
  "str_contains p [] = (p = [])"
| "str_contains p (x # xs) = (starts_with p (x # xs) \<or> str_contains p xs)"

definition image_exists :: "'w test_os \<Rightarrow> string \<Rightarrow> ('w, string, bool) act" where
  "image_exists os img = (\<lambda>w. case tw_ctr_output os [''-n'', TEST_NAMESPACE, ''i'', ''ls'', ''--quiet''] w of
      (Ok stdout, w') \<Rightarrow>
        if tw_utf8 os stdout then (Ok (str_contains img stdout), w') else (Panic ''failed to parse stdout'', w')
    | (Err e, w') \<Rightarrow> (Panic ''failed to get output of image list'', w')
    | (Panic p, w') \<Rightarrow> (Panic p, w')
    | (Blocked, w') \<Rightarrow> (Blocked, w'))"

definition remove_content :: "'w test_os \<Rightarrow> string \<Rightarrow> ('w, string, unit) act" where
  "remove_content os digest = ctr_success os [''content'', ''rm'', digest] ''failed to remove content''"

text \<open>
  The loop that polls until the content is gone or a minute has passed. It calls the command again
  and again: \<open>None\<close> is a loop that does not end. The clock counts milliseconds.
\<close>

definition content_get :: "'w test_os \<Rightarrow> string \<Rightarrow> ('w, string, string) act" where
  "content_get os sha = tw_ctr_output os [''-n'', TEST_NAMESPACE, ''content'', ''get'', sha]"

partial_function (option) removal_loop :: "'w test_os \<Rightarrow> string \<Rightarrow> nat \<Rightarrow> 'w \<Rightarrow> ((string, unit) res \<times> 'w) option" where
  "removal_loop os sha start w =
     (case content_get os sha w of (r, w1) \<Rightarrow>
       (case r of
          Ok stdout \<Rightarrow>
            if stdout = [] then Some (Ok (), w1)
            else if 60000 < tw_now os w1 - start then Some (Ok (), w1)
            else removal_loop os sha start w1
        | Err e \<Rightarrow> Some (Err e, w1)
        | Panic p \<Rightarrow> Some (Panic p, w1)
        | Blocked \<Rightarrow> Some (Blocked, w1)))"

definition wait_for_content_removal :: "'w test_os \<Rightarrow> string \<Rightarrow> 'w \<Rightarrow> ((string, unit) res \<times> 'w) option" where
  "wait_for_content_removal os sha w = removal_loop os sha (tw_now os w) w"

definition clean_image :: "'w test_os \<Rightarrow> string \<Rightarrow> 'w \<Rightarrow> ((string, unit) res \<times> 'w) option" where
  "clean_image os img w =
     (case get_image_sha os img w of
        (Err _, w1) \<Rightarrow> Some (Ok (), w1)
      | (Ok sha, w1) \<Rightarrow>
          (case ctr_success os [''i'', ''rm'', img] ''failed to clean image'' w1 of
             (Ok _, w2) \<Rightarrow> wait_for_content_removal os sha w2
           | (r, w2) \<Rightarrow> Some (r, w2))
      | (Panic p, w1) \<Rightarrow> Some (Panic p, w1)
      | (Blocked, w1) \<Rightarrow> Some (Blocked, w1))"

record oci_cleanup =
  cu_image_name :: string
  cu_container_name :: string

text \<open>The drop of the guard unwraps both results.\<close>

fun unwrap_unit :: "('e, unit) res \<Rightarrow> ('e, unit) res" where
  "unwrap_unit (Err _) = Panic ''called `Result::unwrap()` on an `Err` value''"
| "unwrap_unit r = r"

definition cleanup_drop :: "'w test_os \<Rightarrow> oci_cleanup \<Rightarrow> 'w \<Rightarrow> ((string, unit) res \<times> 'w) option" where
  "cleanup_drop os c w =
     (case clean_container os (cu_container_name c) w of (r, w1) \<Rightarrow>
        if unwrap_unit r \<noteq> Ok () then Some (unwrap_unit r, w1)
        else map_option (\<lambda>(r2, w2). (unwrap_unit r2, w2)) (clean_image os (cu_image_name c) w1))"

section \<open>The builder of a test\<close>

record wasi_test_builder =
  wb_container_name :: string
  wb_start_fn :: string
  wb_namespaces :: "test_namespace list"
  wb_tempdir :: path

definition hello_path :: "path \<Rightarrow> path" where
  "hello_path dir = path_join (path_join dir ''rootfs'') ''hello.wasm''"

definition with_wasm :: "'w test_os \<Rightarrow> bytes \<Rightarrow> wasi_test_builder \<Rightarrow> ('w, string, wasi_test_builder) act" where
  "with_wasm os wasmbytes b =
     act_bind (tw_write os (hello_path (wb_tempdir b)) wasmbytes) (\<lambda>_. ret b)"

definition with_stdin :: "'w test_os \<Rightarrow> bytes \<Rightarrow> wasi_test_builder \<Rightarrow> ('w, string, wasi_test_builder) act" where
  "with_stdin os stdin b =
     act_bind (tw_write os (path_join (wb_tempdir b) ''stdin'') stdin) (\<lambda>_. ret b)"

definition empty_module :: bytes where
  "empty_module = [0, 0x61, 0x73, 0x6d, 1, 0, 0, 0]"

definition test_builder_new :: "'w test_os \<Rightarrow> ('w, string, wasi_test_builder) act" where
  "test_builder_new os =
     act_bind (tw_tempdir os) (\<lambda>dir.
     act_bind (tw_create_dir os (path_join dir ''rootfs'')) (\<lambda>_.
     let rootdir = path_join dir ''runwasi'' in
     act_bind (tw_create_dir os rootdir) (\<lambda>_.
     act_bind (tw_write_options os (path_join dir ''options.json'') rootdir) (\<lambda>_.
     act_bind (tw_write os (path_join dir ''stdout'') []) (\<lambda>_.
     act_bind (tw_write os (path_join dir ''stderr'') []) (\<lambda>_.
     act_bind (with_wasm os empty_module \<lparr>wb_container_name = ''test'', wb_start_fn = [],
       wb_namespaces = tw_default_namespaces os, wb_tempdir = dir\<rparr>) (\<lambda>b.
     with_stdin os [] b)))))))"

definition with_name :: "string \<Rightarrow> wasi_test_builder \<Rightarrow> wasi_test_builder" where
  "with_name name b = b\<lparr>wb_container_name := name\<rparr>"

definition with_host_network :: "wasi_test_builder \<Rightarrow> wasi_test_builder" where
  "with_host_network b = b\<lparr>wb_namespaces := filter (\<lambda>ns. tn_type ns \<noteq> NsNetwork) (wb_namespaces b)\<rparr>"

definition with_start_fn :: "string \<Rightarrow> wasi_test_builder \<Rightarrow> wasi_test_builder" where
  "with_start_fn start_fn b = b\<lparr>wb_start_fn := start_fn\<rparr>"

definition redirect :: "'w test_os \<Rightarrow> string \<Rightarrow> path \<Rightarrow> wasi_test_builder \<Rightarrow> ('w, string, wasi_test_builder) act" where
  "redirect os name target b =
     act_bind (tw_canonicalize os target) (\<lambda>target'.
     act_bind (tw_remove_file os (path_join (wb_tempdir b) name)) (\<lambda>_.
     act_bind (tw_symlink os target' (path_join (wb_tempdir b) name)) (\<lambda>_.
     ret b)))"

definition with_stdout :: "'w test_os \<Rightarrow> path \<Rightarrow> wasi_test_builder \<Rightarrow> ('w, string, wasi_test_builder) act" where
  "with_stdout os stdout b = redirect os ''stdout'' stdout b"

definition with_stderr :: "'w test_os \<Rightarrow> path \<Rightarrow> wasi_test_builder \<Rightarrow> ('w, string, wasi_test_builder) act" where
  "with_stderr os stderr b = redirect os ''stderr'' stderr b"

definition as_oci_image ::
  "'w test_os \<Rightarrow> (string \<Rightarrow> image_content list \<Rightarrow> ('w, string, unit) act) \<Rightarrow> string option \<Rightarrow> string option \<Rightarrow>
   wasi_test_builder \<Rightarrow> ('w, string, wasi_test_builder \<times> oci_cleanup) act" where
  "as_oci_image os import img_name con_name b =
     (let img = unwrap_or ''localhost/hello:latest'' img_name; con = unwrap_or ''test'' con_name;
          wasm_path = hello_path (wb_tempdir b) in
      act_bind (image_exists os img) (\<lambda>exists.
      act_bind (if exists then ret ()
        else
          act_bind (tw_read os wasm_path) (\<lambda>content.
          act_bind (import img [\<lparr>ict_bytes = content, ict_media_type = WASM_LAYER_MEDIA_TYPE\<rparr>]) (\<lambda>_.
          tw_remove_file os wasm_path))) (\<lambda>_.
      act_bind (ctr_create_container os con img) (\<lambda>_.
      ret (b\<lparr>wb_container_name := con\<rparr>, \<lparr>cu_image_name = img, cu_container_name = con\<rparr>)))))"

definition test_entrypoint :: "string \<Rightarrow> string" where
  "test_entrypoint start_fn = (if start_fn = [] then ''/hello.wasm'' else ''/hello.wasm#'' @ start_fn)"

record 'i wasi_test =
  wt_instance :: 'i
  wt_tempdir :: path

definition test_config :: "path \<Rightarrow> instance_config" where
  "test_config dir =
     set_stdin (path_join dir ''stdin'') (set_stderr (path_join dir ''stderr'') (set_stdout (path_join dir ''stdout'')
       (set_bundle dir (instance_config_new TEST_NAMESPACE ''/run/containerd/containerd.sock''))))"

definition test_build ::
  "(error \<Rightarrow> string) \<Rightarrow> 'w test_os \<Rightarrow> ('i, 'w) instance_impl \<Rightarrow> wasi_test_builder \<Rightarrow> ('w, string, 'i wasi_test) act" where
  "test_build show_err os T b =
     (let dir = wb_tempdir b in
      act_bind (lift_res (tw_build_spec os \<lparr>tsp_root = ''rootfs'', tsp_namespaces = wb_namespaces b, tsp_cwd = ''/'',
         tsp_args = [test_entrypoint (wb_start_fn b)]\<rparr>)) (\<lambda>spec.
      act_bind (tw_save_spec os spec (path_join dir ''config.json'')) (\<lambda>_.
      act_bind (act_map_err show_err (inst_new T (wb_container_name b) (test_config dir))) (\<lambda>i.
      ret \<lparr>wt_instance = i, wt_tempdir = dir\<rparr>))))"

section \<open>A test\<close>

definition test_start :: "(error \<Rightarrow> string) \<Rightarrow> ('i, 'w) instance_impl \<Rightarrow> 'i wasi_test \<Rightarrow> ('w, string, unit) act" where
  "test_start show_err T t = act_bind (act_map_err show_err (inst_start T (wt_instance t))) (\<lambda>_. ret ())"

definition test_delete :: "(error \<Rightarrow> string) \<Rightarrow> ('i, 'w) instance_impl \<Rightarrow> 'i wasi_test \<Rightarrow> ('w, string, unit) act" where
  "test_delete show_err T t = act_map_err show_err (inst_delete T (wt_instance t))"

definition test_signal ::
  "(error \<Rightarrow> string) \<Rightarrow> ('i, 'w) instance_impl \<Rightarrow> u32 \<Rightarrow> 'i wasi_test \<Rightarrow> ('w, string, unit) act" where
  "test_signal show_err T sig t = act_map_err show_err (inst_kill T (wt_instance t) sig)"

definition test_ctrl_c :: "(error \<Rightarrow> string) \<Rightarrow> ('i, 'w) instance_impl \<Rightarrow> 'i wasi_test \<Rightarrow> ('w, string, unit) act" where
  "test_ctrl_c show_err T t = test_signal show_err T SIGINT t"

definition test_terminate :: "(error \<Rightarrow> string) \<Rightarrow> ('i, 'w) instance_impl \<Rightarrow> 'i wasi_test \<Rightarrow> ('w, string, unit) act" where
  "test_terminate show_err T t = test_signal show_err T SIGTERM t"

definition test_kill :: "(error \<Rightarrow> string) \<Rightarrow> ('i, 'w) instance_impl \<Rightarrow> 'i wasi_test \<Rightarrow> ('w, string, unit) act" where
  "test_kill show_err T t = test_signal show_err T SIGKILL t"

text \<open>Output that was redirected is not read back.\<close>

definition read_output :: "'w test_os \<Rightarrow> path \<Rightarrow> ('w, string, string option) act" where
  "read_output os p = (\<lambda>w.
     if tw_is_symlink os p w then (Ok None, w)
     else act_bind (tw_read_to_string os p) (\<lambda>s. ret (Some s)) w)"

definition read_stdout :: "'w test_os \<Rightarrow> 'i wasi_test \<Rightarrow> ('w, string, string option) act" where
  "read_stdout os t = read_output os (path_join (wt_tempdir t) ''stdout'')"

definition read_stderr :: "'w test_os \<Rightarrow> 'i wasi_test \<Rightarrow> ('w, string, string option) act" where
  "read_stderr os t = read_output os (path_join (wt_tempdir t) ''stderr'')"

definition test_wait ::
  "(error \<Rightarrow> string) \<Rightarrow> 'w test_os \<Rightarrow> ('i, 'w) instance_impl \<Rightarrow> duration \<Rightarrow> 'i wasi_test \<Rightarrow>
   ('w, string, u32 \<times> string \<times> string) act" where
  "test_wait show_err os T timeout t =
     act_bind (act_map_err show_err (inst_wait_timeout T (wt_instance t) (Some timeout))) (\<lambda>res.
     case res of
       None \<Rightarrow>
         act_bind (act_map_err show_err (inst_kill T (wt_instance t) SIGKILL)) (\<lambda>_.
         throw ''timeout while waiting for module to finish'')
     | Some (status, _) \<Rightarrow>
         act_bind (read_stdout os t) (\<lambda>stdout.
         act_bind (read_stderr os t) (\<lambda>stderr.
         act_bind (act_map_err show_err (inst_delete T (wt_instance t))) (\<lambda>_.
         ret (status, unwrap_or [] stdout, unwrap_or [] stderr)))))"

section \<open>Properties\<close>

text \<open>
  C40. What the harness writes as the argument of the container is what the shim reads: for every
  start function, also one that contains \<open>#\<close> itself, the engine is given that function, \<open>_start\<close>
  when none was set, and the module \<open>/hello.wasm\<close>.
\<close>

theorem test_entrypoint_round_trip:
  assumes "ctx_args ctx = [test_entrypoint start_fn]"
  shows "ep_func (ctx_entrypoint ctx) = (if start_fn = [] then ''_start'' else start_fn) \<and>
    ep_name (ctx_entrypoint ctx) = Some ''hello'' \<and>
    ep_source (ctx_entrypoint ctx) = (if wc_wasm_layers ctx = [] then SourceFile ''/hello.wasm'' else SourceOci (wc_wasm_layers ctx))"
proof -
  have stem: "file_stem ''/hello.wasm'' = Some ''hello''" by code_simp
  have "split_once (CHR ''#'') (''/hello.wasm'' @ CHR ''#'' # start_fn) = Some (''/hello.wasm'', start_fn)"
    by (subst split_once_Some_iff) simp
  moreover have "split_once (CHR ''#'') ''/hello.wasm'' = None" by (simp add: split_once_None_iff)
  ultimately show ?thesis
    using assms stem by (simp add: ctx_entrypoint_def list_first_def test_entrypoint_def Let_def)
qed

definition demo_test_ctx :: "string \<Rightarrow> wasi_context" where
  "demo_test_ctx f = \<lparr>wc_spec = \<lparr>spec_root = Some ''rootfs'',
       spec_process = Some \<lparr>proc_args = Some [test_entrypoint f], proc_env = None\<rparr>, spec_hooks = None, spec_annotations = None\<rparr>,
     wc_wasm_layers = [], wc_platform = \<lparr>platform_os = [], platform_architecture = ArchWasm\<rparr>\<rparr>"

theorem test_entrypoint_round_trip_witness:
  "ep_func (ctx_entrypoint (demo_test_ctx ''a#b'')) = ''a#b''"
  using test_entrypoint_round_trip [of "demo_test_ctx ''a#b''" "''a#b''"] by (simp add: demo_test_ctx_def ctx_args_def)

text \<open>
  The wait for the removal of content ends, with success unless the command itself fails: as
  long as running the command takes some time, the loop gives up after a minute even if the
  content never disappears.
\<close>

lemma content_removal_ends:
  assumes clock: "\<And>w. tw_now os w < tw_now os (snd (content_get os sha w))"
    and runs: "\<And>w. is_ok (fst (content_get os sha w))"
  shows "\<exists>w'. wait_for_content_removal os sha w = Some (Ok (), w')"
proof -
  have "\<exists>w'. removal_loop os sha start w = Some (Ok (), w')" for start w
  proof (induction "start + 60001 - tw_now os w" arbitrary: w rule: less_induct)
    case less
    obtain stdout w1 where one: "content_get os sha w = (Ok stdout, w1)"
      using runs [of w] by (cases "content_get os sha w"; cases "fst (content_get os sha w)") auto
    show ?case
    proof (cases "stdout = [] \<or> 60000 < tw_now os w1 - start")
      case True
      then show ?thesis using one by (subst removal_loop.simps) auto
    next
      case False
      moreover have "tw_now os w < tw_now os w1" using clock [of w] one by simp
      ultimately have "start + 60001 - tw_now os w1 < start + 60001 - tw_now os w" by arith
      then obtain w' where "removal_loop os sha start w1 = Some (Ok (), w')" using less by blast
      then show ?thesis using one False by (subst removal_loop.simps) auto
    qed
  qed
  then show ?thesis by (simp add: wait_for_content_removal_def)
qed

text \<open>Content that never disappears, and a command that takes a second each time.\<close>

definition demo_test_os :: "nat test_os" where
  "demo_test_os = \<lparr>tw_tempdir = ret ''/t'', tw_create_dir = (\<lambda>_. ret ()), tw_write_options = (\<lambda>_ _. ret ()),
     tw_write = (\<lambda>_ _. ret ()), tw_read = (\<lambda>_. ret []), tw_read_to_string = (\<lambda>_. ret []), tw_is_symlink = (\<lambda>_ _. False),
     tw_canonicalize = ret, tw_remove_file = (\<lambda>_. ret ()), tw_symlink = (\<lambda>_ _. ret ()), tw_create_file = (\<lambda>_. ret ()),
     tw_default_namespaces = [], tw_build_spec = Ok, tw_save_spec = (\<lambda>_ _. ret ()), tw_ctr = (\<lambda>_. ret True),
     tw_ctr_output = (\<lambda>_ n. (Ok ''data'', n + 1000)), tw_ctr_grep = (\<lambda>_ _. ret []), tw_utf8 = (\<lambda>_. True), tw_now = id\<rparr>"

lemma content_removal_ends_witness:
  "\<exists>w'. wait_for_content_removal demo_test_os ''sha256:0'' 0 = Some (Ok (), w')"
  using content_removal_ends [of demo_test_os "''sha256:0''" 0] by (simp add: demo_test_os_def content_get_def)

end
