(* ===== verification/Precompile_Cache.thy ===== *)
theory Precompile_Cache
  imports Containerd
begin

text \<open>
  What the loading of modules leaves behind in the daemon: the leases it takes are given back, or
  their deletion is handed to the runtime, and what it has cached is what the next load reads, without compiling again.
\<close>

section \<open>Leases\<close>

text \<open>
  What is relied on of the daemon and of the runtime, with \<open>lv_held\<close> the leases the daemon holds,
  \<open>lv_refused\<close> the deletions that have failed so far and \<open>lv_queued\<close> the deletions handed to the
  runtime: a lease that is deleted is gone, a deletion that fails is recorded, only \<open>create\<close> adds
  a lease and only the one it returns, and a spawned deletion is queued. Leases may expire, and
  queued deletions may run, during any call.
\<close>

record 'w lease_view =
  lv_held :: "'w \<Rightarrow> string set"
  lv_refused :: "'w \<Rightarrow> string list"
  lv_queued :: "'w \<Rightarrow> string set"

text \<open>Between \<open>w\<close> and \<open>w'\<close> no lease was added but those of \<open>X\<close>, and the deletions of \<open>fs\<close>, and maybe more, failed.\<close>

definition lease_moves :: "'w lease_view \<Rightarrow> string set \<Rightarrow> string set \<Rightarrow> 'w \<Rightarrow> 'w \<Rightarrow> bool" where
  "lease_moves V X fs w w' \<longleftrightarrow> lv_held V w' \<subseteq> lv_held V w \<union> X \<and>
     (\<exists>new. lv_refused V w' = lv_refused V w @ new \<and> fs \<subseteq> set new)"

definition adds_no_lease :: "'w lease_view \<Rightarrow> ('w, 'e, 'a) act \<Rightarrow> bool" where
  "adds_no_lease V m \<longleftrightarrow> (\<forall>w. fst (m w) \<noteq> Blocked \<longrightarrow> lease_moves V {} {} w (snd (m w)))"

definition lease_laws :: "'w containerd \<Rightarrow> 'w lease_view \<Rightarrow> bool" where
  "lease_laws ctd V \<longleftrightarrow>
     (\<forall>ns l ls w r w'. ctd_lease_create ctd ns l ls w = (r, w') \<longrightarrow> r \<noteq> Blocked \<longrightarrow>
        lease_moves V (case r of Ok (Some lid) \<Rightarrow> {lid} | _ \<Rightarrow> {}) {} w w') \<and>
     (\<forall>ns lid w r w'. ctd_lease_delete ctd ns lid w = (r, w') \<longrightarrow> r \<noteq> Blocked \<longrightarrow>
        (r = Ok () \<longrightarrow> lease_moves V {} {} w w' \<and> lid \<notin> lv_held V w') \<and> (r \<noteq> Ok () \<longrightarrow> lease_moves V {} {lid} w w')) \<and>
     (\<forall>ns lid w. lease_moves V {} {} w (ctd_spawn_delete ctd ns lid w) \<and>
        lid \<in> lv_queued V (ctd_spawn_delete ctd ns lid w)) \<and>
     (\<forall>ns d. adds_no_lease V (ctd_read ctd ns d)) \<and>
     (\<forall>ns lid q. adds_no_lease V (ctd_write ctd ns lid q)) \<and>
     (\<forall>n q. adds_no_lease V (ctd_send ctd n q)) \<and>
     (\<forall>n. adds_no_lease V (ctd_message ctd n)) \<and>
     (\<forall>ns d. adds_no_lease V (ctd_info ctd ns d)) \<and>
     (\<forall>ns i ps. adds_no_lease V (ctd_update ctd ns i ps))"

lemma lease_lawsD:
  assumes "lease_laws ctd V"
  shows "ctd_lease_create ctd ns l ls w = (r, w') \<Longrightarrow> r \<noteq> Blocked \<Longrightarrow>
      lease_moves V (case r of Ok (Some lid) \<Rightarrow> {lid} | _ \<Rightarrow> {}) {} w w'"
    and "ctd_lease_delete ctd ns lid w = (q, w') \<Longrightarrow> q \<noteq> Blocked \<Longrightarrow>
      (q = Ok () \<longrightarrow> lease_moves V {} {} w w' \<and> lid \<notin> lv_held V w') \<and> (q \<noteq> Ok () \<longrightarrow> lease_moves V {} {lid} w w')"
    and "lease_moves V {} {} w (ctd_spawn_delete ctd ns lid w)" and "lid \<in> lv_queued V (ctd_spawn_delete ctd ns lid w)"
  using assms unfolding lease_laws_def by metis+

lemma lease_lawsD_calls:
  assumes "lease_laws ctd V"
  shows "adds_no_lease V (ctd_read ctd ns d)" "adds_no_lease V (ctd_write ctd ns lid wq)"
    "adds_no_lease V (ctd_send ctd n wq)" "adds_no_lease V (ctd_message ctd n)"
    "adds_no_lease V (ctd_info ctd ns d)" "adds_no_lease V (ctd_update ctd ns i ps)"
  using assms unfolding lease_laws_def by (blast+)

text \<open>
  \<open>left_over V w0 X w\<close>: of the leases taken since \<open>w0\<close> the daemon still holds at most those of
  \<open>X\<close> and those whose deletion has failed since.
\<close>

definition left_over :: "'w lease_view \<Rightarrow> 'w \<Rightarrow> string set \<Rightarrow> 'w \<Rightarrow> bool" where
  "left_over V w0 X w \<longleftrightarrow> (\<exists>failed. lv_refused V w = lv_refused V w0 @ failed \<and>
     lv_held V w \<subseteq> lv_held V w0 \<union> set failed \<union> X)"

text \<open>What a failure may leave: one lease whose deletion is still to come.\<close>

definition left_queued :: "'w lease_view \<Rightarrow> 'w \<Rightarrow> 'w \<Rightarrow> bool" where
  "left_queued V w0 w \<longleftrightarrow> (\<exists>X l. left_over V w0 X w \<and> X \<subseteq> lv_queued V w \<and> X \<subseteq> {l})"

lemma left_over_start: "left_over V w {} w"
  by (auto simp: left_over_def)

lemma left_over_moves:
  assumes "left_over V w0 X w" and "lease_moves V Y fs w w'"
  shows "left_over V w0 (X \<union> Y) w'"
proof -
  from assms obtain failed new where "lv_refused V w' = lv_refused V w0 @ (failed @ new)"
    "lv_held V w \<subseteq> lv_held V w0 \<union> set failed \<union> X" "lv_held V w' \<subseteq> lv_held V w \<union> Y"
    by (auto simp: left_over_def lease_moves_def)
  then show ?thesis unfolding left_over_def by (intro exI [of _ "failed @ new"]) auto
qed

lemma left_over_queued: "left_over V w0 {} w \<Longrightarrow> left_queued V w0 w"
  by (auto simp: left_queued_def intro: exI [of _ "{}"])

text \<open>A lease that is released is gone or its deletion has failed.\<close>

lemma left_over_release:
  assumes "lease_laws ctd V" and "left_over V w0 {lg_id g} w"
    and "ctd_lease_delete ctd (lg_namespace g) (lg_id g) w = (r, w')" and "r \<noteq> Blocked"
  shows "left_over V w0 {} w'"
proof -
  from lease_lawsD(2) [OF assms(1,3,4)] obtain new where new: "lv_refused V w' = lv_refused V w @ new" "lv_held V w' \<subseteq> lv_held V w"
      "r \<noteq> Ok () \<Longrightarrow> lg_id g \<in> set new" "r = Ok () \<Longrightarrow> lg_id g \<notin> lv_held V w'"
    by (cases "r = Ok ()") (auto simp: lease_moves_def)
  from assms(2) obtain failed where "lv_refused V w = lv_refused V w0 @ failed"
      "lv_held V w \<subseteq> lv_held V w0 \<union> set failed \<union> {lg_id g}"
    by (auto simp: left_over_def)
  with new show ?thesis unfolding left_over_def by (intro exI [of _ "failed @ new"]) (cases "r = Ok ()"; auto)
qed

lemma keeps_left_over: "adds_no_lease V m \<Longrightarrow> keeps (left_over V w0 X) m"
  by (rule keepsI) (metis adds_no_lease_def fst_conv left_over_moves snd_conv sup_bot.right_neutral)

lemma keeps_calls:
  assumes "lease_laws ctd V"
  shows "keeps (left_over V w0 X) (read_content ctd c d)" "keeps (left_over V w0 X) (get_info ctd c d)"
    "keeps (left_over V w0 X) (update_info ctd c i)" "keeps (left_over V w0 X) (send_message ctd q n x)"
  unfolding read_content_def get_info_def update_info_def send_message_def
  by (intro keeps_bind keeps_map_err keeps_pure lease_lawsD_calls [OF assms, THEN keeps_left_over])+

lemma keeps_write_chunks:
  assumes "lease_laws ctd V"
  shows "keeps (left_over V w0 X) (write_chunks ctd stream expected data len offset)"
  using assms
proof (induction ctd stream expected data len offset rule: write_chunks.induct)
  case (1 ctd stream expected data len offset)
  then show ?case
    by (subst write_chunks.simps) (auto simp: Let_def intro!: keeps_bind keeps_calls)
qed

lemma keeps_write_stream:
  assumes "lease_laws ctd V"
  shows "keeps (left_over V w0 X) (write_stream ctd c data expected reference labels g)"
proof -
  note calls = lease_lawsD_calls(2,4) [OF assms, THEN keeps_left_over]
  show ?thesis
    unfolding write_stream_def Let_def
    by (rule keeps_bind [OF keeps_attempt [OF calls(1)]], split sum.split)
      (auto intro!: keeps_bind keeps_map_err calls keeps_calls [OF assms] keeps_write_chunks [OF assms])
qed

lemma triple_client_lease:
  assumes "lease_laws ctd V"
  shows "triple (left_over V w0 {}) (client_lease ctd c reference) (\<lambda>g. left_over V w0 {lg_id g}) (left_queued V w0)"
proof -
  have create: "triple (left_over V w0 {}) (ctd_lease_create ctd ns l ls)
      (\<lambda>x. left_over V w0 (case x of None \<Rightarrow> {} | Some lid \<Rightarrow> {lid})) (left_queued V w0)" for ns l ls
  proof -
    have "left_over V w0 (case r of Ok (Some lid) \<Rightarrow> {lid} | _ \<Rightarrow> {}) w'"
      if "left_over V w0 {} w" "ctd_lease_create ctd ns l ls w = (r, w')" "r \<noteq> Blocked" for w r w'
      using left_over_moves [OF that(1) lease_lawsD(1) [OF assms that(2,3)]] by simp
    then show ?thesis
      by (intro tripleI) (force intro: left_over_queued split: option.splits)+
  qed
  have rest: "triple (left_over V w0 (case x of None \<Rightarrow> {} | Some lid \<Rightarrow> {lid}))
      (act_bind (lift_res (ok_or e x)) (\<lambda>lid. ret (lease_guard_new lid ns)))
      (\<lambda>g. left_over V w0 {lg_id g}) (left_queued V w0)" for e x ns
    by (cases x) (auto simp: triple_def act_bind_def lease_guard_new_def left_over_queued)
  show ?thesis
    unfolding client_lease_def
    by (rule triple_bind [where R = "\<lambda>_. left_over V w0 {}"], simp add: triple_def)
      (rule triple_bind [OF triple_map_err [OF create] rest])
qed

text \<open>A block that owns a lease hands its deletion to the runtime when it fails.\<close>

lemma triple_owning:
  assumes "lease_laws ctd V" and "keeps (left_over V w0 {lg_id g}) m"
  shows "triple (left_over V w0 {lg_id g}) (owning_lease ctd g m) (\<lambda>_. left_over V w0 {lg_id g}) (left_queued V w0)"
  unfolding triple_def
proof (intro allI impI)
  fix w assume w: "left_over V w0 {lg_id g} w"
  then have keep: "fst (m w) \<noteq> Blocked \<Longrightarrow> left_over V w0 {lg_id g} (snd (m w))"
    using keepsD [OF assms(2)] by (cases "m w") simp
  let ?v = "ctd_spawn_delete ctd (lg_namespace g) (lg_id g) (snd (m w))"
  have "lease_moves V {} {} (snd (m w)) ?v" "lg_id g \<in> lv_queued V ?v"
    using lease_lawsD(3,4) [OF assms(1)] by blast+
  then have "left_queued V w0 ?v" if "fst (m w) \<noteq> Blocked"
    using left_over_moves [OF keep [OF that]] unfolding left_queued_def
    by (intro exI [of _ "{lg_id g}"] exI [of _ "lg_id g"]) fastforce
  with keep show "post (\<lambda>_. left_over V w0 {lg_id g}) (left_queued V w0) (owning_lease ctd g m w)"
    by (cases "m w"; cases "fst (m w)") (auto simp: owning_lease_def lease_drop_def)
qed

lemma triple_save_content:
  assumes "lease_laws ctd V"
  shows "triple (left_over V w0 {}) (save_content ctd fm c data uid labels)
    (\<lambda>r. left_over V w0 {lg_id (wt_lease r)}) (left_queued V w0)"
  unfolding save_content_def Let_def
  by (intro triple_bind [OF triple_client_lease [OF assms]]
      triple_bind [OF triple_owning [OF assms keeps_write_stream [OF assms]]])
    (simp add: triple_def)

lemma triple_cache_layer:
  assumes "lease_laws ctd V"
  shows "triple (left_over V w0 {}) (cache_layer ctd fm c pid digest i original compiled)
    (\<lambda>_. left_over V w0 {}) (left_queued V w0)"
proof -
  have body: "keeps (left_over V w0 X) (act_bind (get_info ctd c d) (\<lambda>a. act_bind (update_info ctd c (f a)) (\<lambda>_.
      act_bind (get_info ctd c e) (\<lambda>b. act_bind (update_info ctd c (g b)) (\<lambda>_. ret ())))))" for X d e f g
    by (intro keeps_bind keeps_calls [OF assms] keeps_pure)
  have release: "triple (left_over V w0 {lg_id g}) (act_bind (ignore_result (lease_release ctd g)) (\<lambda>_. ret l :: ('a, error, wasm_layer) act))
      (\<lambda>_. left_over V w0 {}) (left_queued V w0)" for g and l :: wasm_layer
    unfolding triple_def
  proof (intro allI impI)
    fix w assume w: "left_over V w0 {lg_id g} w"
    obtain r w' where del: "ctd_lease_delete ctd (lg_namespace g) (lg_id g) w = (r, w')" by (metis prod.exhaust)
    note left = left_over_release [OF assms w del]
    show "post (\<lambda>_. left_over V w0 {}) (left_queued V w0)
        (act_bind (ignore_result (lease_release ctd g)) (\<lambda>_. ret l :: ('a, error, wasm_layer) act) w)"
      using left left_over_queued [OF left]
      by (cases r) (simp_all add: del act_bind_def ignore_result_def attempt_def lease_release_def act_map_err_def)
  qed
  show ?thesis
    unfolding cache_layer_def
    by (rule triple_bind [OF triple_save_content [OF assms]]) (rule triple_bind [OF triple_owning [OF assms body] release])
qed

lemma triple_cache_layers:
  assumes "lease_laws ctd V"
  shows "triple (left_over V w0 {}) (cache_layers ctd fm c pid digest i xs) (\<lambda>_. left_over V w0 {}) (left_queued V w0)"
proof (induction xs arbitrary: i)
  case (Cons x xs)
  have one: "triple (left_over V w0 {}) (case snd x of None \<Rightarrow> ret (fst x) | Some b \<Rightarrow> cache_layer ctd fm c pid digest i (fst x) b)
      (\<lambda>_. left_over V w0 {}) (left_queued V w0)"
    using triple_cache_layer [OF assms] by (cases "snd x") (auto simp: triple_def)
  show ?case
    by (simp only: cache_layers.simps, rule triple_bind [OF one], rule triple_bind [OF Cons]) (simp add: triple_def)
qed (simp add: triple_def)

lemma keeps_read_wasm_layers:
  assumes "lease_laws ctd V"
  shows "keeps (left_over V w0 X) (read_wasm_layers ctd fm c can pid needs ds)"
proof (induction ds arbitrary: needs)
  case (Cons d ds)
  have "keeps (left_over V w0 X) (digest_to_load ctd fm c d can pid)"
    unfolding digest_to_load_def by (auto intro!: keeps_bind keeps_calls [OF assms] split: option.split)
  then have "keeps (left_over V w0 X) (read_wasm_layer ctd fm c d can pid needs)" for needs
    unfolding read_wasm_layer_def
    by (intro keeps_bind keeps_attempt keeps_calls [OF assms]) (auto intro!: keeps_bind keeps_calls [OF assms] split: sum.split)
  with Cons show ?case by (simp only: read_wasm_layers.simps split_def) (intro keeps_bind keeps_pure)
qed simp

lemma leases_bind:
  assumes "keeps (left_over V w0 {}) m" and "\<And>a. triple (left_over V w0 {}) (f a) Q (left_queued V w0)"
  shows "triple (left_over V w0 {}) (act_bind m f) Q (left_queued V w0)"
  using assms unfolding keeps_def
  by (intro triple_bind [where R = "\<lambda>_. left_over V w0 {}"]) (auto intro: triple_conseq left_over_queued)

lemma triple_load_wasm_layers:
  assumes "lease_laws ctd V"
  shows "triple (left_over V w0 {}) (load_wasm_layers ctd fm c engine manifest image_digest)
    (\<lambda>_. left_over V w0 {}) (left_queued V w0)"
  unfolding load_wasm_layers_def Let_def split_def
  by (intro leases_bind keeps_calls [OF assms] keeps_read_wasm_layers [OF assms])
    (auto simp: triple_def left_over_queued split: res.split
      intro: triple_cache_layers [OF assms, unfolded triple_def, rule_format])

text \<open>
  C21. The leases a load takes. When it succeeds the daemon holds no lease it did not hold before,
  except those whose deletion the daemon failed. When it fails or panics there may be one more,
  and the deletion of that one has been handed to the runtime of the thread, which may not have
  run it yet.
\<close>

theorem no_lease_left:
  assumes "lease_laws ctd V" and "load_wasm_layers ctd fm c engine manifest image_digest w = (r, w')" and "r \<noteq> Blocked"
  shows "\<exists>failed X l. lv_refused V w' = lv_refused V w @ failed \<and>
    lv_held V w' \<subseteq> lv_held V w \<union> set failed \<union> X \<and> X \<subseteq> lv_queued V w' \<and> X \<subseteq> {l} \<and>
    ((\<exists>layers. r = Ok layers) \<longrightarrow> X = {})"
proof -
  have run: "post (\<lambda>_. left_over V w {}) (left_queued V w) (r, w')"
    using triple_load_wasm_layers [OF assms(1), of w] left_over_start assms(2) unfolding triple_def by metis
  show ?thesis
  proof (cases r)
    case (Ok layers)
    with run have "left_over V w {} w'" by simp
    then show ?thesis by (auto simp: left_over_def)
  qed (use run assms(3) in \<open>auto simp: left_queued_def left_over_def\<close>)
qed

text \<open>A daemon of which no deletion fails; one that takes no labels makes the load fail.\<close>

definition demo_leases :: "demo_store lease_view" where
  "demo_leases = \<lparr>lv_held = (\<lambda>w. set (leases w)), lv_refused = (\<lambda>_. []), lv_queued = (\<lambda>w. set (deletions w))\<rparr>"

definition no_labels :: "demo_store containerd" where
  "no_labels = demo_ctd\<lparr>ctd_update := (\<lambda>_ _ _. throw ''read only'')\<rparr>"

lemma no_labels_laws: "lease_laws no_labels demo_leases"
proof -
  have "adds_no_lease demo_leases (ctd_read no_labels ns d)" "adds_no_lease demo_leases (ctd_write no_labels ns lid q)"
    "adds_no_lease demo_leases (ctd_send no_labels n q)" "adds_no_lease demo_leases (ctd_message no_labels n)"
    "adds_no_lease demo_leases (ctd_info no_labels ns d)" "adds_no_lease demo_leases (ctd_update no_labels ns i ps)"
    for ns d lid q n i ps
    by (auto simp: adds_no_lease_def lease_moves_def demo_leases_def no_labels_def demo_ctd_def demo_send_def
        split: option.splits if_splits write_action.splits)
  then show ?thesis
    by (auto simp: lease_laws_def lease_moves_def demo_leases_def no_labels_def demo_ctd_def split: if_splits)
qed

abbreviation demo_load :: "unit engine \<Rightarrow> demo_store \<Rightarrow> (error, wasm_layer list) res \<times> demo_store" where
  "demo_load e \<equiv> load_wasm_layers demo_ctd (demo_fm []) demo_client e demo_manifest ''img''"

lemma demo_load_first:
  "fst (demo_load (demo_engine (Some ''1'')) demo_w) = Ok [\<lparr>wl_config = wl_config demo_layer, wl_layer = [9, 3, 4]\<rparr>]"
  by code_simp

theorem no_lease_left_witness:
  "\<exists>e w' X. load_wasm_layers no_labels (demo_fm []) demo_client (demo_engine (Some ''1'')) demo_manifest ''img'' demo_w = (Err e, w') \<and>
     set (leases w') \<subseteq> X \<and> X \<subseteq> set (deletions w') \<and> leases w' \<noteq> []"
proof -
  let ?r = "load_wasm_layers no_labels (demo_fm []) demo_client (demo_engine (Some ''1'')) demo_manifest ''img'' demo_w"
  have "(case ?r of (Err _, w') \<Rightarrow> leases w' \<noteq> [] | _ \<Rightarrow> False)" by code_simp
  then obtain e w' where r: "?r = (Err e, w')" "leases w' \<noteq> []" by (auto split: prod.splits res.splits)
  from no_lease_left [OF no_labels_laws r(1)] r show ?thesis by (auto simp: demo_leases_def demo_w_def)
qed

section \<open>The cache\<close>

text \<open>In the state \<open>w\<close> the daemon has the compiled form of a layer under the label of the engine.\<close>

definition layer_cached ::
  "'w containerd \<Rightarrow> formats \<Rightarrow> client \<Rightarrow> string \<Rightarrow> 'w \<Rightarrow> (descriptor \<Rightarrow> bytes) \<Rightarrow> descriptor \<Rightarrow> bool" where
  "layer_cached ctd fm c pid w compiled d \<longleftrightarrow>
     (\<exists>info label digest. get_info ctd c (desc_digest d) w = (Ok info, w) \<and> info_labels info pid = Some label \<and>
        parse_digest fm label = Ok digest \<and> read_content ctd c digest w = (Ok (compiled d), w))"

lemma read_cached_layer:
  assumes "layer_cached ctd fm c pid w compiled d"
  shows "read_wasm_layer ctd fm c d True pid needs w = (Ok (\<lparr>wl_config = d, wl_layer = compiled d\<rparr>, needs), w)"
  using assms
  by (auto simp: layer_cached_def read_wasm_layer_def digest_to_load_def act_bind_def attempt_def)

lemma read_cached_layers:
  assumes "list_all (layer_cached ctd fm c pid w compiled) ds"
  shows "read_wasm_layers ctd fm c True pid needs ds w =
    (Ok (map (\<lambda>d. \<lparr>wl_config = d, wl_layer = compiled d\<rparr>) ds, needs), w)"
  using assms by (induction ds) (auto simp: act_bind_def read_cached_layer)

text \<open>
  An image whose layers are all in the cache is loaded from there: the layers are the compiled
  ones, in the order of the manifest, nothing is written to the daemon, and \<open>precompile\<close> is not
  called; the result is the same for an engine whose \<open>precompile\<close> is anything else.
\<close>

lemma cached_image_not_recompiled:
  assumes "eng_can_precompile engine = Ok (Some v)" and "pid = precompile_label (eng_name engine) v"
    and "get_info ctd c image_digest w = (Ok info, w)" and "info_labels info pid \<noteq> None"
    and "ds = filter (\<lambda>d. is_wasm_layer (desc_media_type d) (eng_supported_layers_types engine)) (man_layers manifest)"
    and "list_all (layer_cached ctd fm c pid w compiled) ds"
  shows "load_wasm_layers ctd fm c (engine\<lparr>eng_precompile := p\<rparr>) manifest image_digest w =
    (Ok (map (\<lambda>d. \<lparr>wl_config = d, wl_layer = compiled d\<rparr>) ds), w)"
  using assms read_cached_layers [OF assms(6), of False]
  by (auto simp: load_wasm_layers_def Let_def act_bind_def)

text \<open>The second load of an image, with an engine that cannot compile any more.\<close>

lemma cached_image_not_recompiled_witness:
  "fst (demo_load ((demo_engine (Some ''1''))\<lparr>eng_precompile := (\<lambda>_. Panic ''compiled twice'')\<rparr>)
     (snd (demo_load (demo_engine (Some ''1'')) demo_w))) = Ok [\<lparr>wl_config = wl_config demo_layer, wl_layer = [9, 3, 4]\<rparr>]"
proof -
  let ?w = "snd (demo_load (demo_engine (Some ''1'')) demo_w)" and ?pid = "precompile_label ''demo'' ''1''"
  have info: "get_info demo_ctd demo_client d ?w = (Ok \<lparr>info_digest = d, info_labels = blob_labels ?w d\<rparr>, ?w)" for d
    by (simp add: get_info_def demo_ctd_def demo_client_def act_bind_def act_map_err_def)
  have labels: "blob_labels ?w ''img'' ?pid = Some ''true''" "blob_labels ?w ''a'' ?pid = Some ''sha256:3''"
    "blobs ?w ''sha256:3'' = Some [9, 3, 4]"
    by code_simp+
  have "read_content demo_ctd demo_client ''sha256:3'' ?w = (Ok [9, 3, 4], ?w)"
    using labels(3) by (simp add: read_content_def demo_ctd_def demo_client_def act_bind_def act_map_err_def)
  then have cached: "layer_cached demo_ctd (demo_fm []) demo_client ?pid ?w (\<lambda>_. [9, 3, 4]) (wl_config demo_layer)"
    using info labels(2) by (auto simp: layer_cached_def demo_layer_def demo_fm_def)
  have ds: "filter (\<lambda>d. is_wasm_layer (desc_media_type d) (eng_supported_layers_types (demo_engine (Some ''1''))))
      (man_layers demo_manifest) = [wl_config demo_layer]" by code_simp
  show ?thesis
    using cached_image_not_recompiled [of "demo_engine (Some ''1'')" "''1''" ?pid demo_ctd demo_client "''img''" ?w _
        "[wl_config demo_layer]" demo_manifest "demo_fm []" "\<lambda>_. [9, 3, 4]" "\<lambda>_. Panic ''compiled twice''", OF _ _ info]
      cached ds labels(1)
    by (simp add: demo_engine_def)
qed

end
