(* ===== verification/Content_Store.thy ===== *)
theory Content_Store
  imports Precompile_Cache
begin

text \<open>
  The precompile cache as a whole: what \<open>load_modules\<close> stores in the content store of containerd is
  what the next load finds there.

  What is relied on of the daemon is documented behaviour of its content service, in
  \<open>store_laws\<close>: reading and asking for labels change nothing and answer from the blobs and labels
  of the store; an update replaces the labels of one blob; the calls for leases and writes add blobs
  and touch no blob that was there; a content that exists, or whose commit has been answered, is in
  the store under the digest of its bytes. The store is seen through a \<open>store_view\<close>; \<open>sv_ok\<close> is
  whatever invariant the daemon keeps. Garbage collection is left out: the labels the code sets keep
  the compiled content alive.
\<close>

section \<open>The content store\<close>

record 'w store_view =
  sv_ok :: "'w \<Rightarrow> bool"
  sv_blobs :: "'w \<Rightarrow> string \<rightharpoonup> bytes"
  sv_labels :: "'w \<Rightarrow> string \<Rightarrow> (string \<rightharpoonup> string)"

definition store_grows :: "'w store_view \<Rightarrow> 'w \<Rightarrow> 'w \<Rightarrow> bool" where
  "store_grows V w w' \<longleftrightarrow> sv_ok V w' \<and> sv_blobs V w \<subseteq>\<^sub>m sv_blobs V w' \<and>
     (\<forall>d. sv_blobs V w d \<noteq> None \<longrightarrow> sv_labels V w' d = sv_labels V w d)"

definition quiet :: "'w store_view \<Rightarrow> ('w, 'e, 'a) act \<Rightarrow> bool" where
  "quiet V m \<longleftrightarrow> (\<forall>w. sv_ok V w \<longrightarrow> fst (m w) \<noteq> Blocked \<longrightarrow> store_grows V w (snd (m w)))"

definition reading_laws :: "'w containerd \<Rightarrow> string \<Rightarrow> 'w store_view \<Rightarrow> bool" where
  "reading_laws ctd ns V \<longleftrightarrow>
     (\<forall>w d b. sv_ok V w \<longrightarrow> sv_blobs V w d = Some b \<longrightarrow> (\<exists>ms. ctd_read ctd ns d w = (Ok ms, w) \<and> try_concat ms = Ok b)) \<and>
     (\<forall>w d. sv_ok V w \<longrightarrow> sv_blobs V w d = None \<longrightarrow> (\<exists>r. ctd_read ctd ns d w = (r, w) \<and>
        ((\<exists>e. r = Err e) \<or> (\<exists>ms e. r = Ok ms \<and> try_concat ms = Err e)))) \<and>
     (\<forall>w d. sv_ok V w \<longrightarrow> sv_blobs V w d \<noteq> None \<longrightarrow>
        ctd_info ctd ns d w = (Ok (Some \<lparr>info_digest = d, info_labels = sv_labels V w d\<rparr>), w)) \<and>
     (\<forall>w i x w'. sv_ok V w \<longrightarrow> ctd_update ctd ns i [''labels''] w = (Ok x, w') \<longrightarrow> sv_ok V w' \<and>
        sv_blobs V w' = sv_blobs V w \<and> sv_labels V w' = (sv_labels V w)(info_digest i := info_labels i))"

definition writing_laws :: "'w containerd \<Rightarrow> string \<Rightarrow> 'w store_view \<Rightarrow> bool" where
  "writing_laws ctd ns V \<longleftrightarrow>
     (\<forall>l ls. quiet V (ctd_lease_create ctd ns l ls)) \<and> (\<forall>lid. quiet V (ctd_lease_delete ctd ns lid)) \<and>
     (\<forall>lid q. quiet V (ctd_write ctd ns lid q)) \<and> (\<forall>n q. quiet V (ctd_send ctd n q)) \<and>
     (\<forall>n. quiet V (ctd_message ctd n)) \<and>
     (\<forall>w lid q t w'. sv_ok V w \<longrightarrow> ctd_write ctd ns lid q w = (Err (GrpcStatus GrpcAlreadyExists t), w') \<longrightarrow>
        sv_blobs V w' (wq_expected q) \<noteq> None) \<and>
     (\<forall>w n q w1 r w2. sv_ok V w \<longrightarrow> wq_action q = Commit \<longrightarrow> ctd_send ctd n q w = (Ok (), w1) \<longrightarrow>
        ctd_message ctd n w1 = (Ok (Some r), w2) \<longrightarrow> sv_blobs V w2 (ws_digest r) \<noteq> None)"

text \<open>A blob under a SHA-256 digest has that digest, and a digest of that form is its own text.\<close>

definition digest_laws :: "formats \<Rightarrow> 'w store_view \<Rightarrow> bool" where
  "digest_laws fm V \<longleftrightarrow>
     (\<forall>w h b. sv_ok V w \<longrightarrow> sv_blobs V w (''sha256:'' @ h) = Some b \<longrightarrow> sha256 fm b = h) \<and>
     (\<forall>h. parse_digest fm (''sha256:'' @ h) = Ok (''sha256:'' @ h))"

definition store_laws :: "'w containerd \<Rightarrow> formats \<Rightarrow> string \<Rightarrow> 'w store_view \<Rightarrow> bool" where
  "store_laws ctd fm ns V \<longleftrightarrow> reading_laws ctd ns V \<and> writing_laws ctd ns V \<and> digest_laws fm V"

lemma reading_lawsD:
  assumes "store_laws ctd fm ns V" and "sv_ok V w"
  shows "sv_blobs V w d = Some b \<Longrightarrow> \<exists>ms. ctd_read ctd ns d w = (Ok ms, w) \<and> try_concat ms = Ok b"
    and "sv_blobs V w d \<noteq> None \<Longrightarrow>
        ctd_info ctd ns d w = (Ok (Some \<lparr>info_digest = d, info_labels = sv_labels V w d\<rparr>), w)"
    and "ctd_update ctd ns i [''labels''] w = (Ok x, w') \<Longrightarrow> sv_ok V w' \<and>
        sv_blobs V w' = sv_blobs V w \<and> sv_labels V w' = (sv_labels V w)(info_digest i := info_labels i)"
    and "sv_blobs V w d = None \<Longrightarrow> \<exists>r. ctd_read ctd ns d w = (r, w) \<and>
        ((\<exists>e. r = Err e) \<or> (\<exists>ms e. r = Ok ms \<and> try_concat ms = Err e))"
  using assms unfolding store_laws_def reading_laws_def by blast+

lemma writing_lawsD:
  assumes "store_laws ctd fm ns V"
  shows "quiet V (ctd_lease_create ctd ns l ls)" "quiet V (ctd_lease_delete ctd ns lid)"
    "quiet V (ctd_write ctd ns lid q)" "quiet V (ctd_send ctd n q)" "quiet V (ctd_message ctd n)"
  using assms unfolding store_laws_def writing_laws_def by blast+

lemma stored_lawsD:
  assumes "store_laws ctd fm ns V" and "sv_ok V w"
  shows "ctd_write ctd ns lid q w = (Err (GrpcStatus GrpcAlreadyExists t), w') \<Longrightarrow> sv_blobs V w' (wq_expected q) \<noteq> None"
    and "wq_action q = Commit \<Longrightarrow> ctd_send ctd n q w = (Ok (), w1) \<Longrightarrow>
        ctd_message ctd n w1 = (Ok (Some r), w2) \<Longrightarrow> sv_blobs V w2 (ws_digest r) \<noteq> None"
    and "sv_blobs V w (''sha256:'' @ h) = Some b \<Longrightarrow> sha256 fm b = h"
    and "parse_digest fm (''sha256:'' @ h) = Ok (''sha256:'' @ h)"
  using assms unfolding store_laws_def writing_laws_def digest_laws_def by blast+

lemma store_growsD:
  assumes "store_grows V w w'"
  shows "sv_ok V w'" and "sv_blobs V w d = Some b \<Longrightarrow> sv_blobs V w' d = Some b"
    and "sv_blobs V w d \<noteq> None \<Longrightarrow> sv_labels V w' d = sv_labels V w d"
    and "sv_blobs V w d \<noteq> None \<Longrightarrow> sv_blobs V w' d \<noteq> None"
  using assms by (auto simp: store_grows_def map_le_def dom_def)

lemma store_grows_self: "sv_ok V w \<Longrightarrow> store_grows V w w"
  by (simp add: store_grows_def)

lemma store_grows_trans: "store_grows V u v \<Longrightarrow> store_grows V v w \<Longrightarrow> store_grows V u w"
  unfolding store_grows_def map_le_def dom_def by (metis (mono_tags, lifting) mem_Collect_eq)

lemma quiet_keeps: "quiet V m \<Longrightarrow> keeps (store_grows V w0) m"
  by (rule keepsI) (metis quiet_def fst_conv snd_conv store_grows_trans store_growsD(1))


section \<open>The calls of the client on the store\<close>

lemma act_map_err_Ok: "act_map_err g m s = (Ok a, t) \<longleftrightarrow> m s = (Ok a, t)"
  by (cases "m s"; cases "fst (m s)") (auto simp: act_map_err_def)

lemma map_err_Ok: "map_err f r = Ok a \<longleftrightarrow> r = Ok a" "Ok a = map_err f r \<longleftrightarrow> r = Ok a"
  by (cases r; auto)+

lemma ok_or_Ok: "ok_or e x = Ok a \<longleftrightarrow> x = Some a"
  by (cases x) simp_all

lemma read_content_stored:
  assumes "store_laws ctd fm (cl_namespace c) V" and "sv_ok V w" and "sv_blobs V w d = Some b"
  shows "read_content ctd c d w = (Ok b, w)"
  using reading_lawsD(1) [OF assms] by (auto simp: read_content_def act_bind_def act_map_err_def)

lemma read_content_missing:
  assumes "store_laws ctd fm (cl_namespace c) V" and "sv_ok V w" and "sv_blobs V w d = None"
  shows "\<exists>e. read_content ctd c d w = (Err e, w)"
  using reading_lawsD(4) [OF assms] by (auto simp: read_content_def act_bind_def act_map_err_def)

lemma get_info_stored:
  assumes "store_laws ctd fm (cl_namespace c) V" and "sv_ok V w" and "sv_blobs V w d \<noteq> None"
  shows "get_info ctd c d w = (Ok \<lparr>info_digest = d, info_labels = sv_labels V w d\<rparr>, w)"
  using reading_lawsD(2) [OF assms] by (simp add: get_info_def act_bind_def act_map_err_def)

lemma update_info_stored:
  assumes "store_laws ctd fm (cl_namespace c) V" and "sv_ok V w" and "update_info ctd c i w = (Ok x, w')"
  shows "sv_ok V w' \<and> sv_blobs V w' = sv_blobs V w \<and> sv_labels V w' = (sv_labels V w)(info_digest i := info_labels i)"
  using assms(3) reading_lawsD(3) [OF assms(1,2)] by (auto simp: update_info_def act_map_err_Ok elim!: act_bind_OkE)

lemma keeps_send_message:
  assumes "store_laws ctd fm ns V"
  shows "keeps (store_grows V w0) (send_message ctd q n x)"
proof -
  note frame = writing_lawsD [OF assms, THEN quiet_keeps [where ?w0.0 = w0]]
  show ?thesis unfolding send_message_def by (intro keeps_bind keeps_map_err frame keeps_pure)
qed

lemma keeps_store_leases:
  assumes "store_laws ctd fm (cl_namespace c) V"
  shows "keeps (store_grows V w0) (client_lease ctd c reference)"
    and "lg_namespace g = cl_namespace c \<Longrightarrow> keeps (store_grows V w0) (lease_release ctd g)"
proof -
  note frame = writing_lawsD [OF assms, THEN quiet_keeps [where ?w0.0 = w0]]
  show "keeps (store_grows V w0) (client_lease ctd c reference)"
    unfolding client_lease_def by (intro keeps_bind keeps_map_err frame keeps_pure) (auto intro: keepsI)
  show "keeps (store_grows V w0) (lease_release ctd g)" if "lg_namespace g = cl_namespace c"
    unfolding lease_release_def that by (intro keeps_map_err frame)
qed

lemma keeps_store_chunks:
  assumes "store_laws ctd fm ns V"
  shows "keeps (store_grows V w0) (write_chunks ctd stream expected data len offset)"
  using assms
proof (induction ctd stream expected data len offset rule: write_chunks.induct)
  case (1 ctd stream expected data len offset)
  then show ?case
    by (subst write_chunks.simps) (auto simp: Let_def intro!: keeps_bind keeps_send_message)
qed

text \<open>A commit that is answered has stored something under the digest of the answer.\<close>

lemma send_message_OkE:
  assumes "send_message ctd q n x w = (Ok r, w')"
  obtains w1 where "ctd_send ctd n q w = (Ok (), w1)" and "ctd_message ctd n w1 = (Ok (Some r), w')"
  using assms by (auto simp: send_message_def act_map_err_Ok ok_or_Ok elim!: act_bind_OkE)

lemma triple_commit:
  assumes "store_laws ctd fm ns V" and "wq_action q = Commit"
  shows "triple (store_grows V w0) (send_message ctd q n x)
    (\<lambda>r w. store_grows V w0 w \<and> sv_blobs V w (ws_digest r) \<noteq> None) (store_grows V w0)"
proof (rule tripleI)
  fix w r w' assume g: "store_grows V w0 w" and run: "send_message ctd q n x w = (Ok r, w')"
  from run show "store_grows V w0 w' \<and> sv_blobs V w' (ws_digest r) \<noteq> None"
    using keepsD [OF keeps_send_message [OF assms(1)] g run]
      stored_lawsD(2) [OF assms(1) store_growsD(1) [OF g] assms(2)] by (auto elim: send_message_OkE)
qed (use keepsD [OF keeps_send_message [OF assms(1)]] in blast)+

lemma triple_open:
  assumes "store_laws ctd fm ns V"
  shows "triple (store_grows V w0) (attempt (ctd_write ctd ns lid q))
    (\<lambda>x w. store_grows V w0 w \<and> (\<forall>e. x = Inl e \<longrightarrow> grpc_code e = GrpcAlreadyExists \<longrightarrow> sv_blobs V w (wq_expected q) \<noteq> None)) (store_grows V w0)"
proof (rule tripleI)
  fix w x w' assume g: "store_grows V w0 w" and run: "attempt (ctd_write ctd ns lid q) w = ((Ok x :: ('b, grpc_status + nat) res), w')"
  have "sv_blobs V w' (wq_expected q) \<noteq> None" if "x = Inl e" "grpc_code e = GrpcAlreadyExists" for e
  proof -
    have "ctd_write ctd ns lid q w = (Err (GrpcStatus GrpcAlreadyExists (grpc_text e)), w')"
      using run that by (cases "ctd_write ctd ns lid q w"; cases "fst (ctd_write ctd ns lid q w)"; cases e) (auto simp: attempt_def)
    then show ?thesis by (rule stored_lawsD(1) [OF assms store_growsD(1) [OF g]])
  qed
  then show "store_grows V w0 w' \<and> (\<forall>e. x = Inl e \<longrightarrow> grpc_code e = GrpcAlreadyExists \<longrightarrow> sv_blobs V w' (wq_expected q) \<noteq> None)"
    using keepsD [OF keeps_attempt [OF quiet_keeps [OF writing_lawsD(3) [OF assms]]] g run] by simp
qed (use keepsD [OF keeps_attempt [OF quiet_keeps [OF writing_lawsD(3) [OF assms]]]] in blast)+


section \<open>Saving\<close>

lemma triple_write_stream:
  assumes "store_laws ctd fm (cl_namespace c) V"
  shows "triple (store_grows V w0) (write_stream ctd c data expected reference labels g)
    (\<lambda>d w. store_grows V w0 w \<and> sv_blobs V w expected \<noteq> None) (store_grows V w0)"
proof -
  note message = quiet_keeps [OF writing_lawsD(5) [OF assms]]
  have commit: "triple (store_grows V w0)
      (act_bind (send_message ctd (default_request\<lparr>wq_action := Commit, wq_total := len, wq_offset := len,
          wq_expected := expected, wq_labels := labels, wq_data := []\<rparr>) stream expected) (\<lambda>response.
        if ws_offset response \<noteq> len then throw (e1 response)
        else if ws_digest response \<noteq> expected then throw (e2 response) else ret (ws_digest response)))
      (\<lambda>d w. store_grows V w0 w \<and> sv_blobs V w expected \<noteq> None) (store_grows V w0)"
    for len stream and e1 e2 :: "write_response \<Rightarrow> error"
    by (rule triple_bind [OF triple_commit [OF assms]]) (auto simp: triple_def)
  have stream: "triple (store_grows V w0) (act_bind m (\<lambda>_. k)) Q (store_grows V w0)"
    if "keeps (store_grows V w0) m" and "triple (store_grows V w0) k Q (store_grows V w0)" for Q m and k :: "('a, error, string) act"
    by (rule triple_bind [OF that(1) [unfolded keeps_def] that(2)])
  have body: "triple (store_grows V w0) (act_bind (act_map_err Containerd (ctd_message ctd stream)) (\<lambda>m.
      act_bind (lift_res (ok_or e m)) (\<lambda>response.
      act_bind (write_chunks ctd stream expected data len (ws_offset response)) (\<lambda>_. k)))) Q (store_grows V w0)"
    if "triple (store_grows V w0) k Q (store_grows V w0)" for Q e stream len and k :: "('a, error, string) act"
    by (rule triple_bind [OF keeps_map_err [OF message, unfolded keeps_def]])
      (rule triple_bind [OF keeps_pure(4) [unfolded keeps_def] stream [OF keeps_store_chunks [OF assms] that]])
  show ?thesis
    unfolding write_stream_def Let_def
  proof (rule triple_bind [OF triple_open [OF assms]], goal_cases)
    case (1 x)
    show ?case
    proof (cases x)
      case (Inr stream)
      show ?thesis unfolding Inr sum.case by (rule triple_conseq [OF body [OF commit]]) auto
    qed (auto simp: triple_def)
  qed
qed

lemma owning_lease_Ok: "owning_lease ctd g m w = (Ok a, w') \<longleftrightarrow> m w = (Ok a, w')"
  by (cases "m w"; cases "fst (m w)") (auto simp: owning_lease_def)

lemma client_lease_namespace: "returns (client_lease ctd c reference) (\<lambda>g. lg_namespace g = cl_namespace c)"
  unfolding client_lease_def by (intro returns_bind_any returns_pure) (simp add: lease_guard_new_def)

text \<open>What \<open>save_content\<close> reports as saved is in the store, under the digest of its bytes.\<close>

lemma save_content_stored:
  assumes "store_laws ctd fm (cl_namespace c) V" and "sv_ok V w" and "save_content ctd fm c data uid labels w = (Ok r, w')"
  shows "store_grows V w w'" and "lg_namespace (wt_lease r) = cl_namespace c"
    and "wt_digest r = ''sha256:'' @ sha256 fm data" and "sv_blobs V w' (wt_digest r) \<noteq> None"
proof -
  let ?expected = "''sha256:'' @ sha256 fm data" and ?reference = "''precompile-'' @ uid"
  obtain g w1 where lease: "client_lease ctd c ?reference w = (Ok g, w1)"
    and stream: "write_stream ctd c data ?expected ?reference labels g w1 = (Ok (wt_digest r), w')" and r: "wt_lease r = g"
    using assms(3) by (auto simp: save_content_def Let_def owning_lease_Ok elim!: act_bind_OkE)
  have "store_grows V w w1"
    by (rule keepsD [OF keeps_store_leases(1) [OF assms(1)] store_grows_self [OF assms(2)] lease]) simp
  from tripleD [OF triple_write_stream [OF assms(1)] this stream]
  have "store_grows V w w' \<and> sv_blobs V w' ?expected \<noteq> None" .
  moreover show digest: "wt_digest r = ?expected" by (rule returnsD [OF returns_write_stream stream])
  ultimately show "store_grows V w w'" "sv_blobs V w' (wt_digest r) \<noteq> None" by simp_all
  show "lg_namespace (wt_lease r) = cl_namespace c"
    unfolding r by (rule returnsD [OF client_lease_namespace lease])
qed

section \<open>Caching the compiled layers\<close>

text \<open>
  What caching one layer does to the store: the compiled bytes are there, the original layer points
  to them, the image is marked, and the rest is as it was.
\<close>

definition cached :: "formats \<Rightarrow> 'w store_view \<Rightarrow> string \<Rightarrow> 'w \<Rightarrow> string \<Rightarrow> bytes \<Rightarrow> bool" where
  "cached fm V pid w d b \<longleftrightarrow> sv_labels V w d pid = Some (''sha256:'' @ sha256 fm b) \<and>
     sv_blobs V w (''sha256:'' @ sha256 fm b) \<noteq> None"

lemma relabel_stored:
  assumes "store_laws ctd fm (cl_namespace c) V" and "sv_ok V w" and "sv_blobs V w d \<noteq> None"
    and "get_info ctd c d w = (Ok info, u)" and "update_info ctd c (info\<lparr>info_labels := f (info_labels info)\<rparr>) u = (Ok x, w')"
  shows "sv_ok V w'" and "sv_blobs V w' = sv_blobs V w" and "sv_labels V w' = (sv_labels V w)(d := f (sv_labels V w d))"
proof -
  have "u = w" "info = \<lparr>info_digest = d, info_labels = sv_labels V w d\<rparr>"
    using assms(4) get_info_stored [OF assms(1-3)] by auto
  with update_info_stored [OF assms(1,2)] assms(5)
  show "sv_ok V w'" "sv_blobs V w' = sv_blobs V w" "sv_labels V w' = (sv_labels V w)(d := f (sv_labels V w d))" by simp_all
qed

lemma cache_layer_OkE:
  assumes "cache_layer ctd fm c pid image_digest i original compiled w = (Ok l, w')"
  obtains saved w1 info u1 x w2 image_info u2 y w3 where
    "save_content ctd fm c compiled pid [pid @ ''/original'' \<mapsto> desc_digest (wl_config original)] w = (Ok saved, w1)"
    and "get_info ctd c (desc_digest (wl_config original)) w1 = (Ok info, u1)"
    and "update_info ctd c (info\<lparr>info_labels := (info_labels info)(pid \<mapsto> wt_digest saved, gc_label i \<mapsto> wt_digest saved)\<rparr>) u1 = (Ok x, w2)"
    and "get_info ctd c image_digest w2 = (Ok image_info, u2)"
    and "update_info ctd c (image_info\<lparr>info_labels := (info_labels image_info)(gc_label i \<mapsto> wt_digest saved, pid \<mapsto> ''true'')\<rparr>) u2 = (Ok y, w3)"
    and "ignore_result (lease_release ctd (wt_lease saved)) w3 = ((Ok () :: (error, unit) res), w')"
  using assms unfolding cache_layer_def
  by (elim act_bind_OkE, unfold owning_lease_Ok, elim act_bind_OkE) (rule that; simp)

lemma cache_layer_stored:
  assumes "store_laws ctd fm (cl_namespace c) V" and "sv_ok V w"
    and "cache_layer ctd fm c pid image_digest i original compiled w = (Ok l, w')"
    and "sv_blobs V w image_digest \<noteq> None" and "sv_blobs V w (desc_digest (wl_config original)) \<noteq> None"
    and "image_digest \<noteq> desc_digest (wl_config original)"
  shows "sv_ok V w'" and "sv_blobs V w \<subseteq>\<^sub>m sv_blobs V w'"
    and "cached fm V pid w' (desc_digest (wl_config original)) compiled"
    and "sv_labels V w' image_digest pid = Some ''true''"
    and "sv_blobs V w d \<noteq> None \<Longrightarrow> d \<noteq> image_digest \<Longrightarrow> d \<noteq> desc_digest (wl_config original) \<Longrightarrow>
      sv_labels V w' d = sv_labels V w d"
    and "sv_labels V w' (desc_digest (wl_config original)) = (sv_labels V w (desc_digest (wl_config original)))
      (pid \<mapsto> ''sha256:'' @ sha256 fm compiled, gc_label i \<mapsto> ''sha256:'' @ sha256 fm compiled)"
    and "sv_labels V w' image_digest = (sv_labels V w image_digest)
      (gc_label i \<mapsto> ''sha256:'' @ sha256 fm compiled, pid \<mapsto> ''true'')"
proof -
  let ?d = "desc_digest (wl_config original)"
  note laws = assms(1)
  from assms(3) obtain saved w1 info u1 x w2 image_info u2 y w3 where
    save: "save_content ctd fm c compiled pid [pid @ ''/original'' \<mapsto> ?d] w = (Ok saved, w1)"
    and original: "get_info ctd c ?d w1 = (Ok info, u1)"
      "update_info ctd c (info\<lparr>info_labels := (info_labels info)(pid \<mapsto> wt_digest saved, gc_label i \<mapsto> wt_digest saved)\<rparr>) u1 = (Ok x, w2)"
    and image: "get_info ctd c image_digest w2 = (Ok image_info, u2)"
      "update_info ctd c (image_info\<lparr>info_labels := (info_labels image_info)(gc_label i \<mapsto> wt_digest saved, pid \<mapsto> ''true'')\<rparr>) u2 = (Ok y, w3)"
    and rel: "ignore_result (lease_release ctd (wt_lease saved)) w3 = ((Ok () :: (error, unit) res), w')"
    by (rule cache_layer_OkE)
  note saved = save_content_stored [OF laws assms(2) save]
  note keep = store_growsD(3,4) [OF saved(1)]
  note up1 = relabel_stored [where f = "\<lambda>m. m(pid \<mapsto> wt_digest saved, gc_label i \<mapsto> wt_digest saved)",
      OF laws store_growsD(1) [OF saved(1)] keep(2) [OF assms(5)] original]
  note up2 = relabel_stored [where f = "\<lambda>m. m(gc_label i \<mapsto> wt_digest saved, pid \<mapsto> ''true'')",
      OF laws up1(1) keep(2) [OF assms(4), folded up1(2)] image]
  have release: "store_grows V w3 w'"
    by (rule keepsD [OF keeps_ignore_result [OF keeps_store_leases(2) [OF laws saved(2)]] store_grows_self [OF up2(1)] rel]) simp
  then show "sv_ok V w'" by (rule store_growsD)
  show "sv_blobs V w \<subseteq>\<^sub>m sv_blobs V w'"
    using saved(1) release by (auto simp: store_grows_def up1 up2 intro: map_le_trans)
  note stored = store_growsD(3,4) [OF release, unfolded up2(2) up1(2)] and labels = up2(3) [unfolded up1(3)]
  show original': "sv_labels V w' ?d = (sv_labels V w ?d)
      (pid \<mapsto> ''sha256:'' @ sha256 fm compiled, gc_label i \<mapsto> ''sha256:'' @ sha256 fm compiled)"
    using stored(1) [OF keep(2) [OF assms(5)]] keep(1) [OF assms(5)] assms(6) saved(3) by (simp add: labels)
  show image': "sv_labels V w' image_digest = (sv_labels V w image_digest)
      (gc_label i \<mapsto> ''sha256:'' @ sha256 fm compiled, pid \<mapsto> ''true'')"
    using stored(1) [OF keep(2) [OF assms(4)]] keep(1) [OF assms(4)] assms(6) saved(3) by (simp add: labels)
  show "cached fm V pid w' ?d compiled"
    using stored(2) [OF saved(4)] saved(3) by (simp add: cached_def original')
  show "sv_labels V w' image_digest pid = Some ''true''" by (simp add: image')
  show "sv_labels V w' d = sv_labels V w d" if "sv_blobs V w d \<noteq> None" "d \<noteq> image_digest" "d \<noteq> ?d"
    using stored(1) [OF keep(2) [OF that(1)]] keep(1) [OF that(1)] that by (simp add: labels)
qed

text \<open>What caching a list of layers does; without a compiled layer nothing happens at all.\<close>

definition caches ::
  "formats \<Rightarrow> 'w store_view \<Rightarrow> string \<Rightarrow> string \<Rightarrow> (string \<times> bytes option) list \<Rightarrow> 'w \<Rightarrow> 'w \<Rightarrow> bool" where
  "caches fm V pid image_digest xs w w' \<longleftrightarrow> sv_ok V w' \<and> sv_blobs V w \<subseteq>\<^sub>m sv_blobs V w' \<and>
     (\<forall>(d, b) \<in> set xs. case b of Some b \<Rightarrow> cached fm V pid w' d b | None \<Rightarrow> sv_labels V w' d = sv_labels V w d) \<and>
     (\<forall>d. sv_blobs V w d \<noteq> None \<longrightarrow> d \<noteq> image_digest \<longrightarrow> d \<notin> fst ` set xs \<longrightarrow> sv_labels V w' d = sv_labels V w d) \<and>
     (if list_all (\<lambda>x. snd x = None) xs then w' = w else sv_labels V w' image_digest pid = Some ''true'')"

lemma map_le_present: "m \<subseteq>\<^sub>m m' \<Longrightarrow> m d \<noteq> None \<Longrightarrow> m' d \<noteq> None"
  by (auto simp: map_le_def dom_def)

lemma caches_None:
  assumes "caches fm V pid image_digest xs w w'" and "sv_blobs V w d \<noteq> None" and "d \<noteq> image_digest" and "d \<notin> fst ` set xs"
  shows "caches fm V pid image_digest ((d, None) # xs) w w'"
  using assms unfolding caches_def by auto

lemma caches_Some:
  assumes "sv_ok V u" and "sv_blobs V w \<subseteq>\<^sub>m sv_blobs V u" and "cached fm V pid u d b"
    and "sv_labels V u image_digest pid = Some ''true''"
    and "\<And>e. sv_blobs V w e \<noteq> None \<Longrightarrow> e \<noteq> image_digest \<Longrightarrow> e \<noteq> d \<Longrightarrow> sv_labels V u e = sv_labels V w e"
    and "caches fm V pid image_digest xs u w'" and "sv_blobs V w d \<noteq> None" and "d \<noteq> image_digest" and "d \<notin> fst ` set xs"
    and "\<And>x. x \<in> set xs \<Longrightarrow> sv_blobs V w (fst x) \<noteq> None" and "image_digest \<notin> fst ` set xs"
  shows "caches fm V pid image_digest ((d, Some b) # xs) w w'"
proof -
  note present = map_le_present [OF assms(2)]
  have "sv_labels V w' d = sv_labels V u d" using assms(6-9) present [of d] by (auto simp: caches_def)
  moreover have le: "sv_blobs V u \<subseteq>\<^sub>m sv_blobs V w'" using assms(6) by (simp add: caches_def)
  ultimately have "cached fm V pid w' d b"
    using assms(3) map_le_present [OF le] by (simp add: cached_def)
  moreover have "case b' of Some b \<Rightarrow> cached fm V pid w' e b | None \<Rightarrow> sv_labels V w' e = sv_labels V w e"
    if "(e, b') \<in> set xs" for e b'
  proof -
    have "e \<in> fst ` set xs" using that by (rule rev_image_eqI) simp
    with assms(9,11) assms(10) [OF that] have "e \<noteq> d" "e \<noteq> image_digest" "sv_blobs V w e \<noteq> None" by auto
    from assms(5) [OF this(3,2,1)] have "sv_labels V u e = sv_labels V w e" .
    moreover have "case b' of Some b \<Rightarrow> cached fm V pid w' e b | None \<Rightarrow> sv_labels V w' e = sv_labels V u e"
      using assms(6) that by (auto simp: caches_def)
    ultimately show ?thesis by (simp split: option.splits)
  qed
  moreover have "sv_labels V w' e = sv_labels V w e"
    if "sv_blobs V w e \<noteq> None" "e \<noteq> image_digest" "e \<noteq> d" "e \<notin> fst ` set xs" for e
    using that assms(5) [of e] assms(6) present [of e] by (auto simp: caches_def)
  moreover have "sv_labels V w' image_digest pid = Some ''true''"
    using assms(4,6) by (auto simp: caches_def split: if_splits)
  ultimately show ?thesis
    using assms(2,6) by (auto simp: caches_def intro: map_le_trans)
qed

definition with_compiled :: "wasm_layer \<times> bytes option \<Rightarrow> wasm_layer" where
  "with_compiled x = (case snd x of None \<Rightarrow> fst x | Some b \<Rightarrow> \<lparr>wl_config = wl_config (fst x), wl_layer = b\<rparr>)"

definition digest_of :: "wasm_layer \<Rightarrow> string" where
  "digest_of l = desc_digest (wl_config l)"

lemma cache_layers_stored:
  assumes "store_laws ctd fm (cl_namespace c) V" and "sv_ok V w" and "sv_blobs V w image_digest \<noteq> None"
    and "cache_layers ctd fm c pid image_digest i xs w = (Ok ls, w')"
    and "list_all (\<lambda>x. sv_blobs V w (digest_of (fst x)) \<noteq> None) xs"
    and "distinct (image_digest # map (digest_of \<circ> fst) xs)"
  shows "ls = map with_compiled xs \<and> caches fm V pid image_digest (map (apfst digest_of) xs) w w'"
  using assms(2-)
proof (induction xs arbitrary: i w ls)
  case Nil
  then show ?case by (auto simp: caches_def)
next
  case (Cons x xs)
  obtain l b where x: "x = (l, b)" by (cases x)
  have fresh: "digest_of l \<notin> fst ` set (map (apfst digest_of) xs)" "image_digest \<notin> fst ` set (map (apfst digest_of) xs)"
    "digest_of l \<noteq> image_digest"
    using Cons.prems(5) by (auto simp: x image_image)
  show ?case
  proof (cases b)
    case None
    obtain ks where rest: "cache_layers ctd fm c pid image_digest (Suc i) xs w = (Ok ks, w')" and ls: "ls = l # ks"
      using Cons.prems(3) by (auto simp: x None elim!: act_bind_OkE)
    show ?thesis
      using Cons.IH [OF Cons.prems(1,2) rest] Cons.prems(4,5) caches_None [where V = V, OF _ _ fresh(3,1)]
      by (simp add: ls x None with_compiled_def)
  next
    case (Some y)
    obtain k u ks where layer: "cache_layer ctd fm c pid image_digest i l y w = (Ok k, u)"
      and rest: "cache_layers ctd fm c pid image_digest (Suc i) xs u = (Ok ks, w')" and ls: "ls = k # ks"
      using Cons.prems(3) by (auto simp: x Some elim!: act_bind_OkE)
    have there: "sv_blobs V w (digest_of l) \<noteq> None" using Cons.prems(4) by (simp add: x)
    note step = cache_layer_stored [OF assms(1) Cons.prems(1) layer Cons.prems(2), folded digest_of_def, OF there fresh(3) [symmetric]]
    have others: "sv_blobs V w (fst z) \<noteq> None" if "z \<in> set (map (apfst digest_of) xs)" for z
      using that Cons.prems(4) by (auto simp: list_all_iff)
    have "list_all (\<lambda>x. sv_blobs V u (digest_of (fst x)) \<noteq> None) xs"
      using Cons.prems(4) map_le_present [OF step(2)] by (auto simp: list_all_iff)
    then have "ks = map with_compiled xs \<and> caches fm V pid image_digest (map (apfst digest_of) xs) u w'"
      using Cons.IH [OF step(1) map_le_present [OF step(2) Cons.prems(2)] rest] Cons.prems(5) by simp
    moreover have "k = with_compiled x"
      using returnsD [OF returns_cache_layer layer] by (simp add: x Some with_compiled_def)
    ultimately show ?thesis
      using caches_Some [where fm = fm and pid = pid, OF step(1-5) _ there fresh(3,1) others fresh(2)]
      by (simp add: ls x Some)
  qed
qed

section \<open>Reading the layers\<close>

text \<open>
  The layer that is loaded from a store, and whether it has to be compiled: \<open>cached_blob\<close> is the
  compiled form the label of the layer points to; a label that points to nothing is \<open>stale\<close>.
\<close>

definition cached_blob :: "formats \<Rightarrow> 'w store_view \<Rightarrow> string \<Rightarrow> 'w \<Rightarrow> string \<Rightarrow> bytes option" where
  "cached_blob fm V pid w d = (case sv_labels V w d pid of None \<Rightarrow> None
     | Some label \<Rightarrow> (case parse_digest fm label of Ok g \<Rightarrow> sv_blobs V w g | _ \<Rightarrow> None))"

definition stale :: "formats \<Rightarrow> 'w store_view \<Rightarrow> string \<Rightarrow> 'w \<Rightarrow> descriptor \<Rightarrow> bool" where
  "stale fm V pid w d \<longleftrightarrow> sv_labels V w (desc_digest d) pid \<noteq> None \<and> cached_blob fm V pid w (desc_digest d) = None"

definition stored_layer :: "formats \<Rightarrow> 'w store_view \<Rightarrow> string \<Rightarrow> 'w \<Rightarrow> descriptor \<Rightarrow> wasm_layer" where
  "stored_layer fm V pid w d = \<lparr>wl_config = d, wl_layer =
     (case cached_blob fm V pid w (desc_digest d) of Some b \<Rightarrow> b | None \<Rightarrow> the (sv_blobs V w (desc_digest d)))\<rparr>"

definition readable :: "formats \<Rightarrow> 'w store_view \<Rightarrow> string \<Rightarrow> 'w \<Rightarrow> descriptor \<Rightarrow> bool" where
  "readable fm V pid w d \<longleftrightarrow> sv_blobs V w (desc_digest d) \<noteq> None \<and>
     (\<forall>label. sv_labels V w (desc_digest d) pid = Some label \<longrightarrow> (\<exists>g. parse_digest fm label = Ok g))"

lemma digest_to_load_stored:
  assumes "store_laws ctd fm (cl_namespace c) V" and "sv_ok V w" and "sv_blobs V w (desc_digest d) \<noteq> None"
  shows "digest_to_load ctd fm c d True pid w = (case sv_labels V w (desc_digest d) pid of
      Some label \<Rightarrow> (map_err Errors.Oci (parse_digest fm label), w) | None \<Rightarrow> (Ok (desc_digest d), w))"
  using get_info_stored [OF assms] by (simp add: digest_to_load_def act_bind_def split: option.split)

lemma read_layer_stored:
  assumes "store_laws ctd fm (cl_namespace c) V" and "sv_ok V w" and "readable fm V pid w d"
  shows "read_wasm_layer ctd fm c d True pid needs w =
    (Ok (stored_layer fm V pid w d, needs \<or> stale fm V pid w d), w)"
proof -
  from assms(3) obtain b where b: "sv_blobs V w (desc_digest d) = Some b" by (auto simp: readable_def)
  note original = read_content_stored [OF assms(1,2) b]
  note load = digest_to_load_stored [OF assms(1,2), of d pid]
  show ?thesis
  proof (cases "sv_labels V w (desc_digest d) pid")
    case None
    then show ?thesis using load original b
      by (simp add: read_wasm_layer_def act_bind_def attempt_def stored_layer_def cached_blob_def stale_def)
  next
    case (Some label)
    with assms(3) obtain g where g: "parse_digest fm label = Ok g" by (auto simp: readable_def)
    show ?thesis
    proof (cases "sv_blobs V w g")
      case None
      with b have "g \<noteq> desc_digest d" by auto
      moreover obtain e where "read_content ctd c g w = (Err e, w)"
        using read_content_missing [OF assms(1,2) None] by auto
      ultimately show ?thesis using None Some g load original b
        by (simp add: read_wasm_layer_def act_bind_def attempt_def stored_layer_def cached_blob_def stale_def)
    next
      case (Some x)
      then show ?thesis using \<open>sv_labels V w (desc_digest d) pid = Some label\<close> g load b read_content_stored [OF assms(1,2) Some]
        by (simp add: read_wasm_layer_def act_bind_def attempt_def stored_layer_def cached_blob_def stale_def)
    qed
  qed
qed

lemma read_layers_stored:
  assumes "store_laws ctd fm (cl_namespace c) V" and "sv_ok V w" and "list_all (readable fm V pid w) ds"
  shows "read_wasm_layers ctd fm c True pid needs ds w =
    (Ok (map (stored_layer fm V pid w) ds, needs \<or> list_ex (stale fm V pid w) ds), w)"
  using assms(3) by (induction ds arbitrary: needs) (auto simp: act_bind_def read_layer_stored [OF assms(1,2)])

lemma read_layers_readable:
  assumes "store_laws ctd fm (cl_namespace c) V" and "sv_ok V w"
    and "list_all (\<lambda>d. sv_blobs V w (desc_digest d) \<noteq> None) ds" and "read_wasm_layers ctd fm c True pid needs ds w = (Ok r, w')"
  shows "list_all (readable fm V pid w) ds"
  using assms(3,4)
proof (induction ds arbitrary: needs r w')
  case (Cons d ds)
  obtain l u r' where layer: "read_wasm_layer ctd fm c d True pid needs w = (Ok l, u)"
    and rest: "read_wasm_layers ctd fm c True pid (snd l) ds u = (Ok r', w')"
    using Cons.prems(2) by (auto simp: split_def elim!: act_bind_OkE)
  have "readable fm V pid w d"
    using layer digest_to_load_stored [OF assms(1,2), of d pid] Cons.prems(1)
    by (auto simp: readable_def read_wasm_layer_def map_err_Ok
        split: option.splits elim!: act_bind_OkE)
  moreover from this have "u = w" using layer read_layer_stored [OF assms(1,2)] by simp
  ultimately show ?case using Cons.IH [of "snd l" r' w'] rest Cons.prems(1) by simp
qed simp

section \<open>The second load\<close>

text \<open>Whether a load compiles: the image has no mark or some label of a layer is stale.\<close>

definition needs_compiling :: "formats \<Rightarrow> 'w store_view \<Rightarrow> string \<Rightarrow> 'w \<Rightarrow> string \<Rightarrow> descriptor list \<Rightarrow> bool" where
  "needs_compiling fm V pid w image_digest ds \<longleftrightarrow> ds \<noteq> [] \<and>
     (sv_labels V w image_digest pid = None \<or> list_ex (stale fm V pid w) ds)"

text \<open>What a load does, in terms of the store.\<close>

lemma load_stored:
  assumes "store_laws ctd fm (cl_namespace c) V" and "sv_ok V w" and "sv_blobs V w image_digest \<noteq> None"
    and "eng_can_precompile engine = Ok (Some v)" and "pid = precompile_label (eng_name engine) v"
    and "ds = filter (\<lambda>d. is_wasm_layer (desc_media_type d) (eng_supported_layers_types engine)) (man_layers manifest)"
    and "list_all (readable fm V pid w) ds"
  shows "load_wasm_layers ctd fm c engine manifest image_digest w =
    (if needs_compiling fm V pid w image_digest ds then
       (case eng_precompile engine (map (stored_layer fm V pid w) ds) of
          Ok cs \<Rightarrow> if length cs \<noteq> length ds then (Err (FailedPrecondition ''precompile returned wrong number of layers''), w)
            else cache_layers ctd fm c pid image_digest 0 (zip (map (stored_layer fm V pid w) ds) cs) w
        | Err _ \<Rightarrow> (Ok (map (stored_layer fm V pid w) ds), w)
        | Panic p \<Rightarrow> (Panic p, w) | Blocked \<Rightarrow> (Blocked, w))
     else (Ok (map (stored_layer fm V pid w) ds), w))"
  using assms(4) get_info_stored [OF assms(1-3)] read_layers_stored [OF assms(1,2,7)]
  by (auto simp: load_wasm_layers_def Let_def act_bind_def assms(5) [symmetric] assms(6) [symmetric] needs_compiling_def split: res.splits)

lemma load_readable:
  assumes "store_laws ctd fm (cl_namespace c) V" and "sv_ok V w" and "sv_blobs V w image_digest \<noteq> None"
    and "eng_can_precompile engine = Ok (Some v)" and "pid = precompile_label (eng_name engine) v"
    and "ds = filter (\<lambda>d. is_wasm_layer (desc_media_type d) (eng_supported_layers_types engine)) (man_layers manifest)"
    and "list_all (\<lambda>d. sv_blobs V w (desc_digest d) \<noteq> None) ds"
    and "load_wasm_layers ctd fm c engine manifest image_digest w = (Ok layers, w')"
  shows "list_all (readable fm V pid w) ds"
proof -
  obtain r u where "read_wasm_layers ctd fm c True pid (sv_labels V w image_digest pid = None) ds w = (Ok r, u)"
    using assms(8) get_info_stored [OF assms(1-3)] assms(4)
    by (auto simp: load_wasm_layers_def Let_def assms(5) [symmetric] assms(6) [symmetric] elim!: act_bind_OkE)
  from read_layers_readable [OF assms(1,2,7) this] show ?thesis .
qed

text \<open>A layer after the caching is what the first load returned for it.\<close>

lemma cached_layer_again:
  assumes "store_laws ctd fm ns V" and "sv_ok V w'" and "cached fm V pid w' (desc_digest d) b"
    and "inj_on (sha256 fm) (insert b (ran (sv_blobs V w')))" and "sv_blobs V w' (desc_digest d) \<noteq> None"
  shows "readable fm V pid w' d" and "\<not> stale fm V pid w' d" and "stored_layer fm V pid w' d = \<lparr>wl_config = d, wl_layer = b\<rparr>"
proof -
  note laws = stored_lawsD(3,4) [OF assms(1,2)]
  from assms(3) obtain x where x: "sv_blobs V w' (''sha256:'' @ sha256 fm b) = Some x" by (auto simp: cached_def)
  then have "x \<in> ran (sv_blobs V w')" by (rule ranI)
  then have "x = b" using inj_onD [OF assms(4) laws(1) [OF x]] by simp
  with x assms(3) laws(2) have "cached_blob fm V pid w' (desc_digest d) = Some b"
    by (simp add: cached_blob_def cached_def)
  then show "readable fm V pid w' d" "\<not> stale fm V pid w' d" "stored_layer fm V pid w' d = \<lparr>wl_config = d, wl_layer = b\<rparr>"
    using assms(3,5) laws(2) by (simp_all add: readable_def stale_def stored_layer_def cached_def)
qed

lemma kept_layer_again:
  assumes "sv_blobs V w \<subseteq>\<^sub>m sv_blobs V w'" and "sv_labels V w' (desc_digest d) = sv_labels V w (desc_digest d)"
    and "readable fm V pid w d" and "\<not> stale fm V pid w d"
  shows "readable fm V pid w' d" and "\<not> stale fm V pid w' d" and "stored_layer fm V pid w' d = stored_layer fm V pid w d"
proof -
  have kept: "sv_blobs V w' e = Some x" if "sv_blobs V w e = Some x" for e x
    using assms(1) that by (auto simp: map_le_def dom_def)
  then have "cached_blob fm V pid w' (desc_digest d) = cached_blob fm V pid w (desc_digest d)"
    using assms(2-4) by (auto simp: cached_blob_def stale_def readable_def split: option.splits res.splits)
  then show "readable fm V pid w' d" "\<not> stale fm V pid w' d" "stored_layer fm V pid w' d = stored_layer fm V pid w d"
    using assms(2-4) kept by (auto simp: stale_def readable_def stored_layer_def split: option.splits)
qed

lemma layers_again:
  assumes "store_laws ctd fm ns V" and "caches fm V pid image_digest (zip (map desc_digest ds) cs) w w'"
    and "layers = map (\<lambda>(d, b). with_compiled (stored_layer fm V pid w d, b)) (zip ds cs)" and "length cs = length ds"
    and "list_all (readable fm V pid w) ds" and "list_all (\<lambda>(d, b). stale fm V pid w d \<longrightarrow> b \<noteq> None) (zip ds cs)"
    and "inj_on (sha256 fm) (wl_layer ` set layers \<union> ran (sv_blobs V w'))"
  shows "list_all (\<lambda>d. readable fm V pid w' d \<and> \<not> stale fm V pid w' d) ds \<and> map (stored_layer fm V pid w') ds = layers"
proof -
  have ok: "sv_ok V w'" and le: "sv_blobs V w \<subseteq>\<^sub>m sv_blobs V w'" using assms(2) by (simp_all add: caches_def)
  have "readable fm V pid w' d \<and> \<not> stale fm V pid w' d \<and>
      stored_layer fm V pid w' d = with_compiled (stored_layer fm V pid w d, b)" if db: "(d, b) \<in> set (zip ds cs)" for d b
  proof -
    have "d \<in> set ds" using db by (rule set_zip_leftD)
    with assms(5) have r: "readable fm V pid w d" by (simp add: list_all_iff)
    have step: "case b of Some b \<Rightarrow> cached fm V pid w' (desc_digest d) b
        | None \<Rightarrow> sv_labels V w' (desc_digest d) = sv_labels V w (desc_digest d)"
      using assms(2) db by (auto simp: caches_def zip_map1)
    show ?thesis
    proof (cases b)
      case None
      then have "\<not> stale fm V pid w d" using assms(6) db by (auto simp: list_all_iff)
      with kept_layer_again [OF le _ r] step None show ?thesis by (simp add: with_compiled_def)
    next
      case (Some x)
      have "\<lparr>wl_config = d, wl_layer = x\<rparr> \<in> set layers"
        using db by (force simp: assms(3) Some with_compiled_def stored_layer_def)
      then have "inj_on (sha256 fm) (insert x (ran (sv_blobs V w')))"
        using assms(7) by (rule_tac inj_on_subset) force+
      from cached_layer_again [OF assms(1) ok _ this, of pid d] step Some r map_le_present [OF le]
      show ?thesis by (simp add: with_compiled_def stored_layer_def readable_def)
    qed
  qed
  then have all: "list_all (\<lambda>(d, b). readable fm V pid w' d \<and> \<not> stale fm V pid w' d \<and>
      stored_layer fm V pid w' d = with_compiled (stored_layer fm V pid w d, b)) (zip ds cs)"
    by (auto simp: list_all_iff)
  show ?thesis
    unfolding assms(3) using assms(4) [symmetric] all by (induction ds cs rule: list_induct2) simp_all
qed

text \<open>A load that compiles.\<close>

lemma compiling_load:
  assumes "store_laws ctd fm (cl_namespace c) V" and "sv_ok V w" and "sv_blobs V w image_digest \<noteq> None"
    and "list_all (\<lambda>d. sv_blobs V w (desc_digest d) \<noteq> None) ds" and "distinct (image_digest # map desc_digest ds)"
    and "length cs = length ds"
    and "cache_layers ctd fm c pid image_digest i (zip (map (stored_layer fm V pid w) ds) cs) w = (Ok layers, w')"
  shows "layers = map (\<lambda>(d, b). with_compiled (stored_layer fm V pid w d, b)) (zip ds cs)"
    and "caches fm V pid image_digest (zip (map desc_digest ds) cs) w w'"
proof -
  let ?xs = "zip (map (stored_layer fm V pid w) ds) cs"
  have digest: "digest_of (stored_layer fm V pid w d) = desc_digest d" for d by (simp add: digest_of_def stored_layer_def)
  have xs: "map (digest_of \<circ> fst) ?xs = map desc_digest ds" "map (apfst digest_of) ?xs = zip (map desc_digest ds) cs"
    "list_all (\<lambda>x. sv_blobs V w (digest_of (fst x)) \<noteq> None) ?xs"
    "map with_compiled ?xs = map (\<lambda>(d, b). with_compiled (stored_layer fm V pid w d, b)) (zip ds cs)"
    using assms(6) [symmetric] assms(4) by (induction ds cs rule: list_induct2) (simp_all add: digest)
  from cache_layers_stored [OF assms(1-3,7) xs(3)] assms(5)
  show "layers = map (\<lambda>(d, b). with_compiled (stored_layer fm V pid w d, b)) (zip ds cs)"
    "caches fm V pid image_digest (zip (map desc_digest ds) cs) w w'"
    by (simp_all add: xs(1,2,4))
qed

text \<open>The second of two loads.\<close>

lemma load_again:
  assumes "store_laws ctd fm (cl_namespace c) V" and "sv_ok V w" and "sv_blobs V w image_digest \<noteq> None"
    and "eng_can_precompile engine = Ok (Some v)" and "pid = precompile_label (eng_name engine) v"
    and "ds = filter (\<lambda>d. is_wasm_layer (desc_media_type d) (eng_supported_layers_types engine)) (man_layers manifest)"
    and "list_all (\<lambda>d. sv_blobs V w (desc_digest d) \<noteq> None) ds" and "distinct (image_digest # map desc_digest ds)"
    and "load_wasm_layers ctd fm c engine manifest image_digest w = (Ok layers, w')"
    and "needs_compiling fm V pid w image_digest ds \<longrightarrow>
      (\<exists>cs. eng_precompile engine (map (stored_layer fm V pid w) ds) = Ok cs \<and> list_ex (\<lambda>b. b \<noteq> None) cs \<and>
         list_all (\<lambda>(d, b). stale fm V pid w d \<longrightarrow> b \<noteq> None) (zip ds cs))"
    and "inj_on (sha256 fm) (wl_layer ` set layers \<union> ran (sv_blobs V w'))"
  shows "load_wasm_layers ctd fm c (engine\<lparr>eng_precompile := p\<rparr>) manifest image_digest w' = (Ok layers, w')"
proof -
  let ?engine = "engine\<lparr>eng_precompile := p\<rparr>"
  note readable = load_readable [OF assms(1-7,9)]
  note first = load_stored [OF assms(1-6) readable, unfolded assms(9)]
  have again: "load_wasm_layers ctd fm c ?engine manifest image_digest u = (Ok (map (stored_layer fm V pid u) ds), u)"
    if "sv_ok V u" "sv_blobs V u image_digest \<noteq> None" "list_all (readable fm V pid u) ds"
      "\<not> needs_compiling fm V pid u image_digest ds" for u
    using load_stored [of ctd fm c V u image_digest ?engine v pid ds manifest] assms(1,4-6) that by simp
  show ?thesis
  proof (cases "needs_compiling fm V pid w image_digest ds")
    case False
    with first again [OF assms(2,3) readable] show ?thesis by simp
  next
    case True
    with assms(10) obtain cs where cs: "eng_precompile engine (map (stored_layer fm V pid w) ds) = Ok cs"
      "list_ex (\<lambda>b. b \<noteq> None) cs" "list_all (\<lambda>(d, b). stale fm V pid w d \<longrightarrow> b \<noteq> None) (zip ds cs)" by blast
    have len: "length cs = length ds" and
      run: "cache_layers ctd fm c pid image_digest 0 (zip (map (stored_layer fm V pid w) ds) cs) w = (Ok layers, w')"
      using first True cs(1) by (auto split: if_splits)
    note stored = compiling_load [OF assms(1-3,7,8) len run]
    note final = layers_again [OF assms(1) stored(2,1) len readable cs(3) assms(11)]
    have "\<not> list_all (\<lambda>x. snd x = None) (zip (map desc_digest ds) cs)"
      using len [symmetric] cs(2) by (induction ds cs rule: list_induct2) auto
    with stored(2) have "sv_ok V w'" "sv_labels V w' image_digest pid = Some ''true''" "sv_blobs V w' image_digest \<noteq> None"
      using map_le_present [of "sv_blobs V w" "sv_blobs V w'"] assms(3) by (simp_all add: caches_def)
    with final again [of w'] show ?thesis by (auto simp: needs_compiling_def list_all_iff list_ex_iff)
  qed
qed

text \<open>
  C19. What is compiled once is found by the next load. When the layers of an image and the image are in
  the store, their digests are distinct, and loading them succeeds, then loading again with the same
  engine returns the same layers and changes nothing, whatever \<open>precompile\<close> would do this time. Where
  the first load has to compile, the engine compiles some layer, and every layer whose label points
  to nothing; no two of the contents involved have the same SHA-256.
\<close>

theorem second_load_from_cache:
  assumes "store_laws ctd fm (cl_namespace c) V" and "sv_ok V w" and "sv_blobs V w image_digest \<noteq> None"
    and "eng_can_precompile engine = Ok (Some v)" and "pid = precompile_label (eng_name engine) v"
    and "ds = filter (\<lambda>d. is_wasm_layer (desc_media_type d) (eng_supported_layers_types engine)) (man_layers manifest)"
    and "list_all (\<lambda>d. sv_blobs V w (desc_digest d) \<noteq> None) ds" and "distinct (image_digest # map desc_digest ds)"
    and "load_wasm_layers ctd fm c engine manifest image_digest w = (Ok layers, w')"
    and "needs_compiling fm V pid w image_digest ds \<longrightarrow>
      (\<exists>cs. eng_precompile engine (map (stored_layer fm V pid w) ds) = Ok cs \<and> list_ex (\<lambda>b. b \<noteq> None) cs \<and>
         list_all (\<lambda>(d, b). stale fm V pid w d \<longrightarrow> b \<noteq> None) (zip ds cs))"
    and "inj_on (sha256 fm) (wl_layer ` set layers \<union> ran (sv_blobs V w'))"
  shows "load_wasm_layers ctd fm c (engine\<lparr>eng_precompile := p\<rparr>) manifest image_digest w' = (Ok layers, w')"
  using load_again [OF assms] .

text \<open>
  A daemon that keeps the laws: the one of the other examples, except that a commit does not replace
  a content that is there.
\<close>

definition store_send :: "nat \<Rightarrow> write_request \<Rightarrow> (demo_store, string, unit) act" where
  "store_send n r = (\<lambda>w. if wq_action r = Commit \<and> blobs w (''sha256:'' @ show_nat (length (session w))) \<noteq> None
     then (Ok (), w\<lparr>reply := Some \<lparr>ws_offset = int (length (session w)),
       ws_digest = ''sha256:'' @ show_nat (length (session w))\<rparr>\<rparr>)
     else demo_send n r w)"

definition store_ctd :: "demo_store containerd" where
  "store_ctd = demo_ctd\<lparr>ctd_send := store_send\<rparr>"

definition store_w :: demo_store where
  "store_w = demo_w\<lparr>blobs := [''img'' \<mapsto> [1], ''a'' \<mapsto> [3, 4]]\<rparr>"

definition store_demo :: "demo_store store_view" where
  "store_demo = \<lparr>sv_ok = (\<lambda>w. \<forall>h b. blobs w (''sha256:'' @ h) = Some b \<longrightarrow> show_nat (length b) = h),
     sv_blobs = blobs, sv_labels = blob_labels\<rparr>"

abbreviation store_load :: "unit engine \<Rightarrow> demo_store \<Rightarrow> (error, wasm_layer list) res \<times> demo_store" where
  "store_load e \<equiv> load_wasm_layers store_ctd (demo_fm []) demo_client e demo_manifest ''img''"

lemma quiet_demo:
  "quiet store_demo (ctd_lease_create store_ctd ns l ls)" "quiet store_demo (ctd_lease_delete store_ctd ns lid)"
  "quiet store_demo (ctd_write store_ctd ns lid q)" "quiet store_demo (ctd_message store_ctd n)"
  by (auto simp: quiet_def store_grows_def store_demo_def store_ctd_def demo_ctd_def)

lemma quiet_demo_send: "quiet store_demo (ctd_send store_ctd n q)"
  by (auto simp: quiet_def store_grows_def store_demo_def store_ctd_def store_send_def demo_send_def map_le_def
      split: write_action.splits)

lemma store_demo_laws: "store_laws store_ctd (demo_fm []) ns store_demo"
proof -
  have "reading_laws store_ctd ns store_demo"
    by (auto simp: reading_laws_def store_demo_def store_ctd_def demo_ctd_def)
  moreover have "writing_laws store_ctd ns store_demo"
    unfolding writing_laws_def
    by (auto simp: quiet_demo quiet_demo_send)
      (auto simp: store_demo_def store_ctd_def store_send_def demo_ctd_def demo_send_def split: if_splits)
  moreover have "digest_laws (demo_fm []) store_demo"
    by (auto simp: digest_laws_def store_demo_def demo_fm_def)
  ultimately show ?thesis by (simp add: store_laws_def)
qed

theorem second_load_from_cache_witness:
  "store_load ((demo_engine (Some ''1''))\<lparr>eng_precompile := (\<lambda>_. Panic ''compiled twice'')\<rparr>)
      (snd (store_load (demo_engine (Some ''1'')) store_w)) =
    (Ok [\<lparr>wl_config = wl_config demo_layer, wl_layer = [9, 3, 4]\<rparr>], snd (store_load (demo_engine (Some ''1'')) store_w))"
proof -
  let ?e = "demo_engine (Some ''1'')" and ?d = "wl_config demo_layer" and ?pid = "precompile_label ''demo'' ''1''"
  let ?w = "snd (store_load ?e store_w)"
  have blobs: "blobs ?w d = (if d = ''sha256:3'' then Some [9, 3, 4] else if d = ''a'' then Some [3, 4]
      else if d = ''img'' then Some [1] else None)" for d
    by code_simp simp
  have ran: "ran (blobs ?w) \<subseteq> {[9, 3, 4], [3, 4], [1]}" by (auto simp: ran_def blobs split: if_splits)
  have first: "store_load ?e store_w = (Ok [\<lparr>wl_config = ?d, wl_layer = [9, 3, 4]\<rparr>], ?w)"
  proof -
    have "fst (store_load ?e store_w) = Ok [\<lparr>wl_config = ?d, wl_layer = [9, 3, 4]\<rparr>]" by code_simp
    then show ?thesis by (metis prod.collapse)
  qed
  have ds: "filter (\<lambda>d. is_wasm_layer (desc_media_type d) (eng_supported_layers_types ?e)) (man_layers demo_manifest) = [?d]"
    by code_simp
  have "inj_on (sha256 (demo_fm [])) {[9, 3, 4], [3, 4], [1]}"
    by (simp add: demo_fm_def)
  then have inj: "inj_on (sha256 (demo_fm [])) (wl_layer ` set [\<lparr>wl_config = ?d, wl_layer = [9, 3, 4]\<rparr>] \<union> ran (sv_blobs store_demo ?w))"
    by (rule inj_on_subset) (use ran in \<open>auto simp: store_demo_def\<close>)
  show ?thesis
    by (rule second_load_from_cache [OF store_demo_laws _ _ _ HOL.refl ds [symmetric] _ _ first _ inj])
      (simp_all add: store_demo_def store_w_def demo_layer_def demo_engine_def)
qed

text \<open>
  When the engine compiles nothing (its layers are compiled already, for another image), nothing is
  marked either: the store stays as it was, and every load of the image asks the engine again.
\<close>

lemma nothing_compiled_nothing_marked:
  assumes "length cs = length ls" and "list_all (\<lambda>b. b = None) cs"
  shows "cache_layers ctd fm c pid image_digest i (zip ls cs) w = (Ok ls, w)"
  using assms by (induction cs ls arbitrary: i rule: list_induct2) (simp_all add: act_bind_def)

section \<open>References\<close>

lemma precompile_label_not_gc: "precompile_label name version \<noteq> gc_label i"
  by (simp add: precompile_label_def PRECOMPILE_PREFIX_def gc_label_def)

text \<open>
  C20. The labels that keep the compiled content of a layer alive have the index of the layer in their
  name and not the engine. Once another engine, or another version, has cached its own compiled form
  of the layer, the layer and the image still say that the first engine has compiled them, but both
  references of that index are to the content of the second engine.
\<close>

theorem second_engine_takes_references:
  assumes "store_laws ctd fm (cl_namespace c) V" and "sv_ok V w" and "sv_blobs V w image_digest \<noteq> None"
    and "desc_digest (wl_config original) = d" and "sv_blobs V w d \<noteq> None" and "image_digest \<noteq> d"
    and "precompile_label name1 version1 \<noteq> precompile_label name2 version2"
    and "cache_layer ctd fm c (precompile_label name1 version1) image_digest i original b1 w = (Ok l1, w1)"
    and "cache_layer ctd fm c (precompile_label name2 version2) image_digest i original b2 w1 = (Ok l2, w2)"
  shows "sv_labels V w2 d (precompile_label name1 version1) = Some (''sha256:'' @ sha256 fm b1) \<and>
    sv_labels V w2 image_digest (precompile_label name1 version1) = Some ''true'' \<and>
    sv_labels V w2 d (gc_label i) = Some (''sha256:'' @ sha256 fm b2) \<and>
    sv_labels V w2 image_digest (gc_label i) = Some (''sha256:'' @ sha256 fm b2)"
proof -
  note first = cache_layer_stored [OF assms(1,2,8,3), unfolded assms(4), OF assms(5,6)]
  note present = map_le_present [OF first(2)]
  note second = cache_layer_stored [OF assms(1) first(1) assms(9) present [OF assms(3)], unfolded assms(4), OF present [OF assms(5)] assms(6)]
  note labels = first(6,7) second(6,7) precompile_label_not_gc precompile_label_not_gc [symmetric] assms(7)
  show ?thesis by (simp add: labels)
qed

abbreviation store_cache :: "string \<Rightarrow> bytes \<Rightarrow> demo_store \<Rightarrow> (error, wasm_layer) res \<times> demo_store" where
  "store_cache v b \<equiv> cache_layer store_ctd (demo_fm []) demo_client (precompile_label ''demo'' v) ''img'' 0 demo_layer b"

theorem second_engine_takes_references_witness:
  "let w = snd (store_cache ''2'' [8, 7, 3, 4] (snd (store_cache ''1'' [9, 3, 4] store_w))) in
     blob_labels w ''a'' (precompile_label ''demo'' ''1'') = Some ''sha256:3'' \<and>
     blob_labels w ''a'' (gc_label 0) = Some ''sha256:4'' \<and> blob_labels w ''img'' (gc_label 0) = Some ''sha256:4''"
proof -
  let ?w1 = "snd (store_cache ''1'' [9, 3, 4] store_w)" and ?w2 = "snd (store_cache ''2'' [8, 7, 3, 4] (snd (store_cache ''1'' [9, 3, 4] store_w)))"
  have "fst (store_cache ''1'' [9, 3, 4] store_w) = Ok \<lparr>wl_config = wl_config demo_layer, wl_layer = [9, 3, 4]\<rparr>"
    "fst (store_cache ''2'' [8, 7, 3, 4] ?w1) = Ok \<lparr>wl_config = wl_config demo_layer, wl_layer = [8, 7, 3, 4]\<rparr>"
    by code_simp+
  then have runs: "store_cache ''1'' [9, 3, 4] store_w = (Ok \<lparr>wl_config = wl_config demo_layer, wl_layer = [9, 3, 4]\<rparr>, ?w1)"
    "store_cache ''2'' [8, 7, 3, 4] ?w1 = (Ok \<lparr>wl_config = wl_config demo_layer, wl_layer = [8, 7, 3, 4]\<rparr>, ?w2)"
    by (metis prod.collapse)+
  have digests: "''sha256:'' @ sha256 (demo_fm []) [9, 3, 4] = ''sha256:3''" "''sha256:'' @ sha256 (demo_fm []) [8, 7, 3, 4] = ''sha256:4''"
    by code_simp+
  have start: "sv_ok store_demo store_w" "sv_blobs store_demo store_w ''img'' \<noteq> None" "desc_digest (wl_config demo_layer) = ''a''"
    "sv_blobs store_demo store_w ''a'' \<noteq> None" "''img'' \<noteq> ''a''" "precompile_label ''demo'' ''1'' \<noteq> precompile_label ''demo'' ''2''"
    by (simp_all add: store_demo_def store_w_def demo_layer_def precompile_label_def)
  from second_engine_takes_references [OF store_demo_laws start runs] show ?thesis
    unfolding digests Let_def by (simp add: store_demo_def)
qed

end
