(* ===== verification/Wasmtime_Cache.thy ===== *)
theory Wasmtime_Cache
  imports Wasmtime Content_Store
begin

text \<open>
  The wasmtime engine (\<open>containerd-shim-wasmtime/src/instance.rs\<close>) with the cache of the containerd
  client: what the two do together with an image the engine has not seen before.
\<close>

section \<open>Compiling the layers of an image\<close>

text \<open>What \<open>precompile\<close> makes of the bytes of one layer, if it compiles them.\<close>

definition compiled_form :: "('m, 'c, 'w) wasmtime \<Rightarrow> nat \<Rightarrow> bytes \<Rightarrow> bytes option" where
  "compiled_form W engine b =
     (if wt_detect_precompiled W engine b \<noteq> None then None
      else (case binary_type_from_bytes (wt_is_component W) (wt_is_core_wasm W) b of
              Some Module \<Rightarrow> (case wt_precompile_module W engine b of Ok x \<Rightarrow> Some x | _ \<Rightarrow> None)
            | Some Component \<Rightarrow> (case wt_precompile_component W engine b of Ok x \<Rightarrow> Some x | _ \<Rightarrow> None)
            | None \<Rightarrow> None))"

lemma precompile_layers_compiled:
  "list_all (\<lambda>l. compiled_form W engine (wl_layer l) \<noteq> None) ls \<Longrightarrow>
    precompile_layers W engine ls = Ok (map (\<lambda>l. compiled_form W engine (wl_layer l)) ls)"
  by (induction ls) (auto simp: compiled_form_def split: if_splits option.splits wasm_binary_type.splits res.splits)

lemma unlabelled_layer:
  assumes "sv_labels V w (desc_digest d) pid = None"
  shows "stored_layer fm V pid w d = \<lparr>wl_config = d, wl_layer = the (sv_blobs V w (desc_digest d))\<rparr>" and "\<not> stale fm V pid w d"
  using assms by (simp_all add: stored_layer_def cached_blob_def stale_def)

text \<open>
  C32. The wasmtime engine compiles an image once. Take an image that this version of the engine has
  not compiled, each of whose layers is a module or a component the compiler accepts. When loading it
  succeeds, every layer comes with its compiled form, and a second load returns the same layers from
  the content store, without compiling and without changing anything there.
\<close>

theorem wasmtime_compiles_once:
  assumes "store_laws ctd fm (cl_namespace c) V" and "sv_ok V w" and "sv_blobs V w image_digest \<noteq> None"
    and "precompiler W = Ok engine" and "pid = precompile_label ''wasmtime'' (show_nat (unat (wt_compatibility_hash W engine)))"
    and "ds = filter (\<lambda>d. is_wasm_layer (desc_media_type d) default_supported_layers_types) (man_layers manifest)"
    and "distinct (image_digest # map desc_digest ds)"
    and "sv_labels V w image_digest pid = None"
    and "\<forall>d \<in> set ds. sv_labels V w (desc_digest d) pid = None \<and>
      (\<exists>b. sv_blobs V w (desc_digest d) = Some b \<and> compiled_form W engine b \<noteq> None)"
    and "load_wasm_layers ctd fm c (wasmtime_engine W fs wat race) manifest image_digest w = (Ok layers, w')"
    and "inj_on (sha256 fm) (wl_layer ` set layers \<union> ran (sv_blobs V w'))"
  shows "layers = map (\<lambda>d. \<lparr>wl_config = d, wl_layer = the (compiled_form W engine (the (sv_blobs V w (desc_digest d))))\<rparr>) ds \<and>
    load_wasm_layers ctd fm c ((wasmtime_engine W fs wat race)\<lparr>eng_precompile := p\<rparr>) manifest image_digest w' = (Ok layers, w')"
proof -
  let ?e = "wasmtime_engine W fs wat race" and ?v = "show_nat (unat (wt_compatibility_hash W engine))"
  let ?ls = "map (stored_layer fm V pid w) ds" and ?cs = "map (\<lambda>d. compiled_form W engine (the (sv_blobs V w (desc_digest d)))) ds"
  have e: "eng_can_precompile ?e = Ok (Some ?v)" "pid = precompile_label (eng_name ?e) ?v"
    "ds = filter (\<lambda>d. is_wasm_layer (desc_media_type d) (eng_supported_layers_types ?e)) (man_layers manifest)"
    using assms(4-6) by (simp_all add: wasmtime_engine_def wasmtime_can_precompile_def)
  have there: "list_all (\<lambda>d. sv_blobs V w (desc_digest d) \<noteq> None) ds" using assms(9) by (auto simp: list_all_iff)
  note readable = load_readable [OF assms(1-3) e there assms(10)]
  have stored: "stored_layer fm V pid w d = \<lparr>wl_config = d, wl_layer = the (sv_blobs V w (desc_digest d))\<rparr>" "\<not> stale fm V pid w d"
    if "d \<in> set ds" for d
    using assms(9) that unlabelled_layer [of V w d pid fm] by simp_all
  have ls: "?ls = map (\<lambda>d. \<lparr>wl_config = d, wl_layer = the (sv_blobs V w (desc_digest d))\<rparr>) ds" using stored(1) by simp
  have "list_all (\<lambda>l. compiled_form W engine (wl_layer l) \<noteq> None) (map (\<lambda>d. \<lparr>wl_config = d, wl_layer = the (sv_blobs V w (desc_digest d))\<rparr>) ds)"
    using assms(9) by (auto simp: list_all_iff)
  note compiled = precompile_layers_compiled [OF this]
  have compile: "eng_precompile ?e ?ls = Ok ?cs" if "ds \<noteq> []"
    unfolding ls using compiled that assms(4) by (simp add: wasmtime_engine_def wasmtime_precompile_def comp_def)
  have some: "list_ex (\<lambda>b. b \<noteq> None) ?cs" if "ds \<noteq> []" using assms(9) that by (cases ds) auto
  have "list_all (\<lambda>(d, b). stale fm V pid w d \<longrightarrow> b \<noteq> None) (zip ds ?cs)"
    using stored(2) by (auto simp: list_all_iff dest: set_zip_leftD)
  then have "needs_compiling fm V pid w image_digest ds \<longrightarrow> (\<exists>cs. eng_precompile ?e ?ls = Ok cs \<and> list_ex (\<lambda>b. b \<noteq> None) cs \<and>
      list_all (\<lambda>(d, b). stale fm V pid w d \<longrightarrow> b \<noteq> None) (zip ds cs))"
    using compile some by (auto simp: needs_compiling_def)
  note again = load_again [OF assms(1-3) e there assms(7,10) this assms(11)]
  have "layers = map (\<lambda>d. \<lparr>wl_config = d, wl_layer = the (compiled_form W engine (the (sv_blobs V w (desc_digest d))))\<rparr>) ds"
  proof (cases "ds = []")
    case False
    then have "needs_compiling fm V pid w image_digest ds" using assms(8) by (simp add: needs_compiling_def)
    then have run: "cache_layers ctd fm c pid image_digest 0 (zip ?ls ?cs) w = (Ok layers, w')"
      using load_stored [OF assms(1-3) e readable] compile [OF False] assms(10) by simp
    have "layers = map (\<lambda>(d, b). with_compiled (stored_layer fm V pid w d, b)) (zip ds ?cs)"
      by (rule compiling_load(1) [OF assms(1-3) there assms(7) _ run]) simp
    with assms(9) stored(1) show ?thesis by (auto simp: zip_map2 zip_same_conv_map with_compiled_def)
  qed (use load_stored [OF assms(1-3) e readable] assms(10) in \<open>simp add: needs_compiling_def\<close>)
  with again [of p] show ?thesis by blast
qed

definition store_wasm :: demo_store where
  "store_wasm = demo_w\<lparr>blobs := [''img'' \<mapsto> [1], ''a'' \<mapsto> [0, 4]]\<rparr>"

abbreviation wasm_load :: "(wasm_layer list \<Rightarrow> (string, bytes option list) res) \<Rightarrow> demo_store \<Rightarrow> (error, wasm_layer list) res \<times> demo_store" where
  "wasm_load p \<equiv> load_wasm_layers store_ctd (demo_fm []) demo_client
     ((wasmtime_engine demo_wasmtime demo_fs (\<lambda>_. Ok ()) [])\<lparr>eng_precompile := p\<rparr>) demo_manifest ''img''"

theorem wasmtime_compiles_once_witness:
  "wasm_load (\<lambda>_. Panic ''compiled twice'') (snd (wasm_load (wasmtime_precompile demo_wasmtime) store_wasm)) =
    (Ok [\<lparr>wl_config = wl_config demo_layer, wl_layer = [9, 0, 4]\<rparr>], snd (wasm_load (wasmtime_precompile demo_wasmtime) store_wasm))"
proof -
  let ?e = "wasmtime_engine demo_wasmtime demo_fs (\<lambda>_. Ok ()) []" and ?d = "wl_config demo_layer"
  let ?w = "snd (wasm_load (wasmtime_precompile demo_wasmtime) store_wasm)"
  have e: "?e\<lparr>eng_precompile := wasmtime_precompile demo_wasmtime\<rparr> = ?e" by (simp add: wasmtime_engine_def)
  have "blobs ?w d = (if d = ''sha256:3'' then Some [9, 0, 4] else if d = ''a'' then Some [0, 4]
      else if d = ''img'' then Some [1] else None)" for d
    by code_simp simp
  then have ran: "ran (blobs ?w) \<subseteq> {[9, 0, 4], [0, 4], [1]}" by (auto simp: ran_def split: if_splits)
  have first: "load_wasm_layers store_ctd (demo_fm []) demo_client ?e demo_manifest ''img'' store_wasm =
      (Ok [\<lparr>wl_config = ?d, wl_layer = [9, 0, 4]\<rparr>], ?w)"
  proof -
    have "fst (wasm_load (wasmtime_precompile demo_wasmtime) store_wasm) = Ok [\<lparr>wl_config = ?d, wl_layer = [9, 0, 4]\<rparr>]" by code_simp
    then show ?thesis unfolding e by (metis prod.collapse)
  qed
  have ds: "filter (\<lambda>d. is_wasm_layer (desc_media_type d) default_supported_layers_types) (man_layers demo_manifest) = [?d]"
    by code_simp
  have engine: "precompiler demo_wasmtime = Ok 0" by code_simp
  have "inj_on (sha256 (demo_fm [])) {[9, 0, 4], [0, 4], [1]}" by (simp add: demo_fm_def)
  then have inj: "inj_on (sha256 (demo_fm [])) (wl_layer ` set [\<lparr>wl_config = ?d, wl_layer = [9, 0, 4]\<rparr>] \<union> ran (sv_blobs store_demo ?w))"
    by (rule inj_on_subset) (use ran in \<open>auto simp: store_demo_def\<close>)
  have layer: "compiled_form demo_wasmtime 0 [0, 4] = Some [9, 0, 4]"
    by (simp add: compiled_form_def demo_wasmtime_def binary_type_from_bytes_def)
  have "wasm_load (\<lambda>_. Panic ''compiled twice'') ?w = (Ok [\<lparr>wl_config = ?d, wl_layer = [9, 0, 4]\<rparr>], ?w)"
    by (rule conjunct2, rule wasmtime_compiles_once [OF store_demo_laws _ _ engine HOL.refl ds [symmetric] _ _ _ first inj])
      (simp_all add: store_demo_def store_wasm_def demo_w_def demo_layer_def layer)
  then show ?thesis .
qed

end
