(* ===== verification/Threads.thy ===== *)
theory Threads
  imports Prelude "HOL-Library.Multiset"
begin

text \<open>
  Threads that interleave. A handler of the service runs on a thread of its own and shares the
  state of the service with the others; between two accesses to that state any other thread may
  run.

  \<open>thread\<close> is such a computation cut at its shared accesses: finished with a result, or about to
  make one access, which is a partial function on the state (undefined: it has to wait there) and
  leads to the rest of the thread. The label says what the thread waits for: a lock, something
  outside the program, or nothing. \<open>pool_step\<close> lets one thread of a pool make its next access.
  \<open>run_thread\<close> runs a thread on its own.

  The locale \<open>token_logic\<close> is the proof method: an invariant of the state and of a multiset of
  tokens, of which every thread owns some. \<open>safe\<close> says that a thread, whatever the others own,
  keeps the invariant with each access, paying with its own tokens only.
\<close>

section \<open>Threads\<close>

datatype label = Acquires nat | External | Internal

datatype ('s, 'a) thread =
    Finished 'a
  | Next label "'s \<Rightarrow> (('s, 'a) thread \<times> 's) option"

primrec th_bind :: "('s, 'a) thread \<Rightarrow> ('a \<Rightarrow> ('s, 'b) thread) \<Rightarrow> ('s, 'b) thread" where
  "th_bind (Finished a) f = f a"
| "th_bind (Next l g) f = Next l (map_option (map_prod (\<lambda>p. th_bind p f) id) \<circ> g)"

text \<open>\<open>?\<close> between threads that end with a result.\<close>

definition th_seq ::
  "('s, ('e, 'a) res) thread \<Rightarrow> ('a \<Rightarrow> ('s, ('e, 'b) res) thread) \<Rightarrow> ('s, ('e, 'b) res) thread" where
  "th_seq p f = th_bind p (\<lambda>r. case r of
      Ok a \<Rightarrow> f a | Err e \<Rightarrow> Finished (Err e) | Panic m \<Rightarrow> Finished (Panic m) | Blocked \<Rightarrow> Finished Blocked)"

text \<open>One action as one access; an action that blocks is an access that has to wait.\<close>

definition th_act :: "label \<Rightarrow> ('s, 'e, 'a) act \<Rightarrow> ('s, ('e, 'a) res) thread" where
  "th_act l m = Next l (\<lambda>s. case m s of (Blocked, _) \<Rightarrow> None | (r, t) \<Rightarrow> Some (Finished r, t))"

definition th_map_err ::
  "('e \<Rightarrow> 'f) \<Rightarrow> ('s, ('e, 'a) res) thread \<Rightarrow> ('s, ('f, 'a) res) thread" where
  "th_map_err g p = th_bind p (\<lambda>r. Finished (map_err g r))"

primrec th_for_each ::
  "('a \<Rightarrow> ('s, ('e, unit) res) thread) \<Rightarrow> 'a list \<Rightarrow> ('s, ('e, unit) res) thread" where
  "th_for_each f [] = Finished (Ok ())"
| "th_for_each f (x # xs) = th_seq (f x) (\<lambda>_. th_for_each f xs)"

text \<open>A thread on its own: \<open>None\<close> when it comes to an access that has to wait.\<close>

primrec run_thread :: "('s, 'a) thread \<Rightarrow> 's \<Rightarrow> ('a \<times> 's) option" where
  "run_thread (Finished a) = (\<lambda>s. Some (a, s))"
| "run_thread (Next l g) = (\<lambda>s. case (map_option (map_prod run_thread id) \<circ> g) s of
      None \<Rightarrow> None | Some (f, t) \<Rightarrow> f t)"

lemma run_thread_Next:
  "run_thread (Next l g) s = (case g s of None \<Rightarrow> None | Some (p, t) \<Rightarrow> run_thread p t)"
  by (simp split: option.split prod.split)

lemma run_thread_bind:
  "run_thread (th_bind p f) s =
     (case run_thread p s of None \<Rightarrow> None | Some (a, t) \<Rightarrow> run_thread (f a) t)"
proof (induction p arbitrary: s)
  case (Next l g)
  show ?case
  proof (cases "g s")
    case (Some x)
    then obtain p t where x: "g s = Some (p, t)" by (cases x) auto
    have "run_thread (th_bind p f) t =
        (case run_thread p t of None \<Rightarrow> None | Some (a, u) \<Rightarrow> run_thread (f a) u)"
      by (rule Next.IH [of "Some (p, t)" "(p, t)" p t]) (use x in \<open>auto intro: range_eqI sym\<close>)
    with x show ?thesis by simp
  qed simp
qed simp

lemma run_thread_act:
  "run_thread (th_act l m) s = (case m s of (Blocked, _) \<Rightarrow> None | (r, t) \<Rightarrow> Some (r, t))"
  by (simp add: th_act_def split: prod.split res.split)

text \<open>\<open>alone p m\<close>: run on its own, the thread \<open>p\<close> does what the action \<open>m\<close> does.\<close>

definition run_action :: "('s, 'e, 'a) act \<Rightarrow> 's \<Rightarrow> (('e, 'a) res \<times> 's) option" where
  "run_action m s = (case m s of (Blocked, _) \<Rightarrow> None | x \<Rightarrow> Some x)"

section \<open>Pools of threads\<close>

text \<open>
  \<open>arrive s p t\<close>: in the state \<open>s\<close> the thread \<open>p\<close> may join the pool, which changes the state to
  \<open>t\<close>. \<open>env s t\<close>: what the outside may do to the state at any time.
\<close>

type_synonym ('s, 'a) pool = "('s, 'a) thread list \<times> 's"

inductive pool_step ::
  "('s \<Rightarrow> ('s, 'a) thread \<Rightarrow> 's \<Rightarrow> bool) \<Rightarrow> ('s \<Rightarrow> 's \<Rightarrow> bool) \<Rightarrow> ('s, 'a) pool \<Rightarrow> ('s, 'a) pool \<Rightarrow> bool"
  for arrive env where
  access: "g s = Some (p, t) \<Longrightarrow>
     pool_step arrive env (xs @ Next l g # ys, s) (xs @ p # ys, t)"
| arrival: "arrive s p t \<Longrightarrow> pool_step arrive env (ps, s) (ps @ [p], t)"
| outside: "env s t \<Longrightarrow> pool_step arrive env (ps, s) (ps, t)"

inductive_cases pool_stepE: "pool_step arrive env x y"

text \<open>What a thread does on its own it does in a pool when nothing comes in between.\<close>

lemma run_thread_steps:
  "run_thread p s = Some (a, t) \<Longrightarrow> (pool_step arrive env)\<^sup>*\<^sup>* (xs @ p # ys, s) (xs @ Finished a # ys, t)"
proof (induction p arbitrary: s)
  case (Next l g)
  then obtain q u where g: "g s = Some (q, u)" and q: "run_thread q u = Some (a, t)"
    by (auto simp: run_thread_Next simp del: run_thread.simps split: option.splits prod.splits)
  have "(pool_step arrive env)\<^sup>*\<^sup>* (xs @ q # ys, u) (xs @ Finished a # ys, t)"
    by (rule Next.IH [of "Some (q, u)" "(q, u)"]) (use g q in \<open>auto intro: range_eqI sym\<close>)
  with pool_step.access [where g = g and s = s, OF g] show ?case
    by (rule converse_rtranclp_into_rtranclp [where r = "pool_step arrive env"])
qed simp

text \<open>Whether a thread could go on, and what it waits for if not.\<close>

fun enabled :: "('s, 'a) thread \<Rightarrow> 's \<Rightarrow> bool" where
  "enabled (Finished a) s = False"
| "enabled (Next l g) s = (g s \<noteq> None)"

fun waits_outside :: "('s, 'a) thread \<Rightarrow> 's \<Rightarrow> bool" where
  "waits_outside (Next External g) s = (g s = None)"
| "waits_outside _ s = False"

fun is_finished :: "('s, 'a) thread \<Rightarrow> bool" where
  "is_finished (Finished a) = True"
| "is_finished (Next l g) = False"

section \<open>Invariants paid for with tokens\<close>

text \<open>
  \<open>I c s\<close>: the state is fine when the threads together own the tokens \<open>c\<close>. \<open>holds a c\<close>: the
  tokens include the ownership of the lock \<open>a\<close>; \<open>locked a s\<close>: that lock is taken. A taken lock
  belongs to someone.
\<close>

locale token_logic =
  fixes I :: "'t multiset \<Rightarrow> 's \<Rightarrow> bool"
    and holds :: "nat \<Rightarrow> 't multiset \<Rightarrow> bool"
    and locked :: "nat \<Rightarrow> 's \<Rightarrow> bool"
  assumes holds_union: "holds a (c + d) \<longleftrightarrow> holds a c \<or> holds a d"
    and holds_empty: "\<not> holds a {#}"
    and locked_owned: "I c s \<Longrightarrow> locked a s \<Longrightarrow> holds a c"
begin

text \<open>
  \<open>safe Q p c\<close>: the thread \<open>p\<close>, which owns \<open>c\<close>, keeps the invariant with every access and ends
  with a result and tokens that satisfy \<open>Q\<close>. It owns no lock when it asks for one, waits only for
  a lock that is taken, and does not wait in an internal access.
\<close>

inductive safe :: "('a \<Rightarrow> 't multiset \<Rightarrow> bool) \<Rightarrow> ('s, 'a) thread \<Rightarrow> 't multiset \<Rightarrow> bool" for Q where
  finished: "Q r c \<Longrightarrow> safe Q (Finished r) c"
| access: "(\<And>d s p t. I (c + d) s \<Longrightarrow> g s = Some (p, t) \<Longrightarrow> \<exists>c'. I (c' + d) t \<and> safe Q p c') \<Longrightarrow>
   (\<And>d s. I (c + d) s \<Longrightarrow> l = Internal \<Longrightarrow> g s \<noteq> None) \<Longrightarrow>
   (\<And>a b. l = Acquires a \<Longrightarrow> \<not> holds b c) \<Longrightarrow>
   (\<And>d s a. I (c + d) s \<Longrightarrow> l = Acquires a \<Longrightarrow> g s = None \<Longrightarrow> locked a s) \<Longrightarrow>
   safe Q (Next l g) c"

inductive_cases safe_NextE: "safe Q (Next l g) c"
inductive_simps safe_Finished [simp]: "safe Q (Finished r) c"

lemma safe_weaken: "safe Q p c \<Longrightarrow> (\<And>r c. Q r c \<Longrightarrow> Q' r c) \<Longrightarrow> safe Q' p c"
proof (induction rule: safe.induct)
  case (access c g l)
  then show ?case by (intro safe.access) blast+
qed auto

lemma safe_bind:
  assumes "safe Q p c" and "\<And>r c. Q r c \<Longrightarrow> safe Q' (f r) c"
  shows "safe Q' (th_bind p f) c"
  using assms(1)
proof (induction rule: safe.induct)
  case (access c g l)
  show ?case
  proof (simp, rule safe.access)
    fix d s p t
    assume I: "I (c + d) s" and g: "(map_option (map_prod (\<lambda>p. th_bind p f) id) \<circ> g) s = Some (p, t)"
    then obtain q where q: "g s = Some (q, t)" and p: "p = th_bind q f" by auto
    from access.IH [OF I q] p show "\<exists>c'. I (c' + d) t \<and> safe Q' p c'" by blast
  qed (use access.hyps in auto)
qed (use assms(2) in auto)

text \<open>
  A pool whose threads are all safe; a finished thread owns no lock. The tokens \<open>e\<close> belong to none
  of them, so no thread can spend them.
\<close>

abbreviation unlocked :: "'a \<Rightarrow> 't multiset \<Rightarrow> bool" where
  "unlocked r c \<equiv> \<forall>a. \<not> holds a c"

definition pool_safe :: "'t multiset \<Rightarrow> ('s, 'a) pool \<Rightarrow> bool" where
  "pool_safe e = (\<lambda>(ps, s). \<exists>cs. list_all2 (safe unlocked) ps cs \<and> I (sum_list cs + e) s)"

lemma pool_safe_access:
  assumes "pool_safe e (xs @ Next l g # ys, s)" and g: "g s = Some (p, t)"
  shows "pool_safe e (xs @ p # ys, t)"
proof -
  from assms(1) obtain as c bs where safe: "list_all2 (safe unlocked) xs as" "list_all2 (safe unlocked) ys bs"
    and c: "safe unlocked (Next l g) c" and I: "I (sum_list (as @ c # bs) + e) s"
    by (auto simp: pool_safe_def list_all2_append1 list_all2_Cons1)
  from I have "I (c + (sum_list as + sum_list bs + e)) s" by (simp add: ac_simps)
  with c g obtain c' where "I (c' + (sum_list as + sum_list bs + e)) t" and "safe unlocked p c'"
    by (blast elim: safe_NextE)
  with safe have "list_all2 (safe unlocked) (xs @ p # ys) (as @ c' # bs) \<and> I (sum_list (as @ c' # bs) + e) t"
    by (auto simp: ac_simps intro: list_all2_appendI)
  then show ?thesis unfolding pool_safe_def by blast
qed

text \<open>A thread that cannot go on by itself waits for a lock and owns none.\<close>

lemma safe_waits:
  assumes "safe Q p c" and "I (c + d) s"
    and "\<not> is_finished p" and "\<not> enabled p s" and "\<not> waits_outside p s"
  obtains a where "locked a s" and "\<And>b. \<not> holds b c"
proof (cases p)
  case (Next l g)
  with assms(4) have "g s = None" by (cases "g s") auto
  with assms(5) Next have "l \<noteq> External" by auto
  with assms(1) [unfolded Next] assms(2) \<open>g s = None\<close> that show thesis
    by (cases rule: safe.cases) (cases l, auto, blast)
qed (use assms(3) in simp)

lemma holds_sum: "holds a (sum_list cs) \<longleftrightarrow> (\<exists>c\<in>set cs. holds a c)"
  by (induction cs) (simp_all add: holds_union holds_empty)

lemma sum_list_member: "c \<in> set cs \<Longrightarrow> \<exists>d. sum_list cs = c + (d :: 't multiset)"
  by (metis in_set_conv_decomp sum_list.append sum_list.Cons union_commute union_assoc)

text \<open>Locks alone never stop a pool: some thread can go on, or waits for the outside, or all have finished.\<close>

lemma pool_not_stuck:
  assumes "pool_safe e (ps, s)" and "\<And>a. \<not> holds a e"
  shows "(\<forall>p\<in>set ps. is_finished p) \<or> (\<exists>p\<in>set ps. enabled p s \<or> waits_outside p s)"
proof (rule ccontr)
  assume stuck: "\<not> ?thesis"
  from assms(1) obtain cs where safe: "list_all2 (safe unlocked) ps cs" and I: "I (sum_list cs + e) s"
    by (auto simp: pool_safe_def)
  have none: "\<not> holds a c" if zip: "(p, c) \<in> set (zip ps cs)" for a p c
  proof (cases "is_finished p")
    case True
    with zip safe show ?thesis by (cases p) (auto simp: list_all2_iff)
  next
    case False
    from zip safe have c: "safe unlocked p c" by (auto simp: list_all2_iff)
    obtain d where "sum_list cs = c + d" using sum_list_member [OF set_zip_rightD [OF zip]] by blast
    with I have "I (c + (d + e)) s" by (simp add: ac_simps)
    from safe_waits [OF c this False] stuck set_zip_leftD [OF zip] show ?thesis by metis
  qed
  from stuck obtain p where p: "p \<in> set ps" "\<not> is_finished p" by blast
  with safe obtain c where pc: "(p, c) \<in> set (zip ps cs)"
    by (metis list_all2_lengthD in_set_impl_in_set_zip1)
  then have c: "safe unlocked p c" using safe by (auto simp: list_all2_iff)
  obtain d where "sum_list cs = c + d" using sum_list_member [OF set_zip_rightD [OF pc]] by blast
  with I have "I (c + (d + e)) s" by (simp add: ac_simps)
  then obtain a where "locked a s" using safe_waits [OF c _ p(2)] stuck p(1) by metis
  then have "\<exists>c\<in>set cs. holds a c" using locked_owned [OF I] holds_sum assms(2) by (simp add: holds_union)
  then show False using none safe by (metis list_all2_lengthD in_set_impl_in_set_zip2)
qed

end

text \<open>What may join the pool comes with tokens of its own, and the outside keeps the invariant.\<close>

locale pool_logic = token_logic I holds locked
  for I :: "'t multiset \<Rightarrow> 's \<Rightarrow> bool" and holds locked +
  fixes arrive :: "'s \<Rightarrow> ('s, 'a) thread \<Rightarrow> 's \<Rightarrow> bool"
    and env :: "'s \<Rightarrow> 's \<Rightarrow> bool"
  assumes arrive_safe: "I c s \<Longrightarrow> arrive s p t \<Longrightarrow> \<exists>c'. I (c' + c) t \<and> safe unlocked p c'"
    and env_safe: "I c s \<Longrightarrow> env s t \<Longrightarrow> I c t"
begin

lemma pool_step_safe: "pool_step arrive env x y \<Longrightarrow> pool_safe e x \<Longrightarrow> pool_safe e y"
proof (induction rule: pool_step.induct)
  case (arrival s p t ps)
  then obtain cs where cs: "list_all2 (safe unlocked) ps cs" and I: "I (sum_list cs + e) s"
    by (auto simp: pool_safe_def)
  from arrive_safe [OF I arrival(1)] obtain c where "I (c + (sum_list cs + e)) t" and "safe unlocked p c" by blast
  with cs have "list_all2 (safe unlocked) (ps @ [p]) (cs @ [c]) \<and> I (sum_list (cs @ [c]) + e) t"
    by (auto simp: ac_simps intro: list_all2_appendI)
  then show ?case unfolding pool_safe_def by blast
qed (auto simp: pool_safe_def intro: env_safe pool_safe_access [unfolded pool_safe_def split_conv])

lemma pool_run_safe: "(pool_step arrive env)\<^sup>*\<^sup>* x y \<Longrightarrow> pool_safe e x \<Longrightarrow> pool_safe e y"
  by (induction rule: rtranclp_induct) (auto intro: pool_step_safe)

lemma pool_safe_empty: "I e s \<Longrightarrow> pool_safe e ([], s)"
  by (auto simp: pool_safe_def)

end

end
