(* ===== verification/Local_Threads.thy ===== *)
theory Local_Threads
  imports Threads Local_Spec
begin

text \<open>
  The task service as the threads of the shim run it. The ttrpc server calls each handler on a
  thread of its own, and \<open>task_start\<close> starts a thread that waits for the task; what they share
  they reach through the \<open>RwLock\<close> of the registry, which no handler keeps beyond one access, and
  through the \<open>RwLock\<close> of each task's state, which \<open>start\<close>, \<open>kill\<close> and \<open>delete\<close> keep while they
  call the instance.

  The state is the one of \<open>Local\<close> together with the set of tasks whose lock is taken. A thread
  stands for one call and is cut at every access to the registry, to a task, to a lock and to the
  event sender, and around every call of the operating system or of the instance. The functions
  follow \<open>sandbox/shim/local.rs\<close> and \<open>sandbox/shim/instance_data.rs\<close> statement by statement, as
  the actions of \<open>Local\<close> and \<open>Instances\<close> do for a call that nothing interrupts; the last section
  shows that a thread that runs on its own does what the action does.
\<close>

section \<open>Accesses and locks\<close>

type_synonym ('i, 'w) cshim = "nat set \<times> ('i, 'w) shim"

type_synonym ('i, 'w, 'a) call = "(('i, 'w) cshim, (error, 'a) res) thread"

definition on_shim :: "('i, 'w, 'a) shim_act \<Rightarrow> (('i, 'w) cshim, error, 'a) act" where
  "on_shim m = (\<lambda>(L, s). case m s of (r, t) \<Rightarrow> (r, (L, t)))"

text \<open>An access to the shim's own data, and a call that leaves the shim and may take its time.\<close>

definition shared :: "('i, 'w, 'a) shim_act \<Rightarrow> ('i, 'w, 'a) call" where
  "shared m = th_act Internal (on_shim m)"

definition outer :: "('w, error, 'a) act \<Rightarrow> ('i, 'w, 'a) call" where
  "outer m = th_act External (on_shim (in_world m))"

text \<open>\<open>self.state.write().unwrap()\<close>, and the end of the guard's scope, which poisons the lock on a panic.\<close>

definition acquire :: "nat \<Rightarrow> ('i, 'w, unit) call" where
  "acquire a = Next (Acquires a) (\<lambda>(L, s). if a \<in> L then None else Some (case arcs s a of
      None \<Rightarrow> (Finished (Panic ''dangling Arc''), (L, s))
    | Some d \<Rightarrow> if id_poisoned d then (Finished (Panic ''PoisonError''), (L, s))
                else (Finished (Ok ()), (insert a L, s))))"

fun is_panic :: "('e, 'a) res \<Rightarrow> bool" where
  "is_panic (Panic m) = True"
| "is_panic _ = False"

definition release :: "nat \<Rightarrow> (error, 'a) res \<Rightarrow> ('i, 'w, 'a) call" where
  "release a r = Next Internal (\<lambda>(L, s). Some (Finished r, (L - {a},
     if is_panic r
     then s\<lparr>arcs := (arcs s)(a := map_option (\<lambda>d. d\<lparr>id_poisoned := True\<rparr>) (arcs s a))\<rparr>
     else s)))"

definition locking :: "nat \<Rightarrow> ('i, 'w, 'a) call \<Rightarrow> ('i, 'w, 'a) call" where
  "locking a body = th_seq (acquire a) (\<lambda>_. th_bind body (release a))"

section \<open>The methods of InstanceData\<close>

definition th_data_start :: "('i, 'w) instance_impl \<Rightarrow> nat \<Rightarrow> ('i, 'w, u32) call" where
  "th_data_start T a = locking a (
     th_seq (shared (in_data a (on_state state_start))) (\<lambda>_.
     th_seq (shared (in_data a (get_data id_instance))) (\<lambda>i.
     th_bind (outer (inst_start T i)) (\<lambda>res. case res of
         Ok pid \<Rightarrow>
           th_seq (shared (in_data a (ignore_result (pid_set pid)))) (\<lambda>_.
           th_seq (shared (in_data a (ignore_result (on_state state_started)))) (\<lambda>_.
           Finished (Ok pid)))
       | Err e \<Rightarrow>
           th_seq (shared (in_data a (ignore_result (on_state state_stop)))) (\<lambda>_.
           Finished (Err e))
       | _ \<Rightarrow> Finished res))))"

definition th_data_kill :: "('i, 'w) instance_impl \<Rightarrow> u32 \<Rightarrow> nat \<Rightarrow> ('i, 'w, unit) call" where
  "th_data_kill T signal a = locking a (
     th_seq (shared (in_data a (on_state state_kill))) (\<lambda>_.
     th_seq (shared (in_data a (get_data id_instance))) (\<lambda>i.
     outer (inst_kill T i signal))))"

definition th_data_delete :: "('i, 'w) instance_impl \<Rightarrow> nat \<Rightarrow> ('i, 'w, unit) call" where
  "th_data_delete T a = locking a (
     th_seq (shared (in_data a (on_state state_delete))) (\<lambda>_.
     th_seq (shared (in_data a (get_data id_instance))) (\<lambda>i.
     th_bind (outer (inst_delete T i)) (\<lambda>res. case res of
         Err e \<Rightarrow>
           th_seq (shared (in_data a (ignore_result (on_state state_stop)))) (\<lambda>_.
           Finished (Err e))
       | _ \<Rightarrow> Finished res))))"

definition th_set_exited :: "nat \<Rightarrow> ('i, 'w, unit) call" where
  "th_set_exited a = locking a (shared (in_data a set_exited))"

definition th_data_wait :: "('i, 'w) instance_impl \<Rightarrow> nat \<Rightarrow> ('i, 'w, exit_info) call" where
  "th_data_wait T a =
     th_seq (shared (in_data a (get_data id_instance))) (\<lambda>i.
     th_seq (outer (inst_wait T i)) (\<lambda>res.
     th_seq (th_set_exited a) (\<lambda>_.
     Finished (Ok res))))"

definition th_data_wait_timeout ::
  "('i, 'w) instance_impl \<Rightarrow> duration option \<Rightarrow> nat \<Rightarrow> ('i, 'w, exit_info option) call" where
  "th_data_wait_timeout T t a =
     th_seq (shared (in_data a (get_data id_instance))) (\<lambda>i.
     th_seq (outer (inst_wait_timeout T i t)) (\<lambda>res.
     case res of
       Some _ \<Rightarrow> th_seq (th_set_exited a) (\<lambda>_. Finished (Ok res))
     | None \<Rightarrow> Finished (Ok res)))"

section \<open>The task operations\<close>

definition th_create ::
  "'w shim_os \<Rightarrow> ('i, 'w) instance_impl \<Rightarrow> create_request \<Rightarrow> ('i, 'w, u32) call" where
  "th_create os T req =
     (if cr_checkpoint req \<noteq> [] \<or> cr_parent_checkpoint req \<noteq> []
     then Finished (Err (Shim (ShimUnimplemented ''checkpoint is not supported'')))
     else if cr_terminal req then Finished (Err (InvalidArgument ''terminal is not supported''))
     else
     th_seq (shared (read_shim (has_instance (cr_id req)))) (\<lambda>exists.
     if exists then Finished (Err (AlreadyExists (cr_id req)))
     else
     th_seq (outer (act_map_err (\<lambda>err. InvalidArgument (''could not load runtime spec: '' @ err))
         (os_spec_load os (path_join (cr_bundle req) ''config.json'')))) (\<lambda>spec0.
     th_seq (outer (act_map_err (\<lambda>err. Shim (ShimInvalidArgument (''could not canonicalize rootfs: '' @ err)))
         (os_canonicalize_rootfs os (cr_bundle req) spec0))) (\<lambda>spec.
     th_seq (Finished (ok_or (InvalidArgument ''rootfs is not set in runtime spec'') (spec_root spec))) (\<lambda>rootfs.
     th_seq (outer (ignore_result (os_create_dir_all os rootfs))) (\<lambda>_.
     th_seq (th_for_each (\<lambda>m. outer (act_map_err Shim (os_mount_rootfs os
         (none_if_empty (mount_type m)) (none_if_empty (mount_source m)) (mount_options m) rootfs)))
         (cr_rootfs req)) (\<lambda>_.
     th_seq (shared (read_shim instance_config)) (\<lambda>cfg.
     th_seq (outer (data_new T (cr_id req)
         (set_stderr (cr_stderr req) (set_stdout (cr_stdout req) (set_stdin (cr_stdin req)
           (set_bundle (cr_bundle req) cfg)))))) (\<lambda>inst.
     th_seq (shared (insert_instance (cr_id req) inst)) (\<lambda>_.
     th_seq (shared (send_event (TaskCreate (cr_id req) (cr_bundle req) (cr_rootfs req)
         \<lparr>io_stdin = cr_stdin req, io_stdout = cr_stdout req, io_stderr = cr_stderr req\<rparr>))) (\<lambda>_.
     th_seq (outer (setup_prestart_hooks (os_hooks os) (os_process_id os) (spec_hooks spec))) (\<lambda>_.
     Finished (Ok (os_process_id os))))))))))))))"

definition th_start ::
  "'w shim_os \<Rightarrow> ('i, 'w) instance_impl \<Rightarrow> task_request \<Rightarrow> ('i, 'w, u32) call" where
  "th_start os T req =
     (if rq_exec_id req \<noteq> [] then Finished (Err (Shim (ShimUnimplemented ''exec is not supported'')))
      else
      th_seq (shared (get_instance (rq_id req))) (\<lambda>i.
      th_seq (th_data_start T i) (\<lambda>pid.
      th_seq (shared (send_event (TaskStart (rq_id req) pid))) (\<lambda>_.
      th_seq (th_act External (on_shim (spawn_wait_thread os (i, rq_id req, pid)))) (\<lambda>_.
      Finished (Ok pid))))))"

definition th_kill :: "('i, 'w) instance_impl \<Rightarrow> kill_request \<Rightarrow> ('i, 'w, unit) call" where
  "th_kill T req =
     (if rq_exec_id req \<noteq> [] then Finished (Err (InvalidArgument ''exec is not supported''))
      else
      th_seq (shared (get_instance (rq_id req))) (\<lambda>i.
      th_seq (th_data_kill T (rq_signal req) i) (\<lambda>_.
      Finished (Ok ()))))"

definition th_delete :: "('i, 'w) instance_impl \<Rightarrow> task_request \<Rightarrow> ('i, 'w, delete_response) call" where
  "th_delete T req =
     (if rq_exec_id req \<noteq> [] then Finished (Err (InvalidArgument ''exec is not supported''))
      else
      th_seq (shared (get_instance (rq_id req))) (\<lambda>i.
      th_seq (th_data_delete T i) (\<lambda>_.
      th_seq (shared (in_data i data_pid)) (\<lambda>p.
      (let pid = unwrap_or 0 p in
      th_seq (th_data_wait_timeout T (Some DurationZero) i) (\<lambda>x.
      th_seq (shared (remove_instance (rq_id req))) (\<lambda>_.
      th_seq (shared (send_event (TaskDelete (rq_id req) pid (unwrap_or 0 (exit_code_of x)) (exit_time_of x)))) (\<lambda>_.
      Finished (Ok \<lparr>dr_pid = pid, dr_exit_status = unwrap_or 0 (exit_code_of x),
           dr_exited_at = exit_time_of x\<rparr>)))))))))"

definition th_wait :: "('i, 'w) instance_impl \<Rightarrow> task_request \<Rightarrow> ('i, 'w, wait_response) call" where
  "th_wait T req =
     (if rq_exec_id req \<noteq> [] then Finished (Err (InvalidArgument ''exec is not supported''))
      else
      th_seq (shared (get_instance (rq_id req))) (\<lambda>i.
      th_seq (th_data_wait T i) (\<lambda>(exit_code, timestamp).
      Finished (Ok \<lparr>wr_exit_status = exit_code, wr_exited_at = Some (to_timestamp timestamp)\<rparr>))))"

definition th_state :: "('i, 'w) instance_impl \<Rightarrow> task_request \<Rightarrow> ('i, 'w, state_response) call" where
  "th_state T req =
     (if rq_exec_id req \<noteq> [] then Finished (Err (InvalidArgument ''exec is not supported''))
      else
      th_seq (shared (get_instance (rq_id req))) (\<lambda>i.
      th_seq (shared (in_data i data_pid)) (\<lambda>pid.
      th_seq (th_data_wait_timeout T (Some DurationZero) i) (\<lambda>x.
      th_seq (shared (in_data i data_config)) (\<lambda>cfg.
      Finished (Ok \<lparr>sr_bundle = cfg_bundle cfg, sr_stdin = cfg_stdin cfg, sr_stdout = cfg_stdout cfg,
           sr_stderr = cfg_stderr cfg, sr_pid = unwrap_or 0 pid,
           sr_exit_status = unwrap_or 0 (exit_code_of x), sr_exited_at = exit_time_of x,
           sr_status = status_of pid (exit_code_of x)\<rparr>))))))"

definition th_stats :: "'w shim_os \<Rightarrow> task_request \<Rightarrow> ('i, 'w, string) call" where
  "th_stats os req =
     th_seq (shared (get_instance (rq_id req))) (\<lambda>i.
     th_seq (shared (in_data i data_pid)) (\<lambda>p.
     th_seq (Finished (ok_or (InvalidArgument ''task is not running'') p)) (\<lambda>pid.
     outer (act_map_err Any (get_metrics os pid)))))"

definition th_connect :: "'w shim_os \<Rightarrow> task_request \<Rightarrow> ('i, 'w, u32 \<times> u32) call" where
  "th_connect os req =
     th_seq (shared (get_instance (rq_id req))) (\<lambda>i.
     th_seq (shared (in_data i data_pid)) (\<lambda>p.
     Finished (Ok (os_process_id os, unwrap_or 0 p))))"

text \<open>\<open>shutdown\<close> looks into the registry and then, with the lock given back, raises the signal.\<close>

definition raise_exit :: "('i, 'w, unit) shim_act" where
  "raise_exit = (\<lambda>s. (Ok (), s\<lparr>exit_signal := True\<rparr>))"

definition th_shutdown :: "('i, 'w, unit) call" where
  "th_shutdown =
     th_seq (shared (read_shim shim_is_empty)) (\<lambda>empty.
     if empty then shared raise_exit else Finished (Ok ()))"

definition th_waiter :: "('i, 'w) instance_impl \<Rightarrow> nat \<times> string \<times> u32 \<Rightarrow> ('i, 'w, unit) call" where
  "th_waiter T = (\<lambda>(a, cid, pid).
     th_seq (th_data_wait T a) (\<lambda>(exit_code, timestamp).
     shared (send_event (TaskExit cid cid pid exit_code (Some (to_timestamp timestamp))))))"

section \<open>The threads of the shim\<close>

datatype response =
    PidResponse u32 | EmptyResponse | DeleteResponse delete_response | WaitResponse wait_response
  | StateResponse state_response | StatsResponse string | ConnectResponse "u32 \<times> u32"

type_synonym ('i, 'w) shim_thread = "(('i, 'w) cshim, (ttrpc_error, response) res) thread"

definition respond ::
  "(shim_error \<Rightarrow> string) \<Rightarrow> ('a \<Rightarrow> response) \<Rightarrow> ('i, 'w, 'a) call \<Rightarrow> ('i, 'w) shim_thread" where
  "respond sd f p = th_bind p (\<lambda>r. Finished (map_res (to_ttrpc sd) f r))"

primrec th_handle ::
  "(shim_error \<Rightarrow> string) \<Rightarrow> 'w shim_os \<Rightarrow> ('i, 'w) instance_impl \<Rightarrow> request \<Rightarrow> ('i, 'w) shim_thread" where
  "th_handle sd os T (RCreate r) = respond sd PidResponse (th_create os T r)"
| "th_handle sd os T (RStart r) = respond sd PidResponse (th_start os T r)"
| "th_handle sd os T (RKill r) = respond sd (\<lambda>_. EmptyResponse) (th_kill T r)"
| "th_handle sd os T (RDelete r) = respond sd DeleteResponse (th_delete T r)"
| "th_handle sd os T (RWait r) = respond sd WaitResponse (th_wait T r)"
| "th_handle sd os T (RState r) = respond sd StateResponse (th_state T r)"
| "th_handle sd os T (RStats r) = respond sd StatsResponse (th_stats os r)"
| "th_handle sd os T (RConnect r) = respond sd ConnectResponse (th_connect os r)"
| "th_handle sd os T RShutdown = respond sd (\<lambda>_. EmptyResponse) th_shutdown"

text \<open>A thread starts for a request, or is one that \<open>task_start\<close> has spawned.\<close>

inductive shim_arrive ::
  "(shim_error \<Rightarrow> string) \<Rightarrow> 'w shim_os \<Rightarrow> ('i, 'w) instance_impl \<Rightarrow>
   ('i, 'w) cshim \<Rightarrow> ('i, 'w) shim_thread \<Rightarrow> ('i, 'w) cshim \<Rightarrow> bool"
  for sd os T where
  request: "shim_arrive sd os T x (th_handle sd os T r) x"
| waiter: "th \<in> set (wait_threads s) \<Longrightarrow>
     shim_arrive sd os T (L, s) (respond sd (\<lambda>_. EmptyResponse) (th_waiter T th))
       (L, s\<lparr>wait_threads := remove1 th (wait_threads s)\<rparr>)"

inductive shim_env :: "('i, 'w) cshim \<Rightarrow> ('i, 'w) cshim \<Rightarrow> bool" where
  world: "shim_env (L, s) (L, s\<lparr>world := w\<rparr>)"

abbreviation service_step where
  "service_step sd os T \<equiv> pool_step (shim_arrive sd os T) shim_env"

text \<open>The service after \<open>Local::new\<close>: no thread, no lock taken.\<close>

definition service_init :: "string \<Rightarrow> string \<Rightarrow> 'w \<Rightarrow> (('i, 'w) cshim, (ttrpc_error, response) res) pool" where
  "service_init ns addr w = ([], ({}, local_new ns addr w))"

section \<open>A thread on its own\<close>

text \<open>\<open>alone p m\<close>: run with nothing in between, the thread \<open>p\<close> does what the action \<open>m\<close> does.\<close>

abbreviation alone_at ::
  "('i, 'w) shim \<Rightarrow> (('i, 'w) cshim, ('e, 'a) res) thread \<Rightarrow> (('i, 'w) shim, 'e, 'a) act \<Rightarrow> bool" where
  "alone_at s p m \<equiv> run_thread p ({}, s) =
     (case m s of (Blocked, _) \<Rightarrow> None | (r, t) \<Rightarrow> Some (r, ({}, t)))"

definition alone :: "(('i, 'w) cshim, ('e, 'a) res) thread \<Rightarrow> (('i, 'w) shim, 'e, 'a) act \<Rightarrow> bool" where
  "alone p m \<longleftrightarrow> (\<forall>s. alone_at s p m)"

named_theorems alone_intros "threads that do what an action does"

lemma alone_Finished [alone_intros]:
  "alone (Finished (Err e)) (throw e)" "alone (Finished (Ok a)) (ret a)"
  by (simp_all add: alone_def act_defs)

lemma alone_ok_or [alone_intros]: "alone (Finished (ok_or e x)) (lift_res (ok_or e x))"
  by (cases x) (simp_all add: alone_def)

lemma alone_shared [alone_intros]:
  "alone (shared m) m" "alone (outer n) (in_world n)" "alone (th_act l (on_shim m)) m"
  by (auto simp: alone_def shared_def outer_def run_thread_act on_shim_def split: prod.splits res.splits)

lemma alone_outer_err [alone_intros]:
  "alone (outer (act_map_err f n)) (act_map_err f (in_world n))"
  "alone (outer (ignore_result n')) (ignore_result (in_world n'))"
  by (auto simp: alone_def outer_def run_thread_act on_shim_def in_world_def act_defs
      split: prod.splits res.splits)

lemma alone_seq [alone_intros]:
  assumes "alone p m" and "\<And>a. alone (f a) (g a)"
  shows "alone (th_seq p f) (act_bind m g)"
  unfolding alone_def
proof
  fix s
  from assms show "run_thread (th_seq p f) ({}, s) =
      (case act_bind m g s of (Blocked, _) \<Rightarrow> None | (r, t) \<Rightarrow> Some (r, ({}, t)))"
    by (cases "m s"; cases "fst (m s)") (auto simp: alone_def th_seq_def run_thread_bind act_bind_def)
qed

lemma alone_if [alone_intros]: "alone p m \<Longrightarrow> alone q n \<Longrightarrow> alone (if b then p else q) (if b then m else n)"
  by simp

lemma alone_for_each [alone_intros]: "(\<And>x. alone (f x) (g x)) \<Longrightarrow> alone (th_for_each f xs) (for_each g xs)"
  by (induction xs) (auto intro: alone_intros)

text \<open>\<open>inside a p m\<close>: the same for a method of the task \<open>a\<close>, in the scope of its lock.\<close>

definition inside :: "nat \<Rightarrow> ('i, 'w, 'a) call \<Rightarrow> ('i, 'w, 'a) data_act \<Rightarrow> bool" where
  "inside a p m \<longleftrightarrow> (\<forall>s d. arcs s a = Some d \<longrightarrow> run_thread p ({a}, s) =
     (case m (d, world s) of (Blocked, _) \<Rightarrow> None
      | (r, (d', w)) \<Rightarrow> Some (r, ({a}, s\<lparr>arcs := (arcs s)(a \<mapsto> d'), world := w\<rparr>))))"

lemma insideD:
  "inside a p m \<Longrightarrow> arcs s a = Some d \<Longrightarrow> run_thread p ({a}, s) =
     (case m (d, world s) of (Blocked, _) \<Rightarrow> None
      | (r, (d', w)) \<Rightarrow> Some (r, ({a}, s\<lparr>arcs := (arcs s)(a \<mapsto> d'), world := w\<rparr>)))"
  unfolding inside_def by blast

lemma inside_Finished [alone_intros]:
  "inside a (Finished (Ok v)) (ret v)" "inside a (Finished (Err e)) (throw e)"
  by (auto simp: inside_def map_upd_triv)

lemma inside_shared [alone_intros]: "inside a (shared (in_data a m)) m"
  by (auto simp: inside_def shared_def run_thread_act on_shim_def in_data_def split: prod.splits res.splits)

lemma inside_outer [alone_intros]: "inside a (outer m) (on_world m)"
  by (auto simp: inside_def outer_def run_thread_act on_shim_def in_world_def on_world_def map_upd_triv
      split: prod.splits res.splits)

lemma inside_seq [alone_intros]:
  assumes p: "inside a p m" and f: "\<And>v. inside a (f v) (g v)"
  shows "inside a (th_seq p f) (act_bind m g)"
  unfolding inside_def
proof (intro allI impI)
  fix s :: "('a, 'b) shim" and d
  assume d: "arcs s a = Some d"
  obtain r d' w where m: "m (d, world s) = (r, (d', w))" by (metis prod_cases3)
  show "run_thread (th_seq p f) ({a}, s) = (case act_bind m g (d, world s) of (Blocked, _) \<Rightarrow> None
      | (r, (d', w)) \<Rightarrow> Some (r, ({a}, s\<lparr>arcs := (arcs s)(a \<mapsto> d'), world := w\<rparr>)))"
    using insideD [OF p d] m insideD [OF f, of "s\<lparr>arcs := (arcs s)(a \<mapsto> d'), world := w\<rparr>" d']
    by (cases r) (auto simp: th_seq_def run_thread_bind act_bind_def split: prod.splits res.splits)
qed

lemma inside_match [alone_intros]:
  assumes p: "inside a p m" and ok: "\<And>v. inside a (f (Ok v)) (g (Inr v))"
    and err: "\<And>e. inside a (f (Err e)) (g (Inl e))" and panic: "\<And>x. f (Panic x) = Finished (Panic x)"
  shows "inside a (th_bind p f) (act_bind (attempt m) g)"
  unfolding inside_def
proof (intro allI impI)
  fix s :: "('a, 'b) shim" and d
  assume d: "arcs s a = Some d"
  obtain r d' w where m: "m (d, world s) = (r, (d', w))" by (metis prod_cases3)
  show "run_thread (th_bind p f) ({a}, s) = (case act_bind (attempt m) g (d, world s) of (Blocked, _) \<Rightarrow> None
      | (r, (d', w)) \<Rightarrow> Some (r, ({a}, s\<lparr>arcs := (arcs s)(a \<mapsto> d'), world := w\<rparr>)))"
    using insideD [OF p d] m panic insideD [OF ok, of "s\<lparr>arcs := (arcs s)(a \<mapsto> d'), world := w\<rparr>" d']
      insideD [OF err, of "s\<lparr>arcs := (arcs s)(a \<mapsto> d'), world := w\<rparr>" d']
    by (cases r) (auto simp: run_thread_bind act_bind_def attempt_def split: prod.splits res.splits)
qed

lemma alone_locking:
  assumes "inside a p m"
  shows "alone (locking a p) (in_data a (write_lock m))"
  unfolding alone_def
proof
  fix s
  show "run_thread (locking a p) ({}, s) =
      (case in_data a (write_lock m) s of (Blocked, _) \<Rightarrow> None | (r, t) \<Rightarrow> Some (r, ({}, t)))"
  proof (cases "arcs s a")
    case (Some d)
    obtain r d' w where m: "m (d, world s) = (r, (d', w))" by (metis prod_cases3)
    then show ?thesis using insideD [OF assms Some] Some
      by (cases r) (auto simp: locking_def th_seq_def acquire_def release_def run_thread_bind in_data_def
          write_lock_def map_upd_triv)
  qed (auto simp: locking_def th_seq_def acquire_def run_thread_bind in_data_def)
qed

lemma alone_set_exited [alone_intros]: "alone (th_set_exited a) (in_data a (write_lock set_exited))"
  unfolding th_set_exited_def by (intro alone_locking alone_intros)

lemma alone_data_kill [alone_intros]: "alone (th_data_kill T sig a) (in_data a (data_kill T sig))"
  unfolding th_data_kill_def data_kill_def by (intro alone_locking alone_intros)

lemma alone_data_start [alone_intros]: "alone (th_data_start T a) (in_data a (data_start T))"
  unfolding th_data_start_def data_start_def
  by (intro alone_locking inside_seq inside_shared inside_match inside_outer)
     (auto simp: act_bind_assoc intro!: alone_intros)

lemma alone_data_delete [alone_intros]: "alone (th_data_delete T a) (in_data a (data_delete T))"
  unfolding th_data_delete_def data_delete_def
  by (intro alone_locking inside_seq inside_shared inside_match inside_outer)
     (auto intro!: alone_intros)

text \<open>The two waits call the instance before they take the lock.\<close>

lemma alone_wait_then:
  assumes "\<And>r s. arcs s a \<noteq> None \<Longrightarrow> alone_at s (f r) (in_data a (g r))"
  shows "alone (th_seq (shared (in_data a (get_data id_instance))) (\<lambda>i. th_seq (outer (n i)) f))
     (in_data a (act_bind (get_data id_instance) (\<lambda>i. act_bind (on_world (n i)) g)))"
  unfolding alone_def
proof
  fix s
  show "run_thread (th_seq (shared (in_data a (get_data id_instance))) (\<lambda>i. th_seq (outer (n i)) f)) ({}, s) =
      (case in_data a (act_bind (get_data id_instance) (\<lambda>i. act_bind (on_world (n i)) g)) s of
         (Blocked, _) \<Rightarrow> None | (r, t) \<Rightarrow> Some (r, ({}, t)))"
  proof (cases "arcs s a")
    case (Some d)
    obtain r w where n: "n (id_instance d) (world s) = (r, w)" by (metis prod.exhaust)
    have same: "s\<lparr>arcs := (arcs s)(a \<mapsto> d)\<rparr> = s" using Some by (simp add: map_upd_triv)
    show ?thesis
    proof (cases r)
      case (Ok v)
      with assms [of "s\<lparr>world := w\<rparr>" v] n Some same show ?thesis
        by (simp add: th_seq_def run_thread_bind shared_def outer_def run_thread_act on_shim_def
            in_data_def in_world_def act_bind_def data_base_defs split: prod.splits res.splits)
    qed (use n Some same in \<open>auto simp: th_seq_def run_thread_bind shared_def outer_def run_thread_act
          on_shim_def in_data_def in_world_def act_bind_def data_base_defs map_upd_triv\<close>)
  qed (simp add: th_seq_def run_thread_bind shared_def run_thread_act on_shim_def in_data_def)
qed

lemma in_data_bind_ret: "in_data a (act_bind m (\<lambda>_. ret v)) = act_bind (in_data a m) (\<lambda>_. ret v)"
  by (rule ext) (auto simp: in_data_def act_bind_def split: option.splits prod.splits res.splits)

lemma in_data_ret_alone: "arcs s a \<noteq> None \<Longrightarrow> in_data a (ret v) s = (Ok v, s)"
  by (auto simp: in_data_def map_upd_triv)

lemma alone_exited_then:
  "alone (th_seq (th_set_exited a) (\<lambda>_. Finished (Ok v))) (in_data a (act_bind (write_lock set_exited) (\<lambda>_. ret v)))"
  by (auto simp: in_data_bind_ret intro!: alone_intros)

lemma alone_data_wait [alone_intros]: "alone (th_data_wait T a) (in_data a (data_wait T))"
  unfolding th_data_wait_def data_wait_def
  by (intro alone_wait_then alone_exited_then [unfolded alone_def, rule_format])

lemma alone_data_wait_timeout [alone_intros]:
  "alone (th_data_wait_timeout T t a) (in_data a (data_wait_timeout T t))"
  unfolding th_data_wait_timeout_def data_wait_timeout_def
  by (intro alone_wait_then)
    (auto simp: in_data_ret_alone alone_exited_then [unfolded alone_def, rule_format] split: option.split)

lemma alone_register:
  assumes "\<And>u. alone (f u) (g u)"
  shows "alone (th_seq (outer (data_new T cid cfg)) (\<lambda>inst. th_seq (shared (insert_instance cid inst)) f))
     (act_bind (register_instance T cid cfg) g)"
  unfolding register_instance_def act_bind_assoc by (intro alone_intros assms)

lemma alone_create [alone_intros]: "alone (th_create os T req) (task_create os T req)"
  unfolding th_create_def task_create_def mount_all_def
  by (intro alone_if alone_seq alone_register alone_for_each alone_Finished alone_ok_or alone_outer_err alone_shared)

lemma alone_start [alone_intros]: "alone (th_start os T req) (task_start os T req)"
  unfolding th_start_def task_start_def by (intro alone_intros)

lemma alone_kill [alone_intros]: "alone (th_kill T req) (task_kill T req)"
  unfolding th_kill_def task_kill_def by (intro alone_intros)

lemma alone_delete [alone_intros]: "alone (th_delete T req) (task_delete T req)"
  unfolding th_delete_def task_delete_def Let_def by (intro alone_intros)

lemma alone_wait [alone_intros]: "alone (th_wait T req) (task_wait T req)"
  unfolding th_wait_def task_wait_def split_def by (intro alone_intros)

lemma alone_state [alone_intros]: "alone (th_state T req) (task_state T req)"
  unfolding th_state_def task_state_def by (intro alone_intros)

lemma alone_stats [alone_intros]: "alone (th_stats os req) (task_stats os req)"
  unfolding th_stats_def task_stats_def by (intro alone_intros)

lemma alone_waiter [alone_intros]: "alone (th_waiter T th) (wait_thread_body T th)"
  by (cases th) (auto simp: th_waiter_def wait_thread_body_def split_def intro!: alone_intros)

text \<open>The ttrpc method of a request with its response.\<close>

definition answer_with :: "('a \<Rightarrow> response) \<Rightarrow> (('i, 'w) shim, ttrpc_error, 'a) act \<Rightarrow> (('i, 'w) shim, ttrpc_error, response) act" where
  "answer_with f m = act_bind m (\<lambda>a. ret (f a))"

primrec answer ::
  "(shim_error \<Rightarrow> string) \<Rightarrow> 'w shim_os \<Rightarrow> ('i, 'w) instance_impl \<Rightarrow> request \<Rightarrow>
   (('i, 'w) shim, ttrpc_error, response) act" where
  "answer sd os T (RCreate r) = answer_with PidResponse (svc_create sd os T r)"
| "answer sd os T (RStart r) = answer_with PidResponse (svc_start sd os T r)"
| "answer sd os T (RKill r) = answer_with (\<lambda>_. EmptyResponse) (svc_kill sd T r)"
| "answer sd os T (RDelete r) = answer_with DeleteResponse (svc_delete sd T r)"
| "answer sd os T (RWait r) = answer_with WaitResponse (svc_wait sd T r)"
| "answer sd os T (RState r) = answer_with StateResponse (svc_state sd T r)"
| "answer sd os T (RStats r) = answer_with StatsResponse (svc_stats sd os r)"
| "answer sd os T (RConnect r) = answer_with ConnectResponse (svc_connect sd os r)"
| "answer sd os T RShutdown = answer_with (\<lambda>_. EmptyResponse) svc_shutdown"

lemma alone_respond:
  assumes "alone p m"
  shows "alone (respond sd f p) (answer_with f (act_map_err (to_ttrpc sd) m))"
  unfolding alone_def
proof
  fix s
  from assms show "alone_at s (respond sd f p) (answer_with f (act_map_err (to_ttrpc sd) m))"
    by (cases "m s"; cases "fst (m s)")
      (auto simp: alone_def respond_def answer_with_def run_thread_bind act_map_err_def act_bind_def)
qed

lemma alone_shutdown: "alone (respond sd (\<lambda>_. EmptyResponse) th_shutdown) (answer_with (\<lambda>_. EmptyResponse) svc_shutdown)"
  by (auto simp: alone_def respond_def th_shutdown_def th_seq_def run_thread_bind shared_def run_thread_act
      on_shim_def read_shim_def raise_exit_def svc_shutdown_def answer_with_def act_bind_def)

lemma alone_handle: "alone (th_handle sd os T r) (answer sd os T r)"
  by (cases r) (auto simp: service_defs th_connect_def alone_shutdown [unfolded svc_shutdown_def]
      intro!: alone_respond alone_intros)

text \<open>C6.
  A request whose thread is not interrupted does what the service does with one call at a time:
  it comes to an end exactly when that call does, with the same response and the same state, and
  with every lock given back. What is proved of the sequential service so holds of the threads
  whenever the calls do not overlap.
\<close>

theorem uninterrupted_thread_is_call:
  "run_thread (th_handle sd os T r) ({}, s) =
     (case answer sd os T r s of (Blocked, _) \<Rightarrow> None | (x, t) \<Rightarrow> Some (x, ({}, t)))"
  using alone_handle unfolding alone_def by blast

end
