(* ===== verification/Local_Threads_Inv.thy ===== *)
theory Local_Threads_Inv
  imports Local_Threads
begin

text \<open>
  What holds of the service in every interleaving of its threads, by the token logic of
  \<open>Threads\<close>. A thread owns

  \<^item> \<open>Ref a\<close> for an \<open>Arc\<close> it has cloned out of the registry,
  \<^item> \<open>Past a d\<close> for the knowledge that the data of the task \<open>a\<close> once was \<open>d\<close>,
  \<^item> \<open>Hold a d\<close> while it is in the scope of the lock of the task \<open>a\<close>, whose data then is \<open>d\<close>,
  \<^item> \<open>Slot a p\<close>, the right to wait for the task \<open>a\<close> it has started with the pid \<open>p\<close>,
  \<^item> \<open>Credit c p\<close>, the right to send one exit event for the id \<open>c\<close> and the pid \<open>p\<close>.

  \<open>service_inv\<close> ties the tokens to the state. Every call is shown to be safe by going through its
  accesses; the rules for the accesses are proved once.
\<close>

section \<open>Tokens and the invariant\<close>

datatype 'i token = Ref nat | Past nat "'i instance_data" | Hold nat "'i instance_data" | Slot nat u32 | Credit string u32

fun is_hold :: "nat \<Rightarrow> 'i token \<Rightarrow> bool" where
  "is_hold a (Hold b d) = (a = b)"
| "is_hold a _ = False"

fun is_slot :: "nat \<Rightarrow> 'i token \<Rightarrow> bool" where
  "is_slot a (Slot b p) = (a = b)"
| "is_slot a _ = False"

definition held :: "nat \<Rightarrow> 'i token multiset \<Rightarrow> nat" where
  "held a c = size (filter_mset (is_hold a) c)"

definition slots :: "nat \<Rightarrow> 'i token multiset \<Rightarrow> nat" where
  "slots a c = size (filter_mset (is_slot a) c)"

definition waiting_on :: "nat \<Rightarrow> (nat \<times> string \<times> u32) list \<Rightarrow> nat" where
  "waiting_on a ths = length (filter (\<lambda>th. fst th = a) ths)"

lemma held_simps [simp]:
  "held a {#} = 0" "held a (c + d) = held a c + held a d"
  "held a (add_mset t c) = (if is_hold a t then Suc (held a c) else held a c)"
  by (simp_all add: held_def)

lemma slots_simps [simp]:
  "slots a {#} = 0" "slots a (c + d) = slots a c + slots a d"
  "slots a (add_mset t c) = (if is_slot a t then Suc (slots a c) else slots a c)"
  by (simp_all add: slots_def)

lemma waiting_on_append [simp]: "waiting_on a (xs @ ys) = waiting_on a xs + waiting_on a ys"
  by (simp add: waiting_on_def)

lemma waiting_on_remove1:
  "th \<in> set ths \<Longrightarrow> waiting_on a ths = waiting_on a (remove1 th ths) + (if fst th = a then 1 else 0)"
  by (induction ths) (auto simp: waiting_on_def)

lemma waiting_on_distinct:
  assumes "\<And>a. waiting_on a ths \<le> 1"
  shows "distinct (map fst ths)"
  using assms
proof (induction ths)
  case (Cons th ths)
  have "waiting_on a ths \<le> 1" for a using Cons.prems [of a] by (simp add: waiting_on_def split: if_splits)
  then have "distinct (map fst ths)" by (rule Cons.IH)
  moreover from Cons.prems [of "fst th"] have "fst th \<notin> fst ` set ths"
    by (auto simp: waiting_on_def filter_empty_conv)
  ultimately show ?case by simp
qed simp

lemma held_in: "Hold a d \<in># c \<Longrightarrow> held a c \<noteq> 0"
  by (auto simp: held_def dest!: multi_member_split)

lemma slots_in: "Slot a p \<in># c \<Longrightarrow> slots a c \<noteq> 0"
  by (auto simp: slots_def dest!: multi_member_split)

lemma waiting_on_in: "(a, c, p) \<in> set ths \<Longrightarrow> waiting_on a ths \<noteq> 0"
  by (force simp: waiting_on_def filter_empty_conv)

text \<open>The registry and the tasks, whose own invariant holds where no lock is taken.\<close>

definition tasks_ok :: "nat set \<Rightarrow> ('i, 'w) shim \<Rightarrow> bool" where
  "tasks_ok L s \<longleftrightarrow>
     (\<forall>a d. arcs s a = Some d \<longrightarrow> a < next_arc s \<and> (a \<notin> L \<longrightarrow> data_inv d)) \<and>
     (\<forall>c a. instances s c = Some a \<longrightarrow> arcs s a \<noteq> None) \<and>
     (\<forall>c c' a. instances s c = Some a \<longrightarrow> instances s c' = Some a \<longrightarrow> c = c')"

text \<open>A lock has one owner, who knows the data; a reference does not dangle; what no method undoes is not undone.\<close>

definition locks_ok :: "'i token multiset \<Rightarrow> nat set \<Rightarrow> ('i, 'w) shim \<Rightarrow> bool" where
  "locks_ok c L s \<longleftrightarrow>
     (\<forall>a. held a c = (if a \<in> L then 1 else 0)) \<and>
     (\<forall>a d. Hold a d \<in># c \<longrightarrow> arcs s a = Some d) \<and>
     (\<forall>a. Ref a \<in># c \<longrightarrow> arcs s a \<noteq> None) \<and>
     (\<forall>a d. Past a d \<in># c \<longrightarrow> (\<exists>d'. arcs s a = Some d' \<and> data_le d d'))"

text \<open>A task is waited for by one thread at most, which has the pid the task was started with.\<close>

definition slots_ok :: "'i token multiset \<Rightarrow> ('i, 'w) shim \<Rightarrow> bool" where
  "slots_ok c s \<longleftrightarrow>
     (\<forall>a. slots a c + waiting_on a (wait_threads s) \<le> 1) \<and>
     (\<forall>a p. Slot a p \<in># c \<longrightarrow> (\<exists>d. arcs s a = Some d \<and> id_pid d = Some p)) \<and>
     (\<forall>a cid p. (a, cid, p) \<in> set (wait_threads s) \<longrightarrow> (\<exists>d. arcs s a = Some d \<and> id_pid d = Some p))"

text \<open>Every exit event that was sent or that a thread may still send answers a start event of its own.\<close>

definition credits_ok :: "'i token multiset \<Rightarrow> ('i, 'w) shim \<Rightarrow> bool" where
  "credits_ok c s \<longleftrightarrow> (\<forall>cid p. exits_of cid p (events s) + waiters_of cid p (wait_threads s) +
     count c (Credit cid p) \<le> starts_of cid p (events s))"

definition service_inv :: "'i token multiset \<Rightarrow> ('i, 'w) cshim \<Rightarrow> bool" where
  "service_inv c = (\<lambda>(L, s). tasks_ok L s \<and> locks_ok c L s \<and> slots_ok c s \<and> credits_ok c s)"

lemmas service_inv_defs = tasks_ok_def locks_ok_def slots_ok_def credits_ok_def

lemma service_invI:
  "tasks_ok L s \<Longrightarrow> locks_ok c L s \<Longrightarrow> slots_ok c s \<Longrightarrow> credits_ok c s \<Longrightarrow> service_inv c (L, s)"
  by (simp add: service_inv_def)

lemma service_invE:
  assumes "service_inv c (L, s)"
  obtains "tasks_ok L s" and "locks_ok c L s" and "slots_ok c s" and "credits_ok c s"
  using assms by (simp add: service_inv_def)

lemma service_inv_new: "service_inv {#} ({}, local_new ns addr w)"
  by (simp add: service_inv_def service_inv_defs local_new_def instances_def exits_of_def waiters_of_def
      waiting_on_def)

definition owns_lock :: "nat \<Rightarrow> 'i token multiset \<Rightarrow> bool" where
  "owns_lock a c \<longleftrightarrow> held a c \<noteq> 0"

definition lock_taken :: "nat \<Rightarrow> ('i, 'w) cshim \<Rightarrow> bool" where
  "lock_taken a x \<longleftrightarrow> a \<in> fst x"

interpretation tok: token_logic service_inv owns_lock lock_taken
  by unfold_locales (auto simp: service_inv_def locks_ok_def owns_lock_def lock_taken_def split: if_splits)

section \<open>What an access does to the invariant\<close>

lemma inv_world: "service_inv c (L, s) \<Longrightarrow> service_inv c (L, s\<lparr>world := w\<rparr>)"
  by (simp add: service_inv_def service_inv_defs)

lemma inv_hold:
  assumes "service_inv (add_mset (Hold a d) M) (L, s)"
  shows "arcs s a = Some d" and "a \<in> L"
  using assms by (auto simp: service_inv_def locks_ok_def split: if_splits)

lemma inv_ref: "service_inv c (L, s) \<Longrightarrow> Ref a \<in># c \<Longrightarrow> arcs s a \<noteq> None"
  by (auto simp: service_inv_def locks_ok_def)

lemma inv_clone: "service_inv M (L, s) \<Longrightarrow> arcs s a \<noteq> None \<Longrightarrow> service_inv (add_mset (Ref a) M) (L, s)"
  by (auto simp: service_inv_def service_inv_defs)

lemma inv_update:
  assumes I: "service_inv (add_mset (Hold a d) M) (L, s)" and le: "data_le d d'"
  shows "service_inv (add_mset (Hold a d') M) (L, s\<lparr>arcs := (arcs s)(a \<mapsto> d')\<rparr>)"
  using I
proof (rule service_invE)
  assume ok: "tasks_ok L s" "locks_ok (add_mset (Hold a d) M) L s" "slots_ok (add_mset (Hold a d) M) s"
    "credits_ok (add_mset (Hold a d) M) s"
  note a = inv_hold [OF I]
  have one: "held a M = 0" using ok(2) a(2) by (auto simp: locks_ok_def dest: spec [of _ a])
  let ?s = "s\<lparr>arcs := (arcs s)(a \<mapsto> d')\<rparr>"
  show ?thesis
  proof (rule service_invI)
    show "tasks_ok L ?s" using ok(1) a by (auto simp: tasks_ok_def)
    show "locks_ok (add_mset (Hold a d') M) L ?s" using ok(2) held_in [of a _ M] one a(1) le
      by (fastforce simp: locks_ok_def intro: data_le_trans)
    show "slots_ok (add_mset (Hold a d') M) ?s" using ok(3) a(1) le
      by (fastforce simp: slots_ok_def data_le_def)
    show "credits_ok (add_mset (Hold a d') M) ?s" using ok(4) by (simp add: credits_ok_def)
  qed
qed

lemma inv_acquire:
  assumes "service_inv M (L, s)" and "a \<notin> L" and "arcs s a = Some d"
  shows "service_inv (add_mset (Hold a d) M) (insert a L, s)" and "data_inv d"
  using assms by (auto simp: service_inv_def service_inv_defs)

lemma inv_release:
  assumes "service_inv (add_mset (Hold a d) M) (L, s)" and "data_inv d"
  shows "service_inv M (L - {a}, s)"
  using assms inv_hold [OF assms(1)]
  by (auto simp: service_inv_def service_inv_defs split: if_splits) 

lemma inv_poison:
  assumes I: "service_inv (add_mset (Hold a d) M) (L, s)"
  shows "service_inv M (L - {a}, s\<lparr>arcs := (arcs s)(a := map_option (\<lambda>d. d\<lparr>id_poisoned := True\<rparr>) (arcs s a))\<rparr>)"
proof -
  have "data_le d (d\<lparr>id_poisoned := True\<rparr>)" and "data_inv (d\<lparr>id_poisoned := True\<rparr>)"
    by (simp_all add: data_le_def data_inv_def)
  with inv_release [OF inv_update [OF I]] inv_hold [OF I] show ?thesis by simp
qed

text \<open>Setting the pid gives the right to wait: nobody can have it yet.\<close>

lemma inv_slot:
  assumes I: "service_inv (add_mset (Hold a d) M) (L, s)" and none: "id_pid d = None"
  shows "service_inv (add_mset (Slot a p) (add_mset (Hold a (d\<lparr>id_pid := Some p\<rparr>)) M))
     (L, s\<lparr>arcs := (arcs s)(a \<mapsto> d\<lparr>id_pid := Some p\<rparr>)\<rparr>)"
proof -
  have "data_le d (d\<lparr>id_pid := Some p\<rparr>)" using none by (simp add: data_le_def)
  from inv_update [OF I this] have I': "service_inv (add_mset (Hold a (d\<lparr>id_pid := Some p\<rparr>)) M)
     (L, s\<lparr>arcs := (arcs s)(a \<mapsto> d\<lparr>id_pid := Some p\<rparr>)\<rparr>)" .
  have free: "slots a M = 0 \<and> waiting_on a (wait_threads s) = 0"
  proof -
    have "Slot a q \<notin># M" for q using I none inv_hold [OF I] by (fastforce simp: service_inv_def slots_ok_def)
    then have "slots a M = 0" by (auto simp: slots_def multiset_eq_iff count_eq_zero_iff elim!: is_slot.elims)
    moreover have "(a, cid, q) \<notin> set (wait_threads s)" for cid q
      using I none inv_hold [OF I] by (fastforce simp: service_inv_def slots_ok_def)
    then have "waiting_on a (wait_threads s) = 0" by (auto simp: waiting_on_def filter_empty_conv)
    ultimately show ?thesis by simp
  qed
  from I' show ?thesis
    by (rule service_invE) (use free in \<open>auto intro!: service_invI simp: locks_ok_def slots_ok_def credits_ok_def\<close>)
qed

lemma inv_start_event:
  assumes "service_inv M (L, s)"
  shows "service_inv (add_mset (Credit cid p) M) (L, s\<lparr>events := events s @ [TaskStart cid p]\<rparr>)"
  using assms
  by (auto simp: service_inv_def tasks_ok_def locks_ok_def slots_ok_def)
    (auto simp: credits_ok_def exits_of_def starts_of_def)

lemma inv_other_event:
  assumes "service_inv M (L, s)" and "\<And>cid p. exits_of cid p [e] = 0"
  shows "service_inv M (L, s\<lparr>events := events s @ [e]\<rparr>)"
  using assms by (auto simp: service_inv_def tasks_ok_def locks_ok_def slots_ok_def credits_ok_def trans_le_add1)

lemma credits_okD:
  "credits_ok c s \<Longrightarrow> exits_of cid p (events s) + waiters_of cid p (wait_threads s) +
     count c (Credit cid p) \<le> starts_of cid p (events s)"
  by (simp add: credits_ok_def)

lemma slots_okI:
  assumes "\<And>a. slots a c + waiting_on a (wait_threads s) \<le> 1"
    and "\<And>a p. Slot a p \<in># c \<Longrightarrow> \<exists>d. arcs s a = Some d \<and> id_pid d = Some p"
    and "\<And>a cid p. (a, cid, p) \<in> set (wait_threads s) \<Longrightarrow> \<exists>d. arcs s a = Some d \<and> id_pid d = Some p"
  shows "slots_ok c s"
  using assms unfolding slots_ok_def by blast

lemma inv_exit_event:
  assumes "service_inv (add_mset (Credit cid p) M) (L, s)"
  shows "service_inv M (L, s\<lparr>events := events s @ [TaskExit cid cid p x t]\<rparr>)"
  using assms
proof (rule service_invE, intro service_invI)
  assume "credits_ok (add_mset (Credit cid p) M) s"
  from credits_okD [OF this] show "credits_ok M (s\<lparr>events := events s @ [TaskExit cid cid p x t]\<rparr>)"
    by (force simp: credits_ok_def exits_of_def starts_of_def split: if_splits)
qed (auto simp: tasks_ok_def locks_ok_def slots_ok_def)

lemma inv_spawn:
  assumes "service_inv (add_mset (Slot a p) (add_mset (Credit cid p) M)) (L, s)"
  shows "service_inv M (L, s\<lparr>wait_threads := wait_threads s @ [(a, cid, p)]\<rparr>)"
  using assms
proof (rule service_invE, intro service_invI)
  assume slots: "slots_ok (add_mset (Slot a p) (add_mset (Credit cid p) M)) s"
  then have "slots b M + waiting_on b (wait_threads s @ [(a, cid, p)]) \<le> 1" for b
    by (auto simp: slots_ok_def waiting_on_def dest: spec [of _ b] split: if_splits)
  with slots show "slots_ok M (s\<lparr>wait_threads := wait_threads s @ [(a, cid, p)]\<rparr>)"
    by (auto simp: slots_ok_def)
  assume "credits_ok (add_mset (Slot a p) (add_mset (Credit cid p) M)) s"
  from credits_okD [OF this] show "credits_ok M (s\<lparr>wait_threads := wait_threads s @ [(a, cid, p)]\<rparr>)"
    by (force simp: credits_ok_def waiters_of_def split: if_splits)
qed (auto simp: tasks_ok_def locks_ok_def)

lemma inv_begin:
  assumes "service_inv M (L, s)" and th: "(a, cid, p) \<in> set (wait_threads s)"
  shows "service_inv (add_mset (Slot a p) (add_mset (Credit cid p) (add_mset (Ref a) M)))
     (L, s\<lparr>wait_threads := remove1 (a, cid, p) (wait_threads s)\<rparr>)"
  using assms(1)
proof (rule service_invE, intro service_invI)
  assume slots: "slots_ok M s" and locks: "locks_ok M L s"
  then have pid: "\<exists>d. arcs s a = Some d \<and> id_pid d = Some p" using th by (auto simp: slots_ok_def)
  with locks show "locks_ok (add_mset (Slot a p) (add_mset (Credit cid p) (add_mset (Ref a) M))) L
      (s\<lparr>wait_threads := remove1 (a, cid, p) (wait_threads s)\<rparr>)" by (auto simp: locks_ok_def)
  show "slots_ok (add_mset (Slot a p) (add_mset (Credit cid p) (add_mset (Ref a) M)))
      (s\<lparr>wait_threads := remove1 (a, cid, p) (wait_threads s)\<rparr>)"
  proof (rule slots_okI)
    fix b
    show "slots b (add_mset (Slot a p) (add_mset (Credit cid p) (add_mset (Ref a) M))) +
        waiting_on b (wait_threads (s\<lparr>wait_threads := remove1 (a, cid, p) (wait_threads s)\<rparr>)) \<le> 1"
      using slots waiting_on_remove1 [OF th, of b] by (auto simp: slots_ok_def dest: spec [of _ b])
  qed (use slots pid in \<open>auto simp: slots_ok_def dest!: set_mp [OF set_remove1_subset]\<close>)
  assume credits: "credits_ok M s"
  show "credits_ok (add_mset (Slot a p) (add_mset (Credit cid p) (add_mset (Ref a) M)))
      (s\<lparr>wait_threads := remove1 (a, cid, p) (wait_threads s)\<rparr>)"
    unfolding credits_ok_def
  proof (intro allI)
    fix c q
    show "exits_of c q (events (s\<lparr>wait_threads := remove1 (a, cid, p) (wait_threads s)\<rparr>)) +
        waiters_of c q (wait_threads (s\<lparr>wait_threads := remove1 (a, cid, p) (wait_threads s)\<rparr>)) +
        count (add_mset (Slot a p) (add_mset (Credit cid p) (add_mset (Ref a) M))) (Credit c q)
        \<le> starts_of c q (events (s\<lparr>wait_threads := remove1 (a, cid, p) (wait_threads s)\<rparr>))"
      using credits_okD [OF credits, of c q] waiters_of_remove1 [OF th, of c q] by auto
  qed
qed (auto simp: tasks_ok_def)

lemma inv_insert:
  assumes "service_inv M (L, s)" and d: "data_inv d"
  shows "service_inv M (L, s\<lparr>registry := AList.update c (next_arc s) (registry s),
      arcs := (arcs s)(next_arc s \<mapsto> d), next_arc := Suc (next_arc s)\<rparr>)"
  using assms(1)
proof (rule service_invE, intro service_invI)
  assume tasks: "tasks_ok L s"
  then have fresh: "arcs s (next_arc s) = None" by (cases "arcs s (next_arc s)") (auto simp: tasks_ok_def)
  with tasks have "instances s c' \<noteq> Some (next_arc s)" for c' by (fastforce simp: tasks_ok_def)
  with tasks d show "tasks_ok L (s\<lparr>registry := AList.update c (next_arc s) (registry s),
      arcs := (arcs s)(next_arc s \<mapsto> d), next_arc := Suc (next_arc s)\<rparr>)"
    by (auto simp: tasks_ok_def less_Suc_eq split: if_splits)
  assume "locks_ok M L s" and "slots_ok M s"
  with fresh show "locks_ok M L (s\<lparr>registry := AList.update c (next_arc s) (registry s),
      arcs := (arcs s)(next_arc s \<mapsto> d), next_arc := Suc (next_arc s)\<rparr>)"
    and "slots_ok M (s\<lparr>registry := AList.update c (next_arc s) (registry s),
      arcs := (arcs s)(next_arc s \<mapsto> d), next_arc := Suc (next_arc s)\<rparr>)"
    by (fastforce simp: locks_ok_def slots_ok_def)+
qed (auto simp: credits_ok_def)

lemma inv_remove:
  "service_inv M (L, s) \<Longrightarrow> service_inv M (L, s\<lparr>registry := AList.delete c (registry s)\<rparr>)"
  by (auto simp: service_inv_def service_inv_defs split: if_splits)

section \<open>The accesses are safe\<close>

text \<open>\<open>?\<close> after a safe call: the rest runs on its value, an error or a panic ends the thread.\<close>

lemma safe_seq:
  assumes "tok.safe R p c"
    and "\<And>v c. R (Ok v) c \<Longrightarrow> tok.safe Q (f v) c"
    and "\<And>e c. R (Err e) c \<Longrightarrow> Q (Err e) c" and "\<And>m c. R (Panic m) c \<Longrightarrow> Q (Panic m) c"
    and "\<And>c. R Blocked c \<Longrightarrow> Q Blocked c"
  shows "tok.safe Q (th_seq p f) c"
  unfolding th_seq_def using assms
  by (auto intro!: tok.safe_bind [OF assms(1)] split: res.split)

lemma safe_shared:
  assumes "\<And>D L s r t. service_inv (c + D) (L, s) \<Longrightarrow> m s = (r, t) \<Longrightarrow>
      r \<noteq> Blocked \<and> (\<exists>c'. service_inv (c' + D) (L, t) \<and> Q r c')"
  shows "tok.safe Q (shared m) c"
  unfolding shared_def th_act_def
proof (rule tok.safe.access)
  fix D and x :: "('a, 'b) cshim" and p :: "('a, 'b, 'c) call" and y
  assume I: "service_inv (c + D) x"
    and "(case on_shim m x of (Blocked, _) \<Rightarrow> None | (r, t) \<Rightarrow> Some (Finished r, t)) = Some (p, y)"
  moreover obtain L s where x: "x = (L, s)" by (cases x)
  moreover obtain r t where m: "m s = (r, t)" by (cases "m s")
  ultimately have "p = Finished r \<and> y = (L, t)" by (cases r) (auto simp: on_shim_def)
  with assms [of D L s r t] I x m show "\<exists>c'. service_inv (c' + D) y \<and> tok.safe Q p c'" by auto
next
  fix D and x :: "('a, 'b) cshim"
  assume "service_inv (c + D) x"
  with assms [of D "fst x" "snd x"]
  show "(case on_shim m x of (Blocked, _) \<Rightarrow> None | (r, t) \<Rightarrow> Some (Finished r, t)) \<noteq> None"
    by (cases "m (snd x)"; cases "fst (m (snd x))") (auto simp: on_shim_def split_def)
qed simp_all

text \<open>A call that leaves the shim: its result is one the operation can return, no token changes.\<close>

lemma safe_external:
  assumes "\<And>D L s r t. service_inv (c + D) (L, s) \<Longrightarrow> m s = (r, t) \<Longrightarrow> r \<noteq> Blocked \<Longrightarrow>
      \<exists>c'. service_inv (c' + D) (L, t) \<and> Q r c'"
  shows "tok.safe Q (th_act External (on_shim m)) c"
  unfolding th_act_def
proof (rule tok.safe.access)
  fix D and x :: "('a, 'b) cshim" and p :: "('a, 'b, 'c) call" and y
  assume I: "service_inv (c + D) x"
    and "(case on_shim m x of (Blocked, _) \<Rightarrow> None | (r, t) \<Rightarrow> Some (Finished r, t)) = Some (p, y)"
  moreover obtain L s where x: "x = (L, s)" by (cases x)
  moreover obtain r t where m: "m s = (r, t)" by (cases "m s")
  ultimately have "p = Finished r \<and> y = (L, t) \<and> r \<noteq> Blocked" by (cases r) (auto simp: on_shim_def)
  with assms [of D L s r t] I x m show "\<exists>c'. service_inv (c' + D) y \<and> tok.safe Q p c'" by auto
qed simp_all

lemma safe_outer:
  assumes "\<And>r w w'. m w = (r, w') \<Longrightarrow> r \<noteq> Blocked \<Longrightarrow> Q r c"
  shows "tok.safe Q (outer m) c"
  unfolding outer_def
  by (rule safe_external) (use assms in \<open>auto simp: in_world_def intro: inv_world split: prod.splits\<close>)

lemma safe_get_instance:
  "tok.safe (\<lambda>r c'. case r of Ok a \<Rightarrow> c' = add_mset (Ref a) c | _ \<Rightarrow> c' = c) (shared (get_instance cid)) c"
proof (rule safe_shared)
  fix D L s r t
  assume I: "service_inv (c + D) (L, s)" and eq: "get_instance cid s = (r, t)"
  show "r \<noteq> Blocked \<and> (\<exists>c'. service_inv (c' + D) (L, t) \<and> (case r of Ok a \<Rightarrow> c' = add_mset (Ref a) c | _ \<Rightarrow> c' = c))"
  proof (cases "instances s cid")
    case (Some a)
    with I have "arcs s a \<noteq> None" by (auto simp: service_inv_def tasks_ok_def)
    with I eq Some inv_clone [OF I, of a] show ?thesis by (auto simp: get_instance_def)
  qed (use I eq in \<open>auto simp: get_instance_def\<close>)
qed

text \<open>Reading the shim or a task, and the events no exit is counted by.\<close>

lemma safe_read:
  "tok.safe (\<lambda>r c'. c' = c) (shared (read_shim f)) c"
  by (rule safe_shared) (auto simp: read_shim_def)

lemma safe_read_task:
  assumes "Ref a \<in># c"
  shows "tok.safe (\<lambda>r c'. c' = c) (shared (in_data a (get_data f))) c"
proof (rule safe_shared)
  fix D L s r t
  assume I: "service_inv (c + D) (L, s)" and eq: "in_data a (get_data f) s = (r, t)"
  from inv_ref [OF I, of a] assms obtain d where "arcs s a = Some d" by auto
  with I eq show "r \<noteq> Blocked \<and> (\<exists>c'. service_inv (c' + D) (L, t) \<and> c' = c)"
    by (auto simp: in_data_def get_data_def map_upd_triv)
qed

lemma safe_event:
  assumes "\<And>cid p. exits_of cid p [e] = 0"
  shows "tok.safe (\<lambda>r c'. c' = c) (shared (send_event e)) c"
  by (rule safe_shared) (auto simp: send_event_def intro: inv_other_event assms)

section \<open>The scope of a lock\<close>

lemma no_lock_add [simp]:
  "owns_lock b (add_mset (Ref a) c) \<longleftrightarrow> owns_lock b c"
  "owns_lock b (add_mset (Slot a p) c) \<longleftrightarrow> owns_lock b c"
  "owns_lock b (add_mset (Credit cid p) c) \<longleftrightarrow> owns_lock b c"
  "\<not> owns_lock b {#}"
  by (simp_all add: owns_lock_def)

definition locked_with :: "nat \<Rightarrow> 'i token multiset \<Rightarrow> (error, unit) res \<Rightarrow> 'i token multiset \<Rightarrow> bool" where
  "locked_with a c r c' \<longleftrightarrow>
     (r = Ok () \<and> (\<exists>d. c' = add_mset (Hold a d) c \<and> data_inv d \<and> \<not> id_poisoned d)) \<or>
     (\<exists>m. r = Panic m \<and> c' = c)"

lemma safe_acquire:
  assumes ref: "Ref a \<in># c" and "\<And>b. \<not> owns_lock b c"
  shows "tok.safe (locked_with a c) (acquire a :: ('i, 'w, unit) call) c"
  unfolding acquire_def
proof (rule tok.safe.access)
  fix D and x :: "('i, 'w) cshim" and p :: "('i, 'w, unit) call" and y
  assume I: "service_inv (c + D) x" and eq: "(case x of (L, s) \<Rightarrow> if a \<in> L then None else Some (case arcs s a of
      None \<Rightarrow> (Finished (Panic ''dangling Arc''), (L, s))
    | Some d \<Rightarrow> if id_poisoned d then (Finished (Panic ''PoisonError''), (L, s))
                else (Finished (Ok ()), (insert a L, s)))) = Some (p, y)"
  obtain L s where x: "x = (L, s)" by (cases x)
  with I ref inv_ref [of "c + D" L s a] obtain d where d: "arcs s a = Some d" by auto
  show "\<exists>c'. service_inv (c' + D) y \<and> tok.safe (locked_with a c) p c'"
  proof (cases "id_poisoned d")
    case True
    with I eq x d show ?thesis by (auto simp: locked_with_def split: if_splits)
  next
    case False
    with eq x d have a: "a \<notin> L" and p: "p = Finished (Ok ())" and y: "y = (insert a L, s)"
      by (auto split: if_splits)
    from inv_acquire [OF I [unfolded x] a d] have "service_inv (add_mset (Hold a d) c + D) y" and "data_inv d"
      by (simp_all add: y)
    with False p show ?thesis by (intro exI [of _ "add_mset (Hold a d) c"]) (auto simp: locked_with_def)
  qed
qed (use assms in \<open>auto simp: lock_taken_def split: if_splits prod.splits\<close>)

definition unlocks_to :: "nat \<Rightarrow> ((error, 'a) res \<Rightarrow> 'i token multiset \<Rightarrow> bool) \<Rightarrow> (error, 'a) res \<Rightarrow> 'i token multiset \<Rightarrow> bool" where
  "unlocks_to a Q r c \<longleftrightarrow> (\<exists>d c'. c = add_mset (Hold a d) c' \<and> (is_panic r \<or> data_inv d) \<and> Q r c')"

lemma unlocks_toI: "is_panic r \<or> data_inv d \<Longrightarrow> Q r c \<Longrightarrow> unlocks_to a Q r (add_mset (Hold a d) c)"
  unfolding unlocks_to_def by blast

lemma safe_release:
  assumes "unlocks_to a Q r c"
  shows "tok.safe Q (release a r :: ('i, 'w, 'a) call) c"
proof -
  from assms obtain d c' where c: "c = add_mset (Hold a d) c'" and d: "is_panic r \<or> data_inv d" and Q: "Q r c'"
    by (auto simp: unlocks_to_def)
  have "service_inv (c' + D) (L - {a}, if is_panic r
      then s\<lparr>arcs := (arcs s)(a := map_option (\<lambda>d. d\<lparr>id_poisoned := True\<rparr>) (arcs s a))\<rparr> else s)"
    if "service_inv (c + D) (L, s)" for D L and s :: "('i, 'w) shim"
    using that d inv_poison [of a d "c' + D" L s] inv_release [of a d "c' + D" L s] by (auto simp: c)
  with Q show ?thesis
    unfolding release_def by (intro tok.safe.access) (auto intro!: exI [of _ c'] split: prod.splits)
qed

lemma safe_locking:
  assumes "Ref a \<in># c" and "\<And>b. \<not> owns_lock b c" and "\<And>m. Q (Panic m) c"
    and "\<And>d. data_inv d \<Longrightarrow> \<not> id_poisoned d \<Longrightarrow> tok.safe (unlocks_to a Q) body (add_mset (Hold a d) c)"
  shows "tok.safe Q (locking a body) c"
  unfolding locking_def
proof (rule safe_seq [OF safe_acquire [OF assms(1,2)]])
  fix v c'
  assume "locked_with a c (Ok v) c'"
  then obtain d where "c' = add_mset (Hold a d) c" and "data_inv d" and "\<not> id_poisoned d"
    by (auto simp: locked_with_def)
  with assms(4) show "tok.safe Q (th_bind body (release a)) c'"
    by (auto intro: tok.safe_bind safe_release)
qed (use assms(3) in \<open>auto simp: locked_with_def\<close>)

text \<open>Inside the lock the owner alone changes the data.\<close>

lemma safe_held:
  assumes "\<And>w. m (d, w) = (r, (d', w))" and "data_le d d'" and "r \<noteq> Blocked"
  shows "tok.safe (\<lambda>r' c'. r' = r \<and> c' = add_mset (Hold a d') c) (shared (in_data a m)) (add_mset (Hold a d) c)"
proof (rule safe_shared)
  fix D L s r' t
  assume I: "service_inv (add_mset (Hold a d) c + D) (L, s)" and eq: "in_data a m s = (r', t)"
  from I have I': "service_inv (add_mset (Hold a d) (c + D)) (L, s)" by simp
  from inv_hold [OF I'] eq assms(1) have "r' = r \<and> t = s\<lparr>arcs := (arcs s)(a \<mapsto> d')\<rparr>" by (auto simp: in_data_def)
  with inv_update [OF I' assms(2)] assms(3)
  show "r' \<noteq> Blocked \<and> (\<exists>c'. service_inv (c' + D) (L, t) \<and> r' = r \<and> c' = add_mset (Hold a d') c)" by simp
qed

lemma safe_pid_set:
  assumes none: "id_pid d = None"
  shows "tok.safe (\<lambda>r' c'. r' = Ok () \<and> c' = add_mset (Slot a p) (add_mset (Hold a (d\<lparr>id_pid := Some p\<rparr>)) c))
     (shared (in_data a (ignore_result (pid_set p)))) (add_mset (Hold a d) c)"
proof (rule safe_shared)
  fix D L s r' t
  assume I: "service_inv (add_mset (Hold a d) c + D) (L, s)"
    and eq: "in_data a (ignore_result (pid_set p)) s = (r', t)"
  from I have I': "service_inv (add_mset (Hold a d) (c + D)) (L, s)" by simp
  from inv_hold [OF I'] eq none have "r' = Ok () \<and> t = s\<lparr>arcs := (arcs s)(a \<mapsto> d\<lparr>id_pid := Some p\<rparr>)\<rparr>"
    by (auto simp: in_data_def pid_set_def act_defs)
  with inv_slot [OF I' none, of p] show "r' \<noteq> Blocked \<and> (\<exists>c'. service_inv (c' + D) (L, t) \<and> r' = Ok () \<and>
      c' = add_mset (Slot a p) (add_mset (Hold a (d\<lparr>id_pid := Some p\<rparr>)) c))" by simp
qed

lemma on_state_apply: "on_state m (d, w) = (fst (m (id_state d)), (d\<lparr>id_state := snd (m (id_state d))\<rparr>, w))"
  by (simp add: on_state_def split: prod.split)

lemma safe_get_held:
  "tok.safe (\<lambda>r' c'. r' = Ok (f d) \<and> c' = add_mset (Hold a d) c) (shared (in_data a (get_data f))) (add_mset (Hold a d) c)"
  by (rule safe_held) (auto simp: get_data_def)

lemma safe_on_state:
  assumes "m (id_state d) = (r, st)" and "r \<noteq> Blocked" and "id_state d \<noteq> Created \<Longrightarrow> st \<noteq> Created"
  shows "tok.safe (\<lambda>r' c'. r' = r \<and> c' = add_mset (Hold a (d\<lparr>id_state := st\<rparr>)) c)
     (shared (in_data a (on_state m))) (add_mset (Hold a d) c)"
  by (rule safe_held) (use assms in \<open>auto simp: on_state_apply data_le_def\<close>)

lemma safe_ignore_on_state:
  assumes "m (id_state d) = (Ok u, st)" and "id_state d \<noteq> Created \<Longrightarrow> st \<noteq> Created"
  shows "tok.safe (\<lambda>r' c'. r' = Ok () \<and> c' = add_mset (Hold a (d\<lparr>id_state := st\<rparr>)) c)
     (shared (in_data a (ignore_result (on_state m)))) (add_mset (Hold a d) c)"
  by (rule safe_held) (use assms in \<open>auto simp: on_state_apply data_le_def act_defs\<close>)

lemma safe_set_exited:
  assumes "Ref a \<in># c" and "\<And>b. \<not> owns_lock b c"
  shows "tok.safe (\<lambda>_ c'. c' = c) (th_set_exited a) c"
  unfolding th_set_exited_def
proof (rule safe_locking [OF assms])
  fix d :: "'a instance_data"
  have "tok.safe (\<lambda>r' c'. r' = Ok () \<and> c' = add_mset (Hold a (d\<lparr>id_state := Exited\<rparr>)) c)
     (shared (in_data a set_exited)) (add_mset (Hold a d) c)"
    unfolding set_exited_def by (rule safe_on_state) simp_all
  then show "tok.safe (unlocks_to a (\<lambda>_ c'. c' = c)) (shared (in_data a set_exited)) (add_mset (Hold a d) c)"
    by (rule tok.safe_weaken) (auto simp: data_inv_def intro!: unlocks_toI)
qed simp

lemma safe_data_kill:
  assumes "Ref a \<in># c" and "\<And>b. \<not> owns_lock b c"
  shows "tok.safe (\<lambda>_ c'. c' = c) (th_data_kill T sig a) c"
  unfolding th_data_kill_def
proof (rule safe_locking [OF assms])
  fix d :: "'a instance_data"
  assume d: "data_inv d"
  have state: "state_kill (id_state d) = (fst (state_kill (id_state d)), id_state d)"
    and "fst (state_kill (id_state d)) \<noteq> Blocked"
    by (cases "id_state d"; simp add: task_state_defs)+
  from safe_on_state [of state_kill d _ _ a c, OF this]
  have kill: "tok.safe (\<lambda>r' c'. c' = add_mset (Hold a d) c) (shared (in_data a (on_state state_kill))) (add_mset (Hold a d) c)"
    by (rule tok.safe_weaken) simp_all
  show "tok.safe (unlocks_to a (\<lambda>_ c'. c' = c)) (th_seq (shared (in_data a (on_state state_kill))) (\<lambda>_.
      th_seq (shared (in_data a (get_data id_instance))) (\<lambda>i. outer (inst_kill T i sig)))) (add_mset (Hold a d) c)"
    by (rule safe_seq [OF kill])
      (use d in \<open>auto intro!: safe_seq [OF safe_get_held] safe_outer unlocks_toI\<close>)
qed simp

lemma safe_data_delete:
  assumes "Ref a \<in># c" and "\<And>b. \<not> owns_lock b c"
  shows "tok.safe (\<lambda>_ c'. c' = c) (th_data_delete T a) c"
  unfolding th_data_delete_def
proof (rule safe_locking [OF assms])
  fix d :: "'a instance_data"
  assume d: "data_inv d"
  let ?rest = "\<lambda>_. th_seq (shared (in_data a (get_data id_instance))) (\<lambda>i.
      th_bind (outer (inst_delete T i)) (\<lambda>res. case res of
         Err e \<Rightarrow> th_seq (shared (in_data a (ignore_result (on_state state_stop)))) (\<lambda>_. Finished (Err e))
       | _ \<Rightarrow> Finished res))"
  show "tok.safe (unlocks_to a (\<lambda>_ c'. c' = c)) (th_seq (shared (in_data a (on_state state_delete))) ?rest) (add_mset (Hold a d) c)"
  proof (cases "id_state d \<in> {Created, Exited}")
    case True
    then have "state_delete (id_state d) = (Ok (), Deleting)" by (auto simp: task_state_defs)
    then have del: "tok.safe (\<lambda>r' c'. r' = Ok () \<and> c' = add_mset (Hold a (d\<lparr>id_state := Deleting\<rparr>)) c)
        (shared (in_data a (on_state state_delete))) (add_mset (Hold a d) c)"
      by (rule safe_on_state) simp_all
    have stop: "tok.safe (\<lambda>r' c'. r' = Ok () \<and> c' = add_mset (Hold a (d\<lparr>id_state := Deleting\<rparr>\<lparr>id_state := Exited\<rparr>)) c)
        (shared (in_data a (ignore_result (on_state state_stop)))) (add_mset (Hold a (d\<lparr>id_state := Deleting\<rparr>)) c)"
      by (rule safe_ignore_on_state) (simp_all add: task_state_defs)
    have "data_inv (d\<lparr>id_state := Deleting\<rparr>)" and "data_inv (d\<lparr>id_state := Exited\<rparr>)" by (simp_all add: data_inv_def)
    then show ?thesis
      by (intro safe_seq [OF del])
        (auto intro!: safe_seq [OF safe_get_held] tok.safe_bind [OF safe_outer [where Q = "\<lambda>_ c'. c' = add_mset (Hold a (d\<lparr>id_state := Deleting\<rparr>)) c"]]
          safe_seq [OF stop] unlocks_toI split: res.split)
  next
    case False
    then obtain e where "state_delete (id_state d) = (Err e, id_state d)"
      by (cases "id_state d") (auto simp: task_state_defs)
    then have del: "tok.safe (\<lambda>r' c'. r' = Err e \<and> c' = add_mset (Hold a (d\<lparr>id_state := id_state d\<rparr>)) c)
        (shared (in_data a (on_state state_delete))) (add_mset (Hold a d) c)"
      by (rule safe_on_state) simp_all
    with d show ?thesis by (intro safe_seq [OF del]) (auto intro!: unlocks_toI)
  qed
qed simp

text \<open>A start that succeeds leaves its thread with the right to wait for the task.\<close>

definition slot_if_ok :: "nat \<Rightarrow> 'i token multiset \<Rightarrow> (error, u32) res \<Rightarrow> 'i token multiset \<Rightarrow> bool" where
  "slot_if_ok a c r c' \<longleftrightarrow> c' = (case r of Ok p \<Rightarrow> add_mset (Slot a p) c | _ \<Rightarrow> c)"

lemma safe_started:
  fixes d :: "'i instance_data"
  assumes "id_state d = Starting" and "id_pid d = None"
  shows "tok.safe (unlocks_to a (slot_if_ok a c))
     (th_seq (shared (in_data a (ignore_result (pid_set pid)))) (\<lambda>_.
      th_seq (shared (in_data a (ignore_result (on_state state_started)))) (\<lambda>_. Finished (Ok pid))))
     (add_mset (Hold a d) c)"
proof -
  let ?d = "d\<lparr>id_pid := Some pid\<rparr>"
  have started: "tok.safe (\<lambda>r' c'. r' = Ok () \<and> c' = add_mset (Hold a (?d\<lparr>id_state := Started\<rparr>)) (add_mset (Slot a pid) c))
      (shared (in_data a (ignore_result (on_state state_started)))) (add_mset (Hold a ?d) (add_mset (Slot a pid) c))"
    by (rule safe_ignore_on_state) (use assms in \<open>simp_all add: task_state_defs\<close>)
  have "data_inv (?d\<lparr>id_state := Started\<rparr>)" by (simp add: data_inv_def)
  then have "unlocks_to a (slot_if_ok a c) (Ok pid) (add_mset (Hold a (?d\<lparr>id_state := Started\<rparr>)) (add_mset (Slot a pid) c))"
    by (intro unlocks_toI) (simp_all add: slot_if_ok_def)
  then show ?thesis
    by (intro safe_seq [OF safe_pid_set [OF assms(2)]])
      (auto simp: add_mset_commute [of "Slot a pid"] intro!: safe_seq [OF started])
qed

lemma safe_not_started:
  fixes d :: "'i instance_data"
  assumes "id_state d = Starting"
  shows "tok.safe (unlocks_to a (slot_if_ok a c))
     (th_seq (shared (in_data a (ignore_result (on_state state_stop)))) (\<lambda>_. Finished (Err e)))
     (add_mset (Hold a d) c)"
proof -
  have stop: "tok.safe (\<lambda>r' c'. r' = Ok () \<and> c' = add_mset (Hold a (d\<lparr>id_state := Exited\<rparr>)) c)
      (shared (in_data a (ignore_result (on_state state_stop)))) (add_mset (Hold a d) c)"
    by (rule safe_ignore_on_state) (use assms in \<open>simp_all add: task_state_defs\<close>)
  have "data_inv (d\<lparr>id_state := Exited\<rparr>)" by (simp add: data_inv_def)
  then show ?thesis by (intro safe_seq [OF stop]) (auto simp: slot_if_ok_def intro!: unlocks_toI)
qed

lemma safe_data_start:
  assumes "Ref a \<in># c" and "\<And>b. \<not> owns_lock b c"
  shows "tok.safe (slot_if_ok a c) (th_data_start T a) c"
  unfolding th_data_start_def
proof (rule safe_locking [OF assms])
  fix d :: "'a instance_data"
  assume d: "data_inv d" "\<not> id_poisoned d"
  let ?rest = "\<lambda>_. th_seq (shared (in_data a (get_data id_instance))) (\<lambda>i.
      th_bind (outer (inst_start T i)) (\<lambda>res. case res of
         Ok pid \<Rightarrow>
           th_seq (shared (in_data a (ignore_result (pid_set pid)))) (\<lambda>_.
           th_seq (shared (in_data a (ignore_result (on_state state_started)))) (\<lambda>_.
           Finished (Ok pid)))
       | Err e \<Rightarrow>
           th_seq (shared (in_data a (ignore_result (on_state state_stop)))) (\<lambda>_.
           Finished (Err e))
       | _ \<Rightarrow> Finished res))"
  show "tok.safe (unlocks_to a (slot_if_ok a c)) (th_seq (shared (in_data a (on_state state_start))) ?rest) (add_mset (Hold a d) c)"
  proof (cases "id_state d = Created")
    case True
    let ?d = "d\<lparr>id_state := Starting\<rparr>"
    from True d have none: "id_pid ?d = None" by (simp add: data_inv_def)
    from True have "state_start (id_state d) = (Ok (), Starting)" by (simp add: task_state_defs)
    then have start: "tok.safe (\<lambda>r' c'. r' = Ok () \<and> c' = add_mset (Hold a ?d) c)
        (shared (in_data a (on_state state_start))) (add_mset (Hold a d) c)"
      by (rule safe_on_state) simp_all
    show ?thesis
      by (intro safe_seq [OF start])
        (auto intro!: safe_seq [OF safe_get_held] tok.safe_bind [OF safe_outer [where Q = "\<lambda>r c'. r \<noteq> Blocked \<and> c' = add_mset (Hold a ?d) c"]]
          safe_started [of ?d, OF _ none] safe_not_started unlocks_toI simp: slot_if_ok_def split: res.split)
  next
    case False
    then obtain e where "state_start (id_state d) = (Err e, id_state d)"
      by (cases "id_state d") (auto simp: task_state_defs)
    then have start: "tok.safe (\<lambda>r' c'. r' = Err e \<and> c' = add_mset (Hold a (d\<lparr>id_state := id_state d\<rparr>)) c)
        (shared (in_data a (on_state state_start))) (add_mset (Hold a d) c)"
      by (rule safe_on_state) simp_all
    with d show ?thesis by (intro safe_seq [OF start]) (auto simp: slot_if_ok_def intro!: unlocks_toI)
  qed
qed (simp add: slot_if_ok_def)

lemma safe_data_wait:
  assumes "Ref a \<in># c" and "\<And>b. \<not> owns_lock b c"
  shows "tok.safe (\<lambda>_ c'. c' = c) (th_data_wait T a) c"
  unfolding th_data_wait_def
  by (rule safe_seq [OF safe_read_task [OF assms(1)]])
    (auto intro!: safe_seq [OF safe_outer [where Q = "\<lambda>_ c'. c' = c"]] safe_seq [OF safe_set_exited] assms)

lemma safe_data_wait_timeout:
  assumes "Ref a \<in># c" and "\<And>b. \<not> owns_lock b c"
  shows "tok.safe (\<lambda>_ c'. c' = c) (th_data_wait_timeout T t a) c"
  unfolding th_data_wait_timeout_def
  by (rule safe_seq [OF safe_read_task [OF assms(1)]])
    (auto intro!: safe_seq [OF safe_outer [where Q = "\<lambda>_ c'. c' = c"]] safe_seq [OF safe_set_exited] assms
      split: option.split)

section \<open>The calls are safe\<close>

text \<open>A call that keeps no lock, started with tokens that include none.\<close>

abbreviation no_locks :: "'r \<Rightarrow> 'i token multiset \<Rightarrow> bool" where
  "no_locks r c \<equiv> \<forall>b. \<not> owns_lock b c"

lemma safe_seq_same:
  assumes "tok.safe (\<lambda>_ c'. c' = c) p c" and "no_locks () c" and "\<And>v. tok.safe no_locks (f v) c"
  shows "tok.safe no_locks (th_seq p f) c"
  by (rule safe_seq [OF assms(1)]) (use assms(2,3) in auto)

lemma safe_outer_same: "tok.safe (\<lambda>_ c'. c' = c) (outer m) c"
  by (rule safe_outer) simp

lemma safe_outer_each: "tok.safe (\<lambda>_ c'. c' = c) (th_for_each (\<lambda>x. outer (m x)) xs) c"
  by (induction xs) (auto intro!: safe_seq [OF safe_outer_same])

lemma safe_insert:
  assumes "data_inv d"
  shows "tok.safe (\<lambda>_ c'. c' = c) (shared (insert_instance cid d)) c"
  by (rule safe_shared) (auto simp: insert_instance_def intro: inv_insert assms)

lemma safe_remove: "tok.safe (\<lambda>_ c'. c' = c) (shared (remove_instance cid)) c"
  by (rule safe_shared) (auto simp: remove_instance_def intro: inv_remove)

lemma safe_data_new:
  "tok.safe (\<lambda>r c'. c' = c \<and> (\<forall>d. r = Ok d \<longrightarrow> data_inv d)) (outer (data_new T cid cfg)) c"
  by (rule safe_outer) (auto simp: data_new_def act_defs data_inv_def split: prod.splits res.splits)

lemma safe_register:
  assumes "no_locks () c" and "\<And>v. tok.safe no_locks (f v) c"
  shows "tok.safe no_locks (th_seq (outer (data_new T cid cfg)) (\<lambda>d. th_seq (shared (insert_instance cid d)) f)) c"
  by (rule safe_seq [OF safe_data_new]) (use assms in \<open>auto intro!: safe_seq_same [OF safe_insert]\<close>)

lemma safe_if: "tok.safe Q p c \<Longrightarrow> tok.safe Q q c \<Longrightarrow> tok.safe Q (if b then p else q) c"
  by simp

lemma safe_end: "no_locks () c \<Longrightarrow> tok.safe no_locks (Finished r) c"
  by simp

lemma safe_create: "no_locks () c \<Longrightarrow> tok.safe no_locks (th_create os T req) c"
  unfolding th_create_def
  by (intro safe_if safe_end safe_register safe_seq_same [OF safe_read] safe_seq_same [OF safe_outer_same]
      safe_seq_same [OF safe_outer_each] safe_seq_same [OF safe_event] safe_seq_same [where p = "Finished r" for r])
    (simp_all add: exits_of_def)

text \<open>After \<open>start\<close> has sent its event it owns a credit, which the spawned thread takes over.\<close>

lemma safe_start_event:
  "tok.safe (\<lambda>r c'. c' = add_mset (Credit cid p) c) (shared (send_event (TaskStart cid p))) c"
  by (rule safe_shared) (auto simp: send_event_def dest: inv_start_event [where cid = cid and p = p])

lemma safe_spawn:
  assumes "no_locks () c"
  shows "tok.safe no_locks (th_act External (on_shim (spawn_wait_thread os (a, cid, p))))
     (add_mset (Credit cid p) (add_mset (Slot a p) c))"
proof (rule safe_external)
  fix D L s r t
  assume I: "service_inv (add_mset (Credit cid p) (add_mset (Slot a p) c) + D) (L, s)"
    and eq: "spawn_wait_thread os (a, cid, p) s = (r, t)" and r: "r \<noteq> Blocked"
  from I have I': "service_inv (add_mset (Slot a p) (add_mset (Credit cid p) (c + D))) (L, s)"
    by (simp add: add_mset_commute)
  obtain w where t: "t = s\<lparr>world := w\<rparr> \<and> r \<noteq> Ok () \<or> t = s\<lparr>world := w\<rparr>\<lparr>wait_threads := wait_threads (s\<lparr>world := w\<rparr>) @ [(a, cid, p)]\<rparr>"
  proof -
    obtain x w where x: "os_spawn_thread os (cid @ ''-wait'') (world s) = (x, w)" by (metis prod.exhaust)
    with eq show thesis
      by (cases x) (auto simp: spawn_wait_thread_def in_world_def act_defs intro!: that [of w])
  qed
  from t show "\<exists>c'. service_inv (c' + D) (L, t) \<and> no_locks r c'"
  proof
    assume "t = s\<lparr>world := w\<rparr> \<and> r \<noteq> Ok ()"
    with inv_world [OF I] assms show ?thesis
      by (intro exI [of _ "add_mset (Credit cid p) (add_mset (Slot a p) c)"]) simp
  next
    assume "t = s\<lparr>world := w\<rparr>\<lparr>wait_threads := wait_threads (s\<lparr>world := w\<rparr>) @ [(a, cid, p)]\<rparr>"
    with inv_spawn [OF inv_world [OF I', of w]] assms show ?thesis by (intro exI [of _ c]) simp
  qed
qed

lemma safe_start:
  assumes "no_locks () c"
  shows "tok.safe no_locks (th_start os T req) c"
proof -
  have rest: "tok.safe no_locks (th_seq (shared (send_event (TaskStart cid p))) (\<lambda>_.
      th_seq (th_act External (on_shim (spawn_wait_thread os (a, cid, p)))) (\<lambda>_. Finished (Ok p))))
      (add_mset (Slot a p) c')" if "no_locks () c'" for a cid p c'
    using that by (intro safe_seq [OF safe_start_event]) (auto intro!: safe_seq [OF safe_spawn])
  show ?thesis
    unfolding th_start_def using assms
    by (auto intro!: safe_seq [OF safe_get_instance] safe_seq [OF safe_data_start] rest simp: slot_if_ok_def)
qed

lemma safe_kill: "no_locks () c \<Longrightarrow> tok.safe no_locks (th_kill T req) c"
  unfolding th_kill_def by (auto intro!: safe_seq [OF safe_get_instance] safe_seq_same [OF safe_data_kill])

lemma safe_data_pid: "Ref a \<in># c \<Longrightarrow> tok.safe (\<lambda>_ c'. c' = c) (shared (in_data a data_pid)) c"
  unfolding data_pid_def by (rule safe_read_task)

lemma safe_data_config: "Ref a \<in># c \<Longrightarrow> tok.safe (\<lambda>_ c'. c' = c) (shared (in_data a data_config)) c"
  unfolding data_config_def by (rule safe_read_task)

lemma safe_delete: "no_locks () c \<Longrightarrow> tok.safe no_locks (th_delete T req) c"
  unfolding th_delete_def Let_def
  by (auto intro!: safe_seq [OF safe_get_instance] safe_seq_same [OF safe_data_delete] safe_seq_same [OF safe_data_pid]
      safe_seq_same [OF safe_data_wait_timeout] safe_seq_same [OF safe_remove] safe_seq_same [OF safe_event]
      simp: exits_of_def)

lemma safe_wait: "no_locks () c \<Longrightarrow> tok.safe no_locks (th_wait T req) c"
  unfolding th_wait_def by (auto intro!: safe_seq [OF safe_get_instance] safe_seq_same [OF safe_data_wait])

lemma safe_state: "no_locks () c \<Longrightarrow> tok.safe no_locks (th_state T req) c"
  unfolding th_state_def
  by (auto intro!: safe_seq [OF safe_get_instance] safe_seq_same [OF safe_data_pid]
      safe_seq_same [OF safe_data_wait_timeout] safe_seq_same [OF safe_data_config])

lemma safe_stats: "no_locks () c \<Longrightarrow> tok.safe no_locks (th_stats os req) c"
  unfolding th_stats_def
  by (auto intro!: safe_seq [OF safe_get_instance] safe_seq_same [OF safe_data_pid] safe_outer
      safe_seq_same [where p = "Finished r" for r])

lemma safe_connect: "no_locks () c \<Longrightarrow> tok.safe no_locks (th_connect os req) c"
  unfolding th_connect_def by (auto intro!: safe_seq [OF safe_get_instance] safe_seq_same [OF safe_data_pid])

lemma safe_shutdown: "no_locks () c \<Longrightarrow> tok.safe no_locks th_shutdown c"
  unfolding th_shutdown_def
  by (auto intro!: safe_seq_same [OF safe_read] safe_shared exI [of _ c]
      simp: raise_exit_def service_inv_def service_inv_defs)

text \<open>The thread \<open>start\<close> spawns pays for its event with the credit it was given.\<close>

lemma safe_waiter:
  assumes "no_locks () c" and "Ref a \<in># c"
  shows "tok.safe no_locks (th_waiter T (a, cid, p)) (add_mset (Credit cid p) c)"
proof -
  have "tok.safe (\<lambda>_ c'. c' = c) (shared (send_event (TaskExit cid cid p x t))) (add_mset (Credit cid p) c)" for x t
    by (rule safe_shared) (auto simp: send_event_def dest: inv_exit_event)
  then have "tok.safe no_locks (shared (send_event (TaskExit cid cid p x t))) (add_mset (Credit cid p) c)" for x t
    by (rule tok.safe_weaken) (use assms in simp)
  then show ?thesis
    unfolding th_waiter_def split_conv
    by (intro safe_seq [OF safe_data_wait]) (use assms in \<open>auto split: prod.splits\<close>)
qed

end
