(* ===== verification/Local_Concurrent.thy ===== *)
theory Local_Concurrent
  imports Local_Threads_Inv Local_Props
begin

text \<open>
  What the service guarantees in every interleaving of its threads, and what it does not: schedules
  of two requests for the same id, evaluated on the instance stub, in which the check of a handler
  and the access it was made for are separated by another thread.
\<close>

section \<open>Every interleaving\<close>

lemma safe_respond: "tok.safe no_locks p c \<Longrightarrow> tok.safe no_locks (respond sd f p) c"
  unfolding respond_def by (rule tok.safe_bind) auto

lemma safe_handle: "tok.safe no_locks (th_handle sd os T r) {#}"
  by (cases r) (simp_all add: safe_respond safe_create safe_start safe_kill safe_delete safe_wait safe_state
      safe_stats safe_connect safe_shutdown)

interpretation svc: pool_logic service_inv owns_lock lock_taken "shim_arrive sd os T" shim_env
proof
  fix c x p y
  assume I: "service_inv c x" and "shim_arrive sd os T x p y"
  from this(2) show "\<exists>c'. service_inv (c' + c) y \<and> tok.safe no_locks p c'"
  proof (cases rule: shim_arrive.cases)
    case (request r)
    with I show ?thesis by (intro exI [of _ "{#}"]) (simp add: safe_handle)
  next
    case (waiter th s L)
    obtain a cid q where th: "th = (a, cid, q)" by (cases th) auto
    let ?c = "add_mset (Slot a q) (add_mset (Ref a) {#})"
    from inv_begin [of c L s a cid q] I waiter th
    have "service_inv (add_mset (Credit cid q) ?c + c) y" by (simp add: add_mset_commute)
    moreover have "tok.safe no_locks p (add_mset (Credit cid q) ?c)"
      unfolding waiter th by (intro safe_respond safe_waiter) simp_all
    ultimately show ?thesis by blast
  qed
qed (auto elim!: shim_env.cases intro: inv_world)

text \<open>The pools the service gets into from its start.\<close>

abbreviation service_reaches where
  "service_reaches sd os T ns addr w \<equiv> (service_step sd os T)\<^sup>*\<^sup>* (service_init ns addr w)"

lemma service_pool_safe: "service_reaches sd os T ns addr w x \<Longrightarrow> tok.pool_safe {#} x"
  unfolding service_init_def
  by (erule svc.pool_run_safe) (simp add: svc.pool_safe_empty service_inv_new)

lemma service_reaches_inv:
  assumes "service_reaches sd os T ns addr w (ps, (L, s))"
  obtains c where "service_inv c (L, s)"
  using service_pool_safe [OF assms] by (auto simp: tok.pool_safe_def)

section \<open>Schedules\<close>

text \<open>
  An interleaving written down: a request arrives, a spawned thread starts, the thread at a
  position makes one access, or runs to its end with nothing in between.
\<close>

datatype move = Arrive request | Wake nat | Go nat | Run nat

fun do_move ::
  "(shim_error \<Rightarrow> string) \<Rightarrow> 'w shim_os \<Rightarrow> ('i, 'w) instance_impl \<Rightarrow> move \<Rightarrow>
   (('i, 'w) cshim, (ttrpc_error, response) res) pool \<Rightarrow>
   (('i, 'w) cshim, (ttrpc_error, response) res) pool option" where
  "do_move sd os T (Arrive r) (ps, x) = Some (ps @ [th_handle sd os T r], x)"
| "do_move sd os T (Wake k) (ps, (L, s)) =
     (if k < length (wait_threads s)
      then Some (ps @ [respond sd (\<lambda>_. EmptyResponse) (th_waiter T (wait_threads s ! k))],
        (L, s\<lparr>wait_threads := remove1 (wait_threads s ! k) (wait_threads s)\<rparr>))
      else None)"
| "do_move sd os T (Go i) (ps, x) =
     (if i < length ps
      then (case ps ! i of Finished _ \<Rightarrow> None
            | Next l g \<Rightarrow> map_option (\<lambda>(p, y). (ps[i := p], y)) (g x))
      else None)"
| "do_move sd os T (Run i) (ps, x) =
     (if i < length ps then map_option (\<lambda>(a, y). (ps[i := Finished a], y)) (run_thread (ps ! i) x)
      else None)"

primrec do_moves ::
  "(shim_error \<Rightarrow> string) \<Rightarrow> 'w shim_os \<Rightarrow> ('i, 'w) instance_impl \<Rightarrow> move list \<Rightarrow>
   (('i, 'w) cshim, (ttrpc_error, response) res) pool \<Rightarrow>
   (('i, 'w) cshim, (ttrpc_error, response) res) pool option" where
  "do_moves sd os T [] x = Some x"
| "do_moves sd os T (m # ms) x = Option.bind (do_move sd os T m x) (do_moves sd os T ms)"

lemma do_move_steps: "do_move sd os T m x = Some y \<Longrightarrow> (service_step sd os T)\<^sup>*\<^sup>* x y"
proof (induction sd os T m x rule: do_move.induct)
  case (1 sd os T r ps x)
  then show ?case by (auto intro!: r_into_rtranclp pool_step.arrival shim_arrive.request)
next
  case (2 sd os T k ps L s)
  then show ?case by (auto intro!: r_into_rtranclp pool_step.arrival shim_arrive.waiter split: if_splits)
next
  case (3 sd os T i ps x)
  then obtain l g p z where g: "ps ! i = Next l g" "g x = Some (p, z)" and i: "i < length ps"
    and y: "y = (ps[i := p], z)" by (auto split: if_splits thread.splits)
  have "ps = take i ps @ Next l g # drop (Suc i) ps" using i g(1) by (metis id_take_nth_drop)
  moreover have "ps[i := p] = take i ps @ p # drop (Suc i) ps" using i by (simp add: upd_conv_take_nth_drop)
  ultimately show ?case unfolding y by (metis pool_step.access [where g = g and s = x, OF g(2)] r_into_rtranclp)
next
  case (4 sd os T i ps x)
  then obtain a z where a: "run_thread (ps ! i) x = Some (a, z)" and i: "i < length ps"
    and y: "y = (ps[i := Finished a], z)" by (auto split: if_splits)
  have "ps = take i ps @ ps ! i # drop (Suc i) ps" using i by (metis id_take_nth_drop)
  moreover have "ps[i := Finished a] = take i ps @ Finished a # drop (Suc i) ps"
    using i by (simp add: upd_conv_take_nth_drop)
  ultimately show ?case unfolding y by (metis run_thread_steps [OF a])
qed

lemma do_moves_steps: "do_moves sd os T ms x = Some y \<Longrightarrow> (service_step sd os T)\<^sup>*\<^sup>* x y"
  by (induction ms arbitrary: x)
    (auto simp: Option.bind_eq_Some_conv intro: rtranclp_trans do_move_steps)

text \<open>The responses the threads have ended with, \<open>None\<close> for one that has not ended.\<close>

primrec result_of :: "('s, 'a) thread \<Rightarrow> 'a option" where
  "result_of (Finished a) = Some a"
| "result_of (Next l g) = None"

definition demo_pool :: "move list \<Rightarrow> ((nat, cell_world) cshim, (ttrpc_error, response) res) pool option" where
  "demo_pool ms = do_moves demo_sd demo_os demo_T ms (service_init ''ns'' ''/addr'' \<lparr>w_cells = [], w_now = demo_now\<rparr>)"

text \<open>Two requests to create the same id: each checks the registry before the other has inserted.\<close>

definition race_create :: "move list" where
  "race_create = [Arrive (RCreate (demo_create ''a'')), Arrive (RCreate (demo_create ''a'')), Go 0, Run 1, Run 0]"

lemma race_create_run:
  "map_option (\<lambda>(ps, (L, s)). (map result_of ps, L, registry s, map_option id_state (arcs s 0)))
     (demo_pool race_create) =
   Some ([Some (Ok (PidResponse 7)), Some (Ok (PidResponse 7))], {}, [(''a'', 1)], Some Created)"
  by code_simp

text \<open>
  Two requests to delete a task that has exited, and one to create the id again in between: the
  second deletion has cloned the old task out of the registry before the first has removed it.
\<close>

definition race_delete :: "move list" where
  "race_delete = [Arrive (RCreate (demo_create ''a'')), Run 0, Arrive (RStart (demo_req ''a'')), Run 1,
     Arrive (RKill (demo_kill ''a'')), Run 2, Wake 0, Run 3,
     Arrive (RDelete (demo_req ''a'')), Arrive (RDelete (demo_req ''a'')), Go 4, Run 5,
     Arrive (RCreate (demo_create ''a'')), Run 6, Run 4]"

definition is_delete_of :: "string \<Rightarrow> event \<Rightarrow> bool" where
  "is_delete_of c e = (case e of TaskDelete c' _ _ _ \<Rightarrow> c = c' | _ \<Rightarrow> False)"

lemma race_delete_run:
  "map_option (\<lambda>(ps, (L, s)). (map (map_option is_ok) (map result_of ps), L, registry s, map_option id_state (arcs s 1),
       length (filter (is_delete_of ''a'') (events s)))) (demo_pool race_delete) =
   Some (replicate 7 (Some True), {}, [], Some Created, 2)"
  by code_simp

text \<open>A shutdown that finds the registry empty, and a creation before it raises the signal.\<close>

definition race_shutdown :: "move list" where
  "race_shutdown = [Arrive RShutdown, Arrive (RCreate (demo_create ''a'')), Go 0, Run 1, Run 0]"

text \<open>
  \<open>shutdown_misses_create\<close>: the signal that ends the shim is raised although a task has been
  created and its client told so. One call at a time, \<open>shutdown_only_when_empty\<close> excludes that.
\<close>

lemma shutdown_misses_create:
  "map_option (\<lambda>(ps, (L, s)). (map result_of ps, registry s, exit_signal s)) (demo_pool race_shutdown) =
   Some ([Some (Ok EmptyResponse), Some (Ok (PidResponse 7))], [(''a'', 0)], True)"
  by code_simp

section \<open>What every interleaving keeps\<close>

abbreviation demo_reaches where
  "demo_reaches \<equiv> service_reaches demo_sd demo_os demo_T ''ns'' ''/addr'' \<lparr>w_cells = [], w_now = demo_now\<rparr>"

lemma demo_pool_reaches: "demo_pool ms = Some x \<Longrightarrow> demo_reaches x"
  unfolding demo_pool_def by (rule do_moves_steps)

definition demo_created_pool :: "((nat, cell_world) cshim, (ttrpc_error, response) res) pool" where
  "demo_created_pool = the (demo_pool [Arrive (RCreate (demo_create ''a'')), Run 0])"

definition demo_final_pool :: "((nat, cell_world) cshim, (ttrpc_error, response) res) pool" where
  "demo_final_pool = the (demo_pool race_delete)"

lemma demo_final_pool: "demo_pool race_delete = Some demo_final_pool"
  using race_delete_run by (cases "demo_pool race_delete") (simp_all add: demo_final_pool_def)

text \<open>C1.
  In every interleaving of the handlers and of the waiting threads, at every point: the registry
  maps ids to tasks that exist and no two ids to the same task; a task whose lock is free satisfies
  the invariant of \<open>InstanceData\<close> (it is never \<open>Starting\<close>, a created task has no pid, a started one
  has); at most one thread is to be spawned to wait for a task, and it reports the pid the task was
  started with; and for each id and pid there are at most as many exit events as start events,
  counting the events that spawned threads have yet to send.
\<close>

theorem interleavings_keep_invariant:
  assumes "service_reaches sd os T ns addr w (ps, (L, s))"
  shows "(\<forall>c a. instances s c = Some a \<longrightarrow> arcs s a \<noteq> None) \<and>
    (\<forall>c c' a. instances s c = Some a \<longrightarrow> instances s c' = Some a \<longrightarrow> c = c') \<and>
    (\<forall>a d. arcs s a = Some d \<longrightarrow> a \<notin> L \<longrightarrow> data_inv d) \<and>
    distinct (map fst (wait_threads s)) \<and>
    (\<forall>a c p. (a, c, p) \<in> set (wait_threads s) \<longrightarrow> (\<exists>d. arcs s a = Some d \<and> id_pid d = Some p)) \<and>
    (\<forall>c p. exits_of c p (events s) + waiters_of c p (wait_threads s) \<le> starts_of c p (events s))"
proof -
  from assms obtain c where c: "service_inv c (L, s)" by (rule service_reaches_inv)
  then have "waiting_on a (wait_threads s) \<le> 1" for a
    by (auto simp: service_inv_def slots_ok_def dest: spec [of _ a])
  then have "distinct (map fst (wait_threads s))" by (rule waiting_on_distinct)
  moreover have "exits_of i p (events s) + waiters_of i p (wait_threads s) \<le> starts_of i p (events s)" for i p
    using c by (auto simp: service_inv_def dest: credits_okD [of c s i p])
  ultimately show ?thesis using c by (auto simp: service_inv_def tasks_ok_def slots_ok_def)
qed

theorem interleavings_keep_invariant_witness:
  "distinct (map fst (wait_threads (snd (snd demo_final_pool)))) \<and>
   exits_of ''a'' 42 (events (snd (snd demo_final_pool))) + waiters_of ''a'' 42 (wait_threads (snd (snd demo_final_pool))) \<le> starts_of ''a'' 42 (events (snd (snd demo_final_pool)))"
  using interleavings_keep_invariant [of demo_sd demo_os demo_T "''ns''" "''/addr''"
      "\<lparr>w_cells = [], w_now = demo_now\<rparr>" "fst demo_final_pool" "fst (snd demo_final_pool)" "snd (snd demo_final_pool)"]
    demo_pool_reaches [OF demo_final_pool]
  by simp

text \<open>C4.
  The locks of the service do not deadlock. In every interleaving, unless all threads have
  finished, some thread can make its next access or waits for an operation outside the shim to
  return (the instance, the operating system); no set of threads waits only for each other.
\<close>

theorem locks_do_not_deadlock:
  assumes "service_reaches sd os T ns addr w (ps, x)"
  shows "(\<forall>p\<in>set ps. is_finished p) \<or> (\<exists>p\<in>set ps. enabled p x \<or> waits_outside p x)"
  by (rule tok.pool_not_stuck [OF service_pool_safe [OF assms]]) (simp add: owns_lock_def)

theorem locks_do_not_deadlock_witness:
  "(\<forall>p\<in>set (fst demo_final_pool). is_finished p) \<or>
   (\<exists>p\<in>set (fst demo_final_pool). enabled p (snd demo_final_pool) \<or> waits_outside p (snd demo_final_pool))"
  by (rule locks_do_not_deadlock [of demo_sd demo_os demo_T "''ns''" "''/addr''" "\<lparr>w_cells = [], w_now = demo_now\<rparr>"])
    (use demo_pool_reaches [OF demo_final_pool] in simp)

text \<open>C5.
  Whatever the threads do after a point of a run, a task keeps its instance and its
  configuration, keeps the pid it has, never is created again once it has left that state, and a
  poisoned lock stays poisoned.
\<close>

theorem interleavings_move_tasks_forward:
  assumes "service_reaches sd os T ns addr w (ps, (L, s))"
    and "(service_step sd os T)\<^sup>*\<^sup>* (ps, (L, s)) (qs, (K, t))" and "arcs s a = Some d"
  shows "\<exists>d'. arcs t a = Some d' \<and> data_le d d'"
proof -
  from service_pool_safe [OF assms(1)] obtain cs
    where cs: "list_all2 (tok.safe no_locks) ps cs" and I: "service_inv (sum_list cs) (L, s)"
    by (auto simp: tok.pool_safe_def)
  from I assms(3) have "service_inv (sum_list cs + {#Past a d#}) (L, s)"
    by (auto simp: service_inv_def service_inv_defs)
  with cs have "tok.pool_safe {#Past a d#} (ps, (L, s))" by (auto simp: tok.pool_safe_def)
  with assms(2) have "tok.pool_safe {#Past a d#} (qs, (K, t))" by (rule svc.pool_run_safe)
  then obtain c where "service_inv (c + {#Past a d#}) (K, t)" by (auto simp: tok.pool_safe_def)
  then show ?thesis by (auto simp: service_inv_def locks_ok_def)
qed

lemma demo_created_pool:
  "demo_pool [Arrive (RCreate (demo_create ''a'')), Run 0] = Some demo_created_pool"
  "map_option id_state (arcs (snd (snd demo_created_pool)) 0) = Some Created"
  "\<not> Option.is_none (do_moves demo_sd demo_os demo_T [Arrive (RStart (demo_req ''a'')), Run 1] demo_created_pool)"
proof -
  have "\<not> Option.is_none (demo_pool [Arrive (RCreate (demo_create ''a'')), Run 0])" by code_simp
  then show "demo_pool [Arrive (RCreate (demo_create ''a'')), Run 0] = Some demo_created_pool"
    by (auto simp: Option.is_none_def demo_created_pool_def)
qed code_simp+

theorem interleavings_move_tasks_forward_witness:
  "\<exists>d'. arcs (snd (snd (the (do_moves demo_sd demo_os demo_T [Arrive (RStart (demo_req ''a'')), Run 1] demo_created_pool)))) 0 = Some d' \<and>
     data_le (the (arcs (snd (snd demo_created_pool)) 0)) d'"
proof -
  from demo_created_pool(3) obtain y
    where y: "do_moves demo_sd demo_os demo_T [Arrive (RStart (demo_req ''a'')), Run 1] demo_created_pool = Some y"
    by (auto simp: Option.is_none_def)
  from demo_created_pool(2) obtain d where d: "arcs (snd (snd demo_created_pool)) 0 = Some d" by blast
  from interleavings_move_tasks_forward [of demo_sd demo_os demo_T "''ns''" "''/addr''" "\<lparr>w_cells = [], w_now = demo_now\<rparr>"
      "fst demo_created_pool" "fst (snd demo_created_pool)" "snd (snd demo_created_pool)"
      "fst y" "fst (snd y)" "snd (snd y)" 0 d]
    demo_pool_reaches [OF demo_created_pool(1)] do_moves_steps [OF y] d y show ?thesis by simp
qed

section \<open>Windows the locks leave open\<close>

text \<open>C7.
  \<open>task_create\<close> checks that the id is free under one lock and inserts the task under another. Two
  requests for the same id can both pass the check: both are answered with success, and the task
  of the one that inserts first is left in the service with no id that leads to it.
\<close>

theorem overlapping_creates_both_succeed:
  "\<exists>ps s. demo_reaches (ps, ({}, s)) \<and>
     map result_of ps = [Some (Ok (PidResponse 7)), Some (Ok (PidResponse 7))] \<and>
     arcs s 0 \<noteq> None \<and> (\<forall>c. instances s c \<noteq> Some 0)"
proof -
  obtain ps s where run: "demo_pool race_create = Some (ps, ({}, s))"
    and "map result_of ps = [Some (Ok (PidResponse 7)), Some (Ok (PidResponse 7))]"
    and "registry s = [(''a'', 1)]" and "map_option id_state (arcs s 0) = Some Created"
    using race_create_run by (auto simp: map_option_eq_Some)
  with demo_pool_reaches [OF run] show ?thesis by (intro exI [of _ ps] exI [of _ s]) (auto simp: instances_def)
qed

text \<open>C8.
  \<open>task_delete\<close> clones the task out of the registry, and waits for it after the deletion, which
  sets the state back from \<open>Deleting\<close> to \<open>Exited\<close>. So a second request to delete an exited task can
  follow the first through, delete the instance once more, and then remove whatever the id stands
  for by then: in the run below, a task that was created in between, that nobody asked to delete
  and whose creation was answered with success.
\<close>

theorem overlapping_deletes_remove_new_task:
  "\<exists>ps s d. demo_reaches (ps, ({}, s)) \<and> map (map_option is_ok) (map result_of ps) = replicate 7 (Some True) \<and>
     length (filter (is_delete_of ''a'') (events s)) = 2 \<and>
     arcs s 1 = Some d \<and> id_state d = Created \<and> (\<forall>c. instances s c \<noteq> Some 1)"
proof -
  obtain ps s where run: "demo_pool race_delete = Some (ps, ({}, s))"
    and ok: "map (map_option is_ok) (map result_of ps) = replicate 7 (Some True)"
    and "registry s = []" and "map_option id_state (arcs s 1) = Some Created"
    and "length (filter (is_delete_of ''a'') (events s)) = 2"
    using race_delete_run by (auto simp: map_option_eq_Some)
  moreover obtain d where "arcs s 1 = Some d" and "id_state d = Created" using calculation by auto
  ultimately show ?thesis
    using demo_pool_reaches [OF run] by (intro exI [of _ ps] exI [of _ s] exI [of _ d]) (auto simp: instances_def)
qed

end
