(* ===== verification/Local_Spaced.thy ===== *)
theory Local_Spaced
  imports Local_Concurrent
begin

text \<open>
  The windows of \<open>Local_Concurrent\<close> are the only ones: when the requests that create or delete one
  id do not overlap with each other, while everything else runs in any interleaving, no task is
  displaced and the registry says what the last of those requests was answered.

  \<open>leaves c p\<close>: no access of the thread \<open>p\<close> changes what the id \<open>c\<close> stands for. \<open>during c Q p v\<close>: from
  the entry \<open>v\<close> on, while no other thread changes it, \<open>p\<close> never puts one task in the place of another
  and ends with a result and an entry that satisfy \<open>Q\<close>.
\<close>

section \<open>Threads and one entry of the registry\<close>

abbreviation entry :: "string \<Rightarrow> ('i, 'w) cshim \<Rightarrow> nat option" where
  "entry c x \<equiv> instances (snd x) c"

inductive leaves :: "string \<Rightarrow> (('i, 'w) cshim, 'a) thread \<Rightarrow> bool" for c where
  finished: "leaves c (Finished r)"
| access: "(\<And>x q y. g x = Some (q, y) \<Longrightarrow> entry c y = entry c x \<and> leaves c q) \<Longrightarrow> leaves c (Next l g)"

inductive_cases leaves_NextE: "leaves c (Next l g)"

definition replaces :: "nat option \<Rightarrow> nat option \<Rightarrow> bool" where
  "replaces v v' \<longleftrightarrow> v \<noteq> None \<and> v' \<noteq> None \<and> v' \<noteq> v"

inductive during :: "string \<Rightarrow> ('a \<Rightarrow> nat option \<Rightarrow> bool) \<Rightarrow> (('i, 'w) cshim, 'a) thread \<Rightarrow> nat option \<Rightarrow> bool" for c Q where
  finished: "Q r v \<Longrightarrow> during c Q (Finished r) v"
| access: "(\<And>x q y. entry c x = v \<Longrightarrow> g x = Some (q, y) \<Longrightarrow> \<not> replaces v (entry c y) \<and> during c Q q (entry c y)) \<Longrightarrow>
    during c Q (Next l g) v"

inductive_cases during_NextE: "during c Q (Next l g) v"
inductive_simps during_Finished [simp]: "during c Q (Finished r) v"

lemma during_bind:
  assumes "during c R p v" and "\<And>r v. R r v \<Longrightarrow> during c Q (f r) v"
  shows "during c Q (th_bind p f) v"
  using assms(1)
proof (induction rule: during.induct)
  case (access v g l)
  then show ?case by (auto intro!: during.access)
qed (use assms(2) in simp)

lemma during_weaken: "during c Q p v \<Longrightarrow> (\<And>r v. Q r v \<Longrightarrow> Q' r v) \<Longrightarrow> during c Q' p v"
proof (induction rule: during.induct)
  case (access v g l)
  then show ?case by (auto intro!: during.access)
qed simp

lemma leaves_bind: "leaves c p \<Longrightarrow> (\<And>r. leaves c (f r)) \<Longrightarrow> leaves c (th_bind p f)"
proof (induction rule: leaves.induct)
  case (access g l)
  then show ?case by (auto intro!: leaves.access)
qed simp

lemma leaves_during: "leaves c p \<Longrightarrow> during c (\<lambda>_ v'. v' = v) p v"
proof (induction rule: leaves.induct)
  case (access g l)
  then show ?case by (intro during.access) (auto simp: replaces_def)
qed simp

lemma leaves_seq: "leaves c p \<Longrightarrow> (\<And>a. leaves c (f a)) \<Longrightarrow> leaves c (th_seq p f)"
  unfolding th_seq_def by (rule leaves_bind) (auto intro: leaves.finished split: res.split)

text \<open>What a request promises of the entry when it is answered with success.\<close>

abbreviation promise :: "(nat option \<Rightarrow> bool) \<Rightarrow> ('e, 'a) res \<Rightarrow> nat option \<Rightarrow> bool" where
  "promise P r v \<equiv> is_ok r \<longrightarrow> P v"

lemma during_seq:
  assumes "leaves c p" and "\<And>a. during c (promise P) (f a) v"
  shows "during c (promise P) (th_seq p f) v"
  unfolding th_seq_def by (rule during_bind [OF leaves_during [OF assms(1)]]) (use assms(2) in \<open>auto split: res.split\<close>)

section \<open>Accesses\<close>

lemma leaves_act:
  assumes "\<And>s. instances (snd (m s)) c = instances s c"
  shows "leaves c (th_act l (on_shim m))"
  unfolding th_act_def
proof (rule leaves.access, goal_cases)
  case (1 x q y)
  obtain L s where x: "x = (L, s)" by (cases x)
  from 1 show ?case
    using assms [of s] by (cases "m s"; cases "fst (m s)") (auto simp: x on_shim_def intro: leaves.finished)
qed

lemma leaves_outer: "leaves c (outer m)"
  unfolding outer_def by (rule leaves_act) (simp add: in_world_def split: prod.split)

lemma leaves_shared:
  "leaves c (shared (in_data a m))" "leaves c (shared (get_instance i))" "leaves c (shared (send_event e))"
  "leaves c (shared (read_shim f))" "leaves c (shared raise_exit)" "i \<noteq> c \<Longrightarrow> leaves c (shared (insert_instance i d))"
  "i \<noteq> c \<Longrightarrow> leaves c (shared (remove_instance i))"
  unfolding shared_def
  by (rule leaves_act; simp add: in_data_def get_instance_def send_event_def read_shim_def raise_exit_def
      insert_instance_def remove_instance_def split: option.split prod.split)+

lemma leaves_spawn: "leaves c (th_act l (on_shim (spawn_wait_thread os th)))"
  by (rule leaves_act) (simp add: spawn_wait_thread_def act_bind_def act_map_err_def in_world_def split: prod.split res.split)

lemma leaves_locking:
  assumes "leaves c p"
  shows "leaves c (locking a p)"
proof -
  have "leaves c (acquire a)"
    unfolding acquire_def by (rule leaves.access) (auto split: if_splits option.splits intro: leaves.finished)
  moreover have "leaves c (release a r)" for r
    unfolding release_def by (rule leaves.access) (auto intro: leaves.finished)
  ultimately show ?thesis unfolding locking_def using assms by (intro leaves_seq leaves_bind)
qed

lemmas leaves_rules = leaves_seq leaves_locking leaves_outer leaves_shared leaves_spawn leaves.finished

lemma leaves_data:
  "leaves c (th_data_kill T sig a)" "leaves c (th_set_exited a)" "leaves c (th_data_wait T a)"
  unfolding th_data_kill_def th_data_wait_def th_set_exited_def by (intro leaves_rules)+

lemma leaves_data_match: "leaves c (th_data_start T a)" "leaves c (th_data_delete T a)"
  "leaves c (th_data_wait_timeout T t a)"
  unfolding th_data_start_def th_data_delete_def th_data_wait_timeout_def
  by (auto intro!: leaves_rules leaves_bind leaves_data split: res.split option.split)

lemma leaves_for_each: "(\<And>x. leaves c (f x)) \<Longrightarrow> leaves c (th_for_each f xs)"
  by (induction xs) (auto intro: leaves_rules)

section \<open>Requests\<close>

fun touches :: "string \<Rightarrow> request \<Rightarrow> bool" where
  "touches c (RCreate r) = (cr_id r = c)"
| "touches c (RDelete r) = (rq_id r = c)"
| "touches c _ = False"

fun is_create :: "request \<Rightarrow> bool" where
  "is_create (RCreate r) = True"
| "is_create _ = False"

lemma leaves_create: "cr_id r \<noteq> c \<Longrightarrow> leaves c (th_create os T r)"
  unfolding th_create_def by (auto intro!: leaves_rules leaves_for_each)

lemma leaves_calls:
  "leaves c (th_start os T r1)" "leaves c (th_kill T r2)" "rq_id r3 \<noteq> c \<Longrightarrow> leaves c (th_delete T r3)"
  "leaves c (th_wait T r4)" "leaves c (th_state T r5)" "leaves c (th_stats os r6)" "leaves c (th_connect os r7)"
  "leaves c th_shutdown" "leaves c (th_waiter T th)"
  unfolding th_start_def th_kill_def th_delete_def th_wait_def th_state_def th_stats_def th_connect_def
    th_shutdown_def th_waiter_def Let_def split_def
  by (auto intro!: leaves_rules leaves_data leaves_data_match)

lemma leaves_respond: "leaves c p \<Longrightarrow> leaves c (respond sd f p)"
  unfolding respond_def by (intro leaves_bind leaves.finished)

lemma leaves_handle: "\<not> touches c r \<Longrightarrow> leaves c (th_handle sd os T r)"
  by (cases r) (auto intro!: leaves_respond leaves_create leaves_calls)

text \<open>A creation that ends with success leaves its id registered, a deletion leaves it free.\<close>

lemma during_shared:
  assumes "\<And>s. instances s c = v \<Longrightarrow> \<not> replaces v (instances (snd (m s)) c) \<and> R (fst (m s)) (instances (snd (m s)) c)"
  shows "during c R (shared m) v"
  unfolding shared_def th_act_def
proof (rule during.access, goal_cases)
  case (1 x q y)
  obtain L s where x: "x = (L, s)" by (cases x)
  with 1 show ?case
    using assms [of s] by (cases "m s"; cases "fst (m s)") (auto simp: on_shim_def)
qed

lemma during_seq_shared:
  assumes "during c R (shared m) v" and "\<And>a v. R (Ok a) v \<Longrightarrow> during c (promise P) (f a) v"
  shows "during c (promise P) (th_seq (shared m) f) v"
  unfolding th_seq_def by (rule during_bind [OF assms(1)]) (use assms(2) in \<open>auto split: res.split\<close>)

lemma during_if: "(b \<Longrightarrow> during c Q p v) \<Longrightarrow> (\<not> b \<Longrightarrow> during c Q q v) \<Longrightarrow> during c Q (if b then p else q) v"
  by simp

lemmas during_rules = during_if during_seq [OF leaves_outer] during_seq [OF leaves.finished]
  during_seq [OF leaves_shared(1)] during_seq [OF leaves_shared(2)] during_seq [OF leaves_shared(3)]
  during_seq [OF leaves_data_match(2)] during_seq [OF leaves_data_match(3)] during_seq [OF leaves_for_each [OF leaves_outer]]

lemma during_create: "during (cr_id r) (promise (\<lambda>v. v \<noteq> None)) (th_create os T r) v"
proof -
  have check: "during c (\<lambda>r v'. v' = v \<and> r = Ok (v \<noteq> None)) (shared (read_shim (has_instance c))) v" for c
    by (rule during_shared) (simp add: read_shim_def has_instance_def replaces_def)
  have insert: "during c (\<lambda>_ v'. v' \<noteq> None) (shared (insert_instance c d)) None" for c d
    by (rule during_shared) (simp add: insert_instance_def replaces_def)
  have last: "during c (promise (\<lambda>v. v \<noteq> None)) (th_seq (shared (insert_instance c d)) (\<lambda>_.
      th_seq (shared (send_event e)) (\<lambda>_. th_seq (outer hooks) (\<lambda>_. Finished (Ok pid))))) None" for c d e hooks pid
    by (rule during_seq_shared [OF insert], intro during_rules) simp
  show ?thesis
    unfolding th_create_def
    by (intro during_if; (rule during_seq_shared [OF check])?)
      (auto intro!: during_rules last [simplified] during_seq [OF leaves_shared(4)])
qed

lemma during_delete: "during (rq_id r) (promise (\<lambda>v. v = None)) (th_delete T r) v"
proof -
  have remove: "during c (\<lambda>_ v'. v' = None) (shared (remove_instance c)) v" for c v
    by (rule during_shared) (simp add: remove_instance_def replaces_def)
  have last: "during c (promise (\<lambda>v. v = None)) (th_seq (shared (remove_instance c)) (\<lambda>_.
      th_seq (shared (send_event e)) (\<lambda>_. Finished a))) v" for c e v and a :: "(error, delete_response) res"
    by (rule during_seq_shared [OF remove], intro during_rules) simp
  show ?thesis
    unfolding th_delete_def Let_def by (intro during_rules last) simp
qed

text \<open>The promise of a request that creates or deletes.\<close>

definition settled :: "request \<Rightarrow> (ttrpc_error, response) res \<Rightarrow> nat option \<Rightarrow> bool" where
  "settled r = promise (\<lambda>v. v \<noteq> None \<longleftrightarrow> is_create r)"

lemma during_respond: "during c (promise P) p v \<Longrightarrow> during c (promise P) (respond sd f p) v"
  unfolding respond_def
proof (erule during_bind)
  show "promise P r v \<Longrightarrow> during c (promise P) (Finished (map_res (to_ttrpc sd) f r)) v" for r v
    by (cases r) simp_all
qed

lemma during_handle: "touches c r \<Longrightarrow> during c (settled r) (th_handle sd os T r) v"
  using during_create during_delete by (cases r) (auto simp: settled_def intro!: during_respond)

section \<open>Runs in which the requests for one id are spaced\<close>

text \<open>
  The first part of a state is the position and the request of the thread that was the last to
  create or delete the id \<open>c\<close>: the next such request arrives when that thread has finished.
\<close>

type_synonym ('i, 'w) spaced =
  "(nat \<times> request) option \<times> (('i, 'w) shim_thread list \<times> ('i, 'w) cshim)"

inductive spaced_step ::
  "(shim_error \<Rightarrow> string) \<Rightarrow> 'w shim_os \<Rightarrow> ('i, 'w) instance_impl \<Rightarrow> string \<Rightarrow>
   ('i, 'w) spaced \<Rightarrow> ('i, 'w) spaced \<Rightarrow> bool"
  for sd os T c where
  access: "i < length ps \<Longrightarrow> ps ! i = Next l g \<Longrightarrow> g x = Some (q, y) \<Longrightarrow>
     spaced_step sd os T c (k, (ps, x)) (k, (ps[i := q], y))"
| other: "\<not> touches c r \<Longrightarrow> spaced_step sd os T c (k, (ps, x)) (k, (ps @ [th_handle sd os T r], x))"
| own: "touches c r \<Longrightarrow> (\<And>i r'. k = Some (i, r') \<Longrightarrow> is_finished (ps ! i)) \<Longrightarrow>
     spaced_step sd os T c (k, (ps, x)) (Some (length ps, r), (ps @ [th_handle sd os T r], x))"
| waiter: "th \<in> set (wait_threads s) \<Longrightarrow>
     spaced_step sd os T c (k, (ps, (L, s))) (k, (ps @ [respond sd (\<lambda>_. EmptyResponse) (th_waiter T th)],
       (L, s\<lparr>wait_threads := remove1 th (wait_threads s)\<rparr>)))"
| outside: "shim_env x y \<Longrightarrow> spaced_step sd os T c (k, (ps, x)) (k, (ps, y))"

text \<open>These are runs of the service.\<close>

lemma spaced_is_service_step:
  "spaced_step sd os T c x y \<Longrightarrow> service_step sd os T (snd x) (snd y)"
proof (induction rule: spaced_step.induct)
  case (access i ps l g x q y k)
  then have "ps = take i ps @ Next l g # drop (Suc i) ps" "ps[i := q] = take i ps @ q # drop (Suc i) ps"
    by (simp_all add: id_take_nth_drop [symmetric] upd_conv_take_nth_drop) (metis id_take_nth_drop)
  with access(3) show ?case by (metis pool_step.access snd_conv)
qed (auto intro: pool_step.arrival pool_step.outside shim_arrive.intros)

definition spaced_inv :: "string \<Rightarrow> ('i, 'w) spaced \<Rightarrow> bool" where
  "spaced_inv c = (\<lambda>(k, (ps, x)). (\<forall>i < length ps. map_option fst k \<noteq> Some i \<longrightarrow> leaves c (ps ! i)) \<and>
     (case k of None \<Rightarrow> entry c x = None | Some (i, r) \<Rightarrow> i < length ps \<and> during c (settled r) (ps ! i) (entry c x)))"

text \<open>An access either leaves the entry or is the one of the last thread that may change it.\<close>

lemma spaced_access:
  assumes "spaced_inv c (k, (ps, x))" and "i < length ps" and "ps ! i = Next l g" and "g x = Some (q, y)"
  shows "spaced_inv c (k, (ps[i := q], y)) \<and> \<not> replaces (entry c x) (entry c y)"
proof (cases "map_option fst k = Some i")
  case True
  then obtain r where k: "k = Some (i, r)" by (cases k) auto
  with assms(1) have "during c (settled r) (Next l g) (entry c x)" by (simp add: spaced_inv_def assms(3))
  then have "\<not> replaces (entry c x) (entry c y) \<and> during c (settled r) q (entry c y)"
    using assms(4) by (blast elim: during_NextE)
  with assms(1,2) show ?thesis by (auto simp: spaced_inv_def k nth_list_update)
next
  case False
  with assms(1-3) have "leaves c (Next l g)" by (auto simp: spaced_inv_def)
  then have "entry c y = entry c x" "leaves c q" using assms(4) by (blast elim: leaves_NextE)+
  with assms(1,2) False show ?thesis by (auto simp: spaced_inv_def replaces_def nth_list_update split: option.splits)
qed

lemma spaced_step_inv:
  "spaced_step sd os T c x y \<Longrightarrow> spaced_inv c x \<Longrightarrow>
    spaced_inv c y \<and> \<not> replaces (entry c (snd (snd x))) (entry c (snd (snd y)))"
proof (induction rule: spaced_step.induct)
  case (access i ps l g x q y k)
  then show ?case using spaced_access [of c k ps x i l g q y] by simp
next
  case (own r k ps x)
  then have "leaves c (ps ! i)" if "i < length ps" for i
    using that by (cases k; cases "ps ! i") (auto simp: spaced_inv_def intro: leaves.finished)
  with during_handle [OF own(1)] show ?case by (auto simp: spaced_inv_def replaces_def nth_append)
next
  case (outside x y k ps)
  then show ?case by (auto simp: spaced_inv_def replaces_def elim!: shim_env.cases split: option.splits)
qed (auto simp: spaced_inv_def replaces_def nth_append leaves_handle leaves_respond leaves_calls split: option.splits)

abbreviation spaced_reaches where
  "spaced_reaches sd os T c ns addr w \<equiv> (spaced_step sd os T c)\<^sup>*\<^sup>* (None, service_init ns addr w)"

lemma spaced_reaches_inv: "spaced_reaches sd os T c ns addr w x \<Longrightarrow> spaced_inv c x"
proof (induction rule: rtranclp_induct)
  case base
  show ?case by (simp add: spaced_inv_def service_init_def local_new_def instances_def)
qed (use spaced_step_inv in blast)

text \<open>
  C9. When the requests that create or delete one id do not overlap with each other, whatever else
  runs at the same time and in whatever order: no step puts one task in the place of another under
  that id; the id is free as long as no such request has arrived; and once the last of them has
  been answered with success, the id is registered if it was a creation and free if it was a
  deletion.
\<close>

theorem spaced_requests_keep_tasks:
  assumes "spaced_reaches sd os T c ns addr w (k, (ps, (L, s)))"
  shows "(k = None \<longrightarrow> instances s c = None) \<and>
    (\<forall>i r a. k = Some (i, r) \<longrightarrow> ps ! i = Finished (Ok a) \<longrightarrow> (instances s c \<noteq> None \<longleftrightarrow> is_create r)) \<and>
    (\<forall>k' qs K t a b. spaced_step sd os T c (k, (ps, (L, s))) (k', (qs, (K, t))) \<longrightarrow>
       instances s c = Some a \<longrightarrow> instances t c = Some b \<longrightarrow> a = b)"
proof -
  note inv = spaced_reaches_inv [OF assms]
  have "a = b" if "spaced_step sd os T c (k, (ps, (L, s))) (k', (qs, (K, t)))" "instances s c = Some a" "instances t c = Some b"
    for k' qs K t a b
    using spaced_step_inv [OF that(1) inv] that(2,3) by (simp add: replaces_def)
  then show ?thesis using inv by (auto simp: spaced_inv_def settled_def)
qed

lemma spaced_run:
  "run_thread p x = Some (a, y) \<Longrightarrow> i < length ps \<Longrightarrow>
    (spaced_step sd os T c)\<^sup>*\<^sup>* (k, (ps[i := p], x)) (k, (ps[i := Finished a], y))"
proof (induction p arbitrary: x)
  case (Next l g)
  then obtain q u where g: "g x = Some (q, u)" and q: "run_thread q u = Some (a, y)"
    by (auto simp: run_thread_Next simp del: run_thread.simps split: option.splits prod.splits)
  have "(spaced_step sd os T c)\<^sup>*\<^sup>* (k, (ps[i := q], u)) (k, (ps[i := Finished a], y))"
    by (rule Next.IH [of "Some (q, u)" "(q, u)"]) (use g q Next.prems(2) in \<open>auto intro: range_eqI sym\<close>)
  moreover have "spaced_step sd os T c (k, (ps[i := Next l g], x)) (k, (ps[i := q], u))"
    using spaced_step.access [of i "ps[i := Next l g]" l g x q u] g Next.prems(2) by simp
  ultimately show ?case by (simp add: converse_rtranclp_into_rtranclp)
qed simp


theorem spaced_requests_keep_tasks_witness:
  "instances (snd (snd demo_created_pool)) ''a'' \<noteq> None"
proof -
  let ?w = "\<lparr>w_cells = [], w_now = demo_now\<rparr> :: cell_world" and ?r = "RCreate (demo_create ''a'')"
  let ?p = "th_handle demo_sd demo_os demo_T ?r"
  obtain a y where run: "run_thread ?p ({}, local_new ''ns'' ''/addr'' ?w) = Some (a, y)" and pool: "demo_created_pool = ([Finished a], y)"
    using demo_created_pool(1) by (auto simp: demo_pool_def service_init_def Option.bind_eq_Some_conv)
  have "map_option (map result_of \<circ> fst) (demo_pool [Arrive ?r, Run 0]) = Some [Some (Ok (PidResponse 7))]" by code_simp
  then have a: "a = Ok (PidResponse 7)" by (simp add: demo_created_pool(1) pool)
  obtain L s where y: "y = (L, s)" by (cases y)
  have "spaced_step demo_sd demo_os demo_T ''a'' (None, service_init ''ns'' ''/addr'' ?w)
      (Some (0, ?r), ([?p], ({}, local_new ''ns'' ''/addr'' ?w)))"
    using spaced_step.own [of "''a''" ?r None "[]"] by (simp add: service_init_def demo_create_def)
  moreover have "(spaced_step demo_sd demo_os demo_T ''a'')\<^sup>*\<^sup>* (Some (0, ?r), ([?p], ({}, local_new ''ns'' ''/addr'' ?w)))
      (Some (0, ?r), ([Finished a], y))"
    using spaced_run [OF run, of 0 "[?p]"] by simp
  ultimately have "spaced_reaches demo_sd demo_os demo_T ''a'' ''ns'' ''/addr'' ?w (Some (0, ?r), ([Finished a], (L, s)))"
    unfolding y by (rule converse_rtranclp_into_rtranclp)
  from spaced_requests_keep_tasks [OF this] show ?thesis by (simp add: a pool y)
qed

end
