(* ===== verification/Unit_Tests.thy ===== *)
theory Unit_Tests
  imports Otel Unix_Instance Oci_Tar_Builder "HOL-Library.AList"
begin

text \<open>
  The unit tests the modules carry along (\<open>mod tests\<close> of \<open>sandbox/error.rs\<close>, \<open>sandbox/sync.rs\<close>,
  \<open>sandbox/instance_utils.rs\<close>, \<open>sandbox/shim/otel.rs\<close> and \<open>container/context.rs\<close>), run against the
  model. A test is an action; an assertion that does not hold and an \<open>unwrap\<close> of an error panic, so
  that a test passes when it returns. What the tests take from their surroundings (the environment
  of the process, the defaults of the specification builder, JSON) is a parameter.
\<close>

section \<open>Assertions\<close>

definition assert_res :: "bool \<Rightarrow> (unit, unit) res" where
  "assert_res b = (if b then Ok () else Panic ''assertion failed'')"

primrec assert_all :: "bool list \<Rightarrow> (unit, unit) res" where
  "assert_all [] = Ok ()"
| "assert_all (b # bs) = res_bind (assert_res b) (\<lambda>_. assert_all bs)"

lemma assert_all_iff: "assert_all bs = Ok () \<longleftrightarrow> list_all id bs"
  by (induction bs) (auto simp: assert_res_def)

text \<open>\<open>unwrap\<close>.\<close>

fun unwrap_res :: "('e, 'a) res \<Rightarrow> ('f, 'a) res" where
  "unwrap_res (Ok a) = Ok a"
| "unwrap_res (Err e) = Panic ''called `Result::unwrap()` on an `Err` value''"
| "unwrap_res (Panic m) = Panic m"
| "unwrap_res Blocked = Blocked"

section \<open>sandbox/error.rs\<close>

definition expect_status :: "ttrpc_code \<Rightarrow> string \<Rightarrow> ttrpc_error \<Rightarrow> (unit, unit) res" where
  "expect_status code message t = (case t of
      RpcStatus c m \<Rightarrow> assert_all [c = code, m = message]
    | _ \<Rightarrow> Panic ''unexpected error'')"

definition test_error_to_ttrpc_status :: "(shim_error \<Rightarrow> string) \<Rightarrow> (unit, unit) res" where
  "test_error_to_ttrpc_status sd =
     res_bind (expect_status INVALID_ARGUMENT ''invalid argument'' (to_ttrpc sd (InvalidArgument ''invalid argument''))) (\<lambda>_.
     res_bind (expect_status NOT_FOUND ''not found'' (to_ttrpc sd (NotFound ''not found''))) (\<lambda>_.
     res_bind (expect_status ALREADY_EXISTS ''already exists'' (to_ttrpc sd (AlreadyExists ''already exists''))) (\<lambda>_.
     res_bind (expect_status FAILED_PRECONDITION ''failed precondition'' (to_ttrpc sd (FailedPrecondition ''failed precondition''))) (\<lambda>_.
     res_bind (expect_status INVALID_ARGUMENT ''invalid argument'' (to_ttrpc sd (Shim (ShimInvalidArgument ''invalid argument'')))) (\<lambda>_.
     expect_status UNKNOWN ''any error'' (to_ttrpc sd (Any ''any error'')))))))"

lemma error_tests_pass: "test_error_to_ttrpc_status sd = Ok ()"
  by (simp add: test_error_to_ttrpc_status_def expect_status_def assert_res_def)

section \<open>sandbox/sync.rs\<close>

text \<open>
  A test is an action on the cell it makes. A clone of a cell is the same cell; \<open>passing\<close> is what
  other threads do to the cell while a timeout runs.
\<close>

type_synonym cell_test = "(int waitable_cell, int, unit) act"

definition assert_cell :: "bool \<Rightarrow> cell_test" where
  "assert_cell b = (if b then ret () else panic ''assertion failed'')"

definition unwrap_set :: "int \<Rightarrow> cell_test" where
  "unwrap_set v = (\<lambda>c. case cell_set v c of (r, c') \<Rightarrow> (unwrap_res r, c'))"

definition assert_waits :: "(nat \<Rightarrow> int waitable_cell \<Rightarrow> int waitable_cell) \<Rightarrow> int \<Rightarrow> cell_test" where
  "assert_waits passing v = act_bind (cell_wait passing) (\<lambda>r. assert_cell (v = r))"

definition assert_timeout ::
  "(nat \<Rightarrow> int waitable_cell \<Rightarrow> int waitable_cell) \<Rightarrow> duration option \<Rightarrow> int option \<Rightarrow> cell_test" where
  "assert_timeout passing t v = act_bind (cell_wait_timeout passing t) (\<lambda>r. assert_cell (v = r))"

definition sync_basic where
  "sync_basic passing = act_bind (unwrap_set 42) (\<lambda>_. assert_waits passing 42)"

definition sync_basic_timeout_zero where
  "sync_basic_timeout_zero passing =
     act_bind (unwrap_set 42) (\<lambda>_. assert_timeout passing (Some DurationZero) (Some 42))"

definition sync_basic_timeout_1ms where
  "sync_basic_timeout_1ms passing =
     act_bind (unwrap_set 42) (\<lambda>_. assert_timeout passing (Some (DurationMillis 1000)) (Some 42))"

definition sync_basic_timeout_none where
  "sync_basic_timeout_none passing = act_bind (unwrap_set 42) (\<lambda>_. assert_timeout passing None (Some 42))"

definition sync_unset_timeout_zero where
  "sync_unset_timeout_zero passing = assert_timeout passing (Some DurationZero) None"

definition sync_unset_timeout_1ms where
  "sync_unset_timeout_1ms passing = assert_timeout passing (Some (DurationMillis 1)) None"

definition sync_clone where
  "sync_clone passing = act_bind (ignore_result (cell_set 42)) (\<lambda>_. assert_waits passing 42)"

text \<open>The thread sets the cell while the test waits: the wait blocks before and returns after.\<close>

definition sync_basic_threaded where
  "sync_basic_threaded passing =
     act_bind (\<lambda>c. assert_cell (fst (cell_wait passing c :: (int, int) res \<times> int waitable_cell) = Blocked) c) (\<lambda>_.
     act_bind (ignore_result (cell_set 42)) (\<lambda>_. assert_waits passing 42))"

definition sync_basic_double_set :: cell_test where
  "sync_basic_double_set =
     act_bind (attempt (cell_set 42)) (\<lambda>r. act_bind (assert_cell (r = Inr ())) (\<lambda>_.
     act_bind (attempt (cell_set 24)) (\<lambda>r. assert_cell (r = Inl 24))))"

definition sync_guard where
  "sync_guard passing = act_bind (guard_drop (ret 42)) (\<lambda>_. assert_waits passing 42)"

definition sync_guard_no_op where
  "sync_guard_no_op passing =
     act_bind (ignore_result (cell_set 24)) (\<lambda>_.
     act_bind (guard_drop (ret 42)) (\<lambda>_. assert_waits passing 24))"

lemmas sync_test_defs = sync_basic_def sync_basic_timeout_zero_def sync_basic_timeout_1ms_def
  sync_basic_timeout_none_def sync_unset_timeout_zero_def sync_unset_timeout_1ms_def sync_clone_def
  sync_basic_threaded_def sync_basic_double_set_def sync_guard_def sync_guard_no_op_def
  assert_cell_def unwrap_set_def assert_waits_def assert_timeout_def

text \<open>All pass; the one that lets a timeout run out needs that nobody sets the cell meanwhile.\<close>

lemma sync_tests_pass:
  "fst (sync_basic passing cell_new) = Ok ()" "fst (sync_basic_timeout_zero passing cell_new) = Ok ()"
  "fst (sync_basic_timeout_1ms passing cell_new) = Ok ()" "fst (sync_basic_timeout_none passing cell_new) = Ok ()"
  "fst (sync_unset_timeout_zero passing cell_new) = Ok ()" "fst (sync_clone passing cell_new) = Ok ()"
  "fst (sync_basic_threaded passing cell_new) = Ok ()" "fst (sync_basic_double_set cell_new) = Ok ()"
  "fst (sync_guard passing cell_new) = Ok ()" "fst (sync_guard_no_op passing cell_new) = Ok ()"
  "fst (sync_unset_timeout_1ms passing cell_new) = Ok () \<longleftrightarrow> cell (passing 1 cell_new) = None"
  by (auto simp: sync_test_defs cell_defs act_defs Let_def)

section \<open>sandbox/instance\_utils.rs\<close>

text \<open>
  A file system that holds at most the file the test writes, below the directory it made;
  \<open>to_json\<close> and \<open>from_json\<close> are the writer and the reader of \<open>Options\<close>.
\<close>

definition file_or_missing :: "(path \<times> bytes) option \<Rightarrow> path \<Rightarrow> (unit, io_error, bytes) act" where
  "file_or_missing f p = (case f of
      Some (q, content) \<Rightarrow> if p = q then ret content else throw (IoError IoNotFound ''not found'')
    | None \<Rightarrow> throw (IoError IoNotFound ''not found''))"

definition test_determine_rootdir_with_options_file ::
  "(path option \<Rightarrow> bytes) \<Rightarrow> (bytes \<Rightarrow> (string, path option) res) \<Rightarrow> path \<Rightarrow> (unit, error, unit) act" where
  "test_determine_rootdir_with_options_file to_json from_json dir =
     (let namespace = ''test_namespace''; rootdir = path_join dir ''runwasi'';
          file = (path_join dir ''options.json'', to_json (Some rootdir))
      in act_bind (determine_rootdir (file_or_missing (Some file)) from_json dir namespace ''/run/containerd/runtime'') (\<lambda>root.
         if root = path_join rootdir namespace then ret () else panic ''assertion failed''))"

definition test_determine_rootdir_without_options_file ::
  "(bytes \<Rightarrow> (string, path option) res) \<Rightarrow> path \<Rightarrow> (unit, error, unit) act" where
  "test_determine_rootdir_without_options_file from_json dir =
     (let namespace = ''test_namespace''
      in act_bind (determine_rootdir (file_or_missing None) from_json dir namespace ''/run/containerd/runtime'') (\<lambda>root.
         if is_absolute root \<and> root = path_join ''/run/containerd/runtime'' namespace then ret ()
         else panic ''assertion failed''))"

lemma rootdir_tests_pass:
  "test_determine_rootdir_without_options_file from_json dir () = (Ok (), ())"
  "(\<And>x. from_json (to_json x) = Ok x) \<Longrightarrow>
   test_determine_rootdir_with_options_file to_json from_json dir () = (Ok (), ())"
  by (simp_all add: test_determine_rootdir_without_options_file_def test_determine_rootdir_with_options_file_def
      determine_rootdir_def file_or_missing_def is_absolute_def path_join_def act_defs)

section \<open>sandbox/shim/otel.rs\<close>

text \<open>\<open>temp_env::with_vars\<close>: the given variables are set or removed, the others stay as they are.\<close>

definition with_vars :: "(string \<times> string option) list \<Rightarrow> env \<Rightarrow> env" where
  "with_vars vs e = fold (\<lambda>(k, v) e. e(k := map_option Unicode v)) vs e"

definition traces_var :: string where "traces_var = ''OTEL_EXPORTER_OTLP_TRACES_ENDPOINT''"
definition endpoint_var :: string where "endpoint_var = ''OTEL_EXPORTER_OTLP_ENDPOINT''"
definition disabled_var :: string where "disabled_var = ''OTEL_SDK_DISABLED''"
definition protocol_var :: string where "protocol_var = ''OTEL_EXPORTER_OTLP_PROTOCOL''"
definition traces_protocol_var :: string where "traces_protocol_var = ''OTEL_EXPORTER_OTLP_TRACES_PROTOCOL''"

definition otel_vars :: "string option \<Rightarrow> string option \<Rightarrow> string option \<Rightarrow> env \<Rightarrow> env" where
  "otel_vars t g d = with_vars [(traces_var, t), (endpoint_var, g), (disabled_var, d)]"

definition test_traces_enabled :: "env \<Rightarrow> (unit, unit) res" where
  "test_traces_enabled e = assert_all
     [traces_enabled (otel_vars (Some ''trace_endpoint'') (Some ''general_endpoint'') None e),
      traces_enabled (otel_vars (Some []) (Some ''general_endpoint'') (Some ''t'') e),
      traces_enabled (otel_vars None (Some ''general_endpoint'') (Some ''false'') e),
      traces_enabled (otel_vars (Some ''trace_endpoint'') (Some []) (Some ''1'') e),
      \<not> traces_enabled (otel_vars (Some []) (Some []) None e),
      \<not> traces_enabled (otel_vars None None None e),
      \<not> traces_enabled (otel_vars (Some ''trace_endpoint'') (Some ''general_endpoint'') (Some ''true'') e)]"

definition test_get_empty_trace_context :: "('x, 'w) otel \<Rightarrow> 'w \<Rightarrow> (unit, unit) res" where
  "test_get_empty_trace_context T w = (case fst (get_trace_context T w) of
      Ok c \<Rightarrow> assert_res (c = ''{}'') | _ \<Rightarrow> assert_res False)"

definition test_set_empty_trace_context :: "('x, 'w) otel \<Rightarrow> 'w \<Rightarrow> (unit, unit) res" where
  "test_set_empty_trace_context T w = assert_res (is_ok (fst (set_trace_context T ''{}'' w)))"

definition test_otel_endpoint_from_env :: "env \<Rightarrow> (unit, unit) res" where
  "test_otel_endpoint_from_env e =
     (let result = traces_endpoint_from_env (with_vars [(traces_var, Some ''trace_endpoint'')] e)
      in assert_all [is_ok result, unwrap_res result = (Ok ''trace_endpoint'' :: (unit, string) res)])"

definition test_otel_endpoint_from_env_fallback :: "env \<Rightarrow> (unit, unit) res" where
  "test_otel_endpoint_from_env_fallback e =
     (let result = traces_endpoint_from_env (with_vars [(endpoint_var, Some ''fallback_endpoint'')] e)
      in assert_all [is_ok result, unwrap_res result = (Ok ''fallback_endpoint'' :: (unit, string) res)])"

definition test_otel_endpoint_from_env_missing :: "env \<Rightarrow> (unit, unit) res" where
  "test_otel_endpoint_from_env_missing e = assert_res (\<not> is_ok (traces_endpoint_from_env (with_vars [] e)))"

definition test_otel_protocol_from_env :: "string \<Rightarrow> env \<Rightarrow> (unit, unit) res" where
  "test_otel_protocol_from_env d e =
     (let result = traces_protocol_from_env d (with_vars [(traces_protocol_var, Some ''grpc'')] e)
      in assert_all [is_ok result, unwrap_res result = (Ok Grpc :: (unit, otlp_protocol) res)])"

definition test_otel_protocol_from_env_fail :: "string \<Rightarrow> env \<Rightarrow> (unit, unit) res" where
  "test_otel_protocol_from_env_fail d e =
     assert_res (\<not> is_ok (traces_protocol_from_env d (with_vars [(protocol_var, Some ''something-else'')] e)))"

definition test_otel_protocol_from_env_default :: "string \<Rightarrow> env \<Rightarrow> (unit, unit) res" where
  "test_otel_protocol_from_env_default d e =
     (let result = traces_protocol_from_env d (with_vars [] e)
      in assert_all [is_ok result, unwrap_res result = (Ok HttpBinary :: (unit, otlp_protocol) res)])"

definition test_build_with_both :: "string \<Rightarrow> env \<Rightarrow> (unit, unit) res" where
  "test_build_with_both d e =
     res_bind (unwrap_res (build_from_env d (with_vars [(traces_var, Some ''trace_endpoint''),
       (endpoint_var, Some ''general_endpoint''), (traces_protocol_var, Some ''grpc''),
       (protocol_var, Some ''http/protobuf'')] e))) (\<lambda>config.
     assert_all [ot_traces_endpoint config = ''trace_endpoint'', ot_traces_protocol config = Grpc])"

definition test_build_missing_endpoint :: "string \<Rightarrow> env \<Rightarrow> (unit, unit) res" where
  "test_build_missing_endpoint d e = assert_res (\<not> is_ok (build_from_env d (with_vars [] e)))"

text \<open>The keys of the metadata in some order, which the test sorts.\<close>

definition extractor_keys :: "(string \<times> string list) list \<Rightarrow> string list" where
  "extractor_keys metadata = map fst metadata"

definition test_metadata_extractor :: "(unit, unit) res" where
  "test_metadata_extractor =
     (let metadata = AList.update ''key2'' [''value2''] (AList.update ''key'' [''value''] [])
      in assert_all [extractor_get (map_of metadata) ''key'' = Some ''value'',
           set (extractor_keys metadata) = {''key'', ''key2''} \<and> distinct (extractor_keys metadata),
           extractor_get (map_of metadata) ''key2'' = Some ''value2''])"

lemmas otel_var_defs = with_vars_def otel_vars_def traces_var_def endpoint_var_def disabled_var_def protocol_var_def
  traces_protocol_var_def

text \<open>The variables the tests about missing values assume to be unset outside of them.\<close>

definition otel_unset :: "env \<Rightarrow> bool" where
  "otel_unset e \<longleftrightarrow> e traces_var = None \<and> e endpoint_var = None \<and> e protocol_var = None \<and> e traces_protocol_var = None"

lemma otel_tests_pass:
  "test_traces_enabled e = Ok ()" "test_otel_endpoint_from_env e = Ok ()"
  "test_otel_protocol_from_env d e = Ok ()" "test_build_with_both d e = Ok ()" "test_metadata_extractor = Ok ()"
  by (simp_all add: test_traces_enabled_def test_otel_endpoint_from_env_def test_otel_protocol_from_env_def
      test_build_with_both_def test_metadata_extractor_def traces_enabled_def traces_endpoint_from_env_def
      traces_protocol_from_env_def build_from_env_def otel_var_defs env_var_def var_or_def assert_res_def
      extractor_get_def extractor_keys_def list_first_def insert_commute)

lemma otel_tests_pass_clean:
  assumes "otel_unset e"
  shows "test_otel_endpoint_from_env_fallback e = Ok ()" "test_otel_endpoint_from_env_missing e = Ok ()"
    "test_otel_protocol_from_env_fail d e = Ok ()" "test_otel_protocol_from_env_default ''http/protobuf'' e = Ok ()"
    "test_build_missing_endpoint d e = Ok ()"
  using assms
  by (simp_all add: otel_unset_def test_otel_endpoint_from_env_fallback_def test_otel_endpoint_from_env_missing_def
      test_otel_protocol_from_env_fail_def test_otel_protocol_from_env_default_def test_build_missing_endpoint_def
      traces_endpoint_from_env_def traces_protocol_from_env_def build_from_env_def otel_var_defs env_var_def var_or_def
      assert_res_def)

text \<open>Without a span there is nothing to inject, and the JSON of the empty map is \<open>{}\<close> both ways.\<close>

lemma otel_context_tests_pass:
  assumes "ot_inject T (ot_current T w) = Map.empty" and "ot_to_json T Map.empty = Ok ''{}''"
    and "ot_from_json T ''{}'' = Ok Map.empty"
  shows "test_get_empty_trace_context T w = Ok ()" "test_set_empty_trace_context T w = Ok ()"
  using assms
  by (simp_all add: test_get_empty_trace_context_def test_set_empty_trace_context_def get_trace_context_def
      set_trace_context_def act_defs assert_res_def)

section \<open>container/context.rs\<close>

text \<open>
  \<open>SpecBuilder\<close> with a root and a process. \<open>pd\<close> is what \<open>ProcessBuilder::default\<close> holds before
  \<open>args\<close> and \<open>env\<close> replace their field.
\<close>

definition build_spec :: "oci_process \<Rightarrow> oci_spec" where
  "build_spec p = \<lparr>spec_root = Some ''rootfs'', spec_process = Some p, spec_hooks = None, spec_annotations = None\<rparr>"

definition with_args :: "oci_process \<Rightarrow> string list \<Rightarrow> oci_spec" where
  "with_args pd args = build_spec (pd\<lparr>proc_args := Some args\<rparr>)"

definition with_env :: "oci_process \<Rightarrow> string list \<Rightarrow> oci_spec" where
  "with_env pd env = build_spec (pd\<lparr>proc_env := Some env\<rparr>)"

definition ctx_of :: "oci_platform \<Rightarrow> oci_spec \<Rightarrow> wasm_layer list \<Rightarrow> wasi_context" where
  "ctx_of platform spec layers = \<lparr>wc_spec = spec, wc_wasm_layers = layers, wc_platform = platform\<rparr>"

definition test_get_args :: "oci_process \<Rightarrow> oci_platform \<Rightarrow> (unit, unit) res" where
  "test_get_args pd pl =
     (let args = ctx_args (ctx_of pl (with_args pd [''hello.wat'']) [])
      in assert_all [length args = 1, args ! 0 = ''hello.wat''])"

definition test_get_args_return_empty :: "oci_process \<Rightarrow> oci_platform \<Rightarrow> (unit, unit) res" where
  "test_get_args_return_empty pd pl = assert_res (length (ctx_args (ctx_of pl (with_args pd []) [])) = 0)"

definition test_get_args_returns_all :: "oci_process \<Rightarrow> oci_platform \<Rightarrow> (unit, unit) res" where
  "test_get_args_returns_all pd pl =
     (let args = ctx_args (ctx_of pl (with_args pd [''hello.wat'', ''echo'', ''hello'']) [])
      in assert_all [length args = 3, args ! 0 = ''hello.wat'', args ! 1 = ''echo'', args ! 2 = ''hello''])"

definition test_get_module_returns_none_when_not_present :: "oci_process \<Rightarrow> oci_platform \<Rightarrow> (unit, unit) res" where
  "test_get_module_returns_none_when_not_present pd pl =
     assert_res (case ep_source (ctx_entrypoint (ctx_of pl (with_args pd []) [])) of SourceFile p \<Rightarrow> p = [] | _ \<Rightarrow> False)"

definition test_get_module_returns_function :: "oci_process \<Rightarrow> oci_platform \<Rightarrow> (unit, unit) res" where
  "test_get_module_returns_function pd pl =
     (let e = ctx_entrypoint (ctx_of pl (with_args pd [''hello.wat#foo'', ''echo'', ''hello'']) [])
      in assert_all [ep_name e = Some ''hello'', ep_func e = ''foo'', ep_arg0 e = Some ''hello.wat#foo'',
           (case ep_source e of SourceFile p \<Rightarrow> p = ''hello.wat'' | _ \<Rightarrow> False)])"

definition test_get_module_returns_start :: "oci_process \<Rightarrow> oci_platform \<Rightarrow> (unit, unit) res" where
  "test_get_module_returns_start pd pl =
     (let e = ctx_entrypoint (ctx_of pl (with_args pd [''/root/hello.wat'', ''echo'', ''hello'']) [])
      in assert_all [ep_name e = Some ''hello'', ep_func e = ''_start'', ep_arg0 e = Some ''/root/hello.wat'',
           (case ep_source e of SourceFile p \<Rightarrow> p = ''/root/hello.wat'' | _ \<Rightarrow> False)])"

definition test_loading_strategy_is_file_when_no_layers :: "oci_process \<Rightarrow> oci_platform \<Rightarrow> (unit, unit) res" where
  "test_loading_strategy_is_file_when_no_layers pd pl =
     assert_res (case ep_source (ctx_entrypoint (ctx_of pl (with_args pd [''/root/hello.wat#foo'', ''echo'', ''hello'']) [])) of
        SourceFile p \<Rightarrow> p = ''/root/hello.wat'' | _ \<Rightarrow> False)"

definition test_loading_strategy_is_oci_when_layers_present :: "oci_process \<Rightarrow> oci_platform \<Rightarrow> (unit, unit) res" where
  "test_loading_strategy_is_oci_when_layers_present pd pl =
     (let layer = \<lparr>wl_config = \<lparr>desc_media_type = [], desc_size = 10, desc_digest = ''sha256:'' @ replicate 64 (CHR ''0'')\<rparr>,
            wl_layer = []\<rparr>
      in assert_res (case ep_source (ctx_entrypoint (ctx_of pl (with_args pd [''/root/hello.wat'', ''echo'', ''hello'']) [layer])) of
        SourceOci _ \<Rightarrow> True | _ \<Rightarrow> False))"

definition test_get_envs :: "oci_process \<Rightarrow> oci_platform \<Rightarrow> (unit, unit) res" where
  "test_get_envs pd pl =
     (let envs = ctx_envs (ctx_of pl (with_env pd [''KEY1=VALUE1'', ''KEY2=VALUE2'']) [])
      in assert_all [length envs = 2, envs ! 0 = ''KEY1=VALUE1'', envs ! 1 = ''KEY2=VALUE2''])"

definition test_get_envs_return_empty :: "oci_process \<Rightarrow> oci_platform \<Rightarrow> (unit, unit) res" where
  "test_get_envs_return_empty pd pl = assert_res (length (ctx_envs (ctx_of pl (with_env pd []) [])) = 0)"

definition test_envs_return_default_only :: "oci_process \<Rightarrow> oci_platform \<Rightarrow> (unit, unit) res" where
  "test_envs_return_default_only pd pl = assert_res (length (ctx_envs (ctx_of pl (build_spec pd) [])) = 2)"

lemmas context_test_defs = build_spec_def with_args_def with_env_def ctx_of_def ctx_args_def ctx_envs_def
  test_get_args_def test_get_args_return_empty_def test_get_args_returns_all_def test_get_envs_def
  test_get_envs_return_empty_def test_envs_return_default_only_def assert_res_def

lemma context_tests_pass:
  "test_get_args pd pl = Ok ()" "test_get_args_return_empty pd pl = Ok ()" "test_get_args_returns_all pd pl = Ok ()"
  "test_get_envs pd pl = Ok ()" "test_get_envs_return_empty pd pl = Ok ()"
  "proc_env pd = Some [x, y] \<Longrightarrow> test_envs_return_default_only pd pl = Ok ()"
  by (simp_all add: context_test_defs)

lemma file_stem_hello: "file_stem ''hello.wat'' = Some ''hello''" "file_stem ''/root/hello.wat'' = Some ''hello''"
  by code_simp+

lemma entrypoint_tests_pass:
  "test_get_module_returns_none_when_not_present pd pl = Ok ()" "test_get_module_returns_function pd pl = Ok ()"
  "test_get_module_returns_start pd pl = Ok ()" "test_loading_strategy_is_file_when_no_layers pd pl = Ok ()"
  "test_loading_strategy_is_oci_when_layers_present pd pl = Ok ()"
  by (simp_all add: context_test_defs ctx_entrypoint_def list_first_def file_stem_hello Let_def
      test_get_module_returns_none_when_not_present_def test_get_module_returns_function_def
      test_get_module_returns_start_def test_loading_strategy_is_file_when_no_layers_def
      test_loading_strategy_is_oci_when_layers_present_def)

section \<open>sandbox/containerd/client.rs\<close>

text \<open>\<open>unwrap\<close> and \<open>expect_err\<close> of a call.\<close>

definition act_unwrap :: "('w, 'e, 'a) act \<Rightarrow> ('w, unit, 'a) act" where
  "act_unwrap m = (\<lambda>w. case m w of (r, w') \<Rightarrow> (unwrap_res r, w'))"

definition act_expect_err :: "string \<Rightarrow> ('w, 'e, 'a) act \<Rightarrow> ('w, unit, unit) act" where
  "act_expect_err msg m = act_bind (attempt m) (\<lambda>r. case r of Inl _ \<Rightarrow> ret () | Inr _ \<Rightarrow> panic msg)"

definition act_assert :: "bool \<Rightarrow> ('w, unit, unit) act" where
  "act_assert b = lift_res (assert_res b)"

text \<open>The daemon is the one the test finds on its socket.\<close>

definition test_save_content :: "'w containerd \<Rightarrow> formats \<Rightarrow> ('w, unit, unit) act" where
  "test_save_content ctd fm =
     act_bind (act_unwrap (client_connect ctd ''/run/containerd/containerd.sock'' ''test-ns'')) (\<lambda>c.
     (let data = as_bytes ''hello world''; expected = ''sha256:'' @ sha256 fm data;
          label = [precompile_label ''test'' ''hasdfh'' \<mapsto> ''original'']
      in act_bind (act_unwrap (save_content ctd fm c data ''test'' label)) (\<lambda>returned.
         act_bind (act_assert (expected = wt_digest returned)) (\<lambda>_.
         act_bind (act_unwrap (read_content ctd c (wt_digest returned))) (\<lambda>data.
         act_bind (act_assert (data = as_bytes ''hello world'')) (\<lambda>_.
         act_bind (act_expect_err ''Should not be able to save when lease is open''
           (save_content ctd fm c data ''test'' label)) (\<lambda>_.
         act_bind (ignore_result (lease_release ctd (wt_lease returned))) (\<lambda>_.
         act_bind (act_unwrap (save_content ctd fm c data ''test'' label)) (\<lambda>returned.
         act_bind (act_assert (expected = wt_digest returned)) (\<lambda>_.
         act_bind (act_unwrap (delete_content ctd c expected)) (\<lambda>_.
         act_bind (act_expect_err ''content should not exist'' (read_content ctd c expected)) (\<lambda>_.
         ignore_result (lease_release ctd (wt_lease returned))))))))))))))"

text \<open>It passes on the store the examples of \<open>Containerd\<close> use.\<close>

lemma test_save_content_passes: "fst (test_save_content demo_ctd (demo_fm []) demo_w) = Ok ()"
  by code_simp

end
