(* ===== verification/Local_Contract.thy ===== *)
theory Local_Contract
  imports Local_Threads Local_Props
begin

text \<open>
  What the task service promises a client, as a labelled transition system over the map from ids
  to phases, and that the service refines it: whatever sequence of requests, responses and ends of
  waiters the service of \<open>Local\<close> can show, the abstract system can show too, and ends in the
  phases of the service's own tasks.

  A label carries the request and its response, so the contract ties what a client is told to what
  happens to the task: which phases a request is admitted in, which phase follows a success, and
  which phases are left by a failure.
\<close>

section \<open>The contract of a request\<close>

definition failed :: "('e, 'a) res \<Rightarrow> bool" where
  "failed r \<longleftrightarrow> (\<exists>e. r = Err e) \<or> (\<exists>p. r = Panic p)"

text \<open>When a request is admitted. Poisoned tasks answer the queries that do not take the lock.\<close>

primrec admissible :: "request \<Rightarrow> view option \<Rightarrow> bool" where
  "admissible (RCreate q) v \<longleftrightarrow>
     cr_checkpoint q = [] \<and> cr_parent_checkpoint q = [] \<and> \<not> cr_terminal q \<and> v = None"
| "admissible (RStart q) v \<longleftrightarrow> rq_exec_id q = [] \<and> v = Some (Live Created None)"
| "admissible (RKill q) v \<longleftrightarrow> rq_exec_id q = [] \<and> (\<exists>p. v = Some (Live Started p))"
| "admissible (RDelete q) v \<longleftrightarrow> rq_exec_id q = [] \<and> (\<exists>p. v = Some (Live Created p) \<or> v = Some (Live Exited p))"
| "admissible (RWait q) v \<longleftrightarrow> rq_exec_id q = [] \<and> v \<noteq> None"
| "admissible (RState q) v \<longleftrightarrow> rq_exec_id q = [] \<and> v \<noteq> None"
| "admissible (RStats q) v \<longleftrightarrow> v \<noteq> None \<and> (\<forall>st. v \<noteq> Some (Live st None))"
| "admissible (RConnect q) v \<longleftrightarrow> v \<noteq> None"
| "admissible RShutdown v \<longleftrightarrow> True"

text \<open>The effect of an admitted request on its id: the response, the phase before and the phase after.\<close>

inductive effect :: "request \<Rightarrow> (ttrpc_error, response) res \<Rightarrow> view option \<Rightarrow> view option \<Rightarrow> bool" where
  create_ok: "effect (RCreate q) (Ok (PidResponse p)) None (Some (Live Created None))"
| create_failed: "failed r \<Longrightarrow> effect (RCreate q) r None None"
| create_hook_failed: "failed r \<Longrightarrow> effect (RCreate q) r None (Some (Live Created None))"
| start_ok: "effect (RStart q) (Ok (PidResponse p)) (Some (Live Created None)) (Some (Live Started (Some p)))"
| start_failed: "effect (RStart q) (Err e) (Some (Live Created None)) (Some (Live Exited None))"
| start_unwatched: "failed r \<Longrightarrow> effect (RStart q) r (Some (Live Created None)) (Some (Live Started (Some p)))"
| start_panic: "effect (RStart q) (Panic m) (Some (Live Created None)) (Some Poisoned)"
| kill_ok: "effect (RKill q) (Ok EmptyResponse) v v"
| kill_failed: "effect (RKill q) (Err e) v v"
| kill_panic: "effect (RKill q) (Panic m) v (Some Poisoned)"
| delete_ok: "dr_pid x = unwrap_or 0 p \<Longrightarrow> effect (RDelete q) (Ok (DeleteResponse x)) (Some (Live st p)) None"
| delete_failed: "effect (RDelete q) (Err e) (Some (Live st p)) (Some (Live Exited p))"
| delete_unwaited: "failed r \<Longrightarrow> effect (RDelete q) r (Some (Live st p)) (Some (Live Deleting p))"
| delete_panic: "effect (RDelete q) (Panic m) v (Some Poisoned)"
| wait_ok: "effect (RWait q) (Ok (WaitResponse x)) (Some (Live st p)) (Some (Live Exited p))"
| wait_failed: "failed r \<Longrightarrow> effect (RWait q) r v v"
| state_running: "sr_exited_at x = None \<Longrightarrow> sr_pid x = unwrap_or 0 p \<Longrightarrow>
    sr_status x = (if p = None then CREATED else RUNNING) \<Longrightarrow>
    effect (RState q) (Ok (StateResponse x)) (Some (Live st p)) (Some (Live st p))"
| state_stopped: "sr_exited_at x \<noteq> None \<Longrightarrow> sr_pid x = unwrap_or 0 p \<Longrightarrow>
    sr_status x = (if p = None then CREATED else STOPPED) \<Longrightarrow>
    effect (RState q) (Ok (StateResponse x)) (Some (Live st p)) (Some (Live Exited p))"
| state_poisoned: "sr_exited_at x = None \<Longrightarrow> effect (RState q) (Ok (StateResponse x)) (Some Poisoned) (Some Poisoned)"
| state_failed: "failed r \<Longrightarrow> effect (RState q) r v v"
| stats_ok: "effect (RStats q) (Ok (StatsResponse x)) v v"
| stats_failed: "failed r \<Longrightarrow> effect (RStats q) r v v"
| connect_ok: "effect (RConnect q) (Ok (ConnectResponse (p0, unwrap_or 0 p))) (Some (Live st p)) (Some (Live st p))"
| connect_poisoned: "effect (RConnect q) (Ok (ConnectResponse x)) (Some Poisoned) (Some Poisoned)"

inductive_simps effect_simps:
  "effect (RCreate q) r v v'" "effect (RStart q) r v v'" "effect (RKill q) r v v'" "effect (RDelete q) r v v'"
  "effect (RWait q) r v v'" "effect (RState q) r v v'" "effect (RStats q) r v v'" "effect (RConnect q) r v v'"

text \<open>A request that is not admitted fails and changes nothing.\<close>

definition contract :: "request \<Rightarrow> (ttrpc_error, response) res \<Rightarrow> view option \<Rightarrow> view option \<Rightarrow> bool" where
  "contract q r v v' \<longleftrightarrow> (if admissible q v then effect q r v v' else failed r \<and> v' = v)"

section \<open>The two transition systems\<close>

datatype observation = Served request "(ttrpc_error, response) res" | Waiter string u32 | Elsewhere

inductive spec_step :: "(string \<rightharpoonup> view) \<Rightarrow> observation \<Rightarrow> (string \<rightharpoonup> view) \<Rightarrow> bool" where
  spec_request: "request_id q = Some c \<Longrightarrow> contract q r (M c) v \<Longrightarrow> spec_step M (Served q r) (M(c := v))"
| spec_shutdown: "spec_step M (Served RShutdown (Ok EmptyResponse)) M"
| spec_exit: "M c = Some (Live st (Some p)) \<Longrightarrow> spec_step M (Waiter x p) (M(c \<mapsto> Live Exited (Some p)))"
| spec_no_exit: "spec_step M (Waiter x p) M"
| spec_elsewhere: "spec_step M Elsewhere M"

inductive service_shows ::
  "(shim_error \<Rightarrow> string) \<Rightarrow> 'w shim_os \<Rightarrow> ('i, 'w) instance_impl \<Rightarrow>
   ('i, 'w) shim \<Rightarrow> observation \<Rightarrow> ('i, 'w) shim \<Rightarrow> bool"
  for sd os T where
  shows_request: "answer sd os T q s = (r, t) \<Longrightarrow> r \<noteq> Blocked \<Longrightarrow> service_shows sd os T s (Served q r) t"
| shows_waiter: "(a, c, p) \<in> set (wait_threads s) \<Longrightarrow> finish_waiter T (a, c, p) s = Some t \<Longrightarrow>
    service_shows sd os T s (Waiter c p) t"
| shows_elsewhere: "service_shows sd os T s Elsewhere (s\<lparr>world := w\<rparr>)"

inductive trace :: "('s \<Rightarrow> 'l \<Rightarrow> 's \<Rightarrow> bool) \<Rightarrow> 's \<Rightarrow> 'l list \<Rightarrow> 's \<Rightarrow> bool" for step s where
  trace_start: "trace step s [] s"
| trace_step: "trace step s ls t \<Longrightarrow> step t l u \<Longrightarrow> trace step s (ls @ [l]) u"

section \<open>The methods of a task\<close>

text \<open>What each method that takes the lock does to the phase of its task.\<close>

lemma failed_simps [simp]: "\<not> failed (Ok a)" "failed (Err e)" "failed (Panic p)" "\<not> failed Blocked"
  by (simp_all add: failed_def)

lemma data_start_view:
  assumes "data_start T (d, w) = (r, (d', w'))" and "r \<noteq> Blocked" and "data_inv d"
  shows "if view_of d = Live Created None
    then (case r of Ok p \<Rightarrow> view_of d' = Live Started (Some p) | Err _ \<Rightarrow> view_of d' = Live Exited None | _ \<Rightarrow> view_of d' = Poisoned)
    else failed r \<and> d' = d"
proof (cases "id_poisoned d \<or> id_state d \<noteq> Created")
  case True
  then have "failed r" "d' = d"
    using assms(1) data_start_refused [of d T w]
    by (cases "id_poisoned d"; auto simp: data_start_def write_lock_poisoned)+
  with True show ?thesis by (auto simp: view_of_def)
next
  case False
  obtain r1 w1 where "inst_start T (id_instance d) w = (r1, w1)" by (metis prod.exhaust)
  with False assms show ?thesis
    by (cases r1) (auto simp: data_start_def data_base_defs act_defs task_state_defs data_inv_def view_of_def)
qed

lemma data_kill_view:
  assumes "data_kill T sig (d, w) = (r, (d', w'))" and "r \<noteq> Blocked"
  shows "if \<exists>p. view_of d = Live Started p
    then (case r of Panic _ \<Rightarrow> view_of d' = Poisoned | _ \<Rightarrow> d' = d) else failed r \<and> d' = d"
proof (cases "id_poisoned d \<or> id_state d \<noteq> Started")
  case True
  then have "failed r" "d' = d"
    using assms(1) data_kill_refused [of d T sig w]
    by (cases "id_poisoned d"; auto simp: data_kill_def write_lock_poisoned)+
  with True show ?thesis by (auto simp: view_of_def)
next
  case False
  obtain r1 w1 where "inst_kill T (id_instance d) sig w = (r1, w1)" by (metis prod.exhaust)
  with False assms instance_data_same_state [of d] show ?thesis
    by (cases r1) (auto simp: data_kill_def data_base_defs act_defs task_state_defs view_of_def)
qed

lemma data_delete_view:
  assumes "data_delete T (d, w) = (r, (d', w'))" and "r \<noteq> Blocked"
  shows "if \<exists>p. view_of d = Live Created p \<or> view_of d = Live Exited p
    then (case r of Ok _ \<Rightarrow> view_of d' = Live Deleting (id_pid d) | Err _ \<Rightarrow> view_of d' = Live Exited (id_pid d)
      | _ \<Rightarrow> view_of d' = Poisoned) \<and> id_pid d' = id_pid d
    else failed r \<and> d' = d"
proof (cases "id_poisoned d \<or> id_state d \<notin> {Created, Exited}")
  case True
  then have "failed r" "d' = d"
    using assms(1) data_delete_refused [of d T w]
    by (cases "id_poisoned d"; auto simp: data_delete_def write_lock_poisoned)+
  with True show ?thesis by (auto simp: view_of_def)
next
  case False
  obtain r1 w1 where "inst_delete T (id_instance d) w = (r1, w1)" by (metis prod.exhaust)
  with False assms show ?thesis
    by (cases r1) (auto simp: data_delete_def data_base_defs act_defs task_state_defs view_of_def)
qed

lemma data_wait_view:
  assumes "data_wait T (d, w) = (r, (d', w'))" and "r \<noteq> Blocked"
  shows "if failed r then d' = d else \<not> id_poisoned d \<and> d' = d\<lparr>id_state := Exited\<rparr>"
proof -
  obtain r1 w1 where "inst_wait T (id_instance d) w = (r1, w1)" by (metis prod.exhaust)
  with assms show ?thesis
    by (cases r1) (auto simp: data_wait_def data_base_defs act_defs split: if_splits)
qed

lemma data_wait_timeout_view:
  assumes "data_wait_timeout T x (d, w) = (r, (d', w'))" and "r \<noteq> Blocked"
  shows "case r of Ok (Some _) \<Rightarrow> \<not> id_poisoned d \<and> d' = d\<lparr>id_state := Exited\<rparr> | _ \<Rightarrow> d' = d"
proof -
  obtain r1 w1 where "inst_wait_timeout T (id_instance d) x w = (r1, w1)" by (metis prod.exhaust)
  with assms show ?thesis
    by (cases r1) (auto simp: data_wait_timeout_def data_base_defs act_defs split: if_splits option.splits)
qed

section \<open>The handlers keep the contract\<close>

lemma refused: "\<not> admissible q v \<Longrightarrow> failed r \<Longrightarrow> contract q r v v"
  by (simp add: contract_def)

lemma failed_map_res [simp]: "failed (map_res f g r) = failed r"
  by (cases r) simp_all

lemma get_instance_apply: "get_instance c s = (case instances s c of None \<Rightarrow> (Err (NotFound c), s) | Some a \<Rightarrow> (Ok a, s))"
  by (simp add: get_instance_def split: option.split)

text \<open>A handler that looks up its id and goes on with the task of it.\<close>

lemma handler_cases:
  assumes "act_bind (get_instance c) f s = (r, t)" and "shim_inv s"
  obtains (unknown) "abs_tasks s c = None" "r = Err (NotFound c)" "t = s"
    | (known) a d where "instances s c = Some a" "arcs s a = Some d" "data_inv d"
        "abs_tasks s c = Some (view_of d)" "f a s = (r, t)"
proof (cases "instances s c")
  case None
  with assms show ?thesis by (intro unknown) (auto simp: get_instance_apply act_bind_def abs_tasks_def)
next
  case (Some a)
  with shim_inv_instanceD [OF assms(2)] obtain d where d: "arcs s a = Some d" by blast
  with assms Some shim_inv_arcD [OF assms(2) d] show ?thesis
    by (intro known [of a d]) (simp_all add: get_instance_apply act_bind_def abs_tasks_def)
qed

lemma in_data_known:
  "arcs s a = Some d \<Longrightarrow> m (d, world s) = (r, (d', w)) \<Longrightarrow>
   in_data a m s = (r, s\<lparr>arcs := (arcs s)(a \<mapsto> d'), world := w\<rparr>)"
  by (simp add: in_data_def)

lemma abs_tasks_known:
  "instances s c = Some a \<Longrightarrow> abs_tasks (s\<lparr>arcs := (arcs s)(a \<mapsto> d'), world := w\<rparr>) c = Some (view_of d')"
  by (simp add: abs_tasks_def)

lemma start_rest:
  assumes "act_bind (send_event e) (\<lambda>_. act_bind (spawn_wait_thread os th) (\<lambda>_. ret p)) s = (r, t)" and "r \<noteq> Blocked"
  shows "abs_tasks t = abs_tasks s \<and> (r = Ok p \<or> failed r)"
proof -
  obtain r1 w1 where "os_spawn_thread os (fst (snd th) @ ''-wait'') (world s) = (r1, w1)" by (metis prod.exhaust)
  with assms show ?thesis
    by (cases r1) (auto simp: send_event_def spawn_wait_thread_def in_world_def act_bind_def act_map_err_def)
qed

lemma start_contract:
  assumes "task_start os T q s = (r, t)" and "r \<noteq> Blocked" and inv: "shim_inv s"
  shows "contract (RStart q) (map_res g PidResponse r) (abs_tasks s (rq_id q)) (abs_tasks t (rq_id q))"
proof (cases "rq_exec_id q = []")
  case True
  let ?rest = "\<lambda>i pid. act_bind (send_event (TaskStart (rq_id q) pid)) (\<lambda>_.
      act_bind (spawn_wait_thread os (i, rq_id q, pid)) (\<lambda>_. ret pid))"
  have run: "act_bind (get_instance (rq_id q)) (\<lambda>i. act_bind (in_data i (data_start T)) (?rest i)) s = (r, t)"
    using assms(1) True by (simp add: task_start_def)
  from run inv show ?thesis
  proof (cases rule: handler_cases)
    case (known a d)
    obtain r1 d' w1 where m: "data_start T (d, world s) = (r1, (d', w1))" by (metis prod_cases3)
    let ?u = "s\<lparr>arcs := (arcs s)(a \<mapsto> d'), world := w1\<rparr>"
    have u: "act_bind (in_data a (data_start T)) (?rest a) s = (case r1 of
        Ok p \<Rightarrow> ?rest a p ?u | Err e \<Rightarrow> (Err e, ?u) | Panic e \<Rightarrow> (Panic e, ?u) | Blocked \<Rightarrow> (Blocked, ?u))"
      using in_data_known [of s a d "data_start T", OF known(2) m] by (cases r1) (simp_all add: act_bind_eq)
    have "r1 \<noteq> Blocked" using u known(5) assms(2) by auto
    note v = data_start_view [OF m this known(3)]
    have p: "abs_tasks t = abs_tasks ?u \<and> (r = Ok p \<or> failed r)" if "r1 = Ok p" for p
      using start_rest [of _ os _ p ?u r t] u known(5) assms(2) that by simp
    have t: "abs_tasks t (rq_id q) = Some (view_of d')"
      using abs_tasks_known [OF known(1), where d' = d' and w = w1] p u known(5) \<open>r1 \<noteq> Blocked\<close> by (cases r1) auto
    show ?thesis
      using v p u known(4,5) t True \<open>r1 \<noteq> Blocked\<close>
      by (cases r1) (auto simp: contract_def view_of_def split: if_splits intro: effect.intros)
  qed (simp add: refused)
qed (use assms in \<open>auto simp: task_start_def intro: refused\<close>)

lemma kill_contract:
  assumes "task_kill T q s = (r, t)" and "r \<noteq> Blocked" and inv: "shim_inv s"
  shows "contract (RKill q) (map_res g (\<lambda>_. EmptyResponse) r) (abs_tasks s (rq_id q)) (abs_tasks t (rq_id q))"
proof (cases "rq_exec_id q = []")
  case True
  have run: "act_bind (get_instance (rq_id q)) (\<lambda>i. act_bind (in_data i (data_kill T (rq_signal q))) (\<lambda>_. ret ())) s = (r, t)"
    using assms(1) True by (simp add: task_kill_def)
  from run inv show ?thesis
  proof (cases rule: handler_cases)
    case (known a d)
    obtain r1 d' w1 where m: "data_kill T (rq_signal q) (d, world s) = (r1, (d', w1))" by (metis prod_cases3)
    have u: "r = r1" "t = s\<lparr>arcs := (arcs s)(a \<mapsto> d'), world := w1\<rparr>"
      using in_data_known [of s a d "data_kill T (rq_signal q)", OF known(2) m] known(5)
      by (auto simp: act_bind_def split: res.splits)
    with data_kill_view [OF m] assms(2) known(4) abs_tasks_known [OF known(1), where d' = d' and w = w1] True
    show ?thesis
      by (cases r1) (auto simp: contract_def split: if_splits intro: effect.intros)
  qed (simp add: refused)
qed (use assms in \<open>auto simp: task_kill_def intro: refused\<close>)

lemma wait_contract:
  assumes "task_wait T q s = (r, t)" and "r \<noteq> Blocked" and inv: "shim_inv s"
  shows "contract (RWait q) (map_res g WaitResponse r) (abs_tasks s (rq_id q)) (abs_tasks t (rq_id q))"
proof (cases "rq_exec_id q = []")
  case True
  have run: "act_bind (get_instance (rq_id q)) (\<lambda>i. act_bind (in_data i (data_wait T)) (\<lambda>x.
      ret \<lparr>wr_exit_status = fst x, wr_exited_at = Some (to_timestamp (snd x))\<rparr>)) s = (r, t)"
    using assms(1) True by (simp add: task_wait_def split_def)
  from run inv show ?thesis
  proof (cases rule: handler_cases)
    case (known a d)
    obtain r1 d' w1 where m: "data_wait T (d, world s) = (r1, (d', w1))" by (metis prod_cases3)
    have u: "failed r = failed r1" "r1 \<noteq> Blocked" "t = s\<lparr>arcs := (arcs s)(a \<mapsto> d'), world := w1\<rparr>"
      using in_data_known [of s a d "data_wait T", OF known(2) m] known(5) assms(2)
      by (auto simp: act_bind_def split: res.splits)
    with data_wait_view [OF m] assms(2) known(4) abs_tasks_known [OF known(1), where d' = d' and w = w1] True
    show ?thesis
      by (cases r) (auto simp: contract_def view_of_def split: if_splits intro: effect.intros)
  qed (simp add: refused)
qed (use assms in \<open>auto simp: task_wait_def intro: refused\<close>)

lemma state_contract:
  assumes "task_state T q s = (r, t)" and "r \<noteq> Blocked" and inv: "shim_inv s"
  shows "contract (RState q) (map_res g StateResponse r) (abs_tasks s (rq_id q)) (abs_tasks t (rq_id q))"
proof (cases "rq_exec_id q = []")
  case True
  have run: "act_bind (get_instance (rq_id q)) (\<lambda>i.
      act_bind (in_data i data_pid) (\<lambda>pid.
      act_bind (in_data i (data_wait_timeout T (Some DurationZero))) (\<lambda>x.
      act_bind (in_data i data_config) (\<lambda>cfg.
      ret \<lparr>sr_bundle = cfg_bundle cfg, sr_stdin = cfg_stdin cfg, sr_stdout = cfg_stdout cfg,
           sr_stderr = cfg_stderr cfg, sr_pid = unwrap_or 0 pid,
           sr_exit_status = unwrap_or 0 (exit_code_of x), sr_exited_at = exit_time_of x,
           sr_status = status_of pid (exit_code_of x)\<rparr>)))) s = (r, t)"
    using assms(1) True by (simp add: task_state_def)
  from run inv show ?thesis
  proof (cases rule: handler_cases)
    case (known a d)
    obtain r1 d' w1 where m: "data_wait_timeout T (Some DurationZero) (d, world s) = (r1, (d', w1))"
      by (metis prod_cases3)
    have same: "s\<lparr>arcs := (arcs s)(a \<mapsto> d), world := world s\<rparr> = s" using known(2) by (simp add: fun_upd_idem)
    have u: "t = s\<lparr>arcs := (arcs s)(a \<mapsto> d'), world := w1\<rparr> \<and> r1 \<noteq> Blocked \<and> (case r1 of
        Ok x \<Rightarrow> (\<exists>y. r = Ok y \<and> sr_pid y = unwrap_or 0 (id_pid d) \<and> sr_exited_at y = exit_time_of x \<and>
          sr_status y = status_of (id_pid d) (exit_code_of x))
      | _ \<Rightarrow> failed r)"
      using known(2,5) m assms(2) same
      by (cases r1) (auto simp: act_bind_def data_pid_def data_config_def get_data_def in_data_def)
    show ?thesis
      using data_wait_timeout_view [OF m] u known(4) abs_tasks_known [OF known(1), where d' = d' and w = w1] True
      by (auto simp: contract_def view_of_def exit_time_of_def exit_code_of_def status_of_def
          effect_simps split: res.splits option.splits)
  qed (simp add: refused)
qed (use assms in \<open>auto simp: task_state_def intro: refused\<close>)

lemma delete_contract:
  assumes "task_delete T q s = (r, t)" and "r \<noteq> Blocked" and inv: "shim_inv s"
  shows "contract (RDelete q) (map_res g DeleteResponse r) (abs_tasks s (rq_id q)) (abs_tasks t (rq_id q))"
proof (cases "rq_exec_id q = []")
  case True
  let ?rest = "\<lambda>i. act_bind (in_data i data_pid) (\<lambda>p.
      act_bind (in_data i (data_wait_timeout T (Some DurationZero))) (\<lambda>x.
      act_bind (remove_instance (rq_id q)) (\<lambda>_.
      act_bind (send_event (TaskDelete (rq_id q) (unwrap_or 0 p) (unwrap_or 0 (exit_code_of x)) (exit_time_of x))) (\<lambda>_.
      ret \<lparr>dr_pid = unwrap_or 0 p, dr_exit_status = unwrap_or 0 (exit_code_of x), dr_exited_at = exit_time_of x\<rparr>))))"
  have run: "act_bind (get_instance (rq_id q)) (\<lambda>i. act_bind (in_data i (data_delete T)) (\<lambda>_. ?rest i)) s = (r, t)"
    using assms(1) True by (simp add: task_delete_def Let_def)
  from run inv show ?thesis
  proof (cases rule: handler_cases)
    case (known a d)
    obtain r1 d' w1 where m: "data_delete T (d, world s) = (r1, (d', w1))" by (metis prod_cases3)
    let ?u = "s\<lparr>arcs := (arcs s)(a \<mapsto> d'), world := w1\<rparr>"
    have u: "act_bind (in_data a (data_delete T)) (\<lambda>_. ?rest a) s = (case r1 of
        Ok p \<Rightarrow> ?rest a ?u | Err e \<Rightarrow> (Err e, ?u) | Panic e \<Rightarrow> (Panic e, ?u) | Blocked \<Rightarrow> (Blocked, ?u))"
      using in_data_known [of s a d "data_delete T", OF known(2) m] by (cases r1) (simp_all add: act_bind_eq)
    have "r1 \<noteq> Blocked" using u known(5) assms(2) by auto
    note v = data_delete_view [OF m this]
    have ok: "(abs_tasks t (rq_id q) = None \<and> (\<exists>y. r = Ok y \<and> dr_pid y = unwrap_or 0 (id_pid d'))) \<or>
        (abs_tasks t (rq_id q) = Some (view_of d') \<and> failed r)" if "r1 = Ok x" for x
    proof -
      obtain r2 d2 w2 where m2: "data_wait_timeout T (Some DurationZero) (d', w1) = (r2, (d2, w2))"
        by (metis prod_cases3)
      have "?rest a ?u = (r, t)" using u known(5) that by simp
      with m2 known(1) assms(2) data_wait_timeout_view [OF m2] show ?thesis
        by (cases r2) (auto simp: act_bind_def data_pid_def get_data_def in_data_def remove_instance_def
            send_event_def abs_tasks_def)
    qed
    show ?thesis
      using v ok u known(4,5) abs_tasks_known [OF known(1), where d' = d' and w = w1] True \<open>r1 \<noteq> Blocked\<close>
      by (cases r1) (auto simp: contract_def view_of_def effect_simps split: if_splits)
  qed (simp add: refused)
qed (use assms in \<open>auto simp: task_delete_def intro: refused\<close>)

lemma stats_contract:
  assumes "task_stats os q s = (r, t)" and "r \<noteq> Blocked" and inv: "shim_inv s"
  shows "contract (RStats q) (map_res g StatsResponse r) (abs_tasks s (rq_id q)) (abs_tasks t (rq_id q))"
proof -
  from assms(1) inv show ?thesis
    unfolding task_stats_def
  proof (cases rule: handler_cases)
    case (known a d)
    have same: "s\<lparr>arcs := (arcs s)(a \<mapsto> d), world := world s\<rparr> = s" using known(2) by (simp add: fun_upd_idem)
    have u: "abs_tasks t = abs_tasks s \<and> (id_pid d = None \<longrightarrow> failed r)"
      using known(2,5) same
      by (cases "id_pid d"; cases "get_metrics os (the (id_pid d)) (world s)")
        (auto simp: act_bind_def data_pid_def get_data_def in_data_def in_world_def act_map_err_def)
    with known(4) assms(2) show ?thesis
      by (cases r) (auto simp: contract_def view_of_def split: if_splits intro: effect.intros)
  qed (simp add: refused)
qed

lemma connect_contract:
  assumes "svc_connect sd os q s = (r, t)" and "r \<noteq> Blocked" and inv: "shim_inv s"
  shows "contract (RConnect q) (map_res id ConnectResponse r) (abs_tasks s (rq_id q)) (abs_tasks t (rq_id q))"
proof -
  obtain r0 where "act_bind (get_instance (rq_id q)) (\<lambda>i. act_bind (in_data i data_pid) (\<lambda>p.
      ret (os_process_id os, unwrap_or 0 p))) s = (r0, t)" and r: "r = map_err (to_ttrpc sd) r0"
    using assms(1) by (auto simp: svc_connect_def act_map_err_def split: prod.splits)
  from this(1) inv show ?thesis
  proof (cases rule: handler_cases)
    case (known a d)
    have same: "s\<lparr>arcs := (arcs s)(a \<mapsto> d), world := world s\<rparr> = s" using known(2) by (simp add: fun_upd_idem)
    have "t = s \<and> r0 = Ok (os_process_id os, unwrap_or 0 (id_pid d))"
      using known(2,5) same by (auto simp: act_bind_def data_pid_def get_data_def in_data_def)
    with known(4) r show ?thesis
      by (auto simp: contract_def view_of_def intro: effect.intros)
  qed (simp add: refused r)
qed

lemma create_contract:
  assumes "task_create os T q s = (r, t)" and "r \<noteq> Blocked" and inv: "shim_inv s"
  shows "contract (RCreate q) (map_res g PidResponse r) (abs_tasks s (cr_id q)) (abs_tasks t (cr_id q))"
proof (cases "cr_checkpoint q = [] \<and> cr_parent_checkpoint q = [] \<and> \<not> cr_terminal q \<and> instances s (cr_id q) = None")
  case False
  moreover from inv have "abs_tasks s (cr_id q) = None \<longleftrightarrow> instances s (cr_id q) = None"
    by (auto simp: abs_tasks_def dest: shim_inv_instanceD split: option.split)
  ultimately show ?thesis using create_refuses [OF False, of os T] assms(1) by (auto intro!: refused)
next
  case True
  then have free: "abs_tasks s (cr_id q) = None" by (simp add: abs_tasks_def)
  from assms(1,2) show ?thesis
  proof (cases rule: task_create_cases)
    case refused
    then have "abs_tasks t = abs_tasks s" by (intro abs_tasks_cong) (simp_all add: unchanged_def instances_def)
    with refused free True assms(2) show ?thesis by (cases r) (auto simp: contract_def intro: effect.intros)
  next
    case (hooks spec v h)
    from hooks(1) obtain d where "instances t (cr_id q) = Some (next_arc s)" "arcs t (next_arc s) = Some d"
        "view_of d = Live Created None"
      by (auto simp: created_def view_of_def)
    then have "abs_tasks t (cr_id q) = Some (Live Created None)" by (simp add: abs_tasks_def)
    with hooks(2) free True assms(2) show ?thesis by (cases h) (auto simp: contract_def intro: effect.intros)
  qed
qed

section \<open>Waiters know the id of their task\<close>

definition named :: "('i, 'w) shim \<Rightarrow> bool" where
  "named s \<longleftrightarrow> (\<forall>a c p x. (a, c, p) \<in> set (wait_threads s) \<longrightarrow> instances s x = Some a \<longrightarrow> x = c) \<and>
     (\<forall>th \<in> set (wait_threads s). fst th < next_arc s) \<and>
     (\<forall>x a. instances s x = Some a \<longrightarrow> a < next_arc s) \<and>
     (\<forall>x y a. instances s x = Some a \<longrightarrow> instances s y = Some a \<longrightarrow> x = y)"

definition named_at :: "string \<Rightarrow> nat \<Rightarrow> ('i, 'w) shim \<Rightarrow> bool" where
  "named_at c i s \<longleftrightarrow> named s \<and> instances s c = Some i"

lemma named_same:
  assumes "\<And>s r t. m s = (r, t) \<Longrightarrow> instances t = instances s \<and> wait_threads t = wait_threads s \<and> next_arc t = next_arc s"
  shows "keeps named m" "keeps (named_at c i) m"
  by (intro keepsI; use assms in \<open>fastforce simp: named_def named_at_def\<close>)+

lemma named_primitives:
  "keeps named (in_world f)" "keeps named (in_data a m)" "keeps named (send_event e)" "keeps named (read_shim g)"
  "keeps named (get_instance c)" "keeps (named_at c i) (in_data a m)" "keeps (named_at c i) (send_event e)"
  by (rule named_same; auto simp: local_base_defs split: prod.splits option.splits)+

lemma named_mount_all: "keeps named (mount_all os rootfs ms)"
  unfolding mount_all_def by (intro keeps_for_each keeps_map_err named_primitives)

lemma named_registry:
  "keeps named (insert_instance c d)" "keeps named (remove_instance c)"
  by (rule keepsI; fastforce simp: named_def insert_instance_def remove_instance_def less_Suc_eq split: if_splits)+

lemma named_register: "keeps named (register_instance T c cfg)"
  unfolding register_instance_def by (intro keeps_bind named_primitives named_registry)

lemma spawn_wait_thread_state:
  "\<exists>w. snd (spawn_wait_thread os th s) \<in> {s\<lparr>world := w\<rparr>, s\<lparr>world := w, wait_threads := wait_threads s @ [th]\<rparr>}"
  by (auto simp: spawn_wait_thread_def in_world_def act_bind_def act_map_err_def split: prod.split res.split)

lemma named_spawn: "triple (named_at c i) (spawn_wait_thread os (i, c, p)) (\<lambda>_. named) named"
proof -
  have "named (snd (spawn_wait_thread os (i, c, p) s))" if "named_at c i s" for s :: "('a, 'b) shim"
  proof -
    from spawn_wait_thread_state [of os "(i, c, p)" s] obtain w
      where "snd (spawn_wait_thread os (i, c, p) s) \<in> {s\<lparr>world := w\<rparr>, s\<lparr>world := w, wait_threads := wait_threads s @ [(i, c, p)]\<rparr>}"
      by blast
    moreover have "named (s\<lparr>world := w, wait_threads := wait_threads s @ [(i, c, p)]\<rparr>)"
      using that unfolding named_at_def named_def by (simp; blast)
    moreover have "named (s\<lparr>world := w\<rparr>)" using that by (simp add: named_at_def named_def)
    ultimately show ?thesis by auto
  qed
  then show ?thesis by (intro tripleI; metis snd_conv)
qed

lemma named_at_bind:
  assumes "keeps (named_at c i) m" and "\<And>a. triple (named_at c i) (f a) Q named"
  shows "triple (named_at c i) (act_bind m f) Q named"
  by (rule triple_bind [OF triple_of_keeps [OF assms(1)] assms(2)]) (simp add: named_at_def)

lemma named_task_start: "keeps named (task_start os T q)"
proof -
  have "triple named (get_instance (rq_id q)) (named_at (rq_id q)) named"
    by (rule tripleI) (auto simp: get_instance_def named_at_def elim: ok_or.elims)
  then have "keeps named (act_bind (get_instance (rq_id q)) (\<lambda>i.
      act_bind (in_data i (data_start T)) (\<lambda>pid.
      act_bind (send_event (TaskStart (rq_id q) pid)) (\<lambda>_.
      act_bind (spawn_wait_thread os (i, rq_id q, pid)) (\<lambda>_. ret pid)))))"
    unfolding keeps_def
    by (rule triple_bind) (intro named_at_bind named_primitives triple_bind [OF named_spawn] triple_ret)
  then show ?thesis unfolding task_start_def by (intro keeps_if keeps_pure)
qed

lemma named_handlers:
  "keeps named (task_create os T creq)" "keeps named (task_kill T kreq)" "keeps named (task_delete T q)"
  "keeps named (task_wait T q)" "keeps named (task_state T q)" "keeps named (task_stats os q)"
  "keeps named (svc_connect sd os q)"
  unfolding task_create_def task_kill_def task_delete_def task_wait_def task_state_def task_stats_def
    svc_connect_def split_def Let_def
  by (intro keeps_if keeps_pure keeps_bind keeps_map_err keeps_ignore_result named_primitives named_registry
      named_register named_mount_all)+

lemma named_shutdown: "keeps named svc_shutdown"
  by (rule keepsI) (auto simp: svc_shutdown_def named_def)

lemma named_handle: "handle sd os T q s = Some t \<Longrightarrow> named s \<Longrightarrow> named t"
  by (erule handle_keeps) (assumption | rule named_task_start named_handlers named_shutdown)+

section \<open>The service refines its contract\<close>

lemma answer_with_map_err:
  "answer_with f (act_map_err g m) s = (map_res g f (fst (m s)), snd (m s))"
  by (cases "m s"; cases "fst (m s)") (simp_all add: answer_with_def act_bind_def act_map_err_def)

lemma answer_with_apply: "answer_with f m s = (map_res id f (fst (m s)), snd (m s))"
  by (cases "m s"; cases "fst (m s)") (simp_all add: answer_with_def act_bind_def)

lemma map_res_Blocked [simp]: "map_res f g r = Blocked \<longleftrightarrow> r = Blocked"
  by (cases r) simp_all

lemma run_act_of_answer: "answer_with f m s = (r, t) \<Longrightarrow> r \<noteq> Blocked \<Longrightarrow> run_act m s = Some t"
  by (cases "m s"; cases "fst (m s)") (auto simp: answer_with_apply run_act_def)

lemma handle_of_answer: "answer sd os T q s = (r, t) \<Longrightarrow> r \<noteq> Blocked \<Longrightarrow> handle sd os T q s = Some t"
  by (cases q) (auto intro: run_act_of_answer)

lemma answered:
  assumes "answer_with f (act_map_err g m) s = (r, t)" and "r \<noteq> Blocked"
  obtains r1 where "m s = (r1, t)" and "r1 \<noteq> Blocked" and "r = map_res g f r1"
  using assms by (cases "m s") (auto simp: answer_with_map_err)

lemma answer_contract:
  assumes "answer sd os T q s = (r, t)" and "r \<noteq> Blocked" and inv: "shim_inv s" and "request_id q = Some c"
  shows "contract q r (abs_tasks s c) (abs_tasks t c)"
proof (cases q)
  case (RConnect x)
  obtain r1 where "svc_connect sd os x s = (r1, t)" "r1 \<noteq> Blocked" "r = map_res id ConnectResponse r1"
    using assms(1,2) RConnect by (cases "svc_connect sd os x s") (auto simp: answer_with_apply)
  with connect_contract inv assms(4) RConnect show ?thesis by fastforce
qed (use assms in \<open>auto simp: service_defs(1-7) elim!: answered intro: create_contract start_contract
    kill_contract delete_contract wait_contract state_contract stats_contract\<close>)

lemma waiter_spec_step:
  assumes inv: "shim_inv s" and named: "named s" and th: "(a, c, p) \<in> set (wait_threads s)"
    and fin: "finish_waiter T (a, c, p) s = Some t"
  shows "spec_step (abs_tasks s) (Waiter c p) (abs_tasks t) \<and> named t"
proof -
  from fin obtain r u evs where u: "in_data a (data_wait T) s = (r, u)" "r \<noteq> Blocked"
    and t: "t = u\<lparr>events := events u @ evs, wait_threads := remove1 (a, c, p) (wait_threads u)\<rparr>"
    by (rule finish_waiter_cases)
  from shim_inv_waiterD [OF inv th] obtain d where d: "arcs s a = Some d" "id_pid d = Some p" by blast
  obtain d' w where m: "data_wait T (d, world s) = (r, (d', w))"
    and u': "u = s\<lparr>arcs := (arcs s)(a \<mapsto> d'), world := w\<rparr>"
    using u(1) d by (cases rule: in_data_cases) auto
  have "named t"
    using named set_remove1_subset [of "(a, c, p)" "wait_threads s"] unfolding t u' named_def by simp blast
  moreover have "spec_step (abs_tasks s) (Waiter c p) (abs_tasks t)"
  proof (cases "instances s c = Some a")
    case True
    have at: "abs_tasks t = (abs_tasks s)(c \<mapsto> view_of d')"
      using abs_tasks_update [OF inv True] by (simp add: t u')
    have "abs_tasks s c = Some (view_of d)" using True d(1) by (simp add: abs_tasks_def)
    with data_wait_view [OF m u(2)] show ?thesis
      unfolding at using d(2)
      by (cases "failed r") (auto simp: fun_upd_idem view_of_def intro: spec_no_exit spec_exit)
  next
    case False
    with named th have "\<nexists>x. instances s x = Some a" unfolding named_def by metis
    from abs_tasks_unregistered [OF this] show ?thesis unfolding t u' by (simp add: spec_no_exit)
  qed
  ultimately show ?thesis by blast
qed

lemma service_shows_spec:
  assumes "service_shows sd os T s l t" and "shim_inv s" and "named s"
  shows "spec_step (abs_tasks s) l (abs_tasks t) \<and> shim_inv t \<and> named t"
  using assms
proof (induction rule: service_shows.induct)
  case (shows_request q s r t)
  note h = handle_of_answer [OF shows_request(1,2)]
  have "spec_step (abs_tasks s) (Served q r) (abs_tasks t)"
  proof (cases "request_id q")
    case None
    then have "q = RShutdown" by (cases q) simp_all
    with shows_request(1) have "r = Ok EmptyResponse" "abs_tasks t = abs_tasks s"
      by (auto simp: answer_with_apply svc_shutdown_def split: if_splits)
    with \<open>q = RShutdown\<close> show ?thesis by (simp add: spec_shutdown)
  next
    case (Some c)
    have "abs_tasks t = (abs_tasks s)(c := abs_tasks t c)"
      using handle_isolated [OF shows_request(3) h] Some by (intro ext) simp
    moreover from spec_request [of q c r "abs_tasks s", OF Some answer_contract [OF shows_request(1,2,3) Some]]
    have "spec_step (abs_tasks s) (Served q r) ((abs_tasks s)(c := abs_tasks t c))" .
    ultimately show ?thesis by simp
  qed
  with handle_inv [OF h] named_handle [OF h] shows_request(3,4) show ?case by simp
next
  case (shows_waiter a c p s t)
  then show ?case using waiter_spec_step finish_waiter_inv by metis
next
  case (shows_elsewhere s w)
  then show ?case by (simp add: spec_elsewhere named_def)
qed

lemma trace_refines:
  assumes "trace (service_shows sd os T) s ls t" and "shim_inv s" and "named s"
  shows "trace spec_step (abs_tasks s) ls (abs_tasks t) \<and> shim_inv t \<and> named t"
  using assms(1)
proof (induction rule: trace.induct)
  case trace_start
  with assms(2,3) show ?case by (simp add: trace.trace_start)
next
  case (trace_step ls t l u)
  with service_shows_spec [OF trace_step(2)] show ?case by (blast intro: trace.trace_step)
qed

text \<open>
  C3. The service refines its contract: what a client can see of a run from the start, the requests
  with their responses and the ends of the waiters, is a run of the abstract service over the map
  from ids to phases, and that run ends in the phases of the service's tasks. So a task is only
  started from \<open>Created\<close> and has the pid of the answer from then on, only one that runs is
  killed, only a created or exited one is deleted and its id is free again, a \<open>wait\<close> that is
  answered leaves it exited, and a request that is refused changes nothing.
\<close>

theorem service_refines_contract:
  assumes "trace (service_shows sd os T) (local_new namespace containerd_address w) ls s"
  shows "trace spec_step Map.empty ls (abs_tasks s)"
proof -
  have "abs_tasks (local_new namespace containerd_address w :: ('a, 'b) shim) = Map.empty"
    by (intro ext) (simp add: abs_tasks_def local_new_def instances_def)
  moreover have "named (local_new namespace containerd_address w :: ('a, 'b) shim)"
    by (simp add: named_def local_new_def instances_def)
  ultimately show ?thesis using trace_refines [OF assms shim_inv_new] by simp
qed

text \<open>A task is created, started, killed and waited for.\<close>

definition demo_served :: "request list" where
  "demo_served = [RCreate (demo_create ''a''), RStart (demo_req ''a''), RKill (demo_kill ''a''), RWait (demo_req ''a'')]"

text \<open>The responses to a list of requests, and the state after them.\<close>

primrec serve_all ::
  "(shim_error \<Rightarrow> string) \<Rightarrow> 'w shim_os \<Rightarrow> ('i, 'w) instance_impl \<Rightarrow> request list \<Rightarrow>
   observation list \<times> ('i, 'w) shim \<Rightarrow> observation list \<times> ('i, 'w) shim" where
  "serve_all sd os T [] x = x"
| "serve_all sd os T (q # qs) x =
     (case answer sd os T q (snd x) of (r, t) \<Rightarrow> serve_all sd os T qs (fst x @ [Served q r], t))"

lemma serve_all_trace:
  assumes "trace (service_shows sd os T) s ls t" and "serve_all sd os T qs (ls, t) = (ls', t')"
    and "\<forall>q. Served q Blocked \<notin> set ls'"
  shows "trace (service_shows sd os T) s ls' t'"
  using assms
proof (induction qs arbitrary: ls t)
  case (Cons q qs)
  obtain r u where a: "answer sd os T q t = (r, u)" by (metis prod.exhaust)
  have grow: "set (fst x) \<subseteq> set (fst (serve_all sd os T qs x))" for x :: "observation list \<times> ('a, 'b) shim"
    by (induction qs arbitrary: x) (force split: prod.splits)+
  have "Served q r \<in> set ls'" using grow [of "(ls @ [Served q r], u)"] Cons.prems(2) a by auto
  with Cons.prems(3) have "r \<noteq> Blocked" by auto
  with a have "service_shows sd os T t (Served q r) u" by (rule shows_request)
  with Cons.prems a show ?case by (intro Cons.IH [of "ls @ [Served q r]" u]) (auto intro: trace_step)
qed simp

lemma demo_served_run:
  "(case serve_all demo_sd demo_os demo_T demo_served ([], demo_new) of (ls, s) \<Rightarrow>
     (ls, abs_tasks s ''a'', abs_tasks s ''b'')) =
   (map2 Served demo_served [Ok (PidResponse 7), Ok (PidResponse 42), Ok EmptyResponse,
      Ok (WaitResponse \<lparr>wr_exit_status = 1, wr_exited_at = Some \<lparr>ts_seconds = 5, ts_nanos = 6\<rparr>\<rparr>)],
    Some (Live Exited (Some 42)), None)"
  by code_simp

theorem service_refines_contract_witness:
  "\<exists>M x. trace spec_step Map.empty (map2 Served demo_served
      [Ok (PidResponse 7), Ok (PidResponse 42), Ok EmptyResponse, Ok (WaitResponse x)]) M \<and>
     M ''a'' = Some (Live Exited (Some 42))"
proof -
  obtain ls s where s: "serve_all demo_sd demo_os demo_T demo_served ([], demo_new) = (ls, s)" by (metis prod.exhaust)
  note run = demo_served_run [unfolded s prod.case]
  then have "\<forall>q. Served q Blocked \<notin> set ls" by (auto simp: demo_served_def)
  from serve_all_trace [OF trace_start s this]
  have "trace (service_shows demo_sd demo_os demo_T) demo_new ls s" .
  from service_refines_contract [OF this [unfolded demo_new_def]] run show ?thesis by auto
qed

end
