(* ===== verification/Stress_Service.thy ===== *)
theory Stress_Service
  imports Stress_Tasks Unix_Instance Local_Props
begin

text \<open>
  The stress test against the shim: the client the mock tasks of \<open>mocks/task.rs\<close> call is
  connected to the task service of \<open>sandbox/shim/local.rs\<close>, so a task of the stress test is
  followed through both programs. What the connection adds to a call is the text of the status an
  error arrives with; the rest of the client's operations is given.
\<close>

section \<open>The service behind the client\<close>

definition over_ttrpc :: "(ttrpc_error \<Rightarrow> string) \<Rightarrow> ('s, ttrpc_error, 'a) act \<Rightarrow> ('s, string, unit) act" where
  "over_ttrpc show_status m = act_map_err show_status (act_bind m (\<lambda>_. ret ()))"

definition service_api ::
  "(shim_error \<Rightarrow> string) \<Rightarrow> 'w shim_os \<Rightarrow> ('i, 'w) instance_impl \<Rightarrow> (ttrpc_error \<Rightarrow> string) \<Rightarrow>
   ('i, 'w) shim shim_api \<Rightarrow> ('i, 'w) shim shim_api" where
  "service_api sd os T show_status base = base\<lparr>
     sa_create := (\<lambda>_ req. over_ttrpc show_status (svc_create sd os T req)),
     sa_start := (\<lambda>_ req. over_ttrpc show_status (svc_start sd os T req)),
     sa_wait := (\<lambda>_ req. over_ttrpc show_status (svc_wait sd T req)),
     sa_delete := (\<lambda>_ req. over_ttrpc show_status (svc_delete sd T req)),
     sa_shutdown := (\<lambda>_ now. over_ttrpc show_status svc_shutdown)\<rparr>"

lemma service_api_simps [simp]:
  "sa_wait (service_api sd os T show_status base) a req = over_ttrpc show_status (svc_wait sd T req)"
  "sa_delete (service_api sd os T show_status base) a req = over_ttrpc show_status (svc_delete sd T req)"
  "sa_shutdown (service_api sd os T show_status base) a now = over_ttrpc show_status svc_shutdown"
  by (simp_all add: service_api_def)

lemma over_ttrpc_Ok: "m s = (Ok a, t) \<Longrightarrow> over_ttrpc show_status m s = (Ok (), t)"
  by (simp add: over_ttrpc_def act_map_err_def act_bind_def)

lemma over_ttrpc_Err: "m s = (Err e, t) \<Longrightarrow> over_ttrpc show_status m s = (Err (show_status e), t)"
  by (simp add: over_ttrpc_def act_map_err_def act_bind_def)

text \<open>The drop of the mock shim asks the service to shut down, which it does only without tasks.\<close>

lemma mshim_drop_exit:
  "exit_signal (snd (mshim_drop (service_api sd os T show_status base) sh s)) \<longleftrightarrow>
   exit_signal s \<or> registry s = []"
proof -
  have "svc_shutdown s = (Ok (), if shim_is_empty s then s\<lparr>exit_signal := True\<rparr> else s)"
    by (simp add: svc_shutdown_def)
  from over_ttrpc_Ok [of svc_shutdown, OF this] show ?thesis
    by (simp add: mshim_drop_def ignore_result_def attempt_def act_bind_def shim_is_empty_def)
qed

lemma mtask_wait_Ok:
  assumes "task_wait T (request_for (mt_id t)) s = (Ok r, s')"
  shows "mtask_wait (service_api sd os T show_status base) (t, \<lparr>mw_jobs = jobs, mw_world = s\<rparr>) =
    (Ok (), (t, \<lparr>mw_jobs = jobs, mw_world = s'\<rparr>))"
proof -
  have "svc_wait sd T (request_for (mt_id t)) s = (Ok r, s')"
    using assms by (simp add: svc_wait_def act_map_err_def)
  from over_ttrpc_Ok [of "svc_wait sd T (request_for (mt_id t))", OF this] show ?thesis
    by (simp add: mtask_wait_def with_task_def in_mock_def)
qed

lemma mtask_delete_Ok:
  assumes "task_delete T (request_for (mt_id t)) s = (Ok r, s')" and "\<not> mt_deleted t" and "\<not> mt_unmounted t"
  shows "mtask_delete (service_api sd os T show_status base) (t, \<lparr>mw_jobs = jobs, mw_world = s\<rparr>) =
    (Ok (), (t\<lparr>mt_deleted := True, mt_unmounted := True\<rparr>,
       \<lparr>mw_jobs = jobs @ [path_join (mt_dir t) ''rootfs''], mw_world = s'\<rparr>))"
proof -
  have "svc_delete sd T (request_for (mt_id t)) s = (Ok r, s')"
    using assms(1) by (simp add: svc_delete_def act_map_err_def)
  then have "in_mock (sa_delete (service_api sd os T show_status base) (mt_client t) (request_for (mt_id t)))
      \<lparr>mw_jobs = jobs, mw_world = s\<rparr> = (Ok (), \<lparr>mw_jobs = jobs, mw_world = s'\<rparr>)"
    by (simp add: in_mock_def over_ttrpc_Ok [of "svc_delete sd T (request_for (mt_id t))"])
  from mtask.both_run [OF assms(2) this assms(3)] show ?thesis by (simp add: unmount_recursive_def)
qed

text \<open>A deletion the service refuses: the mount is handed over, the error reported and dropped by the drop.\<close>

lemma mtask_drop_refused:
  assumes "svc_delete sd T (request_for (mt_id t)) s = (Err e, s)" and "\<not> mt_deleted t" and "\<not> mt_unmounted t"
  shows "mtask_drop (service_api sd os T show_status base) (t, \<lparr>mw_jobs = jobs, mw_world = s\<rparr>) =
    (Ok (), (t\<lparr>mt_unmounted := True\<rparr>, \<lparr>mw_jobs = jobs @ [path_join (mt_dir t) ''rootfs''], mw_world = s\<rparr>))"
proof -
  have "in_mock (sa_delete (service_api sd os T show_status base) (mt_client t) (request_for (mt_id t)))
      \<lparr>mw_jobs = jobs, mw_world = s\<rparr> = (Err (show_status e), \<lparr>mw_jobs = jobs, mw_world = s\<rparr>)"
    using over_ttrpc_Err [of "svc_delete sd T (request_for (mt_id t))", OF assms(1)] by (simp add: in_mock_def)
  from mtask.second_runs_after_error [OF assms(2) this assms(3)] show ?thesis
    by (simp add: unmount_recursive_def mtask_drop_def ignore_result_def attempt_def act_bind_def)
qed


section \<open>A task through both programs\<close>

lemma request_for_simps [simp]: "rq_id (request_for c) = c" "rq_exec_id (request_for c) = []"
  by (simp_all add: request_for_def)

text \<open>Whatever instances keep the contract: after the exit, waiting and deleting succeed and the id is gone.\<close>

context instance_contract begin

lemma wait_then_delete:
  assumes "instances s c = Some a" and "arcs s a = Some d" and "\<not> id_poisoned d"
    and "valid (id_instance d) (world s)" and "exit_of (id_instance d) (world s) = Some (code, at)"
    and del: "inst_delete T (id_instance d) (world s) = (Ok (), w)"
  obtains r1 s1 r2 s2 where "task_wait T (request_for c) s = (Ok r1, s1)" and "task_delete T (request_for c) s1 = (Ok r2, s2)"
    and "registry s2 = AList.delete c (registry s)" and "exit_signal s2 = exit_signal s"
    and "events s2 = events s @ [TaskDelete c (unwrap_or 0 (id_pid d)) code (Some (to_timestamp at))]"
proof -
  let ?s1 = "s\<lparr>arcs := (arcs s)(a \<mapsto> d\<lparr>id_state := Exited\<rparr>), world := world s\<rparr>"
  have "valid (id_instance d) w" and "exit_of (id_instance d) w = Some (code, at)"
    using assms(4,5) del delete_stable [of "id_instance d" "world s" "id_instance d"] by simp_all
  then have "\<exists>r2 s2. task_delete T (request_for c) ?s1 = (Ok r2, s2) \<and> registry s2 = AList.delete c (registry s) \<and>
      exit_signal s2 = exit_signal s \<and>
      events s2 = events s @ [TaskDelete c (unwrap_or 0 (id_pid d)) code (Some (to_timestamp at))]"
    using assms
    by (auto simp: task_delete_def Let_def get_instance_def in_data_def act_bind_def data_delete_ok data_wait_zero
        data_pid_def get_data_def remove_instance_def send_event_def exit_code_of_def exit_time_of_def)
  moreover have "\<exists>r1. task_wait T (request_for c) s = (Ok r1, ?s1)"
    using assms by (simp add: task_wait_def get_instance_def in_data_def act_bind_def data_wait_exited)
  ultimately show ?thesis using that by blast
qed

end

lemma svc_delete_refused:
  assumes "task_of s c = Some d" and "\<not> id_poisoned d" and "id_state d \<notin> {Created, Exited}"
  shows "\<exists>m. svc_delete sd T (request_for c) s = (Err (RpcStatus FAILED_PRECONDITION m), s)"
  using assms by (auto simp: svc_delete_def task_delete_def intro!: svc_refused data_delete_refused)

text \<open>
  C38. A task of the stress test, run by the shim. Once the container of a task has exited, waiting
  for the task and deleting it both succeed, whatever state the waiter of the service has left the task
  in; the service then knows the id no more and has published its deletion, the guards of the task are
  closed, and dropping the shim lets it exit exactly when this was its last task. A task that is still
  running is not deleted: the deletion of a mock task does not kill it first, so the service refuses and
  the drop ignores the refusal, and then dropping the shim does not let it exit either.
\<close>

theorem stress_task_on_service:
  fixes T :: "(unix_instance, ('z, 'k) unix_world) instance_impl"
  assumes task: "instances s (mt_id t) = Some a" "arcs s a = Some d" "\<not> id_poisoned d"
    and guards: "\<not> mt_deleted t" "\<not> mt_unmounted t"
    and T: "T = unix_instance_impl U eng" and api: "api = service_api sd os T show_status base"
  shows "(unix_valid (id_instance d) (world s) \<longrightarrow> unix_exit (id_instance d) (world s) = Some (code, at) \<longrightarrow>
       inst_delete T (id_instance d) (world s) = (Ok (), w) \<longrightarrow>
       (\<exists>u v. mtask_wait api (t, \<lparr>mw_jobs = jobs, mw_world = s\<rparr>) = (Ok (), (t, u)) \<and>
          mtask_delete api (t, u) = (Ok (), (t\<lparr>mt_deleted := True, mt_unmounted := True\<rparr>, v)) \<and>
          registry (mw_world v) = AList.delete (mt_id t) (registry s) \<and>
          events (mw_world v) = events s @ [TaskDelete (mt_id t) (unwrap_or 0 (id_pid d)) code (Some (to_timestamp at))] \<and>
          (exit_signal (snd (mshim_drop api sh (mw_world v))) \<longleftrightarrow> exit_signal s \<or> AList.delete (mt_id t) (registry s) = []))) \<and>
    (id_state d \<notin> {Created, Exited} \<longrightarrow>
       (\<exists>t' v. mtask_drop api (t, \<lparr>mw_jobs = jobs, mw_world = s\<rparr>) = (Ok (), (t', v)) \<and> \<not> mt_deleted t' \<and> mw_world v = s \<and>
          (exit_signal (snd (mshim_drop api sh (mw_world v))) \<longleftrightarrow> exit_signal s)))"
proof (intro conjI impI)
  assume "unix_valid (id_instance d) (world s)" "unix_exit (id_instance d) (world s) = Some (code, at)"
    "inst_delete T (id_instance d) (world s) = (Ok (), w)"
  with task obtain r1 s1 r2 s2 where wait: "task_wait T (request_for (mt_id t)) s = (Ok r1, s1)"
    and del: "task_delete T (request_for (mt_id t)) s1 = (Ok r2, s2)"
    and s2: "registry s2 = AList.delete (mt_id t) (registry s)" "exit_signal s2 = exit_signal s"
      "events s2 = events s @ [TaskDelete (mt_id t) (unwrap_or 0 (id_pid d)) code (Some (to_timestamp at))]"
    unfolding T by (rule unix.wait_then_delete)
  show "\<exists>u v. mtask_wait api (t, \<lparr>mw_jobs = jobs, mw_world = s\<rparr>) = (Ok (), (t, u)) \<and>
      mtask_delete api (t, u) = (Ok (), (t\<lparr>mt_deleted := True, mt_unmounted := True\<rparr>, v)) \<and>
      registry (mw_world v) = AList.delete (mt_id t) (registry s) \<and>
      events (mw_world v) = events s @ [TaskDelete (mt_id t) (unwrap_or 0 (id_pid d)) code (Some (to_timestamp at))] \<and>
      (exit_signal (snd (mshim_drop api sh (mw_world v))) \<longleftrightarrow> exit_signal s \<or> AList.delete (mt_id t) (registry s) = [])"
    using mtask_wait_Ok [OF wait] mtask_delete_Ok [OF del guards] s2
    by (simp add: api mshim_drop_exit)
next
  assume "id_state d \<notin> {Created, Exited}"
  moreover have "task_of s (mt_id t) = Some d" using task by (simp add: task_of_def)
  ultimately obtain m where "svc_delete sd T (request_for (mt_id t)) s = (Err (RpcStatus FAILED_PRECONDITION m), s)"
    using svc_delete_refused [of s "mt_id t" d] task(3) by blast
  moreover have "registry s \<noteq> []" using task(1) by (auto simp: instances_def)
  ultimately show "\<exists>t' v. mtask_drop api (t, \<lparr>mw_jobs = jobs, mw_world = s\<rparr>) = (Ok (), (t', v)) \<and> \<not> mt_deleted t' \<and> mw_world v = s \<and>
      (exit_signal (snd (mshim_drop api sh (mw_world v))) \<longleftrightarrow> exit_signal s)"
    using mtask_drop_refused [of sd T t s _ os show_status base jobs] guards by (simp add: api mshim_drop_exit)
qed


definition demo_base_api :: "(unix_instance, (int option, unit) unix_world) shim shim_api" where
  "demo_base_api = \<lparr>sa_output = (\<lambda>_. ret []), sa_utf8 = (\<lambda>_. True), sa_connect = (\<lambda>_. ret ()), sa_bind = (\<lambda>_. ret ()),
     sa_create = (\<lambda>_ _. ret ()), sa_start = (\<lambda>_ _. ret ()), sa_wait = (\<lambda>_ _. ret ()), sa_delete = (\<lambda>_ _. ret ()),
     sa_shutdown = (\<lambda>_ _. ret ()), sa_read_mounts = ret [], sa_umount = (\<lambda>_. ret ())\<rparr>"

definition demo_mtask :: mtask where
  "demo_mtask = \<lparr>mt_id = ''a'', mt_dir = ''/t'', mt_client = [], mt_mounts = [], mt_deleted = False, mt_unmounted = False\<rparr>"

definition demo_mshim :: mshim where
  "demo_mshim = \<lparr>ms_dir = ''/s'', ms_client = [], ms_containerd = \<lparr>ci_namespace = [], ci_lease = []\<rparr>\<rparr>"

definition demo_service_os :: "(int option, unit) unix_world shim_os" where
  "demo_service_os = \<lparr>os_spec_load = (\<lambda>_. throw []), os_canonicalize_rootfs = (\<lambda>_. ret), os_create_dir_all = (\<lambda>_. ret ()),
     os_mount_rootfs = (\<lambda>_ _ _ _. ret ()), 
     os_hooks = \<lparr>hook_spawn = (\<lambda>_. ret 0), hook_write_stdin = (\<lambda>_ _. ret ()), hook_kill = (\<lambda>_. ret ()), hook_wait = (\<lambda>_. ret 0)\<rparr>,
     os_process_id = 1, os_spawn_thread = (\<lambda>_. ret ()), os_collect_metrics = (\<lambda>_. ret []), os_convert_to_any = Ok\<rparr>"

definition demo_service_api :: "(unix_instance, (int option, unit) unix_world) shim shim_api" where
  "demo_service_api = service_api (\<lambda>_. []) demo_service_os (unix_instance_impl demo_unix demo_wasm_engine) (\<lambda>_. []) demo_base_api"

theorem stress_task_on_service_witness:
  "\<exists>u v. mtask_wait demo_service_api (demo_mtask, \<lparr>mw_jobs = [], mw_world = demo_unix_shim\<rparr>) = (Ok (), (demo_mtask, u)) \<and>
     mtask_delete demo_service_api (demo_mtask, u) = (Ok (), (demo_mtask\<lparr>mt_deleted := True, mt_unmounted := True\<rparr>, v)) \<and>
     exit_signal (snd (mshim_drop demo_service_api demo_mshim (mw_world v)))"
proof -
  let ?T = "unix_instance_impl demo_unix demo_wasm_engine"
  have task: "instances demo_unix_shim (mt_id demo_mtask) = Some 0" "arcs demo_unix_shim 0 = Some demo_task" "\<not> id_poisoned demo_task"
    and guards: "\<not> mt_deleted demo_mtask" "\<not> mt_unmounted demo_mtask"
    and inst: "unix_valid (id_instance demo_task) (world demo_unix_shim)"
      "unix_exit (id_instance demo_task) (world demo_unix_shim) = Some (3, \<lparr>dt_timestamp = 5, dt_subsec_nanos = 6\<rparr>)"
    and last: "AList.delete (mt_id demo_mtask) (registry demo_unix_shim) = []"
    by (simp_all add: demo_unix_shim_def instances_def local_new_def demo_task_def demo_inst_def demo_mtask_def unix_valid_def
        unix_exit_def cell_valid_def cell_exit_def demo_unix_world_def)
  have "fst (inst_delete ?T (id_instance demo_task) (world demo_unix_shim)) = Ok ()" by code_simp
  then obtain w where "inst_delete ?T (id_instance demo_task) (world demo_unix_shim) = (Ok (), w)"
    by (metis prod.collapse)
  with stress_task_on_service [OF task guards HOL.refl demo_service_api_def, of 3 "\<lparr>dt_timestamp = 5, dt_subsec_nanos = 6\<rparr>" w "[]" demo_mshim]
    inst last
  show ?thesis by auto
qed

end
