(* ===== verification/Test_Modules.thy ===== *)
theory Test_Modules
  imports Oci_Tar_Builder
begin

text \<open>
  The programs the shims are tested with: the build script of
  \<^verbatim>\<open>crates/containerd-shim-wasm-test-modules\<close>, which compiles every file of
  \<^verbatim>\<open>src/modules\<close> to wasm and generates a Rust file with one constant per module, and the demo
  application of \<^verbatim>\<open>crates/wasi-demo-app\<close> with the build script that packs it into an image.

  The environment variables, the file system, the compiler and the \<open>wat\<close> crate are a record of
  operations; so is the text of a path in debug form, which depends on the tables of Unicode. The
  state is what the script has written to the generated file and to its standard output, and the
  world beside them.
\<close>

section \<open>The build script of the test modules\<close>

record 'w build_env =
  be_var_os :: "string \<Rightarrow> string option"
  be_debug :: "path \<Rightarrow> string"
  be_lossy :: "path \<Rightarrow> string"
  be_create :: "path \<Rightarrow> ('w, string, unit) act"
  be_write_line :: "string \<Rightarrow> ('w, string, unit) act"
  be_println :: "string \<Rightarrow> ('w, string, unit) act"
  be_read_dir :: "path \<Rightarrow> ('w, string, (string, string) res list) act"
  be_command :: "string list \<Rightarrow> ('w, string, bool) act"
  be_parse_file :: "path \<Rightarrow> ('w, string, bytes) act"
  be_write :: "path \<Rightarrow> bytes \<Rightarrow> ('w, string, unit) act"
  be_copy :: "path \<Rightarrow> path \<Rightarrow> ('w, string, unit) act"

record 'w build_state =
  bs_modules :: "string list"
  bs_stdout :: "string list"
  bs_world :: 'w

type_synonym ('w, 'a) build_act = "('w build_state, string, 'a) act"

definition in_bs_world :: "('w, string, 'a) act \<Rightarrow> ('w, 'a) build_act" where
  "in_bs_world m = (\<lambda>s. case m (bs_world s) of (r, w) \<Rightarrow> (r, s\<lparr>bs_world := w\<rparr>))"

definition env_path :: "'w build_env \<Rightarrow> string \<Rightarrow> (string, path) res" where
  "env_path E key = ok_or (''failed to read env-var '' @ key) (be_var_os E key)"

text \<open>The two lazy statics unwrap: a missing variable is a panic where the static is first used.\<close>

fun unwrap_static :: "(string, 'a) res \<Rightarrow> ('e, 'a) res" where
  "unwrap_static (Ok a) = Ok a"
| "unwrap_static (Err e) = Panic e"
| "unwrap_static (Panic p) = Panic p"
| "unwrap_static Blocked = Blocked"

definition OUT_DIR :: "'w build_env \<Rightarrow> (string, path) res" where
  "OUT_DIR E = unwrap_static (env_path E ''OUT_DIR'')"

definition PKG_DIR :: "'w build_env \<Rightarrow> (string, path) res" where
  "PKG_DIR E = unwrap_static (env_path E ''CARGO_MANIFEST_DIR'')"

subsection \<open>Names\<close>

definition is_ident_char :: "char \<Rightarrow> bool" where
  "is_ident_char c \<longleftrightarrow> byte_in 65 90 c \<or> byte_in 97 122 c \<or> byte_in 48 57 c"

text \<open>A character of the stem: a letter or digit stays, any other one, of however many bytes, becomes an underscore.\<close>

fun ident_char :: "string \<Rightarrow> char" where
  "ident_char [c] = (if is_ident_char c then c else CHR ''_'')"
| "ident_char u = CHR ''_''"

text \<open>\<open>char::is_alphabetic\<close> on the characters an identifier can hold here.\<close>

definition is_alphabetic :: "char \<Rightarrow> bool" where
  "is_alphabetic c \<longleftrightarrow> byte_in 65 90 c \<or> byte_in 97 122 c"

definition path_to_ident :: "'w build_env \<Rightarrow> path \<Rightarrow> (string, string) res" where
  "path_to_ident E p =
     res_bind (ok_or (''getting filename of '' @ be_debug E p) (file_stem p)) (\<lambda>stem.
     res_bind (ok_or ''converting filename to string'' (utf8_chars stem)) (\<lambda>chars.
     let ident = map ident_char chars in
     if ident = [] \<or> \<not> is_alphabetic (hd ident) then Err ''please start the filename with [a-zA-Z]''
     else Ok ident))"

definition to_ascii_upper :: "char \<Rightarrow> char" where
  "to_ascii_upper c = (if byte_in 97 122 c then char_of ((of_char c :: int) - 32) else c)"

definition to_ascii_uppercase :: "string \<Rightarrow> string" where
  "to_ascii_uppercase s = map to_ascii_upper s"

definition output_for :: "'w build_env \<Rightarrow> path \<Rightarrow> (string, path) res" where
  "output_for E src =
     res_bind (ok_or (''getting filename of '' @ be_debug E src) (file_name src)) (\<lambda>filename.
     res_bind (OUT_DIR E) (\<lambda>out_dir. Ok (with_extension ''wasm'' (path_join out_dir filename))))"

subsection \<open>Compilation\<close>

definition compile_rust :: "'w build_env \<Rightarrow> path \<Rightarrow> ('w, path) build_act" where
  "compile_rust E src =
     act_bind (lift_res (ok_or ''reading RUSTC'' (be_var_os E ''RUSTC''))) (\<lambda>rustc.
     act_bind (lift_res (output_for E src)) (\<lambda>dst.
     act_bind (in_bs_world (be_command E [rustc, ''--target=wasm32-wasip1'', ''-Copt-level=z'', ''-Cstrip=symbols'', ''-o'', dst, src])) (\<lambda>success.
     if success then ret dst else throw ''running rustc'')))"

definition compile_wat :: "'w build_env \<Rightarrow> path \<Rightarrow> ('w, path) build_act" where
  "compile_wat E src =
     act_bind (lift_res (output_for E src)) (\<lambda>dst.
     act_bind (in_bs_world (be_parse_file E src)) (\<lambda>bs.
     act_bind (in_bs_world (be_write E dst bs)) (\<lambda>_. ret dst)))"

definition move_wasm :: "'w build_env \<Rightarrow> path \<Rightarrow> ('w, path) build_act" where
  "move_wasm E src =
     act_bind (lift_res (output_for E src)) (\<lambda>dst.
     act_bind (in_bs_world (be_copy E src dst)) (\<lambda>_. ret dst))"

subsection \<open>The script\<close>

definition emit :: "'w build_env \<Rightarrow> string \<Rightarrow> ('w, unit) build_act" where
  "emit E line =
     act_bind (in_bs_world (be_write_line E line)) (\<lambda>_. \<lambda>s. (Ok (), s\<lparr>bs_modules := bs_modules s @ [line]\<rparr>))"

definition println :: "'w build_env \<Rightarrow> string \<Rightarrow> ('w, unit) build_act" where
  "println E line =
     act_bind (in_bs_world (unwrap_act (be_println E line))) (\<lambda>_. \<lambda>s. (Ok (), s\<lparr>bs_stdout := bs_stdout s @ [line]\<rparr>))"

text \<open>The extension that selects the compiler; one that is not UTF-8 counts as empty.\<close>

definition source_extension :: "path \<Rightarrow> string" where
  "source_extension src =
     (let e = unwrap_or [] (path_extension src) in if utf8_chars e = None then [] else e)"

definition include_source :: "'w build_env \<Rightarrow> path \<Rightarrow> string" where
  "include_source E src = ''    source: Some(include_str!('' @ be_debug E src @ '')),''"

definition compile_source :: "'w build_env \<Rightarrow> path \<Rightarrow> ('w, path) build_act" where
  "compile_source E src =
     (let e = source_extension src in
      if e = ''rs'' then act_bind (emit E (include_source E src)) (\<lambda>_. compile_rust E src)
      else if e = ''wat'' then act_bind (emit E (include_source E src)) (\<lambda>_. compile_wat E src)
      else if e = ''wasm'' then act_bind (emit E ''    source: None,'') (\<lambda>_. move_wasm E src)
      else throw (''unrecognized file format for source file '' @ be_debug E src))"

definition declare_module :: "'w build_env \<Rightarrow> path \<Rightarrow> ('w, unit) build_act" where
  "declare_module E src =
     act_bind (lift_res (path_to_ident E src)) (\<lambda>ident.
     let name = to_ascii_uppercase ident in
     act_bind (println E (''cargo:rerun-if-changed='' @ be_lossy E src)) (\<lambda>_.
     act_bind (emit E (''pub const '' @ name @ '': TestModule = TestModule {'')) (\<lambda>_.
     act_bind (compile_source E src) (\<lambda>dst.
     act_bind (emit E (''    bytes: include_bytes!('' @ be_debug E dst @ ''),'')) (\<lambda>_.
     emit E ''};'')))))"

text \<open>\<open>flatten\<close> on the iterator of results drops the entries that could not be read.\<close>

definition ok_values :: "('e, 'a) res list \<Rightarrow> 'a list" where
  "ok_values rs = List.map_filter (\<lambda>r. case r of Ok a \<Rightarrow> Some a | _ \<Rightarrow> None) rs"

definition modules_main :: "'w build_env \<Rightarrow> ('w, unit) build_act" where
  "modules_main E =
     act_bind (lift_res (OUT_DIR E)) (\<lambda>out_dir.
     act_bind (lift_res (PKG_DIR E)) (\<lambda>pkg_dir.
     let modules_dir = path_join (path_join pkg_dir ''src'') ''modules'' in
     act_bind (in_bs_world (be_create E (path_join out_dir ''modules.rs''))) (\<lambda>_.
     act_bind (\<lambda>s. (Ok (), s\<lparr>bs_modules := []\<rparr>)) (\<lambda>_.
     act_bind (in_bs_world (be_read_dir E modules_dir)) (\<lambda>entries.
     for_each (\<lambda>name. declare_module E (path_join modules_dir name)) (ok_values entries))))))"


section \<open>What the script generates\<close>

text \<open>
  A declaration of the generated file: a constant of type \<open>TestModule\<close>, whose fields are the
  source text, when there is one, and the bytes of the compiled module.
\<close>

record module_decl =
  md_name :: string
  md_source :: "path option"
  md_bytes :: path

definition decl_lines :: "'w build_env \<Rightarrow> module_decl \<Rightarrow> string list" where
  "decl_lines E m =
     [''pub const '' @ md_name m @ '': TestModule = TestModule {'',
      (case md_source m of Some src \<Rightarrow> include_source E src | None \<Rightarrow> ''    source: None,''),
      ''    bytes: include_bytes!('' @ be_debug E (md_bytes m) @ ''),'',
      ''};'']"

text \<open>The names a Rust constant may have, as the lint on their case wants them.\<close>

definition is_constant_name :: "string \<Rightarrow> bool" where
  "is_constant_name s \<longleftrightarrow>
     s \<noteq> [] \<and> byte_in 65 90 (hd s) \<and> list_all (\<lambda>c. byte_in 65 90 c \<or> byte_in 48 57 c \<or> c = CHR ''_'') s"

definition decl_for :: "'w build_env \<Rightarrow> path \<Rightarrow> path \<Rightarrow> module_decl \<Rightarrow> bool" where
  "decl_for E out_dir src m \<longleftrightarrow>
     (\<exists>stem chars. file_stem src = Some stem \<and> utf8_chars stem = Some chars \<and>
        md_name m = map (to_ascii_upper \<circ> ident_char) chars \<and> is_constant_name (md_name m) \<and>
        md_bytes m = with_extension ''wasm'' (path_join out_dir (the (file_name src)))) \<and>
     source_extension src \<in> {''rs'', ''wat'', ''wasm''} \<and>
     md_source m = (if source_extension src = ''wasm'' then None else Some src)"

lemma char_of_upper:
  "byte_in 97 122 c \<Longrightarrow> byte_in 65 90 (to_ascii_upper c)"
  by (auto simp: to_ascii_upper_def byte_in_def)

lemma upper_ident_char:
  "byte_in 65 90 (to_ascii_upper (ident_char u)) \<or> byte_in 48 57 (to_ascii_upper (ident_char u)) \<or>
   to_ascii_upper (ident_char u) = CHR ''_''"
proof -
  have "byte_in 97 122 (ident_char u) \<or> byte_in 65 90 (ident_char u) \<or> byte_in 48 57 (ident_char u) \<or> ident_char u = CHR ''_''"
    by (cases u rule: ident_char.cases) (auto simp: is_ident_char_def)
  then show ?thesis
    using char_of_upper by (auto simp: to_ascii_upper_def byte_in_def)
qed

text \<open>The identifier of a file, in upper case, is the name of a constant.\<close>

lemma path_to_ident_constant:
  assumes "path_to_ident E src = Ok ident"
  obtains stem chars where "file_stem src = Some stem" and "utf8_chars stem = Some chars"
    and "ident = map ident_char chars" and "is_constant_name (to_ascii_uppercase ident)"
proof -
  from assms obtain stem chars where st: "file_stem src = Some stem" "utf8_chars stem = Some chars"
    and id: "ident = map ident_char chars" and ne: "ident \<noteq> []" and al: "is_alphabetic (hd ident)"
    unfolding path_to_ident_def Let_def
    by (cases "file_stem src"; cases "utf8_chars (the (file_stem src))") (auto split: if_splits)
  have "byte_in 65 90 (to_ascii_upper (hd ident))"
    using al char_of_upper by (auto simp: is_alphabetic_def to_ascii_upper_def byte_in_def)
  then have "is_constant_name (to_ascii_uppercase ident)"
    using ne id upper_ident_char by (auto simp: is_constant_name_def to_ascii_uppercase_def list_all_iff hd_map)
  then show ?thesis using st id that by blast
qed

lemma emit_Ok: "emit E l s = (Ok u, t) \<Longrightarrow> bs_modules t = bs_modules s @ [l]"
  by (auto simp: emit_def in_bs_world_def elim!: act_bind_OkE split: prod.splits)

lemma println_Ok: "println E l s = (Ok u, t) \<Longrightarrow> bs_modules t = bs_modules s"
  by (auto simp: println_def in_bs_world_def elim!: act_bind_OkE split: prod.splits)

lemma in_bs_world_Ok: "in_bs_world m s = (Ok a, t) \<Longrightarrow> bs_modules t = bs_modules s"
  by (auto simp: in_bs_world_def split: prod.splits)

lemma compile_Ok:
  "compile_rust E src s = (Ok dst, t) \<Longrightarrow> output_for E src = Ok dst \<and> bs_modules t = bs_modules s"
  "compile_wat E src s = (Ok dst, t) \<Longrightarrow> output_for E src = Ok dst \<and> bs_modules t = bs_modules s"
  "move_wasm E src s = (Ok dst, t) \<Longrightarrow> output_for E src = Ok dst \<and> bs_modules t = bs_modules s"
  by (auto simp: compile_rust_def compile_wat_def move_wasm_def elim!: act_bind_OkE dest!: in_bs_world_Ok split: if_splits)

lemma compile_source_Ok:
  assumes "compile_source E src s = (Ok dst, t)"
  shows "source_extension src \<in> {''rs'', ''wat'', ''wasm''} \<and> output_for E src = Ok dst \<and>
    bs_modules t = bs_modules s @ [if source_extension src = ''wasm'' then ''    source: None,'' else include_source E src]"
  using assms unfolding compile_source_def Let_def
  by (auto elim!: act_bind_OkE dest!: emit_Ok compile_Ok split: if_splits)

lemma output_for_Ok:
  assumes "output_for E src = Ok dst" and "OUT_DIR E = Ok out_dir"
  shows "dst = with_extension ''wasm'' (path_join out_dir (the (file_name src)))"
  using assms by (cases "file_name src") (auto simp: output_for_def)

lemma declare_module_Ok:
  assumes run: "declare_module E src s = (Ok (), t)" and out: "OUT_DIR E = Ok out_dir"
  shows "\<exists>m. decl_for E out_dir src m \<and> bs_modules t = bs_modules s @ decl_lines E m"
proof -
  from run obtain ident dst s0 s1 s2 s3 s4 u1 u2 u4 where "lift_res (path_to_ident E src) s = (Ok ident, s0)"
    and 1: "println E (''cargo:rerun-if-changed='' @ be_lossy E src) s0 = (Ok u1, s1)"
    and 2: "emit E (''pub const '' @ to_ascii_uppercase ident @ '': TestModule = TestModule {'') s1 = (Ok u2, s2)"
    and 3: "compile_source E src s2 = (Ok dst, s3)"
    and 4: "emit E (''    bytes: include_bytes!('' @ be_debug E dst @ ''),'') s3 = (Ok u4, s4)"
    and 5: "emit E ''};'' s4 = (Ok (), t)"
    unfolding declare_module_def Let_def by (elim act_bind_OkE) blast
  then have id: "path_to_ident E src = Ok ident" and s0: "s0 = s" by simp_all
  note src = compile_source_Ok [OF 3]
  obtain stem chars where "file_stem src = Some stem" "utf8_chars stem = Some chars"
    "ident = map ident_char chars" "is_constant_name (to_ascii_uppercase ident)"
    using id by (rule path_to_ident_constant)
  then have "decl_for E out_dir src \<lparr>md_name = to_ascii_uppercase ident,
      md_source = (if source_extension src = ''wasm'' then None else Some src), md_bytes = dst\<rparr>"
    using src output_for_Ok [OF _ out] by (auto simp: decl_for_def to_ascii_uppercase_def)
  moreover have "bs_modules t = bs_modules s @ decl_lines E \<lparr>md_name = to_ascii_uppercase ident,
      md_source = (if source_extension src = ''wasm'' then None else Some src), md_bytes = dst\<rparr>"
    using src s0 println_Ok [OF 1] emit_Ok [OF 2] emit_Ok [OF 4] emit_Ok [OF 5] by (simp add: decl_lines_def)
  ultimately show ?thesis by blast
qed

lemma declare_modules_Ok:
  assumes "for_each (\<lambda>n. declare_module E (f n)) ns s = (Ok (), t)" and "OUT_DIR E = Ok out_dir"
  shows "\<exists>ms. list_all2 (decl_for E out_dir) (map f ns) ms \<and> bs_modules t = bs_modules s @ concat (map (decl_lines E) ms)"
  using assms(1)
proof (induction ns arbitrary: s)
  case Nil
  then show ?case by simp
next
  case (Cons n ns)
  from Cons.prems obtain u where 1: "declare_module E (f n) s = (Ok (), u)"
    and 2: "for_each (\<lambda>n. declare_module E (f n)) ns u = (Ok (), t)"
    by (auto elim!: act_bind_OkE)
  from declare_module_Ok [OF 1 assms(2)] Cons.IH [OF 2] obtain m ms where
    "decl_for E out_dir (f n) m" "bs_modules u = bs_modules s @ decl_lines E m"
    "list_all2 (decl_for E out_dir) (map f ns) ms" "bs_modules t = bs_modules u @ concat (map (decl_lines E) ms)"
    by blast
  then show ?case by (intro exI [of _ "m # ms"]) simp
qed


text \<open>The compiled module of a source \<open>dir/stem.ext\<close> is \<open>stem.wasm\<close> in the output directory.\<close>

lemma output_for_file:
  assumes "OUT_DIR E = Ok out_dir" and "out_dir \<noteq> []" and "last out_dir \<noteq> CHR ''/''"
    and "file_name src = Some f" and "file_stem src = Some stem"
  shows "output_for E src = Ok (out_dir @ CHR ''/'' # stem @ ''.wasm'')"
  using assms with_extension_join [of src f stem "''wasm''" out_dir] not_absolute_file_name [OF assms(4)]
  by (simp add: output_for_def path_join_def)

text \<open>
  Two sources of one stem, such as \<open>a.rs\<close> and \<open>a.wat\<close>, are compiled to the same file, and declare
  the same constant.
\<close>

lemma same_stem_same_output:
  assumes "OUT_DIR E = Ok out_dir" and "out_dir \<noteq> []" and "last out_dir \<noteq> CHR ''/''"
    and "file_stem src = Some stem" and "file_stem src' = Some stem"
  shows "output_for E src = output_for E src'" and "path_to_ident E src = path_to_ident E src'"
proof -
  obtain f f' where "file_name src = Some f" "file_name src' = Some f'"
    using assms(4,5) by (auto simp: file_stem_def bind_eq_Some_conv)
  then show "output_for E src = output_for E src'"
    using output_for_file [OF assms(1,2,3)] assms(4,5) by simp
  show "path_to_ident E src = path_to_ident E src'"
    using assms(4,5) by (simp add: path_to_ident_def)
qed

text \<open>
  C39. When the build script of the test modules succeeds, the file it generated is well-formed: it
  declares one constant of type \<open>TestModule\<close> for every readable entry of \<^verbatim>\<open>src/modules\<close>, in
  the order of the directory, and nothing else. The name of the constant is the stem of the file with
  every character that is not an ASCII letter or digit replaced and the rest in upper case, which is a
  valid constant name whatever the file is called; the source is included for Rust and text modules and
  absent for binary ones; the bytes are those of the compiled module in the output directory.
\<close>

theorem generated_modules_well_formed:
  assumes "modules_main E s = (Ok (), t)"
  shows "\<exists>out_dir pkg_dir entries w w' ms.
     OUT_DIR E = Ok out_dir \<and> PKG_DIR E = Ok pkg_dir \<and>
     be_read_dir E (path_join (path_join pkg_dir ''src'') ''modules'') w = (Ok entries, w') \<and>
     list_all2 (decl_for E out_dir) (map (path_join (path_join (path_join pkg_dir ''src'') ''modules'')) (ok_values entries)) ms \<and>
     list_all (\<lambda>m. is_constant_name (md_name m)) ms \<and>
     bs_modules t = concat (map (decl_lines E) ms)"
proof -
  from assms obtain out_dir pkg_dir where dirs: "OUT_DIR E = Ok out_dir" "PKG_DIR E = Ok pkg_dir"
    unfolding modules_main_def by (auto elim!: act_bind_OkE)
  let ?dir = "path_join (path_join pkg_dir ''src'') ''modules''"
  from assms dirs obtain s1 s2 entries where
    "in_bs_world (be_read_dir E ?dir) (s1\<lparr>bs_modules := []\<rparr>) = (Ok entries, s2)"
    and rest: "for_each (\<lambda>name. declare_module E (path_join ?dir name)) (ok_values entries) s2 = (Ok (), t)"
    unfolding modules_main_def Let_def by (auto elim!: act_bind_OkE)
  then obtain w w' where "be_read_dir E ?dir w = (Ok entries, w')" and "bs_modules s2 = []"
    using in_bs_world_Ok by (fastforce simp: in_bs_world_def split: prod.splits)
  moreover obtain ms where ms: "list_all2 (decl_for E out_dir) (map (path_join ?dir) (ok_values entries)) ms"
    and "bs_modules t = bs_modules s2 @ concat (map (decl_lines E) ms)"
    using declare_modules_Ok [OF rest dirs(1)] by auto
  moreover have "list_all (\<lambda>m. is_constant_name (md_name m)) ms"
    using ms by (auto simp: list_all2_conv_all_nth list_all_length decl_for_def)
  ultimately show ?thesis using dirs by auto
qed

text \<open>The modules of the repository, and a machine on which every step succeeds.\<close>

definition repository_modules :: "string list" where
  "repository_modules =
     [''component-hello-world.wasm'', ''custom_entrypoint.wat'', ''exit_code.wat'', ''has_default_devices.rs'',
      ''hello_wasi_http.wasm'', ''hello_wasi_http_csharp.wasm'', ''hello_world.wat'', ''seccomp.rs'',
      ''simple_component.wat'', ''unreachable.wat'']"

definition demo_build_env :: "(string, string) res list \<Rightarrow> unit build_env" where
  "demo_build_env entries =
     \<lparr>be_var_os = [''OUT_DIR'' \<mapsto> ''/out'', ''CARGO_MANIFEST_DIR'' \<mapsto> ''/pkg'', ''RUSTC'' \<mapsto> ''rustc''],
      be_debug = (\<lambda>p. [CHR 0x22] @ p @ [CHR 0x22]), be_lossy = id, be_create = (\<lambda>_. ret ()), be_write_line = (\<lambda>_. ret ()),
      be_println = (\<lambda>_. ret ()), be_read_dir = (\<lambda>_. ret entries), be_command = (\<lambda>_. ret True),
      be_parse_file = (\<lambda>_. ret []), be_write = (\<lambda>_ _. ret ()), be_copy = (\<lambda>_ _. ret ())\<rparr>"

definition demo_build_state :: "unit build_state" where
  "demo_build_state = \<lparr>bs_modules = [''old''], bs_stdout = [], bs_world = ()\<rparr>"

definition demo_modules :: "(string, string) res list" where
  "demo_modules = [Err ''permission denied'', Ok ''a-b.wat'']"

definition demo_build :: "(string, unit) res \<times> unit build_state" where
  "demo_build = modules_main (demo_build_env demo_modules) demo_build_state"

lemma demo_build_ok: "fst demo_build = Ok ()"
  by code_simp

text \<open>The constants of the repository: the names its tests use, all different.\<close>

lemma repository_constants:
  "map (\<lambda>f. map_err id (res_bind (path_to_ident (demo_build_env []) f) (\<lambda>i. Ok (to_ascii_uppercase i)))) repository_modules =
   map Ok [''COMPONENT_HELLO_WORLD'', ''CUSTOM_ENTRYPOINT'', ''EXIT_CODE'', ''HAS_DEFAULT_DEVICES'', ''HELLO_WASI_HTTP'',
     ''HELLO_WASI_HTTP_CSHARP'', ''HELLO_WORLD'', ''SECCOMP'', ''SIMPLE_COMPONENT'', ''UNREACHABLE'']"
  by code_simp

theorem generated_modules_well_formed_witness:
  "\<exists>ms. list_all (\<lambda>m. is_constant_name (md_name m)) ms \<and> length ms = 1 \<and>
     bs_modules (snd demo_build) = concat (map (decl_lines (demo_build_env demo_modules)) ms)"
proof -
  have "demo_build = (Ok (), snd demo_build)"
    using demo_build_ok by (metis prod.collapse)
  then have "modules_main (demo_build_env demo_modules) demo_build_state = (Ok (), snd demo_build)"
    by (simp add: demo_build_def)
  from generated_modules_well_formed [OF this] show ?thesis
    by (auto simp: demo_build_env_def ok_values_def demo_modules_def List.map_filter_simps dest!: list_all2_lengthD)
qed

end
