(* ===== verification/Demo_App.thy ===== *)
theory Demo_App
  imports Oci_Tar_Builder
begin

text \<open>
  The demo application of \<^verbatim>\<open>crates/wasi-demo-app\<close>: the guest program that the documentation, the
  benchmarks and the stress test run (\<open>echo\<close>, \<open>sleep\<close>, \<open>exit\<close>, \<open>write\<close>, \<open>daemon\<close>),
  and the build script that packs it into an image with the tar builder.

  A run of the guest ends by returning from \<open>main\<close> (\<open>Ok\<close>), by \<open>process::exit\<close> (\<open>Err\<close> with the
  code) or by a panic; the outcome \<open>None\<close> is a run that does not end, which is what \<open>daemon\<close> is
  for. The streams, the clock, the file system and the parser of floating-point numbers are
  operations of the machine.
\<close>

section \<open>The program\<close>

record ('w, 'f) guest_os =
  dm_println :: "string \<Rightarrow> ('w, string, unit) act"
  dm_eprintln :: "string \<Rightarrow> ('w, string, unit) act"
  dm_sleep :: "nat \<Rightarrow> 'w \<Rightarrow> 'w"
  dm_create :: "path \<Rightarrow> ('w, string, unit) act"
  dm_write_all :: "path \<Rightarrow> bytes \<Rightarrow> ('w, string, unit) act"
  dm_parse_f64 :: "string \<Rightarrow> 'f option"
  dm_from_secs_f64 :: "'f \<Rightarrow> nat option"

text \<open>A result that is unwrapped, an output macro that panics when its stream fails, an index into the arguments.\<close>

definition or_panic :: "('w, string, 'a) act \<Rightarrow> ('w, int, 'a) act" where
  "or_panic m = (\<lambda>w. case m w of (Ok a, w') \<Rightarrow> (Ok a, w') | (Err e, w') \<Rightarrow> (Panic e, w')
     | (Panic p, w') \<Rightarrow> (Panic p, w') | (Blocked, w') \<Rightarrow> (Blocked, w'))"

definition arg :: "string list \<Rightarrow> nat \<Rightarrow> ('w, int, string) act" where
  "arg args i = (if i < length args then ret (args ! i) else panic ''index out of bounds'')"

definition unwrapped :: "'a option \<Rightarrow> ('w, int, 'a) act" where
  "unwrapped x = lift_res (unwrap_option x)"

definition demo_echo :: "('w, 'f) guest_os \<Rightarrow> string list \<Rightarrow> ('w, int, unit) act" where
  "demo_echo os args = or_panic (dm_println os (str_join '' '' (List.drop 2 args)))"

definition demo_sleep :: "('w, 'f) guest_os \<Rightarrow> string list \<Rightarrow> ('w, int, unit) act" where
  "demo_sleep os args =
     act_bind (arg args 2) (\<lambda>a.
     act_bind (unwrapped (dm_parse_f64 os a)) (\<lambda>secs.
     act_bind (unwrapped (dm_from_secs_f64 os secs)) (\<lambda>d.
     \<lambda>w. (Ok (), dm_sleep os d w))))"

definition demo_exit :: "string list \<Rightarrow> ('w, int, unit) act" where
  "demo_exit args = act_bind (arg args 2) (\<lambda>a. act_bind (unwrapped (parse_sint 32 a)) throw)"

definition demo_write :: "('w, 'f) guest_os \<Rightarrow> string list \<Rightarrow> ('w, int, unit) act" where
  "demo_write os args =
     act_bind (arg args 2) (\<lambda>file.
     act_bind (or_panic (dm_create os file)) (\<lambda>_.
     or_panic (dm_write_all os file (as_bytes (str_join '' '' (List.drop 3 args))))))"

definition demo_unknown :: "('w, 'f) guest_os \<Rightarrow> string list \<Rightarrow> ('w, int, unit) act" where
  "demo_unknown os args =
     act_bind (arg args 1) (\<lambda>a. act_bind (or_panic (dm_eprintln os (''unknown command: '' @ a))) (\<lambda>_. throw 1))"

definition SONG :: string where
  "SONG = ''This is a song that never ends.'' @ [CHR 0x0A] @ ''Yes, it goes on and on my friends.'' @ [CHR 0x0A] @
     ''Some people started singing it not knowing what it was,'' @ [CHR 0x0A] @
     ''So they'' @ [CHR 0x27] @ ''ll continue singing it forever just because...'' @ [CHR 0x0A]"

definition one_second :: nat where
  "one_second = 1000000000"

text \<open>The loop of \<open>daemon\<close>: it ends only when the output fails.\<close>

partial_function (option) demo_daemon :: "('w, 'f) guest_os \<Rightarrow> 'w \<Rightarrow> ((int, unit) res \<times> 'w) option" where
  "demo_daemon os w =
     (case or_panic (dm_println os SONG) w of
        (Ok _, w1) \<Rightarrow> demo_daemon os (dm_sleep os one_second w1)
      | r \<Rightarrow> Some r)"

declare demo_daemon.simps [code]

definition demo_main :: "('w, 'f) guest_os \<Rightarrow> string list \<Rightarrow> 'w \<Rightarrow> ((int, unit) res \<times> 'w) option" where
  "demo_main os args w =
     (let cmd = (if 2 \<le> length args then args ! 1 else ''daemon'');
          ends = (\<lambda>m. Some (act_bind m (\<lambda>_. or_panic (dm_eprintln os ''exiting'')) w))
      in if cmd = ''echo'' then ends (demo_echo os args)
         else if cmd = ''sleep'' then ends (demo_sleep os args)
         else if cmd = ''exit'' then ends (demo_exit args)
         else if cmd = ''write'' then ends (demo_write os args)
         else if cmd = ''daemon'' then demo_daemon os w
         else ends (demo_unknown os args))"

section \<open>The image of the program\<close>

record 'w app_env =
  ap_var :: "string \<Rightarrow> (string, string) res"
  ap_parent :: "path \<Rightarrow> path option"
  ap_create :: "path \<Rightarrow> ('w, string, unit) act"
  ap_append_path_with_name :: "path \<Rightarrow> path \<Rightarrow> string \<Rightarrow> ('w, string, unit) act"
  ap_rename :: "path \<Rightarrow> path \<Rightarrow> ('w, string, unit) act"

text \<open>Three unwrapped \<open>parent\<close>s: from the output directory of the script to the one of the profile.\<close>

definition bin_output_dir :: "'w app_env \<Rightarrow> path \<Rightarrow> (string, path) res" where
  "bin_output_dir A out_dir =
     res_bind (unwrap_option (ap_parent A out_dir)) (\<lambda>p.
     res_bind (unwrap_option (ap_parent A p)) (\<lambda>q.
     unwrap_option (ap_parent A q)))"

definition app_image_name :: string where
  "app_image_name = ''ghcr.io/containerd/runwasi/wasi-demo-app:latest''"

definition app_image_configuration :: "string \<Rightarrow> image_configuration" where
  "app_image_configuration layer_digest =
     \<lparr>ic_entrypoint = [''/wasi-demo-app.wasm''], ic_labels = Map.empty, ic_os = ''wasip1'', ic_architecture = ''wasm'',
      ic_diff_ids = [''sha256:'' @ layer_digest]\<rparr>"

definition app_builder :: "path \<Rightarrow> string \<Rightarrow> image_configuration builder" where
  "app_builder layer_path layer_digest =
     add_config (app_image_configuration layer_digest) app_image_name ImageConfig (add_layer layer_path builder_default)"

text \<open>The archive written into a new file; what the tar layer recorded is dropped with the file handle.\<close>

definition build_into :: "('w, unit) tar_act \<Rightarrow> ('w, string, unit) act" where
  "build_into m = (\<lambda>w. case m \<lparr>ts_entries = [], ts_world = w\<rparr> of (r, s) \<Rightarrow> (r, ts_world s))"

definition app_build :: "'w app_env \<Rightarrow> 'w oci_env \<Rightarrow> image_configuration oci_config \<Rightarrow> ('w, string, unit) act" where
  "app_build A E C =
     act_bind (unwrap_act (lift_res (ap_var A ''OUT_DIR''))) (\<lambda>out_dir.
     let p = path_join out_dir ''img.tar'' in
     act_bind (lift_res (bin_output_dir A out_dir)) (\<lambda>bin_dir.
     let app_path = path_join bin_dir ''wasi-demo-app.wasm''; layer_path = path_join out_dir ''layer.tar'' in
     act_bind (unwrap_act (ap_create A layer_path)) (\<lambda>_.
     act_bind (unwrap_act (ap_append_path_with_name A layer_path app_path ''wasi-demo-app.wasm'')) (\<lambda>_.
     act_bind (unwrap_act (oe_try_digest E layer_path)) (\<lambda>layer_digest.
     act_bind (unwrap_act (ap_create A p)) (\<lambda>_.
     act_bind (unwrap_act (build_into (build E C (app_builder layer_path layer_digest)))) (\<lambda>_.
     unwrap_act (ap_rename A p (path_join bin_dir ''img.tar'')))))))))"


section \<open>Behaviour of the program\<close>

text \<open>\<open>exit\<close> ends the process with the number it is given, whatever 32-bit number that is.\<close>

lemma demo_exit_code:
  assumes "- (2 ^ 31) \<le> n" and "n < 2 ^ 31"
  shows "demo_main os (p # ''exit'' # show_int n # rest) w = Some (Err n, w)"
  using assms parse_sint_show_int [of 32 n]
  by (simp add: demo_main_def demo_exit_def arg_def unwrapped_def act_bind_eq)

text \<open>\<open>exit\<close> with no number, or with one that does not fit, panics; an unknown command exits with 1.\<close>

lemma demo_exit_panics:
  "demo_main os [p, ''exit''] w = Some (Panic ''index out of bounds'', w)"
  "parse_sint 32 a = None \<Longrightarrow> \<exists>m. demo_main os (p # ''exit'' # a # rest) w = Some (Panic m, w)"
  by (simp_all add: demo_main_def demo_exit_def arg_def unwrapped_def act_bind_def)

lemma demo_unknown_command:
  assumes "cmd \<notin> {''echo'', ''sleep'', ''exit'', ''write'', ''daemon''}"
    and "dm_eprintln os (''unknown command: '' @ cmd) w = (Ok (), w')"
  shows "demo_main os (p # cmd # rest) w = Some (Err 1, w')"
  using assms by (simp add: demo_main_def demo_unknown_def arg_def or_panic_def act_bind_def)

text \<open>\<open>echo\<close> writes its arguments on one line, separated by blanks.\<close>

lemma demo_echo_line:
  assumes "dm_println os (str_join '' '' rest) w = (Ok (), w1)" and "dm_eprintln os ''exiting'' w1 = (Ok (), w2)"
  shows "demo_main os (p # ''echo'' # rest) w = Some (Ok (), w2)"
  using assms by (simp add: demo_main_def demo_echo_def or_panic_def act_bind_def)

text \<open>
  Every command but \<open>daemon\<close> ends, and \<open>daemon\<close>, which is also what the program does without
  arguments, does not, as long as its output is read.
\<close>

lemma demo_daemon_returns:
  assumes "demo_daemon os w = Some r"
  shows "\<exists>u. fst (dm_println os SONG u) \<noteq> Ok () \<and> r = or_panic (dm_println os SONG) u"
proof (rule demo_daemon.raw_induct [where P = "\<lambda>os w r. \<exists>u. fst (dm_println os SONG u) \<noteq> Ok () \<and>
    r = or_panic (dm_println os SONG) u", OF _ assms], goal_cases)
  case (1 daemon os w r)
  then show ?case
    by (cases "dm_println os SONG w"; cases "fst (dm_println os SONG w)")
      (auto simp: or_panic_def intro: exI [of _ w])
qed

lemma demo_main_endless:
  assumes "\<And>w. fst (dm_println os SONG w) = Ok ()"
  shows "demo_main os args w = None \<longleftrightarrow> length args < 2 \<or> args ! 1 = ''daemon''"
proof -
  have "demo_daemon os w = None"
    using assms demo_daemon_returns [of os w] by (cases "demo_daemon os w") auto
  then show ?thesis by (auto simp: demo_main_def Let_def)
qed

section \<open>Contents of the image\<close>

text \<open>
  The script gives the image the digest of the layer file as its diff id. The layer is not
  compressed, so this is also the digest the manifest names it by: the two agree when the file does
  not change between the two readings.
\<close>

lemma app_layers_match_diff_ids:
  assumes "stable_files E file" and "oe_try_digest E layer_path w = (Ok layer_digest, w')"
  shows "map (bl_digest \<circ> snd) (fold (insert_layer E file) (bd_layers (app_builder layer_path layer_digest)) []) =
    ic_diff_ids (app_image_configuration layer_digest)"
proof -
  obtain b where "file layer_path = Some b" "layer_digest = oe_digest E b"
    using assms unfolding stable_files_def by blast
  then show ?thesis
    by (simp add: app_builder_def add_config_def add_layer_def builder_default_def insert_layer_def
        layer_descriptor_def app_image_configuration_def)
qed

text \<open>The tag of the image is found in its name, which has no port.\<close>

lemma app_ref_name: "ref_name app_image_name = Some ''latest''"
  by code_simp

text \<open>The script has no error of its own: a step that fails is a panic.\<close>

lemma unwrap_act_no_Err: "fst (unwrap_act m w) \<noteq> Err e"
  by (cases "m w"; cases "fst (m w)") (auto simp: unwrap_act_def)

lemma act_bind_no_Err:
  "(\<And>w. fst (m w) \<noteq> Err e) \<Longrightarrow> (\<And>a w. fst (f a w) \<noteq> Err e) \<Longrightarrow> fst (act_bind m f w) \<noteq> Err e"
  by (simp add: act_bind_def split: prod.splits res.splits) (metis fst_conv)

lemma app_build_no_Err: "fst (app_build A E C w) \<noteq> Err e"
proof -
  have "fst (lift_res (bin_output_dir A d) w) \<noteq> Err e" for d and w :: 'a
    by (cases "ap_parent A d"; cases "ap_parent A (the (ap_parent A d))";
        cases "ap_parent A (the (ap_parent A (the (ap_parent A d))))") (simp_all add: bin_output_dir_def)
  then show ?thesis
    unfolding app_build_def Let_def by (intro act_bind_no_Err unwrap_act_no_Err) auto
qed

end
