(* ===== verification/Spec2Isabelle.thy ===== *)
theory Spec2Isabelle
  imports Service_Tests Unix_Instance Wasmtime Engines Cli Oci_Tar_Builder Stress_Main Wasi_Test Wasmtime_Cache Local_Spaced Unit_Tests
    Local_Contract Stress_Service Test_Modules Demo_App
begin

text \<open>
  A verification development for runwasi: containerd shims that run WebAssembly modules, and the
  tools around them. Paths below are relative to \<open>src/crates\<close>; \<open>shim-wasm\<close> stands for
  \<open>containerd-shim-wasm/src\<close>.

  \<^bold>\<open>The program and how its parts interact.\<close> containerd starts a shim binary, whose entry point
  (\<open>shim-wasm/sandbox/cli.rs\<close>, \<open>sandbox/shim/cli.rs\<close>) sets up tracing (\<open>sandbox/shim/otel.rs\<close>) and
  serves the task API. The service \<open>Local\<close> (\<open>sandbox/shim/local.rs\<close>) keeps a registry of tasks. A task
  is an \<open>InstanceData\<close> (\<open>instance_data.rs\<close>): an instance guarded by a state machine
  (\<open>task_state.rs\<close>). For every started task the service has a thread that waits for its end and
  sends the exit event (\<open>events.rs\<close>). The instance on Linux (\<open>sys/unix/container\<close>) loads the wasm layers
  of the image from containerd (\<open>sandbox/containerd/client.rs\<close>), builds a container with libcontainer in
  a zygote process, and records the exit of the container process in a \<open>WaitableCell\<close>
  (\<open>sandbox/sync.rs\<close>). In the container process an executor (\<open>executor.rs\<close>) decides how to run the
  payload and hands it to an engine (\<open>container/engine.rs\<close>; \<open>containerd-shim-wasmtime\<close>, \<open>-wasmer\<close>,
  \<open>-wasmedge\<close>, \<open>-wamr\<close>) with a context made from the OCI specification (\<open>container/context.rs\<close>).
  \<open>oci-tar-builder\<close> writes images, \<open>stress-test\<close> drives a shim with many tasks, and
  \<open>shim-wasm/testing.rs\<close> is the harness of the engines' tests. \<open>containerd-shim-wasm-test-modules\<close>
  compiles the modules those tests run, and \<open>wasi-demo-app\<close> is the guest program of the examples, which
  a build script packs into an image.

  \<^bold>\<open>How code is modelled.\<close> An operation with effects is an action \<open>act\<close> (\<open>Prelude\<close>): a function from
  a state to an outcome and a new state, where the outcome is a value, an error of the type the
  function returns, a panic, or \<open>Blocked\<close> for a call that does not return in that state.
  \<open>act_bind\<close> is \<open>?\<close>; a \<open>match\<close> on a result is \<open>attempt\<close>; \<open>let _ =\<close> is \<open>ignore_result\<close>. \<open>triple\<close> and
  \<open>keeps\<close> are a Hoare logic on actions, \<open>named_theorems inv_intros\<close> the preservation lemmas. Types keep
  their fields as records and their variants as datatypes. \<open>u32\<close> and \<open>u64\<close> are words, \<open>i64\<close> an \<open>int\<close>
  with wrap-around where it can occur. Third-party crates, the operating system and the daemons are
  records of operations over an abstract state, passed as arguments; what a theorem needs of them is
  a hypothesis. Loops are structural recursion or \<open>function\<close> with a measure; loops that may run for
  ever are \<open>partial_function (option)\<close>. Where threads or futures interleave the model is a step
  relation.

  \<^bold>\<open>Theories, bottom up.\<close>
  \<^item> \<open>Prelude\<close>, \<open>Rust_Std\<close>, \<open>Rust_Path\<close>: actions; strings, numbers, paths of the standard library.
  \<^item> \<open>Errors\<close> (\<open>sandbox/error.rs\<close>), \<open>Task_State\<close> (\<open>task_state.rs\<close>, with the step relation the five
    transitions implement), \<open>Events\<close>, \<open>Oci\<close> (\<open>sandbox/oci.rs\<close>: environment entries, prestart hooks).
  \<^item> \<open>Sync\<close> (\<open>sync.rs\<close>): the cell one call at a time behind the interface \<open>once_cell\<close>, and its mutex and
    condition variable as steps of threads, with mutual exclusion, agreement and absence of lost
    wake-ups in every interleaving and a bound on the steps left once the cell is full.
  \<^item> \<open>Instances\<close> (\<open>instance.rs\<close>, \<open>instance_data.rs\<close>): the trait as a record of operations, the
    configuration, one guarded instance with the poisoning of its lock.
  \<^item> \<open>Local\<close>: the state of the service (registry, heap of shared tasks, waiter threads, events, exit
    signal) and every method. \<open>Local_Inv\<close>: the invariant, requests, waiters and the outside world as
    a step relation and as executable schedules. \<open>Local_Spec\<close>: the phases of tasks, the abstract state
    of the service, and isolation. \<open>Instance_Contract\<close>: the locale \<open>instance_contract\<close>, what the service
    needs of an instance, with the answers of the service proved from it. \<open>Instance_Stub\<close>: the
    instance of the tests, first interpretation. \<open>Local_Props\<close>: the properties of the service.
    \<open>Service_Tests\<close>: the tests of \<open>local/tests.rs\<close> as actions, which the model passes.
  \<^item> \<open>Threads\<close>: threads cut at their accesses to shared state, pools of them, and the locales
    \<open>token_logic\<close> and \<open>pool_logic\<close>, a proof method for invariants in which every thread pays with the
    tokens it owns. \<open>Local_Threads\<close>: every call of the service and the threads it spawns in that form,
    with the locks of the tasks; a thread that nothing interrupts does what the action of \<open>Local\<close>
    does. \<open>Local_Contract\<close>: what each request does to the phase of its task, with its response, as a
    labelled transition system that the service refines. \<open>Local_Threads_Inv\<close>: the invariant, and that every call is safe. \<open>Local_Concurrent\<close>: the
    properties of all interleavings, and schedules that show what the locks leave open.
    \<open>Local_Spaced\<close>: runs in which the creations and deletions of one id do not overlap, where nothing is
    left open.
  \<^item> \<open>Runtime_Context\<close> (\<open>container/path.rs\<close>, \<open>context.rs\<close>, \<open>engine.rs\<close>, \<open>wasm.rs\<close>): lookup of modules,
    the entry point, the defaults of the engine trait.
  \<^item> \<open>Containerd\<close> (\<open>containerd/client.rs\<close>, \<open>lease.rs\<close>): content, leases, the chunked write, loading and
    caching of precompiled layers; the locale \<open>precompiling_engine\<close> is the length law of
    \<open>precompile\<close>. \<open>Precompile_Cache\<close>: leases are given back, or their deletion handed to the runtime
    on a failure; a cached image is not compiled again. \<open>Content_Store\<close>: with the documented laws of the content store, what one load has
    compiled the next load finds, and the references another engine takes over.
  \<^item> \<open>Executor\<close>, \<open>Unix_Instance\<close> (\<open>sys/unix/container\<close>, \<open>instance_utils.rs\<close>, the Windows stub): the
    decision of the executor, the zygote, start, reaper, second interpretation of
    \<open>instance_contract\<close>.
  \<^item> \<open>Futures\<close>: futures that are polled and keep what they have done. \<open>Http_Proxy\<close>, \<open>Wasmtime\<close>
    (\<open>containerd-shim-wasmtime\<close>): settings, accept loop and requests of the
    HTTP server; targets, modules, components, signals, exit codes, precompilation. \<open>Wasmtime_Cache\<close>: that
    engine with the cache of the client, an image is compiled once. \<open>Engines\<close>: the
    three other engines behind \<open>plain_engine\<close>, which is a \<open>precompiling_engine\<close> by \<open>sublocale\<close>.
  \<^item> \<open>Otel\<close>, \<open>Cli\<close>: tracing configuration; the entry point, the management of the service, the memory
    report, the \<open>main\<close> of each shim.
  \<^item> \<open>Oci_Tar_Builder\<close>: the builder and the command. \<open>Wasi_Test\<close> (\<open>testing.rs\<close>): the harness.
    \<open>Unit_Tests\<close>: the unit tests the modules carry along, run against the model.
  \<^item> \<open>Stress_Utils\<close>, \<open>Stress_Client\<close>, \<open>Stress_Tasks\<close>, \<open>Stress_Run\<close>, \<open>Stress_Main\<close>: the stress test; the two
    kinds of task delete through the locale \<open>two_guards\<close>; the run is a step relation with its
    invariant, its bound and the hang after a failed preparation. \<open>Stress_Service\<close>: the mock tasks
    connected to the task service, a task followed through both.
  \<^item> \<open>Test_Modules\<close> (\<open>containerd-shim-wasm-test-modules/build.rs\<close>): the generated constants. \<open>Demo_App\<close>
    (\<open>wasi-demo-app\<close>): the commands of the guest program, the \<open>daemon\<close> that does not end, its image.

  \<^bold>\<open>What the properties show.\<close> Of the service: in every interleaving of its
  threads the invariant of registry, tasks, waiters and events, no deadlock, tasks that only move
  forward, and the overlapping requests it does not guard against, without which no task is
  displaced; one call at a time refinement of the contract, isolation of tasks, what create, start,
  kill and delete do on every branch. Of the synchronisation: safety in every interleaving and
  progress. Of loading: exact chunks, order of layers, the round trip through the cache, leases, the
  source of every error. Of the instance: a container of its own, an exit that is always recorded and that
  every client sees. Of engines and server: exit codes, signals, graceful shutdown, requests that panic. Of the
  tools: archives that contain all they name, runs that end, tasks of the stress test that leave the
  service, generated code that is well-formed. The theorem of this theory follows the exit code of a
  guest from the engine to the client.

  \<^bold>\<open>Bounds and abstractions.\<close> No fuel is used. The signals and connections an HTTP component sees, and
  the order in which they arrive, are lists of events the loops are run on: every finite run is one of
  them, and a list that ends before the loop does gives \<open>Blocked\<close>. A drop runs where its value leaves
  its scope; the deletion a dropped lease spawns is only queued. A component that a signal ends is not
  followed through its drop. A background job of the stress test is queued and run later. Clocks are fields of the
  world or counters of milliseconds. \<open>trim\<close> and \<open>split_whitespace\<close> know ASCII white space. Strings are
  sequences of bytes. The texts of errors that only other crates produce are parameters or their
  first words.

  \<^bold>\<open>Not modelled.\<close> Debug logging, tracing spans and printed progress. Module lists and trait signatures,
  which have no logic of their own. Tests that run compiled modules in a real engine and those that
  load images from a running daemon, the guest programs of the tests, the benchmarks. The inside of
  containerd, libcontainer, the engines' own crates, OpenTelemetry, tokio and the kernel, which are
  parameters. In the threads of the task service one call of the instance or of the operating
  system is one access, whatever it does inside.
\<close>

section \<open>From the guest to the client\<close>

text \<open>
  What the kernel reports to a wait for a process that ended with \<open>exit(code)\<close>: the low eight bits
  of the code.
\<close>

definition kernel_reports :: "('y, 'k) unix_env \<Rightarrow> int \<Rightarrow> 'k \<Rightarrow> exec_outcome \<Rightarrow> bool" where
  "kernel_reports U pid k outcome \<longleftrightarrow>
     (\<exists>code k'. outcome = ProcessExit code \<and> ue_waitid U pid k = (Ok (WExited (code mod 256)), k'))"

text \<open>
  C14. The exit of a guest reaches the client that waits for the task. Take a task of the service
  whose container runs a wasm module with the wasmtime engine. Until the reaper of the instance
  has run, \<open>wait\<close> blocks; afterwards it answers with the time of the reaper and 0 when the function
  of the module returned, the guest's own code modulo 256 when it called \<open>proc_exit\<close>, 137 when it
  trapped.
\<close>

theorem guest_exit_reaches_client:
  assumes task: "instances s (rq_id req) = Some a" "arcs s a = Some d" "\<not> id_poisoned d" "rq_exec_id req = []"
    and inst: "unix_valid (id_instance d) (world s)" "unix_exit (id_instance d) (world s) = None"
    and guest: "ctx = executor_ctx ex spec" "ex_inner ex = Some WasmInner" "ex_engine ex = wasmtime_engine W fs wat race"
      "source_as_bytes fs (ep_source (ctx_entrypoint ctx)) = Ok b" "wasmtime_engine_impl W = Ok engine"
      "binary_type_from_bytes (wt_is_component W) (wt_is_core_wasm W) b = Some Module"
      "wt_module_from_binary W engine b = Ok m" "wt_preopened_dir W ''/'' ''/'' g = (Ok (), g1)" "wt_p1_linker W = Ok ()"
      "\<And>wasi. wt_instantiate_module W wasi m g1 = (Ok inst, g2)"
      "wt_get_func W inst (ep_func (ctx_entrypoint ctx)) = Some f" "wt_call W f g2 = (r, g3)"
    and kernel: "kernel_reports U pid (kernel (world s)) (fst (executor_exec fs mode_of default_exec spec ex g))"
    and reaper: "reaper_body U (ui_exit_code (id_instance d), pid) (world s) = (Ok (), w')"
  shows "fst (task_wait (unix_instance_impl U eng) req s) = Blocked \<and>
    (\<exists>status. fst (task_wait (unix_instance_impl U eng) req (s\<lparr>world := w'\<rparr>)) =
        Ok \<lparr>wr_exit_status = status, wr_exited_at = Some (to_timestamp (w_now (world s)))\<rparr> \<and>
      (r = Ok () \<longrightarrow> status = 0) \<and> (r = Err (I32Exit n) \<longrightarrow> status = word_of_int (n mod 256)) \<and>
      (r = Err (WtError e) \<longrightarrow> status = 137))"
proof -
  obtain code k where out: "fst (executor_exec fs mode_of default_exec spec ex g) = ProcessExit code"
    and wait: "ue_waitid U pid (kernel (world s)) = (Ok (WExited (code mod 256)), k)"
    using kernel by (auto simp: kernel_reports_def)
  have status: "r = Ok () \<Longrightarrow> code = 0" "r = Err (I32Exit n) \<Longrightarrow> code = n" "r = Err (WtError e) \<Longrightarrow> code = 137"
    using exec_module [OF guest, of mode_of default_exec n e] out by auto
  have exit: "unix_exit (id_instance d) w' = Some (word_of_int (code mod 256), w_now (world s))"
    using reaper_exit [OF reaper] inst wait by (auto simp: unix_valid_def unix_exit_def attempt_def)
  have "unix_valid (id_instance d) w'"
    using inst(1) reaper_valid [OF reaper] by (simp add: unix_valid_def)
  with task have known: "unix.known (rq_id req) d (s\<lparr>world := w'\<rparr>)" and "unix.known (rq_id req) d s"
    using inst(1) by (auto simp: unix.known_def)
  then have "fst (task_wait (unix_instance_impl U eng) req s) = Blocked"
    and "fst (task_wait (unix_instance_impl U eng) req (s\<lparr>world := w'\<rparr>)) =
      Ok \<lparr>wr_exit_status = word_of_int (code mod 256), wr_exited_at = Some (to_timestamp (w_now (world s)))\<rparr>"
    using task(4) inst(2) exit by (auto intro!: unix.task_wait_blocks unix.task_wait_exited)
  then show ?thesis using status by auto
qed


text \<open>A guest that exits with 7, in the task \<open>a\<close> of a service.\<close>

definition exit_shim :: "(unix_instance, (int option, unit) unix_world) shim" where
  "exit_shim = (local_new [] [] (demo_unix_world None (Some (Some 77))))
     \<lparr>registry := [(''a'', 0)], arcs := [0 \<mapsto> demo_task], next_arc := 1\<rparr>"

definition exit_env :: "(int option, unit) unix_env" where
  "exit_env = demo_unix\<lparr>ue_waitid := (\<lambda>_. ret (WExited 7))\<rparr>"

definition exit_executor :: "unit executor" where
  "exit_executor = (executor_new (wasmtime_engine demo_wasmtime demo_fs (\<lambda>_. Ok ()) []) [demo_layer\<lparr>wl_layer := [0, 1]\<rparr>]
     (wc_platform (demo_ctx [])))\<lparr>ex_inner := Some WasmInner\<rparr>"

theorem guest_exit_reaches_client_witness:
  "\<exists>w'. reaper_body exit_env (0, 77) (world exit_shim) = (Ok (), w') \<and>
     fst (task_wait (unix_instance_impl exit_env demo_wasm_engine) \<lparr>rq_id = ''a'', rq_exec_id = []\<rparr> (exit_shim\<lparr>world := w'\<rparr>)) =
       Ok \<lparr>wr_exit_status = 7, wr_exited_at = Some \<lparr>ts_seconds = 5, ts_nanos = 6\<rparr>\<rparr>"
proof -
  let ?req = "\<lparr>rq_id = ''a'', rq_exec_id = []\<rparr>" and ?spec = "wc_spec (demo_ctx [''x.wasm''])"
  have "fst (reaper_body exit_env (0, 77) (world exit_shim)) = Ok ()" by code_simp
  then obtain w' where w': "reaper_body exit_env (0, 77) (world exit_shim) = (Ok (), w')"
    by (cases "reaper_body exit_env (0, 77) (world exit_shim)") auto
  have src: "ep_source (ctx_entrypoint (executor_ctx exit_executor ?spec)) = SourceOci [demo_layer\<lparr>wl_layer := [0, 1]\<rparr>]"
    by (simp add: ctx_entrypoint_def executor_ctx_def executor_new_def exit_executor_def Let_def split_def)
  have guest: "ex_inner exit_executor = Some WasmInner" "ex_engine exit_executor = wasmtime_engine demo_wasmtime demo_fs (\<lambda>_. Ok ()) []"
    by (simp_all add: exit_executor_def executor_new_def)
  have bytes: "source_as_bytes demo_fs (ep_source (ctx_entrypoint (executor_ctx exit_executor ?spec))) = Ok [0, 1]"
    by (simp add: src)
  have wt: "wasmtime_engine_impl demo_wasmtime = Ok 0"
      "binary_type_from_bytes (wt_is_component demo_wasmtime) (wt_is_core_wasm demo_wasmtime) [0, 1] = Some Module"
      "wt_module_from_binary demo_wasmtime 0 [0, 1] = Ok 0" "wt_preopened_dir demo_wasmtime ''/'' ''/'' () = (Ok (), ())"
      "wt_p1_linker demo_wasmtime = Ok ()" "\<And>wasi. wt_instantiate_module demo_wasmtime wasi 0 () = (Ok 0, ())"
      "wt_get_func demo_wasmtime 0 (ep_func (ctx_entrypoint (executor_ctx exit_executor ?spec))) = Some 0"
      "wt_call demo_wasmtime 0 () = (Err (I32Exit 7), ())"
    by (simp_all add: demo_wasmtime_def wasmtime_engine_impl_def binary_type_from_bytes_def)
  have ctx: "executor_ctx exit_executor ?spec = executor_ctx exit_executor ?spec" by simp
  note run = ctx guest bytes wt
  have "executor_exec demo_fs (\<lambda>_. None) (\<lambda>_. ret ()) ?spec exit_executor () = (ProcessExit 7, ())"
    using exec_module [OF run, of "\<lambda>_. None" "\<lambda>_. ret ()" 7] by simp
  then have kernel: "kernel_reports exit_env 77 (kernel (world exit_shim))
      (fst (executor_exec demo_fs (\<lambda>_. None) (\<lambda>_. ret ()) ?spec exit_executor ()))"
    by (simp add: kernel_reports_def exit_env_def)
  have task: "instances exit_shim (rq_id ?req) = Some 0" "arcs exit_shim 0 = Some demo_task" "\<not> id_poisoned demo_task" "rq_exec_id ?req = []"
    "unix_valid (id_instance demo_task) (world exit_shim)" "unix_exit (id_instance demo_task) (world exit_shim) = None"
    by (simp_all add: exit_shim_def instances_def local_new_def demo_task_def demo_inst_def unix_valid_def unix_exit_def
        cell_valid_def cell_exit_def demo_unix_world_def)
  have reaper: "reaper_body exit_env (ui_exit_code (id_instance demo_task), 77) (world exit_shim) = (Ok (), w')"
    using w' by (simp add: demo_task_def demo_inst_def)
  have time: "to_timestamp \<lparr>dt_timestamp = 5, dt_subsec_nanos = 6\<rparr> = \<lparr>ts_seconds = 5, ts_nanos = 6\<rparr>" by code_simp
  have "fst (task_wait (unix_instance_impl exit_env demo_wasm_engine) ?req (exit_shim\<lparr>world := w'\<rparr>)) =
      Ok \<lparr>wr_exit_status = 7, wr_exited_at = Some (to_timestamp (w_now (world exit_shim)))\<rparr>"
    using guest_exit_reaches_client [OF task run kernel reaper, of demo_wasm_engine 7] by auto
  then show ?thesis using w' time by (simp add: exit_shim_def local_new_def demo_unix_world_def)
qed

end
